(* ===== verification/Prelude.thy ===== *)
theory Prelude
  imports Complex_Main "HOL-Library.AList"
begin

text \<open>
  Shared ground of the development: the values Python code handles (bytes, strings,
  dictionaries, floats), its exceptions, and a small calculus for code that mutates an object
  and may raise.

  \<^item> \<open>bytes\<close> are lists of \<open>char\<close>, a HOL character being exactly one byte; Python's ASCII
    strings are the same type, and \<open>encode('utf-8')\<close> is the identity on them.
  \<^item> A \<open>dict\<close> is an association list with distinct keys, kept in insertion order, as Python
    iterates it; \<open>AList.update\<close> overwrites in place or appends, as \<open>d[k] = v\<close> does.
  \<^item> A float is a \<open>real\<close>: rounding is not modelled. \<open>py_int\<close> is \<open>int(x)\<close>, which truncates
    towards zero.
  \<^item> An action \<open>('s, 'a) act\<close> takes the object's state, returns a value or an exception, and
    in both cases the state it leaves behind: what was assigned before a \<open>raise\<close> stays assigned.
\<close>

named_theorems wp_simps "unfolding rules of the weakest precondition of an action"

section \<open>Values\<close>

type_synonym bytes = "char list"
type_synonym pyfloat = real
type_synonym ('k, 'v) dict = "('k \<times> 'v) list"

datatype pyexc =
    AssertionError | StructError | KeyError | IndexError | ValueError | TypeError
  | AttributeError | ZMQError int | PortError int | OperationError | BuildError string
  | DatabaseError string | CapnpError | RuntimeError | NameError | SetupError
  | ConnectionError | OSError | StateError | LmdbError | FileNotFoundError | PermissionError

text \<open>The errno of zmq for an operation that the state of the socket does not allow, and for a timeout.\<close>

definition EFSM :: int where "EFSM = 156384763"

definition EAGAIN :: int where "EAGAIN = 11"

abbreviation dkeys :: "('k, 'v) dict \<Rightarrow> 'k list" where
  "dkeys d \<equiv> map fst d"

abbreviation has_key :: "('k, 'v) dict \<Rightarrow> 'k \<Rightarrow> bool" where
  "has_key d k \<equiv> map_of d k \<noteq> None"

definition py_int :: "pyfloat \<Rightarrow> int" where
  "py_int x = (if 0 \<le> x then \<lfloor>x\<rfloor> else \<lceil>x\<rceil>)"

lemma py_int_of_int [simp]: "py_int (of_int n) = n"
  by (simp add: py_int_def)

lemma py_int_less_iff: "0 \<le> n \<Longrightarrow> n < py_int x \<longleftrightarrow> of_int (n + 1) \<le> x"
  unfolding py_int_def by (auto simp: le_floor_iff less_ceiling_iff) linarith+

lemma has_key_iff: "has_key d k \<longleftrightarrow> k \<in> set (dkeys d)"
  by (metis image_set map_of_eq_None_iff)

lemma dkeys_delete: "dkeys (AList.delete k d) = filter (\<lambda>x. x \<noteq> k) (dkeys d)"
  by (induction d) (auto simp: AList.delete_eq)

lemma distinct_dkeys_delete [intro, simp]:
  "distinct (dkeys d) \<Longrightarrow> distinct (dkeys (AList.delete k d))"
  by (simp add: dkeys_delete)

lemma map_of_update [simp]: "map_of (AList.update k v d) = (map_of d)(k \<mapsto> v)"
  by (rule AList.update_conv')

lemma map_of_delete [simp]: "map_of (AList.delete k d) = (map_of d)(k := None)"
  by (rule AList.delete_conv')

lemma set_delete [simp]: "set (AList.delete k d) = {p \<in> set d. fst p \<noteq> k}"
  by (auto simp: AList.delete_eq)

lemma set_update_subset: "p \<in> set (AList.update k v d) \<Longrightarrow> p = (k, v) \<or> p \<in> set d"
  by (induction d) (auto split: if_splits)

text \<open>\<open>str(n)\<close> of a natural number, and \<open>IPv4Address(n).compressed\<close>.\<close>

fun nat_str :: "nat \<Rightarrow> string" where
  "nat_str n = (if n < 10 then [char_of (48 + n)]
     else nat_str (n div 10) @ [char_of (48 + n mod 10)])"

declare nat_str.simps [simp del]

definition int_str :: "int \<Rightarrow> string" where
  "int_str n = (if n < 0 then ''-'' @ nat_str (nat (- n)) else nat_str (nat n))"

definition ipv4_str :: "int \<Rightarrow> string" where
  "ipv4_str n = nat_str (nat n div 2 ^ 24) @ ''.'' @ nat_str (nat n div 2 ^ 16 mod 256) @ ''.''
     @ nat_str (nat n div 2 ^ 8 mod 256) @ ''.'' @ nat_str (nat n mod 256)"

text \<open>
  \<open>random.randrange(a, b)\<close>: some value of \<open>[a, b)\<close>, chosen by the draw \<open>d\<close>; every value of the
  range is some draw's.
\<close>

definition randrange :: "int \<Rightarrow> int \<Rightarrow> nat \<Rightarrow> pyexc + int" where
  "randrange a b d = (if a < b then Inr (a + int d mod (b - a)) else Inl ValueError)"

lemma randrange_range: "randrange a b d = Inr n \<Longrightarrow> a \<le> n \<and> n < b"
proof -
  assume r: "randrange a b d = Inr n"
  then have ab: "a < b" and n: "n = a + int d mod (b - a)"
    by (auto simp: randrange_def split: if_splits)
  have "0 \<le> int d mod (b - a)" "int d mod (b - a) < b - a"
    using ab by simp_all
  with n show ?thesis by linarith
qed

lemma randrange_onto: "a \<le> n \<Longrightarrow> n < b \<Longrightarrow> \<exists>d. randrange a b d = Inr n"
  by (rule exI [of _ "nat (n - a)"]) (simp add: randrange_def)

section \<open>Actions\<close>

type_synonym ('s, 'a) act = "'s \<Rightarrow> (pyexc + 'a) \<times> 's"

definition ret :: "'a \<Rightarrow> ('s, 'a) act" where
  "ret x = (\<lambda>s. (Inr x, s))"

definition raise :: "pyexc \<Rightarrow> ('s, 'a) act" where
  "raise e = (\<lambda>s. (Inl e, s))"

definition lift :: "pyexc + 'a \<Rightarrow> ('s, 'a) act" where
  "lift r = (\<lambda>s. (r, s))"

definition bnd :: "('s, 'a) act \<Rightarrow> ('a \<Rightarrow> ('s, 'b) act) \<Rightarrow> ('s, 'b) act" where
  "bnd m f = (\<lambda>s. case m s of (Inl e, s') \<Rightarrow> (Inl e, s') | (Inr x, s') \<Rightarrow> f x s')"

definition rd :: "('s \<Rightarrow> 'a) \<Rightarrow> ('a \<Rightarrow> ('s, 'b) act) \<Rightarrow> ('s, 'b) act" where
  "rd f k = (\<lambda>s. k (f s) s)"

definition upd :: "('s \<Rightarrow> 's) \<Rightarrow> ('s, unit) act" where
  "upd f = (\<lambda>s. (Inr (), f s))"

fun seqA :: "('s, unit) act list \<Rightarrow> ('s, unit) act" where
  "seqA [] = ret ()"
| "seqA (m # ms) = bnd m (\<lambda>_. seqA ms)"

definition whenA :: "bool \<Rightarrow> ('s, unit) act \<Rightarrow> ('s, unit) act" where
  "whenA b m = (if b then m else ret ())"

definition assertA :: "bool \<Rightarrow> ('s, unit) act" where
  "assertA b = (if b then ret () else raise AssertionError)"

definition tryA :: "('s, 'a) act \<Rightarrow> (pyexc \<Rightarrow> ('s, 'a) act) \<Rightarrow> ('s, 'a) act" where
  "tryA m h = (\<lambda>s. case m s of (Inl e, s') \<Rightarrow> h e s' | (Inr x, s') \<Rightarrow> (Inr x, s'))"

fun forA :: "'a list \<Rightarrow> ('a \<Rightarrow> ('s, unit) act) \<Rightarrow> ('s, unit) act" where
  "forA [] f = ret ()"
| "forA (x # xs) f = bnd (f x) (\<lambda>_. forA xs f)"

declare seqA.simps [simp del] forA.simps [simp del]

text \<open>Run an action and keep the state it leaves, whether it returned or raised.\<close>

definition exec :: "('s, 'a) act \<Rightarrow> 's \<Rightarrow> 's" where
  "exec m s = snd (m s)"

section \<open>Weakest preconditions\<close>

text \<open>
  \<open>wp m Q E s\<close>: run from \<open>s\<close>, a normal return of \<open>m\<close> satisfies \<open>Q\<close> and an exception \<open>E\<close>. The
  rules below are equations, so the simplifier runs a handler symbolically.
\<close>

definition wp :: "('s, 'a) act \<Rightarrow> ('a \<Rightarrow> 's \<Rightarrow> bool) \<Rightarrow> (pyexc \<Rightarrow> 's \<Rightarrow> bool) \<Rightarrow> 's \<Rightarrow> bool" where
  "wp m Q E s = (case m s of (Inl e, s') \<Rightarrow> E e s' | (Inr x, s') \<Rightarrow> Q x s')"

lemma wp_ret [wp_simps]: "wp (ret x) Q E = Q x"
  by (rule ext) (simp add: wp_def ret_def)

lemma wp_raise [wp_simps]: "wp (raise e) Q E s = E e s"
  by (simp add: wp_def raise_def)

lemma wp_lift [wp_simps]: "wp (lift r) Q E s = (case r of Inl e \<Rightarrow> E e s | Inr x \<Rightarrow> Q x s)"
  by (simp add: wp_def lift_def split: sum.splits)

lemma wp_bnd [wp_simps]: "wp (bnd m f) Q E s = wp m (\<lambda>x. wp (f x) Q E) E s"
  by (simp add: wp_def bnd_def split: prod.splits sum.splits)

lemma wp_rd [wp_simps]: "wp (rd f k) Q E s = wp (k (f s)) Q E s"
  by (simp add: wp_def rd_def)

lemma wp_upd [wp_simps]: "wp (upd f) Q E s = Q () (f s)"
  by (simp add: wp_def upd_def)

lemma wp_upd_fun: "wp (upd f) Q E = (\<lambda>s. Q () (f s))"
  by (rule ext) (simp add: wp_upd)

lemma wp_seqA_Nil [wp_simps]: "wp (seqA []) Q E = Q ()"
  by (rule ext) (simp add: seqA.simps wp_simps)

lemma wp_seqA_Cons [wp_simps]: "wp (seqA (m # ms)) Q E s = wp m (\<lambda>_. wp (seqA ms) Q E) E s"
  by (simp add: seqA.simps wp_simps)

lemma wp_if [wp_simps]: "wp (if b then m else n) Q E s = (if b then wp m Q E s else wp n Q E s)"
  by simp

lemma wp_whenA [wp_simps]: "wp (whenA b m) Q E s = (if b then wp m Q E s else Q () s)"
  by (simp add: whenA_def wp_simps)

lemma wp_assertA [wp_simps]: "wp (assertA b) Q E s = (if b then Q () s else E AssertionError s)"
  by (simp add: assertA_def wp_simps)

lemma wp_tryA [wp_simps]: "wp (tryA m h) Q E s = wp m Q (\<lambda>e. wp (h e) Q E) s"
  by (simp add: wp_def tryA_def split: prod.splits sum.splits)

lemma wp_case_option [wp_simps]: "wp (case x of None \<Rightarrow> m | Some y \<Rightarrow> f y) Q E s =
    (case x of None \<Rightarrow> wp m Q E s | Some y \<Rightarrow> wp (f y) Q E s)"
  by (simp split: option.split)

lemma wp_case_sum [wp_simps]: "wp (case x of Inl y \<Rightarrow> f y | Inr z \<Rightarrow> g z) Q E s =
    (case x of Inl y \<Rightarrow> wp (f y) Q E s | Inr z \<Rightarrow> wp (g z) Q E s)"
  by (simp split: sum.split)

lemma wp_case_prod [wp_simps]: "wp (case x of (y, z) \<Rightarrow> f y z) Q E s =
    (case x of (y, z) \<Rightarrow> wp (f y z) Q E s)"
  by (simp split: prod.split)

lemma wp_mono:
  assumes "wp m Q E s" "\<And>x t. Q x t \<Longrightarrow> Q' x t" "\<And>e t. E e t \<Longrightarrow> E' e t"
  shows "wp m Q' E' s"
  using assms by (auto simp: wp_def split: prod.splits sum.splits)

lemma wp_conj: "wp m Q E s \<Longrightarrow> wp m Q' E' s \<Longrightarrow>
    wp m (\<lambda>x t. Q x t \<and> Q' x t) (\<lambda>e t. E e t \<and> E' e t) s"
  by (auto simp: wp_def split: prod.splits sum.splits)

lemma wp_returns: "wp m Q E s \<Longrightarrow> m s = (Inr x, t) \<Longrightarrow> Q x t"
  by (simp add: wp_def)

lemma wp_raises: "wp m Q E s \<Longrightarrow> m s = (Inl e, t) \<Longrightarrow> E e t"
  by (simp add: wp_def)

lemma wp_total: "wp m Q (\<lambda>_ _. False) s \<Longrightarrow> \<exists>x t. m s = (Inr x, t) \<and> Q x t"
  by (auto simp: wp_def split: prod.splits sum.splits)

lemma wp_TrueI [simp]: "wp m (\<lambda>_ _. True) (\<lambda>_ _. True) s"
  by (simp add: wp_def split: prod.splits sum.splits)

text \<open>A sequence passes from one intermediate assertion to the next.\<close>

lemma wp_bndI: "wp m (\<lambda>_. J) E s \<Longrightarrow> (\<And>x t. J t \<Longrightarrow> wp (k x) Q E t) \<Longrightarrow> wp (bnd m k) Q E s"
  by (auto simp: wp_bnd elim: wp_mono)

lemma wp_chain: "wp m Q E s \<Longrightarrow> (\<And>x t. Q x t \<Longrightarrow> wp (k x) Q' E' t) \<Longrightarrow>
    (\<And>e t. E e t \<Longrightarrow> E' e t) \<Longrightarrow> wp (bnd m k) Q' E' s"
  by (auto simp: wp_bnd elim: wp_mono)

lemma wp_seqA_ConsI: "wp m (\<lambda>_. J) E s \<Longrightarrow> (\<And>t. J t \<Longrightarrow> wp (seqA ms) Q E t) \<Longrightarrow>
    wp (seqA (m # ms)) Q E s"
  by (auto simp: wp_seqA_Cons elim: wp_mono)

lemma wp_seqA_inv: "I s \<Longrightarrow> (\<And>m t. m \<in> set ms \<Longrightarrow> I t \<Longrightarrow> wp m (\<lambda>_. I) E t) \<Longrightarrow>
    wp (seqA ms) (\<lambda>_. I) E s"
proof (induction ms arbitrary: s)
  case Nil
  then show ?case by (simp add: wp_seqA_Nil)
next
  case (Cons m ms)
  show ?case by (rule wp_seqA_ConsI [where J = I]) (use Cons in auto)
qed

text \<open>A loop keeps what its body keeps.\<close>

lemma wp_forA_inv:
  assumes "I s" "\<And>x t. x \<in> set xs \<Longrightarrow> I t \<Longrightarrow> wp (f x) (\<lambda>_. I) E t"
  shows "wp (forA xs f) (\<lambda>_. I) E s"
  using assms
proof (induction xs arbitrary: s)
  case Nil
  then show ?case by (simp add: forA.simps wp_simps)
next
  case (Cons x xs)
  have body: "wp (f x) (\<lambda>_. I) E s" using Cons.prems by simp
  have rest: "wp (forA xs f) (\<lambda>_. I) E t" if "I t" for t
    using Cons.IH [OF that] Cons.prems(2) by simp
  have "wp (f x) (\<lambda>_. wp (forA xs f) (\<lambda>_. I) E) E s"
    by (rule wp_mono [OF body]) (rule rest, assumption)
  then show ?case by (simp add: forA.simps wp_bnd)
qed

section \<open>Invariants of event-driven objects\<close>

text \<open>
  Several components are objects driven by a stream of events: an initial state, a step that
  handles one event and may raise. The locale states the contract of such an invariant once; a
  component's interpretation discharges it for the code's own handlers and receives the statement
  about every run.
\<close>

fun run_steps :: "('s \<Rightarrow> 'e \<Rightarrow> (pyexc + 'r) \<times> 's) \<Rightarrow> 's \<Rightarrow> 'e list \<Rightarrow> 's option" where
  "run_steps st s [] = Some s"
| "run_steps st s (e # es) =
     (case st s e of (Inl _, _) \<Rightarrow> None | (Inr _, t) \<Rightarrow> run_steps st t es)"

lemma run_steps_append: "run_steps st s (xs @ ys) = (case run_steps st s xs of None \<Rightarrow> None | Some t \<Rightarrow> run_steps st t ys)"
  by (induction xs arbitrary: s) (auto split: prod.split sum.split)

locale stepped_object =
  fixes step :: "'s \<Rightarrow> 'e \<Rightarrow> (pyexc + 'r) \<times> 's"
    and good :: "'e \<Rightarrow> bool"
    and inv :: "'s \<Rightarrow> bool"
  assumes step_keeps: "inv s \<Longrightarrow> good e \<Longrightarrow> step s e = (Inr r, t) \<Longrightarrow> inv t"
begin

lemma run_keeps: "inv s \<Longrightarrow> list_all good es \<Longrightarrow> run_steps step s es = Some t \<Longrightarrow> inv t"
proof (induction es arbitrary: s)
  case Nil
  then show ?case by simp
next
  case (Cons e es)
  then show ?case
    by (auto split: prod.splits sum.splits dest: step_keeps)
qed

end

section \<open>What an action preserves\<close>

text \<open>
  \<open>preserves I m\<close>: the action keeps \<open>I\<close> whether it returns or raises. The rules follow the structure
  of an action, so that \<open>intro preserve\<close> leaves what its elementary steps do.
\<close>

definition preserves :: "('s \<Rightarrow> bool) \<Rightarrow> ('s, 'a) act \<Rightarrow> bool" where
  "preserves I m \<longleftrightarrow> (\<forall>s. I s \<longrightarrow> I (snd (m s)))"

named_theorems preserve "rules for what an action preserves"

lemma preservesI: "(\<And>s. I s \<Longrightarrow> I (snd (m s))) \<Longrightarrow> preserves I m"
  by (simp add: preserves_def)

lemma preserves_snd: "preserves I m \<Longrightarrow> I s \<Longrightarrow> I (snd (m s))"
  by (simp add: preserves_def)

lemma preservesD: "preserves I m \<Longrightarrow> I s \<Longrightarrow> m s = (r, t) \<Longrightarrow> I t"
  unfolding preserves_def by (metis snd_conv)

lemma preserves_wp: "preserves I m \<Longrightarrow> I s \<Longrightarrow> wp m (\<lambda>_. I) (\<lambda>_. I) s"
  unfolding wp_def by (auto split: prod.splits sum.splits dest: preservesD)

lemma preserves_ret [preserve]: "preserves I (ret x)"
  by (simp add: preserves_def ret_def)

lemma preserves_raise [preserve]: "preserves I (raise e)"
  by (simp add: preserves_def raise_def)

lemma preserves_lift [preserve]: "preserves I (lift r)"
  by (simp add: preserves_def lift_def)

lemma preserves_upd: "(\<And>s. I s \<Longrightarrow> I (f s)) \<Longrightarrow> preserves I (upd f)"
  by (simp add: preserves_def upd_def)

lemma preserves_bnd [preserve]: "preserves I m \<Longrightarrow> (\<And>x. preserves I (k x)) \<Longrightarrow> preserves I (bnd m k)"
  by (rule preservesI) (auto simp: bnd_def split: prod.split sum.split dest: preservesD intro: preserves_snd)

lemma preserves_tryA [preserve]: "preserves I m \<Longrightarrow> (\<And>e. preserves I (h e)) \<Longrightarrow> preserves I (tryA m h)"
  by (rule preservesI) (auto simp: tryA_def split: prod.split sum.split dest: preservesD intro: preserves_snd)

lemma preserves_rd [preserve]: "(\<And>x. preserves I (k x)) \<Longrightarrow> preserves I (rd f k)"
  by (simp add: preserves_def rd_def)

lemma preserves_whenA [preserve]: "preserves I m \<Longrightarrow> preserves I (whenA b m)"
  by (simp add: whenA_def preserves_ret)

lemma preserves_assertA [preserve]: "preserves I (assertA b)"
  by (simp add: assertA_def preserves_ret preserves_raise)

lemma preserves_seqA_Nil [preserve]: "preserves I (seqA [])"
  by (simp add: seqA.simps preserves_ret)

lemma preserves_seqA [preserve]: "preserves I m \<Longrightarrow> preserves I (seqA ms) \<Longrightarrow> preserves I (seqA (m # ms))"
  by (simp add: seqA.simps preserves_bnd)

lemma preserves_forA [preserve]: "(\<And>x. preserves I (f x)) \<Longrightarrow> preserves I (forA xs f)"
  by (induction xs) (simp_all add: forA.simps preserves_ret preserves_bnd)

lemma preserves_if [preserve]: "preserves I m \<Longrightarrow> preserves I n \<Longrightarrow> preserves I (if b then m else n)"
  by simp

lemma preserves_option [preserve]:
  "preserves I m \<Longrightarrow> (\<And>x. preserves I (k x)) \<Longrightarrow> preserves I (case y of None \<Rightarrow> m | Some x \<Rightarrow> k x)"
  by (simp split: option.split)

lemma preserves_prod [preserve]: "(\<And>x y. preserves I (k x y)) \<Longrightarrow> preserves I (case p of (x, y) \<Rightarrow> k x y)"
  by (simp split: prod.split)

lemma preserves_list [preserve]:
  "preserves I m \<Longrightarrow> (\<And>x xs. preserves I (k x xs)) \<Longrightarrow> preserves I (case ys of [] \<Rightarrow> m | x # xs \<Rightarrow> k x xs)"
  by (simp split: list.split)

lemma preserves_sum [preserve]:
  "(\<And>x. preserves I (j x)) \<Longrightarrow> (\<And>x. preserves I (k x)) \<Longrightarrow> preserves I (case y of Inl x \<Rightarrow> j x | Inr x \<Rightarrow> k x)"
  by (simp split: sum.split)

text \<open>An action keeps a view of the state when it preserves each of its values.\<close>

definition keeps_view :: "('s \<Rightarrow> 'v) \<Rightarrow> ('s, 'a) act \<Rightarrow> bool" where
  "keeps_view v m \<longleftrightarrow> (\<forall>c. preserves (\<lambda>s. v s = c) m)"

lemma keeps_viewI: "(\<And>c. preserves (\<lambda>s. v s = c) m) \<Longrightarrow> keeps_view v m"
  by (simp add: keeps_view_def)

lemma keeps_viewD: "keeps_view v m \<Longrightarrow> v (snd (m s)) = v s"
  by (simp add: keeps_view_def preserves_def)

lemma keeps_view_preserves: "keeps_view v m \<Longrightarrow> preserves (\<lambda>s. P (v s)) m"
  unfolding keeps_view_def preserves_def by metis

lemma keeps_view_wp: "keeps_view v m \<Longrightarrow> (\<And>x t. v t = v s \<Longrightarrow> Q x t) \<Longrightarrow> (\<And>e t. v t = v s \<Longrightarrow> E e t) \<Longrightarrow> wp m Q E s"
  using keeps_viewD [of v m s] unfolding wp_def by (auto split: prod.split sum.split)

end
