(* ===== verification/DcWire.thy ===== *)
theory DcWire
  imports Prelude
begin

text \<open>
  The wire format of the group coordination protocol (\<open>riaps/run/dc.py\<close>): the command words of
  \<open>GroupThread\<close> and \<open>Group\<close>, and the payloads that \<open>struct.pack\<close> and \<open>struct.unpack\<close> make of
  them with the formats \<open>!16s\<close>, \<open>!L16s\<close>, \<open>!L16sL16s\<close> and \<open>!L16sLL\<close> (network order, an unsigned
  long on four bytes, no padding). A field out of range or a frame of the wrong size is
  \<open>struct.error\<close>. The locale \<open>wire_format\<close> states the contract of a payload format; each
  of the four is an interpretation.
\<close>

section \<open>Frames\<close>

text \<open>
  A frame holds bytes. Two payloads are kept as the value they decode to: \<open>FD x\<close> is the eight
  bytes \<open>struct.pack("d", x)\<close> makes of a float, \<open>FErr n\<close> the pickle of a \<open>ZMQError\<close> with that errno.
\<close>

datatype frame = FB bytes | FD pyfloat | FErr int

definition unpack_d :: "frame \<Rightarrow> pyexc + pyfloat" where
  "unpack_d f = (case f of FD x \<Rightarrow> Inr x | _ \<Rightarrow> Inl StructError)"

text \<open>The bytes of a frame; a packed float or a pickle fits none of the fixed-size formats.\<close>

definition frame_bytes :: "frame \<Rightarrow> pyexc + bytes" where
  "frame_bytes f = (case f of FB b \<Rightarrow> Inr b | _ \<Rightarrow> Inl StructError)"

text \<open>\<open>msgFrames[i]\<close> on the list of frames that \<open>recv_multipart\<close> returned.\<close>

definition frame_at :: "'f list \<Rightarrow> nat \<Rightarrow> pyexc + 'f" where
  "frame_at fs i = (if i < length fs then Inr (fs ! i) else Inl IndexError)"

section \<open>Command words\<close>

definition HEARTBEAT :: bytes where "HEARTBEAT = ''tic''"
definition REQVOTE :: bytes where "REQVOTE = ''req''"
definition RSPVOTE :: bytes where "RSPVOTE = ''vot''"
definition AUTHORITY :: bytes where "AUTHORITY = ''ldr''"
definition NO_LEADER :: int where "NO_LEADER = 0"

definition GROUP_ACK :: bytes where "GROUP_ACK = ''ack''"
definition GROUP_ERR :: bytes where "GROUP_ERR = ''err''"
definition GROUP_NLD :: bytes where "GROUP_NLD = ''nld''"
definition GROUP_MSG :: bytes where "GROUP_MSG = ''msg''"
definition GROUP_UPD :: bytes where "GROUP_UPD = ''upd''"
definition GROUP_MTL :: bytes where "GROUP_MTL = ''mtl''"
definition GROUP_MFL :: bytes where "GROUP_MFL = ''mfl''"
definition GROUP_RFV :: bytes where "GROUP_RFV = ''rfv''"
definition GROUP_RCM :: bytes where "GROUP_RCM = ''rcm''"
definition GROUP_RTC :: bytes where "GROUP_RTC = ''rtc''"
definition GROUP_ANN :: bytes where "GROUP_ANN = ''ann''"
definition GROUP_MJD :: bytes where "GROUP_MJD = ''mjd''"
definition GROUP_MLT :: bytes where "GROUP_MLT = ''mlt''"
definition GROUP_LEL :: bytes where "GROUP_LEL = ''lel''"
definition GROUP_LEX :: bytes where "GROUP_LEX = ''lex''"

lemmas dc_commands = HEARTBEAT_def REQVOTE_def RSPVOTE_def AUTHORITY_def NO_LEADER_def
  GROUP_ACK_def GROUP_ERR_def GROUP_NLD_def GROUP_MSG_def GROUP_UPD_def GROUP_MTL_def
  GROUP_MFL_def GROUP_RFV_def GROUP_RCM_def GROUP_RTC_def GROUP_ANN_def GROUP_MJD_def
  GROUP_MLT_def GROUP_LEL_def GROUP_LEX_def

section \<open>Fields\<close>

text \<open>Format \<open>L\<close> in network order, and format \<open>16s\<close>: cut or padded with zeros to 16 bytes.\<close>

definition pack_L :: "int \<Rightarrow> pyexc + bytes" where
  "pack_L n = (if 0 \<le> n \<and> n < 2 ^ 32 then
     Inr [char_of (nat n div 2 ^ 24), char_of (nat n div 2 ^ 16 mod 256),
          char_of (nat n div 2 ^ 8 mod 256), char_of (nat n mod 256)]
   else Inl StructError)"

definition unpack_L :: "bytes \<Rightarrow> int" where
  "unpack_L bs = fold (\<lambda>b acc. acc * 256 + int (of_char b)) bs 0"

definition pack_16s :: "bytes \<Rightarrow> bytes" where
  "pack_16s bs = take 16 (bs @ replicate 16 (CHR 0x00))"

lemma length_pack_16s [simp]: "length (pack_16s bs) = 16"
  by (simp add: pack_16s_def)

lemma pack_16s_id [simp]: "length bs = 16 \<Longrightarrow> pack_16s bs = bs"
  by (simp add: pack_16s_def)

lemma length_pack_L: "pack_L n = Inr bs \<Longrightarrow> length bs = 4"
  by (auto simp: pack_L_def split: if_splits)

lemma pack_L_ok: "0 \<le> n \<Longrightarrow> n < 2 ^ 32 \<Longrightarrow> \<exists>bs. pack_L n = Inr bs \<and> length bs = 4"
  by (simp add: pack_L_def)

lemma unpack_pack_L: "pack_L n = Inr bs \<Longrightarrow> unpack_L bs = n"
proof -
  assume p: "pack_L n = Inr bs"
  then have r: "0 \<le> n" "n < 2 ^ 32"
    by (auto simp: pack_L_def split: if_splits)
  obtain k where n: "n = int k" using r(1) nonneg_int_cases by blast
  with r have k: "k < 2 ^ 32" by auto
  have bs: "bs = [char_of (k div 2 ^ 24), char_of (k div 2 ^ 16 mod 256),
          char_of (k div 2 ^ 8 mod 256), char_of (k mod 256)]"
    using p r n by (simp add: pack_L_def)
  have top: "k div 2 ^ 24 mod 256 = k div 2 ^ 24"
    using k by (intro mod_less) (simp add: less_mult_imp_div_less)
  have "unpack_L bs = int (((k div 2 ^ 24 mod 256 * 256 + k div 2 ^ 16 mod 256) * 256
          + k div 2 ^ 8 mod 256) * 256 + k mod 256)"
    unfolding bs unpack_L_def by simp
  also have "((k div 2 ^ 24 mod 256 * 256 + k div 2 ^ 16 mod 256) * 256
          + k div 2 ^ 8 mod 256) * 256 + k mod 256 = k"
  proof -
    have "k div 2 ^ 16 = k div 2 ^ 8 div 256" "k div 2 ^ 24 = k div 2 ^ 8 div 256 div 256"
      by (simp_all add: div_mult2_eq [symmetric])
    moreover have "k div 2 ^ 8 div 256 div 256 < 256"
      using k by (simp add: div_mult2_eq [symmetric] less_mult_imp_div_less)
    ultimately show ?thesis by simp
  qed
  finally show ?thesis using n by simp
qed

section \<open>Payloads\<close>

text \<open>\<open>struct.pack('!16s', id)\<close>: a heartbeat, or the identity of a leaving member.\<close>

definition pack_id :: "bytes \<Rightarrow> pyexc + bytes" where
  "pack_id i = Inr (pack_16s i)"

definition unpack_id :: "bytes \<Rightarrow> pyexc + bytes" where
  "unpack_id bs = (if length bs = 16 then Inr bs else Inl StructError)"

text \<open>\<open>'!L16s'\<close>: a request for votes, (term, candidate).\<close>

definition pack_req :: "int \<times> bytes \<Rightarrow> pyexc + bytes" where
  "pack_req = (\<lambda>(t, i). case pack_L t of Inl e \<Rightarrow> Inl e | Inr tb \<Rightarrow> Inr (tb @ pack_16s i))"

definition unpack_req :: "bytes \<Rightarrow> pyexc + (int \<times> bytes)" where
  "unpack_req bs =
     (if length bs = 20 then Inr (unpack_L (take 4 bs), drop 4 bs) else Inl StructError)"

text \<open>\<open>'!L16sL16s'\<close>: a vote, (term, candidate, yes or no, voter).\<close>

definition pack_vot :: "int \<times> bytes \<times> int \<times> bytes \<Rightarrow> pyexc + bytes" where
  "pack_vot = (\<lambda>(t, c, v, i). case pack_L t of Inl e \<Rightarrow> Inl e
     | Inr tb \<Rightarrow> (case pack_L v of Inl e \<Rightarrow> Inl e
       | Inr vb \<Rightarrow> Inr (tb @ pack_16s c @ vb @ pack_16s i)))"

definition unpack_vot :: "bytes \<Rightarrow> pyexc + (int \<times> bytes \<times> int \<times> bytes)" where
  "unpack_vot bs = (if length bs = 40
     then Inr (unpack_L (take 4 bs), take 16 (drop 4 bs), unpack_L (take 4 (drop 20 bs)), drop 24 bs)
     else Inl StructError)"

text \<open>\<open>'!L16sLL'\<close>: a leader's authority, (term, leader, host address, port).\<close>

definition pack_ldr :: "int \<times> bytes \<times> int \<times> int \<Rightarrow> pyexc + bytes" where
  "pack_ldr = (\<lambda>(t, l, h, p). case pack_L t of Inl e \<Rightarrow> Inl e
     | Inr tb \<Rightarrow> (case pack_L h of Inl e \<Rightarrow> Inl e
       | Inr hb \<Rightarrow> (case pack_L p of Inl e \<Rightarrow> Inl e
         | Inr pb \<Rightarrow> Inr (tb @ pack_16s l @ hb @ pb))))"

definition unpack_ldr :: "bytes \<Rightarrow> pyexc + (int \<times> bytes \<times> int \<times> int)" where
  "unpack_ldr bs = (if length bs = 28
     then Inr (unpack_L (take 4 bs), take 16 (drop 4 bs), unpack_L (take 4 (drop 20 bs)),
       unpack_L (drop 24 bs))
     else Inl StructError)"

section \<open>The contract of a payload format\<close>

text \<open>
  \<open>fits\<close> says which values the format can carry, \<open>width\<close> is the size of every encoding. What was
  packed is read back, so two values with the same encoding are the same value.
\<close>

locale wire_format =
  fixes pack :: "'v \<Rightarrow> pyexc + bytes"
    and unpack :: "bytes \<Rightarrow> pyexc + 'v"
    and fits :: "'v \<Rightarrow> bool"
    and width :: nat
  assumes pack_total: "fits v \<Longrightarrow> \<exists>bs. pack v = Inr bs"
    and unpack_pack: "fits v \<Longrightarrow> pack v = Inr bs \<Longrightarrow> unpack bs = Inr v"
    and pack_width: "pack v = Inr bs \<Longrightarrow> length bs = width"
    and unpack_width: "length bs \<noteq> width \<Longrightarrow> unpack bs = Inl StructError"
begin

lemma round_trip: "fits v \<Longrightarrow> \<exists>bs. pack v = Inr bs \<and> unpack bs = Inr v \<and> length bs = width"
proof -
  assume f: "fits v"
  then obtain bs where "pack v = Inr bs" using pack_total by blast
  with f show ?thesis using pack_width unpack_pack by blast
qed

lemma pack_inj: "fits v \<Longrightarrow> fits w \<Longrightarrow> pack v = Inr bs \<Longrightarrow> pack w = Inr bs \<Longrightarrow> v = w"
  by (metis unpack_pack sum.inject(2))

lemma unpack_ok_width: "unpack bs = Inr v \<Longrightarrow> length bs = width"
  by (metis unpack_width sum.distinct(1))

end

definition u32 :: "int \<Rightarrow> bool" where "u32 n \<longleftrightarrow> 0 \<le> n \<and> n < 2 ^ 32"

lemma pack_L_u32: "u32 n \<Longrightarrow> \<exists>bs. pack_L n = Inr bs"
  by (simp add: u32_def pack_L_def)

lemma pack_L_fail: "\<not> u32 n \<Longrightarrow> pack_L n = Inl StructError"
  by (simp add: u32_def pack_L_def)

interpretation wid: wire_format pack_id unpack_id "\<lambda>i. length i = 16" 16
  by unfold_locales (auto simp: pack_id_def unpack_id_def)

interpretation wreq: wire_format pack_req unpack_req "\<lambda>(t, i). u32 t \<and> length i = 16" 20
  by unfold_locales
    (auto simp: pack_req_def unpack_req_def unpack_pack_L length_pack_L dest: pack_L_u32
      split: sum.splits)

interpretation wvot: wire_format pack_vot unpack_vot
    "\<lambda>(t, c, v, i). u32 t \<and> length c = 16 \<and> u32 v \<and> length i = 16" 40
proof
  fix v :: "int \<times> bytes \<times> int \<times> bytes"
  assume "(\<lambda>(t, c, v, i). u32 t \<and> length c = 16 \<and> u32 v \<and> length i = 16) v"
  then show "\<exists>bs. pack_vot v = Inr bs"
    by (auto simp: pack_vot_def dest!: pack_L_u32)
next
  fix v :: "int \<times> bytes \<times> int \<times> bytes" and bs
  assume "(\<lambda>(t, c, v, i). u32 t \<and> length c = 16 \<and> u32 v \<and> length i = 16) v"
    and "pack_vot v = Inr bs"
  then show "unpack_vot bs = Inr v"
    by (auto simp: pack_vot_def unpack_vot_def unpack_pack_L length_pack_L split: sum.splits)
qed (auto simp: pack_vot_def unpack_vot_def length_pack_L split: sum.splits)

interpretation wldr: wire_format pack_ldr unpack_ldr
    "\<lambda>(t, l, h, p). u32 t \<and> length l = 16 \<and> u32 h \<and> u32 p" 28
proof
  fix v :: "int \<times> bytes \<times> int \<times> int"
  assume "(\<lambda>(t, l, h, p). u32 t \<and> length l = 16 \<and> u32 h \<and> u32 p) v"
  then show "\<exists>bs. pack_ldr v = Inr bs"
    by (auto simp: pack_ldr_def dest!: pack_L_u32)
next
  fix v :: "int \<times> bytes \<times> int \<times> int" and bs
  assume "(\<lambda>(t, l, h, p). u32 t \<and> length l = 16 \<and> u32 h \<and> u32 p) v"
    and "pack_ldr v = Inr bs"
  then show "unpack_ldr bs = Inr v"
    by (auto simp: pack_ldr_def unpack_ldr_def unpack_pack_L length_pack_L split: sum.splits)
qed (auto simp: pack_ldr_def unpack_ldr_def length_pack_L split: sum.splits)

end
