(* ===== verification/DcPoll.thy ===== *)
theory DcPoll
  imports DcWire
begin

text \<open>
  Polls of a group leader: the messages of \<open>riaps/run/dc.capnp\<close> and the class \<open>Poll\<close> of
  \<open>riaps/run/dc.py\<close>. A poll counts the votes of the peers the group had when it started and
  decides when all of them have voted.
\<close>

section \<open>Messages\<close>

datatype voting = MAJORITY | CONSENSUS
datatype subject = VALUE | ACTION
datatype ballot = Yes | No | Timeout

record req_for_vote =
  rfv_topic :: bytes
  rfv_rfvId :: string
  rfv_kind :: voting
  rfv_subject :: subject
  rfv_release :: pyfloat
  rfv_started :: pyfloat
  rfv_timeout :: pyfloat

datatype group_vote = Rfv req_for_vote | Rtc string ballot | Ann string ballot

text \<open>
  The Cap'n Proto library is not part of the repository: its codec is a parameter, an encoder and
  a decoder that may reject a buffer.
\<close>

record capnp =
  cp_enc :: "group_vote \<Rightarrow> bytes"
  cp_dec :: "bytes \<Rightarrow> group_vote option"

definition from_bytes :: "capnp \<Rightarrow> frame \<Rightarrow> pyexc + group_vote" where
  "from_bytes cp f = (case f of
     FB b \<Rightarrow> (case cp_dec cp b of None \<Rightarrow> Inl CapnpError | Some v \<Rightarrow> Inr v)
   | _ \<Rightarrow> Inl CapnpError)"

section \<open>The poll object\<close>

record poll =
  p_topic :: bytes
  p_rfvId :: string
  p_kind :: voting
  p_subject :: subject
  p_release :: pyfloat
  p_started :: pyfloat
  p_timeout :: pyfloat
  p_deadline :: pyfloat
  p_member :: bytes
  p_numPeers :: int
  p_threshold :: int
  p_voteCnt :: int
  p_yesCnt :: int

definition new_poll :: "req_for_vote \<Rightarrow> bytes \<Rightarrow> pyfloat \<Rightarrow> pyfloat \<Rightarrow> int \<Rightarrow> poll" where
  "new_poll rfv member tmo deadline numPeers =
     \<lparr> p_topic = rfv_topic rfv, p_rfvId = rfv_rfvId rfv, p_kind = rfv_kind rfv,
       p_subject = rfv_subject rfv, p_release = rfv_release rfv, p_started = rfv_started rfv,
       p_timeout = tmo, p_deadline = deadline, p_member = member, p_numPeers = numPeers,
       p_threshold = py_int (of_int numPeers / 2 + 1), p_voteCnt = 0, p_yesCnt = 0 \<rparr>"

definition vote :: "bool \<Rightarrow> poll \<Rightarrow> poll" where
  "vote v p = (let p1 = p\<lparr>p_voteCnt := p_voteCnt p + 1\<rparr>
               in if v then p1\<lparr>p_yesCnt := p_yesCnt p1 + 1\<rparr> else p1)"

definition expired :: "poll \<Rightarrow> pyfloat \<Rightarrow> bool" where
  "expired p now \<longleftrightarrow> now > p_deadline p"

definition allVoted :: "poll \<Rightarrow> bool" where
  "allVoted p \<longleftrightarrow> p_voteCnt p = p_numPeers p"

definition result :: "poll \<Rightarrow> bool" where
  "result p = (case p_kind p of
     MAJORITY \<Rightarrow> p_yesCnt p \<ge> p_threshold p
   | CONSENSUS \<Rightarrow> p_yesCnt p = p_numPeers p)"

lemmas poll_defs = new_poll_def vote_def expired_def allVoted_def result_def Let_def

section \<open>Counting\<close>

text \<open>\<open>int(n / 2 + 1)\<close> is the least number that is more than half of \<open>n\<close>.\<close>

lemma half_plus_one: "0 \<le> n \<Longrightarrow> py_int (of_int n / 2 + 1) = n div 2 + 1"
proof -
  assume "0 \<le> n"
  then have "py_int (of_int n / 2 + 1) = \<lfloor>of_int n / 2 + (1::real)\<rfloor>"
    by (simp add: py_int_def)
  also have "\<dots> = \<lfloor>of_int n / (2::real)\<rfloor> + 1" by simp
  also have "\<lfloor>of_int n / (2::real)\<rfloor> = n div 2"
    using floor_divide_of_int_eq [of n 2] by simp
  finally show ?thesis .
qed

lemma majority_iff: "y \<ge> n div 2 + 1 \<longleftrightarrow> 2 * y > (n::int)"
  by presburger

fun cast :: "bool list \<Rightarrow> poll \<Rightarrow> poll" where
  "cast [] p = p"
| "cast (v # vs) p = cast vs (vote v p)"

lemma cast_frame [simp]:
  "p_numPeers (cast vs p) = p_numPeers p" "p_kind (cast vs p) = p_kind p"
  "p_threshold (cast vs p) = p_threshold p" "p_deadline (cast vs p) = p_deadline p"
  "p_rfvId (cast vs p) = p_rfvId p"
  by (induction vs arbitrary: p) (auto simp: vote_def Let_def)

lemma cast_counts:
  "p_voteCnt (cast vs p) = p_voteCnt p + int (length vs)"
  "p_yesCnt (cast vs p) = p_yesCnt p + int (length (filter id vs))"
  by (induction vs arbitrary: p) (auto simp: vote_def Let_def)

lemma all_yes_iff: "length (filter id vs) = length vs \<longleftrightarrow> list_all id vs"
proof
  assume "length (filter id vs) = length vs"
  then show "list_all id vs"
    using length_filter_less [of _ vs id] by (fastforce simp: list_all_iff)
next
  assume "list_all id vs"
  then show "length (filter id vs) = length vs"
    by (simp add: list_all_iff filter_id_conv)
qed

lemma cast_new_poll:
  assumes "0 \<le> n"
  shows "allVoted (cast vs (new_poll r m t d n)) \<longleftrightarrow> int (length vs) = n"
    and "rfv_kind r = MAJORITY \<Longrightarrow> result (cast vs (new_poll r m t d n)) \<longleftrightarrow>
      2 * int (length (filter id vs)) > n"
    and "rfv_kind r = CONSENSUS \<Longrightarrow> result (cast vs (new_poll r m t d n)) \<longleftrightarrow>
      int (length (filter id vs)) = n"
  using assms
  by (auto simp: allVoted_def result_def cast_counts new_poll_def half_plus_one majority_iff)

section \<open>The poll's contract\<close>

text \<open>
  When the last of the \<open>n\<close> peers has voted, and not before, the poll is complete; its result is
  then what the votes say: more than half of them yes, or every one of them.
\<close>

text \<open>C19: a poll over n peers is complete exactly when n votes were cast; a complete majority poll
  then answers yes exactly if more than half of the votes were yes, and a complete consensus poll
  exactly if all were.\<close>

theorem poll_decides:
  "0 \<le> n \<Longrightarrow>
    (allVoted (cast vs (new_poll r m t d n)) \<longleftrightarrow> int (length vs) = n) \<and>
    (int (length vs) = n \<longrightarrow>
      (result (cast vs (new_poll r m t d n)) \<longleftrightarrow>
        (case rfv_kind r of MAJORITY \<Rightarrow> 2 * length (filter id vs) > length vs
         | CONSENSUS \<Rightarrow> list_all id vs)))"
  by (cases "rfv_kind r") (auto simp: cast_new_poll all_yes_iff)

theorem poll_decides_witness:
  "(0::int) \<le> 3 \<and>
   result (cast [True, False, True] (new_poll \<lparr>rfv_topic = ''t'', rfv_rfvId = ''A'',
      rfv_kind = MAJORITY, rfv_subject = VALUE, rfv_release = 0, rfv_started = 0,
      rfv_timeout = 1\<rparr> [] 1 1 3))"
  using poll_decides [of 3 "[True, False, True]" "\<lparr>rfv_topic = ''t'', rfv_rfvId = ''A'',
      rfv_kind = MAJORITY, rfv_subject = VALUE, rfv_release = 0, rfv_started = 0,
      rfv_timeout = 1\<rparr>" "[]" 1 1]
  by simp

end
