(* ===== verification/DcThread.thy ===== *)
theory DcThread
  imports DcPoll
begin

text \<open>
  The state of a \<open>GroupThread\<close> (\<open>riaps/run/dc.py\<close>) with the ports it drives
  (\<open>riaps/run/dcPorts.py\<close>), and its elementary operations: sending, timeouts, membership, polls.

  \<^item> Every message the thread sends, and every connection it makes or drops, is appended to
    \<open>gt_out\<close>, in order; received messages are arguments of the handlers.
  \<^item> The sockets may fail: \<open>pub_err\<close>, \<open>grp_err\<close>, \<open>qry_err\<close> and \<open>ans_err\<close> hold the errno of the
    \<open>ZMQError\<close> the socket currently raises when it sends, if any.
  \<^item> \<open>env_time\<close> is what \<open>time.time()\<close> returns inside a handler, \<open>env_elec\<close> and \<open>env_ldr\<close> are
    the draws behind \<open>random.randrange\<close>, \<open>env_port\<close> the number \<open>bind_to_random_port\<close> returns.
\<close>

section \<open>State\<close>

datatype role = FOLLOWER | CANDIDATE | LEADER

datatype effect =
    PubSend "frame list"
  | ToComp "frame list"
  | QrySend "frame list"
  | AnsSend "frame list"
  | QryConnect string int
  | QryDisconnect string int
  | SubConnect string pyfloat
  | AnsBind int

record gthread =
  gt_coordinated :: bool
  gt_isTimed :: bool
  gt_host :: int
  gt_ldrPort :: "int option"
  gt_groupSize :: int
  gt_groupHeartbeat :: int
  gt_electionMin :: int
  gt_electionMax :: int
  gt_peerTimeout :: int
  gt_consensusTimeout :: int
  gt_timeout :: "int option"
  gt_leaderDeadline :: "pyfloat option"
  gt_numPeers :: int
  gt_leader :: "bytes option"
  gt_ownId :: "bytes option"
  gt_peers :: "(bytes, pyfloat) dict"
  gt_lastWait :: pyfloat
  gt_lastHeartbeat :: pyfloat
  gt_term :: int
  gt_votes :: int
  gt_votedFor :: "bytes option"
  gt_polls :: "(string, poll) dict"
  gt_state :: role
  sub_servers :: "(string \<times> pyfloat) list"
  qry_host :: "string option"
  qry_port :: "int option"
  ans_identity :: "bytes option"
  ans_portNum :: "int option"
  pub_err :: "int option"
  grp_err :: "int option"
  qry_err :: "int option"
  ans_err :: "int option"
  env_time :: pyfloat
  env_elec :: nat
  env_ldr :: nat
  env_port :: int
  gt_out :: "effect list"

type_synonym 'a gact = "(gthread, 'a) act"

definition emit :: "effect \<Rightarrow> unit gact" where
  "emit x = upd (\<lambda>s. s\<lparr>gt_out := gt_out s @ [x]\<rparr>)"

section \<open>Ports\<close>

text \<open>A timed port appends the current time to every message.\<close>

definition stamp :: "gthread \<Rightarrow> frame list" where
  "stamp s = (if gt_isTimed s then [FD (env_time s)] else [])"

text \<open>\<open>GroupPubPort.sendGroup\<close>: a \<open>ZMQError\<close> of the socket becomes a \<open>PortError\<close>.\<close>

definition sendGroup :: "bytes \<Rightarrow> frame \<Rightarrow> unit gact" where
  "sendGroup msgType msg = rd (\<lambda>s. s) (\<lambda>s.
     case pub_err s of
       Some n \<Rightarrow> raise (PortError n)
     | None \<Rightarrow> emit (PubSend ([FB msgType, msg] @ stamp s)))"

text \<open>\<open>groupSocket.send_multipart\<close>: to the component; here the \<open>ZMQError\<close> is raised as it is.\<close>

definition toComp :: "frame list \<Rightarrow> unit gact" where
  "toComp fs = rd grp_err (\<lambda>e. case e of
     Some n \<Rightarrow> raise (ZMQError n) | None \<Rightarrow> emit (ToComp fs))"

text \<open>\<open>GroupQryPort.sendToLeader\<close>: without a connection the message is dropped, the result False.\<close>

definition sendToLeader :: "bytes \<Rightarrow> frame \<Rightarrow> bool gact" where
  "sendToLeader msgType msg = rd (\<lambda>s. s) (\<lambda>s.
     if qry_host s = None \<or> qry_port s = None then ret False
     else case qry_err s of
       Some n \<Rightarrow> raise (PortError n)
     | None \<Rightarrow> bnd (emit (QrySend ([FB msgType, msg] @ stamp s))) (\<lambda>_. ret True))"

text \<open>\<open>GroupAnsPort.sendToMember\<close>, to the member whose identity was set last.\<close>

definition sendToMember :: "bytes \<Rightarrow> frame \<Rightarrow> unit gact" where
  "sendToMember msgType msg = rd (\<lambda>s. s) (\<lambda>s.
     case ans_err s of
       Some n \<Rightarrow> raise (PortError n)
     | None \<Rightarrow> emit (AnsSend
         ([FB (case ans_identity s of None \<Rightarrow> [] | Some i \<Rightarrow> i), FB msgType, msg] @ stamp s)))"

definition set_identity :: "frame \<Rightarrow> unit gact" where
  "set_identity f = bnd (lift (frame_bytes f)) (\<lambda>i. upd (\<lambda>s. s\<lparr>ans_identity := Some i\<rparr>))"

text \<open>\<open>ConnPort.update\<close> of the subscriber port: connect once to each publisher.\<close>

definition sub_update :: "string \<Rightarrow> pyfloat \<Rightarrow> unit gact" where
  "sub_update h p = rd sub_servers (\<lambda>srv.
     if (h, p) \<in> set srv then ret ()
     else seqA [upd (\<lambda>s. s\<lparr>sub_servers := sub_servers s @ [(h, p)]\<rparr>), emit (SubConnect h p)])"

text \<open>\<open>GroupQryPort.update\<close>: drop the old connection, if any, and make the new one.\<close>

definition qry_update :: "string option \<Rightarrow> int option \<Rightarrow> unit gact" where
  "qry_update h p = rd (\<lambda>s. s) (\<lambda>s.
     if qry_host s = h \<and> qry_port s = p then ret ()
     else seqA [
       (case (qry_host s, qry_port s) of
          (Some oh, Some op) \<Rightarrow> emit (QryDisconnect oh op) | _ \<Rightarrow> ret ()),
       upd (\<lambda>s. s\<lparr>qry_host := h, qry_port := p\<rparr>),
       (case (h, p) of (Some nh, Some np) \<Rightarrow> emit (QryConnect nh np) | _ \<Rightarrow> ret ())])"

text \<open>
  \<open>GroupAnsPort.updatePoller\<close>: bind the leader's socket. When the port had been bound before,
  the code refers to \<open>self.self.socket\<close>, an attribute that does not exist.
\<close>

definition updatePoller :: "unit gact" where
  "updatePoller = rd ans_portNum (\<lambda>pn. case pn of
     Some _ \<Rightarrow> raise AttributeError
   | None \<Rightarrow> rd env_port (\<lambda>np. seqA [
       upd (\<lambda>s. s\<lparr>ans_portNum := Some np\<rparr>), emit (AnsBind np)]))"

text \<open>
  \<open>GroupSubPort.recvGroup\<close>, \<open>GroupQryPort.recvFromLeader\<close>: type and payload must be there, a third
  frame must be a packed send time. \<open>GroupAnsPort.recvFromMember\<close> takes the identity off first.
\<close>

definition recv_frames :: "frame list \<Rightarrow> pyexc + frame list" where
  "recv_frames fs = (if length fs < 2 then Inl IndexError
     else if length fs = 3 then (case unpack_d (fs ! 2) of Inl e \<Rightarrow> Inl e | Inr _ \<Rightarrow> Inr fs)
     else Inr fs)"

definition recvFromMember :: "frame list \<Rightarrow> frame list gact" where
  "recvFromMember fs = bnd (lift (frame_at fs 0)) (\<lambda>i. bnd (set_identity i) (\<lambda>_.
     if length fs < 3 then raise IndexError
     else if length fs = 4 then bnd (lift (unpack_d (fs ! 3))) (\<lambda>_. ret (tl fs))
     else ret (tl fs)))"

section \<open>Elementary operations of the thread\<close>

definition isLeader :: "gthread \<Rightarrow> bool" where
  "isLeader s \<longleftrightarrow> gt_leader s = gt_ownId s"

text \<open>\<open>setLeaderDeadline\<close>: a random time between the longest election and the peer timeout ahead.\<close>

definition setLeaderDeadline :: "unit gact" where
  "setLeaderDeadline = rd (\<lambda>s. s) (\<lambda>s.
     bnd (lift (randrange (gt_electionMax s) (gt_peerTimeout s) (env_ldr s))) (\<lambda>tmo.
       upd (\<lambda>s. s\<lparr>gt_leaderDeadline := Some (env_time s + of_int tmo / 1000)\<rparr>)))"

definition electionTimeout :: "int gact" where
  "electionTimeout = rd (\<lambda>s. s) (\<lambda>s.
     lift (randrange (gt_electionMin s) (gt_electionMax s) (env_elec s)))"

definition threshold :: "gthread \<Rightarrow> int" where
  "threshold s = py_int (of_int (gt_numPeers s) / 2 + 1)"

definition setTimeout :: "int \<Rightarrow> pyfloat \<Rightarrow> unit gact" where
  "setTimeout v now = upd (\<lambda>s. s\<lparr>gt_timeout := Some v, gt_lastWait := now\<rparr>)"

definition setElectionTimeout :: "pyfloat \<Rightarrow> unit gact" where
  "setElectionTimeout now = bnd electionTimeout (\<lambda>v. setTimeout v now)"

text \<open>The thread's own id as a field of \<open>struct.pack\<close>, which rejects None.\<close>

definition with_ownId :: "(bytes \<Rightarrow> 'a gact) \<Rightarrow> 'a gact" where
  "with_ownId k = rd gt_ownId (\<lambda>i. case i of None \<Rightarrow> raise StructError | Some b \<Rightarrow> k b)"

definition heartbeat :: "pyfloat \<Rightarrow> unit gact" where
  "heartbeat now = rd (\<lambda>s. s) (\<lambda>s.
     if now > gt_lastHeartbeat s + of_int (gt_groupHeartbeat s) / 1000 then
       with_ownId (\<lambda>i. bnd (lift (pack_id i)) (\<lambda>msg. seqA [
         sendGroup HEARTBEAT (FB msg),
         upd (\<lambda>s. s\<lparr>gt_lastHeartbeat := now\<rparr>)]))
     else ret ())"

definition sendChangeMessage :: "bytes \<Rightarrow> bytes \<Rightarrow> unit gact" where
  "sendChangeMessage change someId = toComp [FB change, FB someId]"

text \<open>\<open>if self.leader != None: sendChangeMessage(GROUP_LEX, self.leader)\<close>.\<close>

definition leaderExits :: "unit gact" where
  "leaderExits = rd gt_leader (\<lambda>l. case l of
     None \<Rightarrow> ret () | Some b \<Rightarrow> sendChangeMessage GROUP_LEX b)"

definition stale :: "gthread \<Rightarrow> pyfloat \<Rightarrow> bytes \<times> pyfloat \<Rightarrow> bool" where
  "stale s now = (\<lambda>(_, heard). py_int ((now - heard) * 1000) > gt_peerTimeout s)"

definition updatePeers :: "pyfloat \<Rightarrow> unit gact" where
  "updatePeers now = rd (\<lambda>s. s) (\<lambda>s.
     let leavers = map fst (filter (stale s now) (gt_peers s)) in
     if leavers \<noteq> [] then seqA [
       forA leavers (\<lambda>p. seqA [
         sendChangeMessage GROUP_MLT p,
         upd (\<lambda>s. s\<lparr>gt_peers := AList.delete p (gt_peers s)\<rparr>)]),
       upd (\<lambda>s. s\<lparr>gt_numPeers := int (length (gt_peers s))\<rparr>)]
     else ret ())"

definition updateTimeout :: "pyfloat \<Rightarrow> unit gact" where
  "updateTimeout now = rd (\<lambda>s. s) (\<lambda>s. case gt_timeout s of
     None \<Rightarrow> raise TypeError
   | Some t \<Rightarrow> upd (\<lambda>s. s\<lparr>gt_lastWait := now,
       gt_timeout := Some (max (t - py_int ((now - gt_lastWait s) * 1000)) 1)\<rparr>))"

section \<open>Polls of the leader\<close>

definition announceConsensus :: "capnp \<Rightarrow> string \<Rightarrow> ballot \<Rightarrow> unit gact" where
  "announceConsensus cp rfvId v = sendGroup GROUP_ANN (FB (cp_enc cp (Ann rfvId v)))"

definition startPoll :: "capnp \<Rightarrow> frame \<Rightarrow> bytes \<Rightarrow> bool gact" where
  "startPoll cp msg member = bnd (lift (from_bytes cp msg)) (\<lambda>v. case v of
     Rfv r \<Rightarrow> rd (\<lambda>s. s) (\<lambda>s.
       let now = env_time s;
           started = rfv_started r;
           tmo = (if rfv_timeout r = 0 then of_int (gt_consensusTimeout s) else rfv_timeout r);
           delta = now - started
       in if delta > tmo then ret False
          else bnd (upd (\<lambda>s. s\<lparr>gt_polls := AList.update (rfv_rfvId r)
                 (new_poll r member tmo (started + tmo - delta) (gt_numPeers s)) (gt_polls s)\<rparr>))
               (\<lambda>_. ret True))
   | _ \<Rightarrow> ret False)"

definition checkPoll :: "capnp \<Rightarrow> poll \<Rightarrow> pyfloat \<Rightarrow> bool gact" where
  "checkPoll cp p now =
     (if expired p now then
        bnd (announceConsensus cp (p_rfvId p) Timeout) (\<lambda>_. ret True)
      else if allVoted p then
        bnd (announceConsensus cp (p_rfvId p) (if result p then Yes else No)) (\<lambda>_. ret True)
      else ret False)"

fun donePolls :: "capnp \<Rightarrow> (string \<times> poll) list \<Rightarrow> pyfloat \<Rightarrow> string list gact" where
  "donePolls cp [] now = ret []"
| "donePolls cp ((k, p) # ps) now = bnd (checkPoll cp p now) (\<lambda>d.
     bnd (donePolls cp ps now) (\<lambda>ks. ret (if d then k # ks else ks)))"

definition dropPoll :: "string \<Rightarrow> unit gact" where
  "dropPoll k = upd (\<lambda>s. s\<lparr>gt_polls := AList.delete k (gt_polls s)\<rparr>)"

definition checkAllPolls :: "capnp \<Rightarrow> pyfloat \<Rightarrow> unit gact" where
  "checkAllPolls cp now = rd gt_polls (\<lambda>ps.
     bnd (donePolls cp ps now) (\<lambda>toRemove. forA toRemove dropPoll))"

definition updatePoll :: "capnp \<Rightarrow> frame \<Rightarrow> unit gact" where
  "updatePoll cp msg = bnd (lift (from_bytes cp msg)) (\<lambda>v. case v of
     Rtc rfvId b \<Rightarrow> rd (\<lambda>s. s) (\<lambda>s. case map_of (gt_polls s) rfvId of
       None \<Rightarrow> ret ()
     | Some p \<Rightarrow> (let p' = vote (b = Yes) p in
         bnd (upd (\<lambda>s. s\<lparr>gt_polls := AList.update rfvId p' (gt_polls s)\<rparr>)) (\<lambda>_.
         bnd (checkPoll cp p' (env_time s)) (\<lambda>done'.
           if done' then dropPoll rfvId else ret ()))))
   | _ \<Rightarrow> ret ())"

text \<open>\<open>startPoll\<close> and what both of its callers do with its answer.\<close>

definition requestPoll :: "capnp \<Rightarrow> frame \<Rightarrow> bytes \<Rightarrow> unit gact" where
  "requestPoll cp msg member = bnd (startPoll cp msg member) (\<lambda>ok.
     if ok then sendGroup GROUP_RCM msg
     else bnd (lift (from_bytes cp msg)) (\<lambda>v. case v of
       Rfv r \<Rightarrow> announceConsensus cp (rfv_rfvId r) Timeout
     | _ \<Rightarrow> raise AssertionError))"

lemma wp_case_group_vote [wp_simps]:
  "wp (case v of Rfv r \<Rightarrow> f r | Rtc i b \<Rightarrow> g i b | Ann i b \<Rightarrow> h i b) Q E s =
    (case v of Rfv r \<Rightarrow> wp (f r) Q E s | Rtc i b \<Rightarrow> wp (g i b) Q E s | Ann i b \<Rightarrow> wp (h i b) Q E s)"
  by (simp split: group_vote.split)

lemma wp_case_role [wp_simps]:
  "wp (case r of FOLLOWER \<Rightarrow> f | CANDIDATE \<Rightarrow> g | LEADER \<Rightarrow> h) Q E s =
    (case r of FOLLOWER \<Rightarrow> wp f Q E s | CANDIDATE \<Rightarrow> wp g Q E s | LEADER \<Rightarrow> wp h Q E s)"
  by (simp split: role.split)

end
