(* ===== verification/DcHandlers.thy ===== *)
theory DcHandlers
  imports DcThread
begin

text \<open>
  The message and timeout handlers of \<open>GroupThread\<close> (\<open>riaps/run/dc.py\<close>) and its main loop: leader
  election among followers, candidates and a leader, forwarding of data and poll messages between
  the component and the group.
\<close>

section \<open>Messages from the component\<close>

text \<open>\<open>except zmq.error.ZMQError as e\<close>: the error is reported to the component.\<close>

definition reportZMQ :: "unit gact \<Rightarrow> unit gact" where
  "reportZMQ m = tryA m (\<lambda>e. case e of
     ZMQError n \<Rightarrow> toComp [FB GROUP_ERR, FErr n]
   | _ \<Rightarrow> raise e)"

text \<open>
  A timed message to the own component is completed with \<open>zmq.Frame(t)\<close> for a float \<open>t\<close>: a frame
  is made of bytes, so this is a \<open>TypeError\<close>.
\<close>

definition toCompStamped :: "frame list \<Rightarrow> unit gact" where
  "toCompStamped fs = rd gt_isTimed (\<lambda>timed. if timed then raise TypeError else toComp fs)"

text \<open>Commands to the leader (\<open>GROUP_MTL\<close>, \<open>GROUP_MFL\<close>, \<open>GROUP_RFV\<close>, \<open>GROUP_RTC\<close>) need one.\<close>

definition withLeader :: "unit gact \<Rightarrow> unit gact" where
  "withLeader m = rd gt_leader (\<lambda>l. case l of
     None \<Rightarrow> toComp [FB GROUP_NLD] | Some _ \<Rightarrow> reportZMQ m)"

definition toLeaderAck :: "bytes \<Rightarrow> frame \<Rightarrow> unit gact" where
  "toLeaderAck c msg = bnd (sendToLeader c msg) (\<lambda>_. toComp [FB GROUP_ACK])"

definition comp_msg :: "frame list \<Rightarrow> unit gact" where
  "comp_msg fs = bnd (lift (frame_at fs 1)) (\<lambda>msg. reportZMQ (seqA [
     sendGroup GROUP_MSG msg, toComp [FB GROUP_ACK]]))"

definition comp_mtl :: "frame list \<Rightarrow> unit gact" where
  "comp_mtl fs = withLeader (rd isLeader (\<lambda>ld.
     if ld then seqA [
       toComp [FB GROUP_ACK],
       bnd (lift (frame_at fs 1)) (\<lambda>msg. toCompStamped [FB GROUP_MTL, msg, FB []])]
     else bnd (lift (frame_at fs 1)) (\<lambda>msg. toLeaderAck GROUP_MTL msg)))"

text \<open>
  \<open>if self.isLeader and msgFrames[2] == bytes(0)\<close>: the method is named, not called, so only the
  identity decides.
\<close>

definition comp_mfl :: "frame list \<Rightarrow> unit gact" where
  "comp_mfl fs = withLeader (bnd (lift (frame_at fs 2)) (\<lambda>idf.
     if idf = FB [] then seqA [
       toComp [FB GROUP_ACK],
       bnd (lift (frame_at fs 1)) (\<lambda>msg. toCompStamped [FB GROUP_MFL, msg])]
     else seqA [
       set_identity idf,
       bnd (lift (frame_at fs 1)) (\<lambda>msg. sendToMember GROUP_MFL msg),
       toComp [FB GROUP_ACK]]))"

definition comp_rfv :: "capnp \<Rightarrow> frame list \<Rightarrow> unit gact" where
  "comp_rfv cp fs = withLeader (rd isLeader (\<lambda>ld.
     if ld then seqA [
       toComp [FB GROUP_ACK],
       bnd (lift (frame_at fs 1)) (\<lambda>msg. requestPoll cp msg [])]
     else bnd (lift (frame_at fs 1)) (\<lambda>msg. toLeaderAck GROUP_RFV msg)))"

definition comp_rtc :: "capnp \<Rightarrow> frame list \<Rightarrow> unit gact" where
  "comp_rtc cp fs = withLeader (bnd (lift (frame_at fs 1)) (\<lambda>msg. rd isLeader (\<lambda>ld.
     if ld then seqA [updatePoll cp msg, toComp [FB GROUP_ACK]]
     else toLeaderAck GROUP_RTC msg)))"

definition comp_upd :: "frame list \<Rightarrow> unit gact" where
  "comp_upd fs = bnd (lift (frame_at fs 1)) (\<lambda>h. bnd (lift (frame_bytes h)) (\<lambda>host.
     bnd (lift (frame_at fs 2)) (\<lambda>p. bnd (lift (unpack_d p)) (\<lambda>port. sub_update host port))))"

text \<open>A leaving member publishes \<open>zmq.Frame(self.ownId)\<close>: without an id the frame is empty.\<close>

definition comp_mlt :: "unit gact" where
  "comp_mlt = rd gt_ownId (\<lambda>i. sendGroup GROUP_MLT (FB (case i of None \<Rightarrow> [] | Some b \<Rightarrow> b)))"

definition handleCompMessage :: "capnp \<Rightarrow> frame list \<Rightarrow> bool gact" where
  "handleCompMessage cp fs = bnd (lift (frame_at fs 0)) (\<lambda>cmd.
     if cmd = FB GROUP_UPD then bnd (comp_upd fs) (\<lambda>_. ret False)
     else if cmd = FB GROUP_MSG then bnd (comp_msg fs) (\<lambda>_. ret False)
     else if cmd = FB GROUP_MTL then bnd (comp_mtl fs) (\<lambda>_. ret False)
     else if cmd = FB GROUP_MFL then bnd (comp_mfl fs) (\<lambda>_. ret False)
     else if cmd = FB GROUP_RFV then bnd (comp_rfv cp fs) (\<lambda>_. ret False)
     else if cmd = FB GROUP_RTC then bnd (comp_rtc cp fs) (\<lambda>_. ret False)
     else if cmd = FB GROUP_MLT then bnd comp_mlt (\<lambda>_. ret True)
     else ret False)"

section \<open>Timeouts\<close>

definition startElection :: "pyfloat \<Rightarrow> unit gact" where
  "startElection now = seqA [
     leaderExits,
     upd (\<lambda>s. s\<lparr>gt_term := gt_term s + 1, gt_state := CANDIDATE, gt_votes := 1,
                gt_votedFor := gt_ownId s\<rparr>),
     qry_update None None,
     with_ownId (\<lambda>i. rd gt_term (\<lambda>t. bnd (lift (pack_req (t, i))) (\<lambda>msg.
       sendGroup REQVOTE (FB msg)))),
     setElectionTimeout now,
     upd (\<lambda>s. s\<lparr>gt_leaderDeadline := None, gt_leader := None\<rparr>)]"

definition followerTimeout :: "pyfloat \<Rightarrow> unit gact" where
  "followerTimeout now = rd (\<lambda>s. s) (\<lambda>s. case gt_leaderDeadline s of
     Some d \<Rightarrow>
       (if d \<noteq> 0 \<and> now > d then
          (if gt_numPeers s > py_int (of_int (gt_groupSize s) / 2) + 1 then startElection now
           else seqA [setLeaderDeadline, setTimeout (gt_groupHeartbeat s) now])
        else setTimeout (gt_groupHeartbeat s) now)
   | None \<Rightarrow> setTimeout (gt_groupHeartbeat s) now)"

definition candidateTimeout :: "pyfloat \<Rightarrow> unit gact" where
  "candidateTimeout now = seqA [
     upd (\<lambda>s. s\<lparr>gt_state := FOLLOWER, gt_votedFor := None\<rparr>),
     leaderExits,
     upd (\<lambda>s. s\<lparr>gt_leader := None\<rparr>),
     rd gt_groupHeartbeat (\<lambda>hb. setTimeout hb now),
     upd (\<lambda>s. s\<lparr>gt_leaderDeadline := None\<rparr>)]"

text \<open>The leader publishes its term, id and address.\<close>

definition assertAuthority :: "unit gact" where
  "assertAuthority = with_ownId (\<lambda>i. rd (\<lambda>s. s) (\<lambda>s. case gt_ldrPort s of
     None \<Rightarrow> raise TypeError
   | Some p \<Rightarrow> bnd (lift (pack_ldr (gt_term s, i, gt_host s, p))) (\<lambda>msg.
       sendGroup AUTHORITY (FB msg))))"

definition leaderTimeout :: "pyfloat \<Rightarrow> unit gact" where
  "leaderTimeout now = rd (\<lambda>s. s) (\<lambda>s. seqA [
     assertA (gt_leader s = gt_ownId s),
     assertAuthority,
     setTimeout (gt_groupHeartbeat s) now,
     upd (\<lambda>s. s\<lparr>gt_leaderDeadline := None\<rparr>)])"

definition handleTimeout :: "capnp \<Rightarrow> pyfloat \<Rightarrow> unit gact" where
  "handleTimeout cp now = seqA [
     rd gt_coordinated assertA,
     updatePeers now,
     checkAllPolls cp now,
     rd gt_state (\<lambda>st. case st of
       FOLLOWER \<Rightarrow> followerTimeout now
     | CANDIDATE \<Rightarrow> candidateTimeout now
     | LEADER \<Rightarrow> leaderTimeout now)]"

section \<open>Messages from the group\<close>

text \<open>
  Forward a data message to the component. In a timed group the code calls
  \<open>self.subPort.recvTime()\<close>; \<open>recvTime\<close> is a float attribute, so this is a \<open>TypeError\<close>.
\<close>

definition forward :: "bytes \<Rightarrow> frame \<Rightarrow> unit gact" where
  "forward c msg = rd gt_isTimed (\<lambda>timed.
     if timed then raise TypeError else toComp [FB c, msg])"

definition net_leave :: "frame \<Rightarrow> unit gact" where
  "net_leave f = bnd (lift (case frame_bytes f of Inl e \<Rightarrow> Inl e | Inr b \<Rightarrow> unpack_id b)) (\<lambda>leaver.
     rd (\<lambda>s. s) (\<lambda>s. if \<not> gt_coordinated s then raise AttributeError else seqA [
       (if has_key (gt_peers s) leaver then seqA [
          sendChangeMessage GROUP_MLT leaver,
          upd (\<lambda>s. s\<lparr>gt_peers := AList.delete leaver (gt_peers s)\<rparr>)]
        else ret ()),
       upd (\<lambda>s. s\<lparr>gt_numPeers := int (length (gt_peers s))\<rparr>)]))"

definition net_heartbeat :: "frame \<Rightarrow> pyfloat \<Rightarrow> unit gact" where
  "net_heartbeat f now = (case (case frame_bytes f of Inl e \<Rightarrow> Inl e | Inr b \<Rightarrow> unpack_id b) of
     Inl _ \<Rightarrow> ret ()
   | Inr peer \<Rightarrow> rd gt_peers (\<lambda>ps. seqA [
       whenA (\<not> has_key ps peer) (sendChangeMessage GROUP_MJD peer),
       upd (\<lambda>s. s\<lparr>gt_peers := AList.update peer now (gt_peers s)\<rparr>),
       upd (\<lambda>s. s\<lparr>gt_numPeers := int (length (gt_peers s))\<rparr>),
       updateTimeout now]))"

definition net_leader_msg :: "bytes \<Rightarrow> frame \<Rightarrow> pyfloat \<Rightarrow> unit gact" where
  "net_leader_msg c msg now = seqA [forward c msg, updateTimeout now, setLeaderDeadline]"

definition unpacking :: "(bytes \<Rightarrow> pyexc + 'v) \<Rightarrow> frame \<Rightarrow> ('v \<Rightarrow> unit gact) \<Rightarrow> unit gact" where
  "unpacking u f k = bnd (lift (frame_bytes f)) (\<lambda>b. bnd (lift (u b)) k)"

definition sendVoteTo :: "int \<Rightarrow> bytes \<Rightarrow> bool \<Rightarrow> unit gact" where
  "sendVoteTo t node v = with_ownId (\<lambda>i.
     bnd (lift (pack_vot (t, node, (if v then 1 else 0), i))) (\<lambda>rsp. sendGroup RSPVOTE (FB rsp)))"

text \<open>The new leader is recorded and reported if it is another one than before.\<close>

definition acceptLeader :: "int \<Rightarrow> bytes \<Rightarrow> unit gact" where
  "acceptLeader t l = rd gt_leader (\<lambda>prev. seqA [
     upd (\<lambda>s. s\<lparr>gt_term := t, gt_leader := Some l\<rparr>),
     whenA (prev \<noteq> Some l) (sendChangeMessage GROUP_LEL l),
     upd (\<lambda>s. s\<lparr>gt_votedFor := None\<rparr>)])"

definition follower_authority :: "frame \<Rightarrow> pyfloat \<Rightarrow> unit gact" where
  "follower_authority f now = unpacking unpack_ldr f (\<lambda>(t, l, h, p). seqA [
     acceptLeader t l,
     setElectionTimeout now,
     setLeaderDeadline,
     (if p = NO_LEADER then qry_update None None
      else qry_update (Some (ipv4_str h)) (Some p))])"

definition grants :: "gthread \<Rightarrow> int \<Rightarrow> bytes \<Rightarrow> bool" where
  "grants s t node \<longleftrightarrow> (case gt_votedFor s of
     None \<Rightarrow> True
   | Some c \<Rightarrow> (if t > gt_term s then True else node = c))"

definition follower_reqvote :: "frame \<Rightarrow> pyfloat \<Rightarrow> unit gact" where
  "follower_reqvote f now = unpacking unpack_req f (\<lambda>(t, node). rd (\<lambda>s. s) (\<lambda>s.
     let v = grants s t node in seqA [
     sendVoteTo t node v,
     upd (\<lambda>s. s\<lparr>gt_term := t\<rparr>),
     leaderExits,
     upd (\<lambda>s. s\<lparr>gt_leaderDeadline := None, gt_leader := None\<rparr>),
     qry_update None None,
     (if v then upd (\<lambda>s. s\<lparr>gt_votedFor := Some node\<rparr>) else ret ()),
     setElectionTimeout now]))"

definition follower_net :: "frame \<Rightarrow> frame \<Rightarrow> pyfloat \<Rightarrow> unit gact" where
  "follower_net cmd f now =
     (if cmd = FB AUTHORITY then follower_authority f now
      else if cmd = FB REQVOTE then follower_reqvote f now
      else if cmd = FB RSPVOTE then setElectionTimeout now
      else ret ())"

definition candidate_reqvote :: "frame \<Rightarrow> pyfloat \<Rightarrow> unit gact" where
  "candidate_reqvote f now = unpacking unpack_req f (\<lambda>(t, node). rd (\<lambda>s. s) (\<lambda>s. seqA [
     (if t = gt_term s then
        (if Some node \<noteq> gt_ownId s then sendVoteTo t node False else ret ())
      else if t > gt_term s then seqA [
        upd (\<lambda>s. s\<lparr>gt_state := FOLLOWER\<rparr>),
        sendVoteTo t node True,
        upd (\<lambda>s. s\<lparr>gt_term := t\<rparr>),
        leaderExits,
        upd (\<lambda>s. s\<lparr>gt_leader := None\<rparr>),
        qry_update None None,
        upd (\<lambda>s. s\<lparr>gt_votedFor := Some node\<rparr>)]
      else ret ()),
     setElectionTimeout now]))"

definition becomeLeader :: "pyfloat \<Rightarrow> unit gact" where
  "becomeLeader now = with_ownId (\<lambda>i. seqA [
     upd (\<lambda>s. s\<lparr>gt_state := LEADER, gt_leader := Some i\<rparr>),
     sendChangeMessage GROUP_LEL i,
     updatePoller,
     upd (\<lambda>s. s\<lparr>gt_ldrPort := ans_portNum s\<rparr>),
     assertAuthority,
     rd gt_groupHeartbeat (\<lambda>hb. setTimeout hb now)])"

definition candidate_rspvote :: "frame \<Rightarrow> pyfloat \<Rightarrow> unit gact" where
  "candidate_rspvote f now = unpacking unpack_vot f (\<lambda>(t, cand, v, node). rd gt_ownId (\<lambda>own.
     if v \<noteq> 0 \<and> Some cand = own then seqA [
       upd (\<lambda>s. s\<lparr>gt_votes := gt_votes s + 1\<rparr>),
       rd (\<lambda>s. s) (\<lambda>s. if gt_votes s \<ge> threshold s then becomeLeader now else ret ())]
     else ret ()))"

definition candidate_authority :: "frame \<Rightarrow> pyfloat \<Rightarrow> unit gact" where
  "candidate_authority f now = unpacking unpack_ldr f (\<lambda>(t, l, h, p). seqA [
     upd (\<lambda>s. s\<lparr>gt_state := FOLLOWER\<rparr>),
     acceptLeader t l,
     qry_update (Some (ipv4_str h)) (Some p),
     setElectionTimeout now,
     setLeaderDeadline])"

definition candidate_net :: "frame \<Rightarrow> frame \<Rightarrow> pyfloat \<Rightarrow> unit gact" where
  "candidate_net cmd f now =
     (if cmd = FB REQVOTE then candidate_reqvote f now
      else if cmd = FB RSPVOTE then candidate_rspvote f now
      else if cmd = FB AUTHORITY then candidate_authority f now
      else ret ())"

text \<open>A leader yields only to the authority of another leader of its own term.\<close>

definition leader_net :: "frame \<Rightarrow> frame \<Rightarrow> pyfloat \<Rightarrow> unit gact" where
  "leader_net cmd f now = rd gt_groupHeartbeat (\<lambda>hb.
     if cmd = FB AUTHORITY then unpacking unpack_ldr f (\<lambda>(t, l, h, p). rd (\<lambda>s. s) (\<lambda>s.
       if gt_term s = t \<and> gt_ownId s \<noteq> Some l then seqA [
         upd (\<lambda>s. s\<lparr>gt_state := FOLLOWER\<rparr>),
         acceptLeader t l,
         qry_update (Some (ipv4_str h)) (Some p),
         bnd electionTimeout (\<lambda>tmo. seqA [setLeaderDeadline, setTimeout tmo now])]
       else setTimeout hb now))
     else setTimeout hb now)"

definition election_net :: "frame \<Rightarrow> frame \<Rightarrow> pyfloat \<Rightarrow> unit gact" where
  "election_net cmd f now = rd gt_state (\<lambda>st. case st of
     FOLLOWER \<Rightarrow> follower_net cmd f now
   | CANDIDATE \<Rightarrow> candidate_net cmd f now
   | LEADER \<Rightarrow> leader_net cmd f now)"

definition handleNetMessage :: "frame list \<Rightarrow> pyfloat \<Rightarrow> unit gact" where
  "handleNetMessage raw now = bnd (lift (recv_frames raw)) (\<lambda>fs.
     let cmd = fs ! 0; f = fs ! 1 in
     if cmd = FB GROUP_MSG then seqA [
       forward GROUP_MSG f,
       rd gt_coordinated (\<lambda>c. whenA c (updateTimeout now))]
     else seqA [
       whenA (cmd = FB GROUP_MLT) (net_leave f),
       rd gt_coordinated (\<lambda>c.
         if c then
           (if cmd = FB HEARTBEAT then net_heartbeat f now
            else if cmd = FB GROUP_RCM then net_leader_msg GROUP_RCM f now
            else if cmd = FB GROUP_ANN then net_leader_msg GROUP_ANN f now
            else election_net cmd f now)
         else ret ())])"

section \<open>Messages between leader and members\<close>

definition handleMessageForLeader :: "capnp \<Rightarrow> frame list \<Rightarrow> unit gact" where
  "handleMessageForLeader cp raw = bnd (recvFromMember raw) (\<lambda>fs.
     let cmd = fs ! 0; msg = fs ! 1 in rd ans_identity (\<lambda>idn.
     let i = (case idn of None \<Rightarrow> [] | Some b \<Rightarrow> b) in
     if cmd = FB GROUP_MTL then rd gt_isTimed (\<lambda>timed.
       if timed then raise TypeError else toComp [FB GROUP_MTL, msg, FB i])
     else if cmd = FB GROUP_RFV then requestPoll cp msg i
     else if cmd = FB GROUP_RTC then updatePoll cp msg
     else ret ()))"

definition handleMessageForMember :: "frame list \<Rightarrow> unit gact" where
  "handleMessageForMember raw = bnd (lift (recv_frames raw)) (\<lambda>fs.
     if fs ! 0 = FB GROUP_MFL then forward GROUP_MFL (fs ! 1) else ret ())"

section \<open>Set-up and main loop\<close>

text \<open>
  \<open>GroupThread.__init__\<close>, \<open>setup\<close> and the part of \<open>run\<close> before the loop. The identity is the
  actor's followed by the eight bytes of the group object's \<open>id()\<close>.
\<close>

record gconfig =
  cf_kind :: string
  cf_timed :: bool
  cf_host :: int
  cf_actorId :: bytes
  cf_objId :: bytes
  cf_groupSize :: int
  cf_heartbeat :: int
  cf_electionMin :: int
  cf_electionMax :: int
  cf_peerTimeout :: int
  cf_consensusTimeout :: int

definition gthread_init :: "gconfig \<Rightarrow> gthread" where
  "gthread_init c = \<lparr> gt_coordinated = (cf_kind c \<noteq> ''default''), gt_isTimed = cf_timed c,
     gt_host = cf_host c, gt_ldrPort = None, gt_groupSize = cf_groupSize c,
     gt_groupHeartbeat = cf_heartbeat c, gt_electionMin = cf_electionMin c,
     gt_electionMax = cf_electionMax c, gt_peerTimeout = cf_peerTimeout c,
     gt_consensusTimeout = cf_consensusTimeout c, gt_timeout = None, gt_leaderDeadline = None,
     gt_numPeers = - 1, gt_leader = None, gt_ownId = None, gt_peers = [], gt_lastWait = 0,
     gt_lastHeartbeat = 0, gt_term = 0, gt_votes = 0, gt_votedFor = None, gt_polls = [],
     gt_state = FOLLOWER, sub_servers = [], qry_host = None, qry_port = None,
     ans_identity = None, ans_portNum = None, pub_err = None, grp_err = None, qry_err = None,
     ans_err = None, env_time = 0, env_elec = 0, env_ldr = 0, env_port = 0, gt_out = [] \<rparr>"

definition gthread_setup :: "gconfig \<Rightarrow> unit gact" where
  "gthread_setup c = rd gt_coordinated (\<lambda>co. if co then seqA [
     upd (\<lambda>s. s\<lparr>gt_ownId := Some (cf_actorId c @ cf_objId c)\<rparr>),
     assertA (length (cf_actorId c @ cf_objId c) = 16),
     upd (\<lambda>s. s\<lparr>gt_peers := [], gt_numPeers := 0, gt_timeout := Some (gt_groupHeartbeat s)\<rparr>),
     setLeaderDeadline,
     upd (\<lambda>s. s\<lparr>gt_lastWait := 0, gt_lastHeartbeat := 0, gt_term := 0, gt_votes := 0,
                gt_votedFor := None, gt_leader := None, gt_polls := []\<rparr>)]
   else ret ())"

definition gthread_start :: "gconfig \<Rightarrow> unit gact" where
  "gthread_start c = seqA [
     gthread_setup c,
     rd (\<lambda>s. s) (\<lambda>s. if gt_coordinated s then seqA [
       upd (\<lambda>s. s\<lparr>gt_state := FOLLOWER, gt_lastWait := env_time s, gt_lastHeartbeat := 0\<rparr>),
       heartbeat (env_time s),
       upd (\<lambda>s. s\<lparr>gt_timeout := Some (gt_groupHeartbeat s), gt_leader := None\<rparr>),
       setLeaderDeadline]
     else upd (\<lambda>s. s\<lparr>gt_timeout := None\<rparr>))]"

text \<open>
  One round of the loop: the environment (clock, draws, socket errors) and the messages that the
  poller found, none at all for a timeout. The answer is \<open>toStop\<close>.
\<close>

record round =
  ev_time :: pyfloat
  ev_elec :: nat
  ev_ldr :: nat
  ev_port :: int
  ev_pub_err :: "int option"
  ev_grp_err :: "int option"
  ev_qry_err :: "int option"
  ev_ans_err :: "int option"
  ev_comp :: "frame list option"
  ev_net :: "frame list option"
  ev_ans :: "frame list option"
  ev_qry :: "frame list option"

definition set_env :: "round \<Rightarrow> gthread \<Rightarrow> gthread" where
  "set_env r s = s\<lparr>env_time := ev_time r, env_elec := ev_elec r, env_ldr := ev_ldr r,
     env_port := ev_port r, pub_err := ev_pub_err r, grp_err := ev_grp_err r,
     qry_err := ev_qry_err r, ans_err := ev_ans_err r\<rparr>"

definition dispatch :: "'m option \<Rightarrow> ('m \<Rightarrow> unit gact) \<Rightarrow> unit gact" where
  "dispatch m h = (case m of None \<Rightarrow> ret () | Some x \<Rightarrow> h x)"

definition no_events :: "round \<Rightarrow> bool" where
  "no_events r \<longleftrightarrow> ev_comp r = None \<and> ev_net r = None \<and> ev_ans r = None \<and> ev_qry r = None"

definition run_round :: "capnp \<Rightarrow> round \<Rightarrow> bool gact" where
  "run_round cp r = bnd (upd (set_env r)) (\<lambda>_. rd gt_coordinated (\<lambda>co.
     let now = ev_time r in
     bnd (whenA co (seqA [heartbeat now, updatePeers now])) (\<lambda>_.
     if no_events r \<and> co then bnd (handleTimeout cp now) (\<lambda>_. ret False)
     else bnd (case ev_comp r of None \<Rightarrow> ret False | Some fs \<Rightarrow> handleCompMessage cp fs) (\<lambda>toStop.
       bnd (dispatch (ev_net r) (\<lambda>fs. handleNetMessage fs now)) (\<lambda>_.
       bnd (whenA co (seqA [
         dispatch (ev_ans r) (handleMessageForLeader cp),
         dispatch (ev_qry r) handleMessageForMember])) (\<lambda>_. ret toStop))))))"

text \<open>
  The loop over the rounds still to come: it stops when the component leaves (True) or when the
  rounds are used up (False); an exception ends the thread.
\<close>

fun run_loop :: "capnp \<Rightarrow> round list \<Rightarrow> bool gact" where
  "run_loop cp [] = ret False"
| "run_loop cp (r # rs) = bnd (run_round cp r) (\<lambda>stop. if stop then ret True else run_loop cp rs)"

end
