(* ===== verification/DcElection.thy ===== *)
theory DcElection
  imports DcHandlers
begin

text \<open>
  The consistency of a coordinated group thread (\<open>riaps/run/dc.py\<close>, class \<open>GroupThread\<close>): the
  invariant \<open>gt_inv\<close> relates role, leader, votes, membership and timeout; every handler keeps it,
  so it holds after any number of rounds of the main loop.
\<close>

section \<open>Elementary operations, symbolically\<close>

lemma wp_emit [wp_simps]: "wp (emit x) Q E s = Q () (s\<lparr>gt_out := gt_out s @ [x]\<rparr>)"
  by (simp add: emit_def wp_simps split: option.split sum.split)

lemma wp_sendGroup [wp_simps]: "wp (sendGroup c m) Q E s =
    (case pub_err s of Some n \<Rightarrow> E (PortError n) s
     | None \<Rightarrow> Q () (s\<lparr>gt_out := gt_out s @ [PubSend ([FB c, m] @ stamp s)]\<rparr>))"
  by (simp add: sendGroup_def wp_simps split: option.split sum.split)

lemma wp_toComp [wp_simps]: "wp (toComp fs) Q E s =
    (case grp_err s of Some n \<Rightarrow> E (ZMQError n) s
     | None \<Rightarrow> Q () (s\<lparr>gt_out := gt_out s @ [ToComp fs]\<rparr>))"
  by (simp add: toComp_def wp_simps split: option.split sum.split)

lemma wp_setTimeout [wp_simps]:
  "wp (setTimeout v now) Q E s = Q () (s\<lparr>gt_timeout := Some v, gt_lastWait := now\<rparr>)"
  by (simp add: setTimeout_def wp_simps split: option.split sum.split)

lemma wp_electionTimeout [wp_simps]: "wp electionTimeout Q E s =
    (case randrange (gt_electionMin s) (gt_electionMax s) (env_elec s) of
       Inl e \<Rightarrow> E e s | Inr v \<Rightarrow> Q v s)"
  by (simp add: electionTimeout_def wp_simps split: option.split sum.split)

lemma wp_setElectionTimeout [wp_simps]: "wp (setElectionTimeout now) Q E s =
    (case randrange (gt_electionMin s) (gt_electionMax s) (env_elec s) of
       Inl e \<Rightarrow> E e s | Inr v \<Rightarrow> Q () (s\<lparr>gt_timeout := Some v, gt_lastWait := now\<rparr>))"
  by (simp add: setElectionTimeout_def wp_simps split: option.split sum.split)

lemma wp_setLeaderDeadline [wp_simps]: "wp setLeaderDeadline Q E s =
    (case randrange (gt_electionMax s) (gt_peerTimeout s) (env_ldr s) of
       Inl e \<Rightarrow> E e s
     | Inr v \<Rightarrow> Q () (s\<lparr>gt_leaderDeadline := Some (env_time s + of_int v / 1000)\<rparr>))"
  by (simp add: setLeaderDeadline_def wp_simps split: option.split sum.split)

lemma wp_with_ownId [wp_simps]: "wp (with_ownId k) Q E s =
    (case gt_ownId s of None \<Rightarrow> E StructError s | Some i \<Rightarrow> wp (k i) Q E s)"
  by (simp add: with_ownId_def wp_simps split: option.split sum.split)

lemma wp_unpacking [wp_simps]: "wp (unpacking u f k) Q E s =
    (case frame_bytes f of Inl e \<Rightarrow> E e s | Inr b \<Rightarrow>
      (case u b of Inl e \<Rightarrow> E e s | Inr v \<Rightarrow> wp (k v) Q E s))"
  by (simp add: unpacking_def wp_simps split: option.split sum.split)

text \<open>
  Operations that touch nothing but the ports and the record of effects: they keep every property
  of the protocol state.
\<close>

definition proto_eq :: "gthread \<Rightarrow> gthread \<Rightarrow> bool" where
  "proto_eq s t \<longleftrightarrow> gt_coordinated t = gt_coordinated s \<and> gt_isTimed t = gt_isTimed s \<and>
     gt_ldrPort t = gt_ldrPort s \<and> gt_host t = gt_host s \<and>
     gt_groupSize t = gt_groupSize s \<and> gt_groupHeartbeat t = gt_groupHeartbeat s \<and>
     gt_electionMin t = gt_electionMin s \<and> gt_electionMax t = gt_electionMax s \<and>
     gt_peerTimeout t = gt_peerTimeout s \<and> gt_consensusTimeout t = gt_consensusTimeout s \<and>
     gt_timeout t = gt_timeout s \<and> gt_leaderDeadline t = gt_leaderDeadline s \<and>
     gt_numPeers t = gt_numPeers s \<and> gt_leader t = gt_leader s \<and> gt_ownId t = gt_ownId s \<and>
     gt_peers t = gt_peers s \<and> gt_term t = gt_term s \<and> gt_votes t = gt_votes s \<and>
     gt_votedFor t = gt_votedFor s \<and> gt_state t = gt_state s"

lemma proto_eq_refl [simp]: "proto_eq s s"
  by (simp add: proto_eq_def)

lemma proto_eq_trans: "proto_eq s t \<Longrightarrow> proto_eq t u \<Longrightarrow> proto_eq s u"
  by (auto simp: proto_eq_def)

lemma wp_qry_update: "wp (qry_update h p) (\<lambda>_. proto_eq s) (\<lambda>_ _. True) s"
  by (auto simp: qry_update_def wp_simps proto_eq_def split: option.split)

section \<open>The invariant\<close>

definition timing_ok :: "gthread \<Rightarrow> bool" where
  "timing_ok s \<longleftrightarrow> 0 < gt_groupHeartbeat s \<and> gt_groupHeartbeat s < gt_electionMin s \<and>
     gt_electionMin s < gt_electionMax s \<and> gt_electionMax s < gt_peerTimeout s"

definition identity_ok :: "gthread \<Rightarrow> bool" where
  "identity_ok s \<longleftrightarrow> gt_coordinated s \<and> (\<exists>i. gt_ownId s = Some i \<and> length i = 16)"

definition members_ok :: "gthread \<Rightarrow> bool" where
  "members_ok s \<longleftrightarrow> distinct (dkeys (gt_peers s)) \<and> gt_numPeers s = int (length (gt_peers s))"

definition role_ok :: "gthread \<Rightarrow> bool" where
  "role_ok s \<longleftrightarrow>
     (gt_state s = LEADER \<longrightarrow> gt_leader s = gt_ownId s \<and> gt_ldrPort s \<noteq> None) \<and>
     (gt_state s = CANDIDATE \<longrightarrow> gt_leader s = None \<and> gt_votedFor s = gt_ownId s \<and> 1 \<le> gt_votes s)"

definition timeout_ok :: "gthread \<Rightarrow> bool" where
  "timeout_ok s \<longleftrightarrow> (\<exists>t. gt_timeout s = Some t \<and> 1 \<le> t)"

definition gt_inv :: "gthread \<Rightarrow> bool" where
  "gt_inv s \<longleftrightarrow> timing_ok s \<and> identity_ok s \<and> members_ok s \<and> role_ok s \<and> timeout_ok s"

lemmas gt_inv_defs = gt_inv_def timing_ok_def identity_ok_def members_ok_def role_ok_def
  timeout_ok_def

text \<open>Each part of the invariant depends on its own fields only.\<close>

lemma timing_ok_frame [simp]:
  "timing_ok (s\<lparr>gt_ldrPort := xldrPort\<rparr>) = timing_ok s"
  "timing_ok (s\<lparr>gt_timeout := xtimeout\<rparr>) = timing_ok s"
  "timing_ok (s\<lparr>gt_leaderDeadline := xleaderDeadline\<rparr>) = timing_ok s"
  "timing_ok (s\<lparr>gt_numPeers := xnumPeers\<rparr>) = timing_ok s"
  "timing_ok (s\<lparr>gt_leader := xleader\<rparr>) = timing_ok s"
  "timing_ok (s\<lparr>gt_peers := xpeers\<rparr>) = timing_ok s"
  "timing_ok (s\<lparr>gt_lastWait := xlastWait\<rparr>) = timing_ok s"
  "timing_ok (s\<lparr>gt_lastHeartbeat := xlastHeartbeat\<rparr>) = timing_ok s"
  "timing_ok (s\<lparr>gt_term := xterm\<rparr>) = timing_ok s"
  "timing_ok (s\<lparr>gt_votes := xvotes\<rparr>) = timing_ok s"
  "timing_ok (s\<lparr>gt_votedFor := xvotedFor\<rparr>) = timing_ok s"
  "timing_ok (s\<lparr>gt_polls := xpolls\<rparr>) = timing_ok s"
  "timing_ok (s\<lparr>gt_state := xstate\<rparr>) = timing_ok s"
  "timing_ok (s\<lparr>sub_servers := xservers\<rparr>) = timing_ok s"
  "timing_ok (s\<lparr>qry_host := xhost\<rparr>) = timing_ok s"
  "timing_ok (s\<lparr>qry_port := xport\<rparr>) = timing_ok s"
  "timing_ok (s\<lparr>ans_identity := xidentity\<rparr>) = timing_ok s"
  "timing_ok (s\<lparr>ans_portNum := xportNum\<rparr>) = timing_ok s"
  "timing_ok (s\<lparr>gt_out := xout\<rparr>) = timing_ok s"
  by (simp_all add: timing_ok_def)

lemma identity_ok_frame [simp]:
  "identity_ok (s\<lparr>gt_ldrPort := xldrPort\<rparr>) = identity_ok s"
  "identity_ok (s\<lparr>gt_timeout := xtimeout\<rparr>) = identity_ok s"
  "identity_ok (s\<lparr>gt_leaderDeadline := xleaderDeadline\<rparr>) = identity_ok s"
  "identity_ok (s\<lparr>gt_numPeers := xnumPeers\<rparr>) = identity_ok s"
  "identity_ok (s\<lparr>gt_leader := xleader\<rparr>) = identity_ok s"
  "identity_ok (s\<lparr>gt_peers := xpeers\<rparr>) = identity_ok s"
  "identity_ok (s\<lparr>gt_lastWait := xlastWait\<rparr>) = identity_ok s"
  "identity_ok (s\<lparr>gt_lastHeartbeat := xlastHeartbeat\<rparr>) = identity_ok s"
  "identity_ok (s\<lparr>gt_term := xterm\<rparr>) = identity_ok s"
  "identity_ok (s\<lparr>gt_votes := xvotes\<rparr>) = identity_ok s"
  "identity_ok (s\<lparr>gt_votedFor := xvotedFor\<rparr>) = identity_ok s"
  "identity_ok (s\<lparr>gt_polls := xpolls\<rparr>) = identity_ok s"
  "identity_ok (s\<lparr>gt_state := xstate\<rparr>) = identity_ok s"
  "identity_ok (s\<lparr>sub_servers := xservers\<rparr>) = identity_ok s"
  "identity_ok (s\<lparr>qry_host := xhost\<rparr>) = identity_ok s"
  "identity_ok (s\<lparr>qry_port := xport\<rparr>) = identity_ok s"
  "identity_ok (s\<lparr>ans_identity := xidentity\<rparr>) = identity_ok s"
  "identity_ok (s\<lparr>ans_portNum := xportNum\<rparr>) = identity_ok s"
  "identity_ok (s\<lparr>gt_out := xout\<rparr>) = identity_ok s"
  by (simp_all add: identity_ok_def)

lemma members_ok_frame [simp]:
  "members_ok (s\<lparr>gt_ldrPort := xldrPort\<rparr>) = members_ok s"
  "members_ok (s\<lparr>gt_timeout := xtimeout\<rparr>) = members_ok s"
  "members_ok (s\<lparr>gt_leaderDeadline := xleaderDeadline\<rparr>) = members_ok s"
  "members_ok (s\<lparr>gt_leader := xleader\<rparr>) = members_ok s"
  "members_ok (s\<lparr>gt_lastWait := xlastWait\<rparr>) = members_ok s"
  "members_ok (s\<lparr>gt_lastHeartbeat := xlastHeartbeat\<rparr>) = members_ok s"
  "members_ok (s\<lparr>gt_term := xterm\<rparr>) = members_ok s"
  "members_ok (s\<lparr>gt_votes := xvotes\<rparr>) = members_ok s"
  "members_ok (s\<lparr>gt_votedFor := xvotedFor\<rparr>) = members_ok s"
  "members_ok (s\<lparr>gt_polls := xpolls\<rparr>) = members_ok s"
  "members_ok (s\<lparr>gt_state := xstate\<rparr>) = members_ok s"
  "members_ok (s\<lparr>sub_servers := xservers\<rparr>) = members_ok s"
  "members_ok (s\<lparr>qry_host := xhost\<rparr>) = members_ok s"
  "members_ok (s\<lparr>qry_port := xport\<rparr>) = members_ok s"
  "members_ok (s\<lparr>ans_identity := xidentity\<rparr>) = members_ok s"
  "members_ok (s\<lparr>ans_portNum := xportNum\<rparr>) = members_ok s"
  "members_ok (s\<lparr>gt_out := xout\<rparr>) = members_ok s"
  by (simp_all add: members_ok_def)

lemma role_ok_frame [simp]:
  "role_ok (s\<lparr>gt_timeout := xtimeout\<rparr>) = role_ok s"
  "role_ok (s\<lparr>gt_leaderDeadline := xleaderDeadline\<rparr>) = role_ok s"
  "role_ok (s\<lparr>gt_numPeers := xnumPeers\<rparr>) = role_ok s"
  "role_ok (s\<lparr>gt_peers := xpeers\<rparr>) = role_ok s"
  "role_ok (s\<lparr>gt_lastWait := xlastWait\<rparr>) = role_ok s"
  "role_ok (s\<lparr>gt_lastHeartbeat := xlastHeartbeat\<rparr>) = role_ok s"
  "role_ok (s\<lparr>gt_term := xterm\<rparr>) = role_ok s"
  "role_ok (s\<lparr>gt_polls := xpolls\<rparr>) = role_ok s"
  "role_ok (s\<lparr>sub_servers := xservers\<rparr>) = role_ok s"
  "role_ok (s\<lparr>qry_host := xhost\<rparr>) = role_ok s"
  "role_ok (s\<lparr>qry_port := xport\<rparr>) = role_ok s"
  "role_ok (s\<lparr>ans_identity := xidentity\<rparr>) = role_ok s"
  "role_ok (s\<lparr>ans_portNum := xportNum\<rparr>) = role_ok s"
  "role_ok (s\<lparr>gt_out := xout\<rparr>) = role_ok s"
  by (simp_all add: role_ok_def)

lemma timeout_ok_frame [simp]:
  "timeout_ok (s\<lparr>gt_ldrPort := xldrPort\<rparr>) = timeout_ok s"
  "timeout_ok (s\<lparr>gt_leaderDeadline := xleaderDeadline\<rparr>) = timeout_ok s"
  "timeout_ok (s\<lparr>gt_numPeers := xnumPeers\<rparr>) = timeout_ok s"
  "timeout_ok (s\<lparr>gt_leader := xleader\<rparr>) = timeout_ok s"
  "timeout_ok (s\<lparr>gt_peers := xpeers\<rparr>) = timeout_ok s"
  "timeout_ok (s\<lparr>gt_lastWait := xlastWait\<rparr>) = timeout_ok s"
  "timeout_ok (s\<lparr>gt_lastHeartbeat := xlastHeartbeat\<rparr>) = timeout_ok s"
  "timeout_ok (s\<lparr>gt_term := xterm\<rparr>) = timeout_ok s"
  "timeout_ok (s\<lparr>gt_votes := xvotes\<rparr>) = timeout_ok s"
  "timeout_ok (s\<lparr>gt_votedFor := xvotedFor\<rparr>) = timeout_ok s"
  "timeout_ok (s\<lparr>gt_polls := xpolls\<rparr>) = timeout_ok s"
  "timeout_ok (s\<lparr>gt_state := xstate\<rparr>) = timeout_ok s"
  "timeout_ok (s\<lparr>sub_servers := xservers\<rparr>) = timeout_ok s"
  "timeout_ok (s\<lparr>qry_host := xhost\<rparr>) = timeout_ok s"
  "timeout_ok (s\<lparr>qry_port := xport\<rparr>) = timeout_ok s"
  "timeout_ok (s\<lparr>ans_identity := xidentity\<rparr>) = timeout_ok s"
  "timeout_ok (s\<lparr>ans_portNum := xportNum\<rparr>) = timeout_ok s"
  "timeout_ok (s\<lparr>gt_out := xout\<rparr>) = timeout_ok s"
  by (simp_all add: timeout_ok_def)


lemma gt_inv_proto_eq: "proto_eq s t \<Longrightarrow> gt_inv t = gt_inv s"
  by (auto simp: proto_eq_def gt_inv_defs)

lemma election_draw: "randrange a b d = Inr n \<Longrightarrow> 1 \<le> a \<Longrightarrow> 1 \<le> n"
  using randrange_range by fastforce

text \<open>Every handler is shown to keep the invariant when it returns normally.\<close>

abbreviation keeps :: "unit gact \<Rightarrow> gthread \<Rightarrow> bool" where
  "keeps m s \<equiv> wp m (\<lambda>_. gt_inv) (\<lambda>_ _. True) s"

lemma keeps_proto: "wp m (\<lambda>_. proto_eq s) (\<lambda>_ _. True) s \<Longrightarrow> gt_inv s \<Longrightarrow>
    wp m (\<lambda>_. gt_inv) (\<lambda>_ _. True) s"
  by (auto elim!: wp_mono simp: gt_inv_proto_eq)

lemma keeps_toComp [simp]: "gt_inv s \<Longrightarrow> keeps (toComp fs) s"
  by (auto simp: wp_simps gt_inv_defs split: option.split)

lemma keeps_sendGroup [simp]: "gt_inv s \<Longrightarrow> keeps (sendGroup c m) s"
  by (auto simp: wp_simps gt_inv_defs split: option.split)

lemma keeps_setTimeout [simp]: "gt_inv s \<Longrightarrow> 1 \<le> v \<Longrightarrow> keeps (setTimeout v now) s"
  by (auto simp: wp_simps gt_inv_defs)

lemma keeps_setElectionTimeout [simp]: "gt_inv s \<Longrightarrow> keeps (setElectionTimeout now) s"
  by (auto simp: wp_simps gt_inv_defs dest!: election_draw split: sum.split)

lemma keeps_setLeaderDeadline [simp]: "gt_inv s \<Longrightarrow> keeps setLeaderDeadline s"
  by (auto simp: wp_simps gt_inv_defs split: sum.split)

lemma keeps_qry_update [simp]: "gt_inv s \<Longrightarrow> keeps (qry_update h p) s"
  by (rule keeps_proto [OF wp_qry_update])

lemma keeps_heartbeat [simp]: "gt_inv s \<Longrightarrow> keeps (heartbeat now) s"
  by (auto simp: heartbeat_def wp_simps gt_inv_defs pack_id_def split: option.split)

lemma keeps_updateTimeout [simp]: "gt_inv s \<Longrightarrow> keeps (updateTimeout now) s"
  by (auto simp: updateTimeout_def wp_simps gt_inv_defs)

lemma keeps_leaderExits [simp]: "gt_inv s \<Longrightarrow> keeps leaderExits s"
  by (auto simp: leaderExits_def sendChangeMessage_def wp_rd wp_case_option wp_ret
      split: option.split)

lemma keeps_ret [simp]: "gt_inv s \<Longrightarrow> keeps (ret x) s"
  by (simp add: wp_simps)

lemma keeps_if [simp]: "(b \<Longrightarrow> keeps m s) \<Longrightarrow> (\<not> b \<Longrightarrow> keeps n s) \<Longrightarrow> keeps (if b then m else n) s"
  by simp

lemma keeps_whenA [simp]: "gt_inv s \<Longrightarrow> (b \<Longrightarrow> keeps m s) \<Longrightarrow> keeps (whenA b m) s"
  by (simp add: wp_simps)

subsection \<open>Membership\<close>

lemma length_delete_members:
  "distinct (dkeys d) \<Longrightarrow> has_key d k \<Longrightarrow> length (AList.delete k d) < length d"
  by (induction d) (auto simp: AList.delete_eq le_imp_less_Suc split: if_splits)

lemma keeps_updatePeers [simp]: "gt_inv s \<Longrightarrow> keeps (updatePeers now) s"
proof -
  assume inv: "gt_inv s"
  let ?J = "\<lambda>t. gt_inv (t\<lparr>gt_numPeers := int (length (gt_peers t))\<rparr>)"
  have body: "wp (seqA [sendChangeMessage GROUP_MLT p,
      upd (\<lambda>s. s\<lparr>gt_peers := AList.delete p (gt_peers s)\<rparr>)]) (\<lambda>_. ?J) (\<lambda>_ _. True) t"
    if "?J t" for p t
    using that by (auto simp: sendChangeMessage_def wp_simps gt_inv_defs split: option.split)
  have start: "?J s" using inv by (auto simp: gt_inv_defs)
  have loop: "wp (forA ps (\<lambda>p. seqA [sendChangeMessage GROUP_MLT p,
      upd (\<lambda>s. s\<lparr>gt_peers := AList.delete p (gt_peers s)\<rparr>)])) (\<lambda>_. ?J) (\<lambda>_ _. True) s" for ps
    by (rule wp_forA_inv) (rule start, rule body)
  show ?thesis
    unfolding updatePeers_def wp_rd Let_def wp_if wp_ret wp_seqA_Cons
    using inv by (auto simp: wp_upd wp_seqA_Nil intro!: wp_mono [OF loop])
qed

lemma keeps_net_leave [simp]: "gt_inv s \<Longrightarrow> keeps (net_leave f) s"
  unfolding net_leave_def sendChangeMessage_def
  by (auto simp: wp_simps gt_inv_defs split: sum.split option.split)

lemma distinct_dkeys_update: "distinct (dkeys d) \<Longrightarrow> distinct (dkeys (AList.update k v d))"
  by (rule AList.distinct_update)

lemma keeps_net_heartbeat [simp]: "gt_inv s \<Longrightarrow> keeps (net_heartbeat f now) s"
  unfolding net_heartbeat_def sendChangeMessage_def updateTimeout_def
  by (auto simp: wp_simps gt_inv_defs distinct_dkeys_update split: sum.split option.split)

subsection \<open>Election\<close>

text \<open>
  While a follower turns candidate, it is a candidate in all but the leader it has not yet
  forgotten: \<open>gt_inv\<close> holds of the state without its leader.
\<close>

definition forgets :: "gthread \<Rightarrow> bool" where
  "forgets s \<longleftrightarrow> gt_inv (s\<lparr>gt_leader := None\<rparr>)"

lemma forgets_proto: "wp m (\<lambda>_. proto_eq s) (\<lambda>_ _. True) s \<Longrightarrow> forgets s \<Longrightarrow>
    wp m (\<lambda>_. forgets) (\<lambda>_ _. True) s"
  by (erule wp_mono) (auto simp: forgets_def proto_eq_def gt_inv_defs)

lemma wp_proto_send:
  "wp (with_ownId (\<lambda>i. rd gt_term (\<lambda>t. bnd (lift (pack_req (t, i))) (\<lambda>msg.
     sendGroup REQVOTE (FB msg))))) (\<lambda>_. proto_eq s) (\<lambda>_ _. True) s"
  by (auto simp: wp_simps proto_eq_def split: option.split sum.split)

lemma forgets_setElectionTimeout:
  "forgets s \<Longrightarrow> wp (setElectionTimeout now) (\<lambda>_. forgets) (\<lambda>_ _. True) s"
  by (auto simp: wp_simps forgets_def gt_inv_def timing_ok_def timeout_ok_def role_ok_def
      dest!: election_draw split: sum.split)

lemma keeps_startElection [simp]: "gt_inv s \<Longrightarrow> keeps (startElection now) s"
  unfolding startElection_def
proof (rule wp_seqA_ConsI [where J = gt_inv, OF keeps_leaderExits],
    assumption, rule wp_seqA_ConsI [where J = forgets],
    goal_cases)
  case (1 t)
  then show ?case by (auto simp: wp_upd forgets_def gt_inv_def role_ok_def)
next
  case (2 t u)
  then have u: "forgets u" by simp
  show ?case
    by (rule wp_seqA_ConsI [where J = forgets, OF forgets_proto [OF wp_qry_update u]],
        rule wp_seqA_ConsI [where J = forgets], erule forgets_proto [OF wp_proto_send],
        rule wp_seqA_ConsI [where J = forgets], erule forgets_setElectionTimeout)
      (auto simp: wp_seqA_Cons wp_seqA_Nil wp_upd forgets_def gt_inv_def role_ok_def)
qed

lemma keeps_followerTimeout [simp]: "gt_inv s \<Longrightarrow> keeps (followerTimeout now) s"
proof -
  assume inv: "gt_inv s"
  have hb: "1 \<le> gt_groupHeartbeat s" using inv by (auto simp: gt_inv_defs)
  have retry: "keeps (seqA [setLeaderDeadline, setTimeout (gt_groupHeartbeat s) now]) s"
    by (rule wp_seqA_inv [where I = gt_inv]) (use hb inv in auto)
  show ?thesis
    unfolding followerTimeout_def
    by (auto simp: wp_rd wp_case_option wp_if inv hb retry split: option.split)
qed

lemma keeps_candidateTimeout [simp]: "gt_inv s \<Longrightarrow> keeps (candidateTimeout now) s"
  unfolding candidateTimeout_def leaderExits_def sendChangeMessage_def
  by (auto simp: wp_simps gt_inv_def role_ok_def timeout_ok_def timing_ok_def split: option.split)

lemma keeps_assertAuthority [simp]: "gt_inv s \<Longrightarrow> keeps assertAuthority s"
  unfolding assertAuthority_def
  by (auto simp: wp_simps gt_inv_def role_ok_def timeout_ok_def split: option.split sum.split)

lemma keeps_leaderTimeout [simp]: "gt_inv s \<Longrightarrow> keeps (leaderTimeout now) s"
proof -
  assume inv: "gt_inv s"
  have hb: "1 \<le> gt_groupHeartbeat s" using inv by (auto simp: gt_inv_defs)
  have reset: "keeps (upd (\<lambda>s. s\<lparr>gt_leaderDeadline := None\<rparr>)) t" if "gt_inv t" for t
    using that by (auto simp: wp_upd gt_inv_def role_ok_def timeout_ok_def)
  show ?thesis
    unfolding leaderTimeout_def wp_rd
    by (rule wp_seqA_inv [where I = gt_inv]) (use inv hb reset in \<open>auto simp: wp_assertA\<close>)
qed

lemma keeps_acceptLeader: "gt_inv s \<Longrightarrow> gt_state s = FOLLOWER \<Longrightarrow> keeps (acceptLeader t l) s"
  unfolding acceptLeader_def sendChangeMessage_def
  by (auto simp: wp_simps gt_inv_def role_ok_def timeout_ok_def split: option.split)

subsection \<open>Messages of the group\<close>

text \<open>A follower may change its leader and its vote freely; a thread that steps down becomes one.\<close>

definition follows :: "gthread \<Rightarrow> bool" where
  "follows s \<longleftrightarrow> timing_ok s \<and> identity_ok s \<and> members_ok s \<and> timeout_ok s \<and> gt_state s = FOLLOWER"

lemma follows_gt_inv: "follows s \<Longrightarrow> gt_inv s"
  by (simp add: follows_def gt_inv_def role_ok_def)

lemma gt_inv_follows: "gt_inv s \<Longrightarrow> gt_state s = FOLLOWER \<Longrightarrow> follows s"
  by (simp add: follows_def gt_inv_def)

abbreviation stays :: "unit gact \<Rightarrow> gthread \<Rightarrow> bool" where
  "stays m s \<equiv> wp m (\<lambda>_. follows) (\<lambda>_ _. True) s"

lemma stays_keeps: "stays m s \<Longrightarrow> keeps m s"
  by (erule wp_mono) (auto simp: follows_gt_inv)

lemma stays_seqA: "follows s \<Longrightarrow> (\<And>m t. m \<in> set ms \<Longrightarrow> follows t \<Longrightarrow> stays m t) \<Longrightarrow> stays (seqA ms) s"
  by (rule wp_seqA_inv [where I = follows])

lemma follows_ops [simp]:
  assumes "follows s"
  shows "stays (toComp fs) s" "stays (sendGroup c m) s" "stays (setElectionTimeout now) s"
    "stays setLeaderDeadline s" "stays leaderExits s" "stays (sendVoteTo t n v) s" "stays (ret ()) s"
    "stays (upd (gt_term_update f)) s"
    "stays (upd (gt_votedFor_update g)) s"
    "stays (upd (gt_leader_update g)) s"
    "stays (upd (\<lambda>s. s\<lparr>gt_leaderDeadline := d, gt_leader := l\<rparr>)) s"
    "stays (upd (\<lambda>s. s\<lparr>gt_term := k, gt_leader := l\<rparr>)) s"
  using assms
  by (auto simp: follows_def wp_simps leaderExits_def sendChangeMessage_def sendVoteTo_def
      timeout_ok_def timing_ok_def identity_ok_def members_ok_def
      dest!: election_draw split: option.split sum.split)

lemma stays_qry_update [simp]: "follows s \<Longrightarrow> stays (qry_update h p) s"
  by (rule wp_mono [OF wp_qry_update]) (auto simp: proto_eq_def follows_def gt_inv_defs)

lemma stays_acceptLeader [simp]: "follows s \<Longrightarrow> stays (acceptLeader t l) s"
  unfolding acceptLeader_def wp_rd sendChangeMessage_def
  by (rule stays_seqA) (auto simp: wp_whenA)

lemma stays_unpacking: "(\<And>v. stays (k v) s) \<Longrightarrow> stays (unpacking u f k) s"
  by (auto simp: wp_simps split: sum.split)

lemma keeps_unpacking: "(\<And>v. keeps (k v) s) \<Longrightarrow> keeps (unpacking u f k) s"
  by (auto simp: wp_simps split: sum.split)

lemma stays_follower_authority: "follows s \<Longrightarrow> stays (follower_authority f now) s"
  unfolding follower_authority_def
  by (rule stays_unpacking) (auto split: prod.split intro!: stays_seqA)

lemma stays_follower_reqvote: "follows s \<Longrightarrow> stays (follower_reqvote f now) s"
  unfolding follower_reqvote_def
  by (rule stays_unpacking) (auto simp: wp_rd Let_def split: prod.split intro!: stays_seqA)

lemma keeps_follower_net: "gt_inv s \<Longrightarrow> gt_state s = FOLLOWER \<Longrightarrow> keeps (follower_net cmd f now) s"
  unfolding follower_net_def
  by (auto simp: gt_inv_follows intro!: stays_keeps stays_follower_authority stays_follower_reqvote)

text \<open>A step down: from now on only the follower's conditions matter.\<close>

lemma stays_step_down: "gt_inv s \<Longrightarrow> stays (upd (gt_state_update (\<lambda>_. FOLLOWER))) s"
  by (simp add: wp_upd follows_def gt_inv_def)

lemma keeps_step_down:
  "gt_inv s \<Longrightarrow> (\<And>m t. m \<in> set ms \<Longrightarrow> follows t \<Longrightarrow> stays m t) \<Longrightarrow>
    keeps (seqA (upd (gt_state_update (\<lambda>_. FOLLOWER)) # ms)) s"
  by (rule stays_keeps, rule wp_seqA_ConsI [where J = follows])
    (auto intro: stays_step_down stays_seqA)

lemma keeps_sendVoteTo [simp]: "gt_inv s \<Longrightarrow> keeps (sendVoteTo t n v) s"
  unfolding sendVoteTo_def
  by (auto simp: wp_simps gt_inv_def role_ok_def timeout_ok_def split: option.split sum.split)

lemma keeps_candidate_reqvote: "gt_inv s \<Longrightarrow> keeps (candidate_reqvote f now) s"
proof -
  assume inv: "gt_inv s"
  have ans: "keeps (if t = gt_term s then
        (if Some node \<noteq> gt_ownId s then sendVoteTo t node False else ret ())
      else if t > gt_term s then seqA [
        upd (\<lambda>s. s\<lparr>gt_state := FOLLOWER\<rparr>),
        sendVoteTo t node True,
        upd (\<lambda>s. s\<lparr>gt_term := t\<rparr>),
        leaderExits,
        upd (\<lambda>s. s\<lparr>gt_leader := None\<rparr>),
        qry_update None None,
        upd (\<lambda>s. s\<lparr>gt_votedFor := Some node\<rparr>)]
      else ret ()) s" for t node
    using inv by (auto intro!: keeps_step_down)
  show ?thesis
    unfolding candidate_reqvote_def wp_rd
    by (rule keeps_unpacking)
      (auto simp only: wp_rd split: prod.split intro!: wp_seqA_ConsI [where J = gt_inv, OF ans]
        wp_seqA_inv [where I = gt_inv], auto)
qed

lemma keeps_candidate_authority: "gt_inv s \<Longrightarrow> keeps (candidate_authority f now) s"
  unfolding candidate_authority_def
  by (rule keeps_unpacking) (auto split: prod.split intro!: keeps_step_down)

text \<open>
  The winner: after \<open>updatePoller\<close> the port is bound, so the leader has a port to announce; until
  then the invariant holds but for the port.
\<close>

definition winning :: "gthread \<Rightarrow> bool" where
  "winning s \<longleftrightarrow> timing_ok s \<and> identity_ok s \<and> members_ok s \<and> timeout_ok s \<and> gt_state s = LEADER \<and>
     gt_leader s = gt_ownId s"

lemma keeps_becomeLeader: "gt_inv s \<Longrightarrow> keeps (becomeLeader now) s"
proof -
  assume inv: "gt_inv s"
  obtain i where i: "gt_ownId s = Some i" using inv by (auto simp: gt_inv_defs)
  have win: "wp (upd (\<lambda>s. s\<lparr>gt_state := LEADER, gt_leader := Some i\<rparr>)) (\<lambda>_. winning)
      (\<lambda>_ _. True) s"
    using inv i by (auto simp: wp_upd winning_def gt_inv_def identity_ok_def)
  have lel: "wp (sendChangeMessage GROUP_LEL i) (\<lambda>_. winning) (\<lambda>_ _. True) t" if "winning t" for t
    using that by (auto simp: sendChangeMessage_def wp_simps winning_def split: option.split)
  have bind: "wp updatePoller (\<lambda>_ t. winning t \<and> ans_portNum t \<noteq> None) (\<lambda>_ _. True) t"
    if "winning t" for t
    using that by (auto simp: updatePoller_def wp_simps winning_def split: option.split)
  have port: "wp (upd (\<lambda>s. s\<lparr>gt_ldrPort := ans_portNum s\<rparr>)) (\<lambda>_. gt_inv) (\<lambda>_ _. True) t"
    if "winning t \<and> ans_portNum t \<noteq> None" for t
    using that by (auto simp: wp_upd winning_def gt_inv_def role_ok_def timeout_ok_def)
  have time: "keeps (rd gt_groupHeartbeat (\<lambda>hb. setTimeout hb now)) t" if "gt_inv t" for t
    using that by (auto simp: wp_rd gt_inv_defs wp_setTimeout)
  show ?thesis
    unfolding becomeLeader_def wp_with_ownId i option.case
    by (rule wp_seqA_ConsI [OF win], rule wp_seqA_ConsI [OF lel], assumption,
        rule wp_seqA_ConsI [OF bind], assumption, rule wp_seqA_ConsI [OF port], assumption,
        rule wp_seqA_inv [where I = gt_inv]) (auto simp: time)
qed

lemma keeps_candidate_rspvote: "gt_inv s \<Longrightarrow> keeps (candidate_rspvote f now) s"
proof -
  assume inv: "gt_inv s"
  have count: "keeps (upd (\<lambda>s. s\<lparr>gt_votes := gt_votes s + 1\<rparr>)) t" if "gt_inv t" for t
    using that by (auto simp: wp_upd gt_inv_def role_ok_def timeout_ok_def)
  show ?thesis
    unfolding candidate_rspvote_def
    by (rule keeps_unpacking)
      (auto simp: wp_rd inv count keeps_becomeLeader split: prod.split
        intro!: wp_seqA_inv [where I = gt_inv])
qed

lemma keeps_candidate_net: "gt_inv s \<Longrightarrow> keeps (candidate_net cmd f now) s"
  unfolding candidate_net_def
  by (simp add: keeps_candidate_reqvote keeps_candidate_rspvote keeps_candidate_authority)

lemma keeps_leader_net: "gt_inv s \<Longrightarrow> keeps (leader_net cmd f now) s"
proof -
  assume inv: "gt_inv s"
  have hb: "1 \<le> gt_groupHeartbeat s" using inv by (auto simp: gt_inv_defs)
  have last: "stays (bnd electionTimeout (\<lambda>tmo. seqA [setLeaderDeadline, setTimeout tmo now])) t"
    if "follows t" for t
    using that
    by (auto simp: wp_simps follows_def timeout_ok_def timing_ok_def identity_ok_def members_ok_def
        dest!: election_draw split: sum.split)
  show ?thesis
    unfolding leader_net_def wp_rd
    by (auto simp: wp_rd inv hb last split: prod.split intro!: keeps_unpacking keeps_step_down)
qed

lemma keeps_election_net: "gt_inv s \<Longrightarrow> keeps (election_net cmd f now) s"
  by (cases "gt_state s")
    (auto simp: election_net_def wp_rd keeps_follower_net keeps_candidate_net keeps_leader_net)

section \<open>Operations outside the election\<close>

text \<open>
  Polls, data messages and the component's commands never touch the election: such an operation is
  \<open>quiet\<close>, whether it returns or raises.
\<close>

definition quiet :: "'a gact \<Rightarrow> bool" where
  "quiet m \<longleftrightarrow> (\<forall>s. wp m (\<lambda>_. proto_eq s) (\<lambda>_. proto_eq s) s)"

named_theorems quiet_intros "composition of quiet operations"

lemma quietI: "(\<And>s. wp m (\<lambda>_. proto_eq s) (\<lambda>_. proto_eq s) s) \<Longrightarrow> quiet m"
  by (simp add: quiet_def)

lemma quiet_from: "quiet m \<Longrightarrow> proto_eq s t \<Longrightarrow> wp m (\<lambda>_. proto_eq s) (\<lambda>_. proto_eq s) t"
  unfolding quiet_def by (blast intro: wp_mono proto_eq_trans)

lemma quiet_ret [quiet_intros]: "quiet (ret x)"
  by (rule quietI) (simp add: wp_simps)

lemma quiet_raise [quiet_intros]: "quiet (raise e)"
  by (rule quietI) (simp add: wp_simps)

lemma quiet_lift [quiet_intros]: "quiet (lift r)"
  by (rule quietI) (simp add: wp_simps split: sum.split)

lemma quiet_bnd [quiet_intros]: "quiet m \<Longrightarrow> (\<And>x. quiet (f x)) \<Longrightarrow> quiet (bnd m f)"
  unfolding quiet_def wp_bnd
  by (blast intro: wp_mono proto_eq_trans)

lemma quiet_rd [quiet_intros]: "(\<And>x. quiet (k x)) \<Longrightarrow> quiet (rd f k)"
  by (simp add: quiet_def wp_rd)

lemma quiet_tryA [quiet_intros]: "quiet m \<Longrightarrow> (\<And>e. quiet (h e)) \<Longrightarrow> quiet (tryA m h)"
  unfolding quiet_def wp_tryA
  by (blast intro: wp_mono proto_eq_trans)

lemma quiet_seqA [quiet_intros]: "list_all quiet ms \<Longrightarrow> quiet (seqA ms)"
  by (induction ms) (auto simp: seqA.simps intro: quiet_ret quiet_bnd)

lemma quiet_forA [quiet_intros]: "(\<And>x. quiet (f x)) \<Longrightarrow> quiet (forA xs f)"
  by (induction xs) (auto simp: forA.simps intro: quiet_ret quiet_bnd)

lemma quiet_whenA [quiet_intros]: "quiet m \<Longrightarrow> quiet (whenA b m)"
  by (simp add: whenA_def quiet_ret)

lemma quiet_if [quiet_intros]: "quiet m \<Longrightarrow> quiet n \<Longrightarrow> quiet (if b then m else n)"
  by simp

lemma quiet_case_option [quiet_intros]:
  "quiet m \<Longrightarrow> (\<And>y. quiet (f y)) \<Longrightarrow> quiet (case x of None \<Rightarrow> m | Some y \<Rightarrow> f y)"
  by (simp split: option.split)

lemma quiet_emit [quiet_intros]: "quiet (emit x)"
  by (rule quietI) (simp add: wp_simps proto_eq_def)

lemma quiet_sends [quiet_intros]:
  "quiet (sendGroup c m)" "quiet (toComp fs)" "quiet (sendToLeader c m)" "quiet (sendToMember c m)"
  unfolding sendGroup_def toComp_def sendToLeader_def sendToMember_def
  by (auto intro!: quiet_intros split: option.split)

lemma quiet_set_identity [quiet_intros]: "quiet (set_identity f)"
  unfolding set_identity_def
  by (intro quiet_intros, rule quietI) (simp add: wp_simps proto_eq_def)

lemma quiet_sub_update [quiet_intros]: "quiet (sub_update h p)"
  unfolding sub_update_def
  by (auto intro!: quiet_intros quietI simp: wp_simps proto_eq_def)

lemma quiet_polls_upd [quiet_intros]: "quiet (upd (\<lambda>s. s\<lparr>gt_polls := g s\<rparr>))"
  by (rule quietI) (simp add: wp_simps proto_eq_def)

lemma quiet_checkPoll [quiet_intros]: "quiet (checkPoll cp p now)"
  unfolding checkPoll_def announceConsensus_def by (auto intro!: quiet_intros)

lemma quiet_donePolls [quiet_intros]: "quiet (donePolls cp ps now)"
  by (induction cp ps now rule: donePolls.induct) (auto intro!: quiet_intros)

lemma quiet_poll_ops [quiet_intros]:
  "quiet (checkAllPolls cp now)" "quiet (startPoll cp msg m)" "quiet (updatePoll cp msg)"
  "quiet (requestPoll cp msg m)"
proof -
  show start: "quiet (startPoll cp msg m)"
    unfolding startPoll_def
    by (auto intro!: quiet_intros simp: Let_def split: group_vote.split)
  show "quiet (checkAllPolls cp now)"
    unfolding checkAllPolls_def dropPoll_def by (intro quiet_intros)
  show "quiet (updatePoll cp msg)"
    unfolding updatePoll_def dropPoll_def
    by (auto intro!: quiet_intros simp: Let_def split: group_vote.split option.split)
  show "quiet (requestPoll cp msg m)"
    unfolding requestPoll_def announceConsensus_def
    by (auto intro!: quiet_intros start split: group_vote.split)
qed

lemma quiet_comp_ops [quiet_intros]:
  "quiet (handleCompMessage cp fs)"
proof -
  have report: "quiet (reportZMQ m)" if "quiet m" for m
    using that unfolding reportZMQ_def by (auto intro!: quiet_intros split: pyexc.split)
  have need: "quiet (withLeader m)" if "quiet m" for m
    using report that unfolding withLeader_def by (auto intro!: quiet_intros split: option.split)
  have own: "quiet (toCompStamped gs)" for gs
    unfolding toCompStamped_def by (auto intro!: quiet_intros)
  have ldr: "quiet (toLeaderAck c m)" for c m
    unfolding toLeaderAck_def by (intro quiet_intros)
  note ops = comp_upd_def comp_msg_def comp_mtl_def comp_mfl_def comp_rfv_def comp_rtc_def comp_mlt_def
  show ?thesis
    unfolding handleCompMessage_def ops
    by (intro quiet_intros report need own ldr; simp add: quiet_intros own)
qed

lemma quiet_answers [quiet_intros]:
  "quiet (handleMessageForLeader cp raw)" "quiet (handleMessageForMember raw)" "quiet (forward c m)"
proof -
  show fwd: "quiet (forward c m)" for c m
    unfolding forward_def by (auto intro!: quiet_intros)
  show "quiet (handleMessageForMember raw)"
    unfolding handleMessageForMember_def by (auto intro!: quiet_intros fwd)
  show "quiet (handleMessageForLeader cp raw)"
    unfolding handleMessageForLeader_def recvFromMember_def
    by (auto intro!: quiet_intros simp: Let_def)
qed

lemma keeps_quiet: "quiet m \<Longrightarrow> gt_inv s \<Longrightarrow> wp m (\<lambda>_. gt_inv) (\<lambda>_ _. True) s"
  unfolding quiet_def by (blast intro: wp_mono gt_inv_proto_eq [THEN iffD2])

lemma keeps_forward [simp]: "gt_inv s \<Longrightarrow> keeps (forward c m) s"
  by (rule keeps_quiet) (rule quiet_answers)

section \<open>The invariant over the main loop\<close>

lemma keeps_handleNetMessage: "gt_inv s \<Longrightarrow> keeps (handleNetMessage raw now) s"
proof -
  assume inv: "gt_inv s"
  have lm: "keeps (net_leader_msg c f now) t" if "gt_inv t" for c f t
    unfolding net_leader_msg_def
    by (rule wp_seqA_inv [where I = gt_inv])
      (use that in auto)
  show ?thesis
    unfolding handleNetMessage_def
    by (auto simp: Let_def wp_bnd wp_lift inv lm keeps_election_net wp_rd
        intro!: wp_seqA_inv [where I = gt_inv] split: sum.split)
qed

lemma keeps_handleTimeout: "gt_inv s \<Longrightarrow> keeps (handleTimeout cp now) s"
  unfolding handleTimeout_def
  by (rule wp_seqA_inv [where I = gt_inv])
    (auto simp: wp_rd wp_assertA wp_case_role intro: keeps_quiet quiet_poll_ops split: role.split)

lemma keeps_set_env: "gt_inv s \<Longrightarrow> gt_inv (set_env r s)"
  by (simp add: set_env_def gt_inv_defs)

lemma keeps_dispatch: "gt_inv s \<Longrightarrow> (\<And>m. keeps (h m) s) \<Longrightarrow> keeps (dispatch x h) s"
  by (simp add: dispatch_def split: option.split)

lemma keeps_run_round: "gt_inv s \<Longrightarrow> wp (run_round cp r) (\<lambda>_. gt_inv) (\<lambda>_ _. True) s"
proof -
  assume inv: "gt_inv s"
  show ?thesis
    unfolding run_round_def Let_def
    by (auto simp: wp_rd wp_upd wp_bnd [where m = "upd f" for f] wp_ret inv keeps_set_env
          keeps_handleTimeout keeps_handleNetMessage keeps_quiet quiet_comp_ops quiet_answers
        intro!: wp_bndI [where J = gt_inv] keeps_whenA wp_seqA_inv [where I = gt_inv] keeps_dispatch
        split: option.split)
qed

lemma keeps_run_loop: "gt_inv s \<Longrightarrow> wp (run_loop cp rs) (\<lambda>_. gt_inv) (\<lambda>_ _. True) s"
proof (induction rs arbitrary: s)
  case Nil
  then show ?case by (simp add: wp_simps)
next
  case (Cons r rs)
  show ?case
    unfolding run_loop.simps
    by (rule wp_bndI [where J = gt_inv]) (use Cons keeps_run_round in \<open>auto simp: wp_ret\<close>)
qed

section \<open>Reachable states\<close>

definition config_ok :: "gconfig \<Rightarrow> bool" where
  "config_ok c \<longleftrightarrow> cf_kind c \<noteq> ''default'' \<and> length (cf_actorId c @ cf_objId c) = 16 \<and>
     0 < cf_heartbeat c \<and> cf_heartbeat c < cf_electionMin c \<and>
     cf_electionMin c < cf_electionMax c \<and> cf_electionMax c < cf_peerTimeout c"

definition gthread_boot :: "gconfig \<Rightarrow> round \<Rightarrow> unit gact" where
  "gthread_boot c r = bnd (upd (set_env r)) (\<lambda>_. gthread_start c)"

lemma boot_inv: "config_ok c \<Longrightarrow> wp (gthread_boot c r) (\<lambda>_. gt_inv) (\<lambda>_ _. True) (gthread_init c)"
  unfolding gthread_boot_def gthread_start_def gthread_setup_def heartbeat_def
  by (auto simp: wp_simps config_ok_def gthread_init_def set_env_def gt_inv_defs pack_id_def
      split: option.split sum.split)

text \<open>A thread is reachable when its start-up and some rounds of the loop returned normally.\<close>

inductive gt_reach :: "capnp \<Rightarrow> gthread \<Rightarrow> bool" for cp where
  booted: "config_ok c \<Longrightarrow> gthread_boot c r (gthread_init c) = (Inr (), s) \<Longrightarrow> gt_reach cp s"
| round: "gt_reach cp s \<Longrightarrow> run_round cp r s = (Inr stop, t) \<Longrightarrow> gt_reach cp t"

lemma gt_reach_inv: "gt_reach cp s \<Longrightarrow> gt_inv s"
proof (induction rule: gt_reach.induct)
  case (booted c r s)
  then show ?case using boot_inv [of c r] by (blast dest: wp_returns)
next
  case (round s r stop t)
  then show ?case using keeps_run_round [of s cp r] by (blast dest: wp_returns)
qed

section \<open>A concrete thread, for the witnesses\<close>

definition idA :: bytes where "idA = ''AAAAAAAAAAAAAAAA''"
definition idB :: bytes where "idB = ''BBBBBBBBBBBBBBBB''"

definition sample_config :: "bytes \<Rightarrow> gconfig" where
  "sample_config i = \<lparr> cf_kind = ''coordinated'', cf_timed = False, cf_host = 167772161,
     cf_actorId = take 8 i, cf_objId = drop 8 i, cf_groupSize = 1, cf_heartbeat = 1000,
     cf_electionMin = 1500, cf_electionMax = 2000, cf_peerTimeout = 3000,
     cf_consensusTimeout = 1500 \<rparr>"

definition sample_thread :: "bytes \<Rightarrow> gthread" where
  "sample_thread i = (gthread_init (sample_config i))\<lparr>gt_ownId := Some i, gt_numPeers := 0,
     gt_timeout := Some 1000, gt_leaderDeadline := Some 3, env_port := 5000\<rparr>"

definition sample_round :: round where
  "sample_round = \<lparr> ev_time = 10, ev_elec = 0, ev_ldr = 0, ev_port = 5000, ev_pub_err = None,
     ev_grp_err = None, ev_qry_err = None, ev_ans_err = None, ev_comp = None, ev_net = None,
     ev_ans = None, ev_qry = None \<rparr>"

definition sample_capnp :: capnp where
  "sample_capnp = \<lparr> cp_enc = (\<lambda>_. ''v''), cp_dec = (\<lambda>_. None) \<rparr>"

lemmas sample_defs = sample_thread_def sample_config_def gthread_init_def sample_round_def
  sample_capnp_def idA_def idB_def

section \<open>Consistency of a thread\<close>

interpretation gt_loop: stepped_object "\<lambda>s r. run_round cp r s" "\<lambda>_. True" gt_inv for cp
  by unfold_locales (blast dest: wp_returns [OF keeps_run_round])

text \<open>
  C2: after booting with sensible timing, and after any number of rounds with any messages and any
  socket errors, a thread that is still alive is consistent: a leader considers itself the leader and
  has an address, a candidate knows no leader and has voted for itself, the number of peers is the
  number of recorded peers, and the next poll has a positive timeout.
\<close>

theorem thread_consistent:
  assumes "config_ok c" "gthread_boot c r (gthread_init c) = (Inr u, s)"
    "run_steps (\<lambda>s r. run_round cp r s) s rs = Some t"
  shows "(gt_state t = LEADER \<longrightarrow> gt_leader t = gt_ownId t \<and> gt_ldrPort t \<noteq> None) \<and>
    (gt_state t = CANDIDATE \<longrightarrow> gt_leader t = None \<and> gt_votedFor t = gt_ownId t \<and> 1 \<le> gt_votes t) \<and>
    distinct (dkeys (gt_peers t)) \<and> gt_numPeers t = int (length (gt_peers t)) \<and>
    (\<exists>v. gt_timeout t = Some v \<and> 1 \<le> v)"
proof -
  have "gt_inv s" using boot_inv [OF assms(1)] assms(2) by (blast dest: wp_returns)
  then have "gt_inv t" using gt_loop.run_keeps assms(3) by (metis list.pred_True)
  then show ?thesis by (auto simp: gt_inv_defs)
qed

lemma sample_boot_and_round:
  "wp (gthread_boot (sample_config idA) sample_round)
     (\<lambda>_ s. wp (run_round sample_capnp sample_round) (\<lambda>_ _. True) (\<lambda>_ _. False) s)
     (\<lambda>_ _. False) (gthread_init (sample_config idA))"
  by (simp add: gthread_boot_def gthread_start_def gthread_setup_def heartbeat_def pack_id_def
      run_round_def updatePeers_def handleTimeout_def checkAllPolls_def followerTimeout_def
      donePolls.simps forA.simps Let_def no_events_def set_env_def wp_simps sample_defs randrange_def stamp_def)

theorem thread_consistent_witness:
  "\<exists>s t. run_steps (\<lambda>s r. run_round sample_capnp r s) s [sample_round] = Some t \<and>
    distinct (dkeys (gt_peers t))"
proof -
  obtain s where boot: "gthread_boot (sample_config idA) sample_round (gthread_init (sample_config idA)) = (Inr (), s)"
    and w: "wp (run_round sample_capnp sample_round) (\<lambda>_ _. True) (\<lambda>_ _. False) s"
    using wp_total [OF sample_boot_and_round] by auto
  obtain b t where "run_round sample_capnp sample_round s = (Inr b, t)"
    using wp_total [OF w] by auto
  then have run: "run_steps (\<lambda>s r. run_round sample_capnp r s) s [sample_round] = Some t"
    by simp
  have "config_ok (sample_config idA)"
    by (simp add: config_ok_def sample_defs)
  from thread_consistent [OF this boot run] run show ?thesis by blast
qed

end
