(* ===== verification/DcVotes.thy ===== *)
theory DcVotes
  imports DcElection
begin

text \<open>
  What the leader election of \<open>GroupThread\<close> (\<open>riaps/run/dc.py\<close>) guarantees and what it does not:
  the answer of a follower to a vote request, the condition under which a candidate wins, how two
  leaders resolve their conflict, and the runs in which the protocol votes twice in a term or never
  elects a leader again.
\<close>

section \<open>Voting\<close>

lemma net_election_msg:
  assumes "cmd = REQVOTE \<or> cmd = RSPVOTE \<or> cmd = AUTHORITY" "gt_coordinated s"
  shows "wp (handleNetMessage [FB cmd, f] now) Q E s = wp (election_net (FB cmd) f now) Q E s"
proof -
  have cmds: "cmd \<noteq> GROUP_MSG" "cmd \<noteq> GROUP_MLT" "cmd \<noteq> HEARTBEAT" "cmd \<noteq> GROUP_RCM" "cmd \<noteq> GROUP_ANN"
    using assms(1) by (auto simp: dc_commands)
  show ?thesis
    using assms(2) cmds
    by (simp add: handleNetMessage_def recv_frames_def Let_def wp_bnd wp_lift wp_seqA_Cons
        wp_seqA_Nil wp_whenA wp_rd)
qed

text \<open>What \<open>qry_update\<close> may change: the connection and the record of effects, which only grows.\<close>

lemma wp_qry_update_grows:
  "wp (qry_update h p) (\<lambda>_ t. proto_eq s t \<and> (\<exists>xs. gt_out t = gt_out s @ xs) \<and>
     env_elec t = env_elec s \<and> env_ldr t = env_ldr s \<and> env_time t = env_time s \<and>
     pub_err t = pub_err s \<and> grp_err t = grp_err s \<and> ans_portNum t = ans_portNum s \<and>
     env_port t = env_port s) (\<lambda>_ _. False) s"
  by (auto simp: qry_update_def wp_simps proto_eq_def split: option.split)

lemma election_draw_ok: "a < b \<Longrightarrow> \<exists>v. randrange a b d = Inr v"
  by (simp add: randrange_def)

lemma follower_reqvote_spec:
  assumes "gt_ownId s = Some me" "length me = 16" "u32 t" "length c = 16"
    "pub_err s = None" "grp_err s = None" "gt_electionMin s < gt_electionMax s"
    and msg: "pack_req (t, c) = Inr msg"
  shows "wp (follower_reqvote (FB msg) now)
    (\<lambda>_ s'. gt_term s' = t \<and> gt_leader s' = None \<and> gt_leaderDeadline s' = None \<and>
       gt_state s' = gt_state s \<and>
       gt_votedFor s' = (if grants s t c then Some c else gt_votedFor s) \<and>
       (\<exists>rsp. pack_vot (t, c, (if grants s t c then 1 else 0), me) = Inr rsp \<and>
         PubSend ([FB RSPVOTE, FB rsp] @ stamp s) \<in> set (gt_out s'))) (\<lambda>_ _. False) s"
proof -
  have un: "unpack_req msg = Inr (t, c)"
    using wreq.unpack_pack [of "(t, c)" msg] assms by simp
  obtain rsp where rsp: "pack_vot (t, c, (if grants s t c then 1 else 0), me) = Inr rsp"
    using wvot.pack_total [of "(t, c, (if grants s t c then 1 else 0), me)"] assms
    by (cases "grants s t c") (auto simp: u32_def)
  obtain v where v: "randrange (gt_electionMin s) (gt_electionMax s) (env_elec s) = Inr v"
    using election_draw_ok assms(7) by blast
  show ?thesis
    unfolding follower_reqvote_def sendVoteTo_def leaderExits_def sendChangeMessage_def
    using assms un rsp v
    by (auto simp: wp_simps frame_bytes_def Let_def proto_eq_def
        intro!: wp_mono [OF wp_qry_update_grows] split: option.split)
qed

text \<open>C18: a follower asked to vote answers every request: it says yes if it has no vote recorded, if
the request's term is newer than its own, or if it voted for this candidate before; it adopts the
request's term, older ones included, forgets its leader and the leader's deadline, and records the
candidate exactly if it said yes.\<close>

theorem follower_votes:
  assumes "gt_coordinated s" "gt_state s = FOLLOWER" "gt_ownId s = Some me" "length me = 16"
    "u32 t" "length c = 16" "pub_err s = None" "grp_err s = None"
    "gt_electionMin s < gt_electionMax s" "pack_req (t, c) = Inr msg"
  shows "\<exists>s'. handleNetMessage [FB REQVOTE, FB msg] now s = (Inr (), s') \<and>
    gt_state s' = FOLLOWER \<and> gt_term s' = t \<and> gt_leader s' = None \<and> gt_leaderDeadline s' = None \<and>
    (let yes = gt_votedFor s = None \<or> gt_term s < t \<or> gt_votedFor s = Some c in
       gt_votedFor s' = (if yes then Some c else gt_votedFor s) \<and>
       (\<exists>rsp. pack_vot (t, c, (if yes then 1 else 0), me) = Inr rsp \<and>
          PubSend ([FB RSPVOTE, FB rsp] @ stamp s) \<in> set (gt_out s')))"
proof -
  have g: "grants s t c \<longleftrightarrow> gt_votedFor s = None \<or> gt_term s < t \<or> gt_votedFor s = Some c"
    by (auto simp: grants_def split: option.split)
  have "wp (handleNetMessage [FB REQVOTE, FB msg] now)
    (\<lambda>_ s'. gt_term s' = t \<and> gt_leader s' = None \<and> gt_leaderDeadline s' = None \<and>
       gt_state s' = gt_state s \<and>
       gt_votedFor s' = (if grants s t c then Some c else gt_votedFor s) \<and>
       (\<exists>rsp. pack_vot (t, c, (if grants s t c then 1 else 0), me) = Inr rsp \<and>
         PubSend ([FB RSPVOTE, FB rsp] @ stamp s) \<in> set (gt_out s'))) (\<lambda>_ _. False) s"
    using follower_reqvote_spec [OF assms(3-10), of now] assms(1,2)
    by (simp add: net_election_msg election_net_def wp_rd follower_net_def dc_commands)
  then show ?thesis
    using assms(2) by (auto dest!: wp_total simp: g Let_def)
qed

theorem follower_votes_witness:
  "\<exists>msg s'. pack_req (1, idB) = Inr msg \<and>
     handleNetMessage [FB REQVOTE, FB msg] 5 (sample_thread idA) = (Inr (), s') \<and>
     gt_state s' = FOLLOWER \<and> gt_term s' = 1 \<and> gt_votedFor s' = Some idB"
proof -
  obtain msg where msg: "pack_req (1, idB) = Inr msg"
    using wreq.pack_total [of "(1, idB)"] by (auto simp: u32_def idB_def)
  from follower_votes [OF _ _ _ _ _ _ _ _ _ msg, of "sample_thread idA" idA 5]
  show ?thesis using msg by (auto simp: sample_defs u32_def Let_def)
qed

section \<open>Winning\<close>

lemma candidate_rspvote_spec:
  assumes "gt_state s = CANDIDATE" "gt_ownId s = Some me" "length me = 16" "gt_numPeers s \<ge> 0"
    "pub_err s = None" "grp_err s = None" "ans_portNum s = None"
    "u32 (gt_term s)" "u32 (gt_host s)" "u32 (env_port s)"
    "u32 t" "length c = 16" "u32 v" "length n = 16" and msg: "pack_vot (t, c, v, n) = Inr msg"
  shows "wp (candidate_rspvote (FB msg) now)
    (\<lambda>_ s'. if v \<noteq> 0 \<and> c = me then
        gt_votes s' = gt_votes s + 1 \<and>
        (if 2 * (gt_votes s + 1) > gt_numPeers s then
           gt_state s' = LEADER \<and> gt_leader s' = Some me \<and> gt_ldrPort s' = Some (env_port s) \<and>
           (\<exists>ann. pack_ldr (gt_term s, me, gt_host s, env_port s) = Inr ann \<and>
              gt_out s' = gt_out s @ [ToComp [FB GROUP_LEL, FB me], AnsBind (env_port s),
                PubSend ([FB AUTHORITY, FB ann] @ stamp s)])
         else gt_state s' = CANDIDATE \<and> gt_out s' = gt_out s)
      else s' = s) (\<lambda>_ _. False) s"
proof -
  have un: "unpack_vot msg = Inr (t, c, v, n)"
    using wvot.unpack_pack [of "(t, c, v, n)" msg] assms by simp
  obtain ann where ann: "pack_ldr (gt_term s, me, gt_host s, env_port s) = Inr ann"
    using wldr.pack_total [of "(gt_term s, me, gt_host s, env_port s)"] assms by auto
  have th: "threshold (s\<lparr>gt_votes := k\<rparr>) \<le> k \<longleftrightarrow> gt_numPeers s < 2 * k" for k
    using majority_iff [of "gt_numPeers s" k] half_plus_one [OF assms(4)]
    by (simp add: threshold_def)
  show ?thesis
    unfolding candidate_rspvote_def becomeLeader_def sendChangeMessage_def updatePoller_def
      assertAuthority_def
    using assms un ann
    by (auto simp: wp_simps frame_bytes_def th stamp_def)
qed

text \<open>C17: a candidate counts every yes vote for itself, whatever term the vote names, and no other
message; it becomes the leader exactly when the votes, its own included, are more than half of the
peers it knows of. It then reports the election to its component, binds a port and announces its
term, id and address to the group.\<close>

theorem candidate_wins:
  assumes "gt_coordinated s" "gt_state s = CANDIDATE" "gt_ownId s = Some me" "length me = 16"
    "gt_numPeers s \<ge> 0" "pub_err s = None" "grp_err s = None" "ans_portNum s = None"
    "u32 (gt_term s)" "u32 (gt_host s)" "u32 (env_port s)"
    "u32 t" "length c = 16" "u32 v" "length n = 16" "pack_vot (t, c, v, n) = Inr msg"
  shows "\<exists>s'. handleNetMessage [FB RSPVOTE, FB msg] now s = (Inr (), s') \<and>
    (if v \<noteq> 0 \<and> c = me then
       gt_votes s' = gt_votes s + 1 \<and>
       (if 2 * (gt_votes s + 1) > gt_numPeers s then
          gt_state s' = LEADER \<and> gt_leader s' = Some me \<and> gt_ldrPort s' = Some (env_port s) \<and>
          (\<exists>ann. pack_ldr (gt_term s, me, gt_host s, env_port s) = Inr ann \<and>
             gt_out s' = gt_out s @ [ToComp [FB GROUP_LEL, FB me], AnsBind (env_port s),
               PubSend ([FB AUTHORITY, FB ann] @ stamp s)])
        else gt_state s' = CANDIDATE \<and> gt_out s' = gt_out s)
     else s' = s)"
proof -
  have "wp (handleNetMessage [FB RSPVOTE, FB msg] now) Q E s =
      wp (candidate_rspvote (FB msg) now) Q E s" for Q E
    using assms(1,2)
    by (simp add: net_election_msg election_net_def wp_rd candidate_net_def dc_commands)
  from wp_total [OF this [THEN iffD2], OF candidate_rspvote_spec [OF assms(2-16), of now]]
  show ?thesis by simp
qed

theorem candidate_wins_witness:
  "\<exists>msg s'. pack_vot (1, idA, 1, idB) = Inr msg \<and>
     handleNetMessage [FB RSPVOTE, FB msg] 5 ((sample_thread idA)\<lparr>gt_state := CANDIDATE,
       gt_votes := 1, gt_term := 1, gt_numPeers := 3\<rparr>) = (Inr (), s') \<and>
     gt_state s' = LEADER \<and> gt_votes s' = 2"
proof -
  obtain msg where msg: "pack_vot (1, idA, 1, idB) = Inr msg"
    using wvot.pack_total [of "(1, idA, 1, idB)"] by (auto simp: u32_def idA_def idB_def)
  from candidate_wins [OF _ _ _ _ _ _ _ _ _ _ _ _ _ _ _ msg, of "(sample_thread idA)\<lparr>gt_state := CANDIDATE,
       gt_votes := 1, gt_term := 1, gt_numPeers := 3\<rparr>" idA 5]
  show ?thesis using msg by (auto simp: sample_defs u32_def)
qed

section \<open>Leaders in conflict\<close>

lemma wp_acceptLeader: "wp (acceptLeader t l) Q E s =
    (if gt_leader s = Some l then Q () (s\<lparr>gt_term := t, gt_leader := Some l, gt_votedFor := None\<rparr>)
     else (case grp_err s of Some n \<Rightarrow> E (ZMQError n) (s\<lparr>gt_term := t, gt_leader := Some l\<rparr>)
       | None \<Rightarrow> Q () (s\<lparr>gt_term := t, gt_leader := Some l,
           gt_out := gt_out s @ [ToComp [FB GROUP_LEL, FB l]], gt_votedFor := None\<rparr>)))"
  by (auto simp: acceptLeader_def sendChangeMessage_def wp_simps split: option.split)

text \<open>A leader stays the leader of its term through every message of the group, whatever its
content and its term, with one exception: the authority of another node for exactly its own term.
Requests for votes of later terms and leaders of later terms do not move it.\<close>

theorem leader_yields_only_to_its_term:
  assumes "gt_coordinated s" "gt_state s = LEADER"
    "handleNetMessage [cmd, f] now s = (Inr (), s')"
    "\<not> (\<exists>b l h p. cmd = FB AUTHORITY \<and> f = FB b \<and> unpack_ldr b = Inr (gt_term s, l, h, p) \<and>
        gt_ownId s \<noteq> Some l)"
  shows "gt_state s' = LEADER \<and> gt_term s' = gt_term s \<and> gt_leader s' = gt_leader s"
proof -
  let ?P = "\<lambda>t. gt_state t = LEADER \<and> gt_term t = gt_term s \<and> gt_leader t = gt_leader s \<and>
    gt_ownId t = gt_ownId s \<and> gt_coordinated t"
  have frame: "wp (forward c f) (\<lambda>_. ?P) (\<lambda>_ _. True) t" "wp (updateTimeout now) (\<lambda>_. ?P) (\<lambda>_ _. True) t"
    "wp setLeaderDeadline (\<lambda>_. ?P) (\<lambda>_ _. True) t" "wp (net_leave f) (\<lambda>_. ?P) (\<lambda>_ _. True) t"
    "wp (net_heartbeat f now) (\<lambda>_. ?P) (\<lambda>_ _. True) t"
    if "?P t" for t c
    using that
    by (auto simp: forward_def updateTimeout_def net_leave_def net_heartbeat_def
        sendChangeMessage_def wp_simps split: option.split sum.split)
  have net: "wp (leader_net cmd f now) (\<lambda>_. ?P) (\<lambda>_ _. True) t" if "?P t" for t
    using that assms(4)
    by (auto simp: leader_net_def wp_simps frame_bytes_def split: sum.split frame.split)
  have "wp (handleNetMessage [cmd, f] now) (\<lambda>_. ?P) (\<lambda>_ _. True) s"
    unfolding handleNetMessage_def recv_frames_def net_leader_msg_def election_net_def Let_def
    using assms(1,2)
    by (auto simp: wp_bnd wp_lift wp_rd frame net wp_ret wp_whenA
        intro!: wp_seqA_inv [where I = ?P])
  then show ?thesis using assms(3) by (blast dest: wp_returns)
qed

lemma leader_authority_spec:
  assumes "gt_state s = LEADER" "gt_ownId s = Some me" "l \<noteq> me" "gt_leader s = Some me"
    "grp_err s = None" "gt_electionMin s < gt_electionMax s" "gt_electionMax s < gt_peerTimeout s"
    "u32 (gt_term s)" "length l = 16" "u32 h" "u32 p" and msg: "pack_ldr (gt_term s, l, h, p) = Inr msg"
  shows "wp (leader_net (FB AUTHORITY) (FB msg) now)
    (\<lambda>_ s'. gt_state s' = FOLLOWER \<and> gt_leader s' = Some l \<and> gt_term s' = gt_term s \<and>
       ToComp [FB GROUP_LEL, FB l] \<in> set (gt_out s')) (\<lambda>_ _. False) s"
proof -
  have un: "unpack_ldr msg = Inr (gt_term s, l, h, p)"
    using wldr.unpack_pack [of "(gt_term s, l, h, p)" msg] assms by simp
  obtain v where v: "randrange (gt_electionMin s) (gt_electionMax s) (env_elec s) = Inr v"
    using election_draw_ok assms(6) by blast
  obtain w where w: "randrange (gt_electionMax s) (gt_peerTimeout s) (env_ldr s) = Inr w"
    using election_draw_ok assms(7) by blast
  show ?thesis
    unfolding leader_net_def
    using assms un v w
    by (auto simp: wp_simps frame_bytes_def proto_eq_def wp_acceptLeader
        intro!: wp_mono [OF wp_qry_update_grows])
qed

text \<open>Two leaders of the same term that hear each other.\<close>

definition rival :: "gthread \<Rightarrow> bytes \<Rightarrow> bool" where
  "rival s me \<longleftrightarrow> gt_coordinated s \<and> gt_state s = LEADER \<and> gt_ownId s = Some me \<and>
     gt_leader s = Some me \<and> length me = 16 \<and> grp_err s = None \<and>
     gt_electionMin s < gt_electionMax s \<and> gt_electionMax s < gt_peerTimeout s \<and> u32 (gt_term s)"

text \<open>When two leaders of the same term hear each other's announcement, both step down and each
takes the other for the leader: the group is left without any member in the role of the leader.\<close>

theorem rivals_both_yield:
  assumes "rival a i" "rival b j" "i \<noteq> j" "gt_term a = gt_term b" "u32 h" "u32 p" "u32 h'" "u32 p'"
    "pack_ldr (gt_term a, i, h, p) = Inr fromA" "pack_ldr (gt_term b, j, h', p') = Inr fromB"
  shows "\<exists>a' b'. handleNetMessage [FB AUTHORITY, FB fromB] now a = (Inr (), a') \<and>
    handleNetMessage [FB AUTHORITY, FB fromA] now b = (Inr (), b') \<and>
    gt_state a' = FOLLOWER \<and> gt_leader a' = Some j \<and> gt_state b' = FOLLOWER \<and> gt_leader b' = Some i"
proof -
  have A: "wp (handleNetMessage [FB AUTHORITY, FB msg] now) Q E s =
      wp (leader_net (FB AUTHORITY) (FB msg) now) Q E s" if "rival s me" for msg Q E s me
    using that by (simp add: net_election_msg election_net_def wp_rd rival_def)
  have "wp (handleNetMessage [FB AUTHORITY, FB fromB] now) (\<lambda>_ s'. gt_state s' = FOLLOWER \<and>
      gt_leader s' = Some j) (\<lambda>_ _. False) a"
    unfolding A [OF assms(1)]
    by (rule wp_mono [OF leader_authority_spec [of a i j h' p']])
      (use assms in \<open>auto simp: rival_def\<close>)
  moreover have "wp (handleNetMessage [FB AUTHORITY, FB fromA] now) (\<lambda>_ s'. gt_state s' = FOLLOWER \<and>
      gt_leader s' = Some i) (\<lambda>_ _. False) b"
    unfolding A [OF assms(2)]
    by (rule wp_mono [OF leader_authority_spec [of b j i h p]])
      (use assms in \<open>auto simp: rival_def\<close>)
  ultimately show ?thesis by (auto dest!: wp_total)
qed

definition sample_leader :: "bytes \<Rightarrow> gthread" where
  "sample_leader i = (sample_thread i)\<lparr>gt_state := LEADER, gt_leader := Some i, gt_term := 1,
     gt_ldrPort := Some 5000\<rparr>"

theorem leader_yields_only_to_its_term_witness:
  "\<exists>s'. handleNetMessage [FB GROUP_MSG, FB ''m''] 5 (sample_leader idA) = (Inr (), s') \<and>
     gt_state s' = LEADER"
proof -
  have "wp (handleNetMessage [FB GROUP_MSG, FB ''m''] 5) (\<lambda>_ _. True) (\<lambda>_ _. False) (sample_leader idA)"
    by (simp add: handleNetMessage_def recv_frames_def Let_def wp_simps forward_def updateTimeout_def
        sample_leader_def sample_defs)
  then obtain s' where r: "handleNetMessage [FB GROUP_MSG, FB ''m''] 5 (sample_leader idA) = (Inr (), s')"
    by (auto dest: wp_total)
  from leader_yields_only_to_its_term [OF _ _ r] r show ?thesis
    by (auto simp: sample_leader_def sample_defs dc_commands)
qed

theorem rivals_both_yield_witness:
  "\<exists>fromA fromB a' b'. handleNetMessage [FB AUTHORITY, FB fromB] 5 (sample_leader idA) = (Inr (), a') \<and>
     handleNetMessage [FB AUTHORITY, FB fromA] 5 (sample_leader idB) = (Inr (), b') \<and>
     gt_leader a' = Some idB \<and> gt_leader b' = Some idA"
proof -
  obtain x where x: "pack_ldr (1, idA, 1, 1) = Inr x"
    using wldr.pack_total [of "(1, idA, 1, 1)"] by (auto simp: u32_def idA_def)
  obtain y where y: "pack_ldr (1, idB, 1, 1) = Inr y"
    using wldr.pack_total [of "(1, idB, 1, 1)"] by (auto simp: u32_def idB_def)
  have r: "rival (sample_leader idA) idA" "rival (sample_leader idB) idB" "idA \<noteq> idB"
    "gt_term (sample_leader idA) = 1" "gt_term (sample_leader idB) = 1"
    by (simp_all add: rival_def sample_leader_def sample_defs u32_def)
  have one: "u32 1" by (simp add: u32_def)
  show ?thesis
    using rivals_both_yield [OF r(1) r(2) r(3) _ one one one one, of x y 5] x y r(4,5) by auto
qed

section \<open>Two votes in one term\<close>

definition voter_ok :: "gthread \<Rightarrow> bytes \<Rightarrow> bool" where
  "voter_ok s me \<longleftrightarrow> gt_coordinated s \<and> gt_state s = FOLLOWER \<and> gt_ownId s = Some me \<and>
     length me = 16 \<and> pub_err s = None \<and> grp_err s = None \<and>
     gt_electionMin s < gt_electionMax s \<and> gt_electionMax s < gt_peerTimeout s \<and>
     \<not> gt_isTimed s"

lemma follower_authority_spec:
  assumes "voter_ok s me" "u32 t" "length l = 16" "u32 h" "u32 p"
    and msg: "pack_ldr (t, l, h, p) = Inr msg"
  shows "wp (handleNetMessage [FB AUTHORITY, FB msg] now)
    (\<lambda>_ s'. voter_ok s' me \<and> gt_term s' = t \<and> gt_leader s' = Some l \<and> gt_votedFor s' = None \<and>
       set (gt_out s) \<subseteq> set (gt_out s')) (\<lambda>_ _. False) s"
proof -
  have un: "unpack_ldr msg = Inr (t, l, h, p)"
    using wldr.unpack_pack [of "(t, l, h, p)" msg] assms by simp
  obtain v where v: "randrange (gt_electionMin s) (gt_electionMax s) (env_elec s) = Inr v"
    using assms(1) unfolding voter_ok_def by (metis election_draw_ok)
  obtain w where w: "randrange (gt_electionMax s) (gt_peerTimeout s) (env_ldr s) = Inr w"
    using assms(1) unfolding voter_ok_def by (metis election_draw_ok)
  have "wp (follower_authority (FB msg) now)
    (\<lambda>_ s'. voter_ok s' me \<and> gt_term s' = t \<and> gt_leader s' = Some l \<and> gt_votedFor s' = None \<and>
       set (gt_out s) \<subseteq> set (gt_out s')) (\<lambda>_ _. False) s"
    unfolding follower_authority_def
    using assms(1) un v w
    by (auto simp: wp_simps frame_bytes_def proto_eq_def voter_ok_def wp_acceptLeader
        intro!: wp_mono [OF wp_qry_update_grows])
  then show ?thesis
    using assms(1)
    by (simp add: voter_ok_def net_election_msg election_net_def wp_rd follower_net_def)
qed

lemma voter_reqvote_spec:
  assumes "voter_ok s me" "u32 t" "length c = 16" "gt_votedFor s = None"
    and msg: "pack_req (t, c) = Inr msg"
  shows "wp (handleNetMessage [FB REQVOTE, FB msg] now)
    (\<lambda>_ s'. voter_ok s' me \<and> gt_term s' = t \<and> set (gt_out s) \<subseteq> set (gt_out s') \<and>
       (\<exists>rsp. pack_vot (t, c, 1, me) = Inr rsp \<and>
          PubSend [FB RSPVOTE, FB rsp] \<in> set (gt_out s'))) (\<lambda>_ _. False) s"
proof -
  have un: "unpack_req msg = Inr (t, c)"
    using wreq.unpack_pack [of "(t, c)" msg] assms by simp
  obtain rsp where rsp: "pack_vot (t, c, 1, me) = Inr rsp"
    using wvot.pack_total [of "(t, c, 1, me)"] assms by (auto simp: u32_def voter_ok_def)
  obtain v where v: "randrange (gt_electionMin s) (gt_electionMax s) (env_elec s) = Inr v"
    using assms(1) unfolding voter_ok_def by (metis election_draw_ok)
  have "wp (follower_reqvote (FB msg) now)
    (\<lambda>_ s'. voter_ok s' me \<and> gt_term s' = t \<and> set (gt_out s) \<subseteq> set (gt_out s') \<and>
       (\<exists>rsp. pack_vot (t, c, 1, me) = Inr rsp \<and>
          PubSend [FB RSPVOTE, FB rsp] \<in> set (gt_out s'))) (\<lambda>_ _. False) s"
    unfolding follower_reqvote_def sendVoteTo_def leaderExits_def sendChangeMessage_def
    using assms(1,4) un rsp v
    by (auto simp: wp_simps frame_bytes_def Let_def proto_eq_def voter_ok_def grants_def stamp_def
        intro!: wp_mono [OF wp_qry_update_grows] split: option.split)
  then show ?thesis
    using assms(1)
    by (simp add: voter_ok_def net_election_msg election_net_def wp_rd follower_net_def dc_commands)
qed

text \<open>One vote per term is not guaranteed. A follower without a recorded vote that is asked by A,
then hears A announce itself as the leader of the term, and is then asked by B in the same term, says
yes to both: the announcement erased its vote. With a slow network B collects a majority too, and the
term has two leaders.\<close>

theorem follower_votes_twice:
  assumes "voter_ok s me" "gt_votedFor s = None" "u32 t" "length A = 16" "length B = 16"
    "u32 h" "u32 p" "pack_req (t, A) = Inr askA" "pack_req (t, B) = Inr askB"
    "pack_ldr (t, A, h, p) = Inr leadA"
  shows "\<exists>s1 s2 s3 yesA yesB.
    handleNetMessage [FB REQVOTE, FB askA] n1 s = (Inr (), s1) \<and>
    handleNetMessage [FB AUTHORITY, FB leadA] n2 s1 = (Inr (), s2) \<and>
    handleNetMessage [FB REQVOTE, FB askB] n3 s2 = (Inr (), s3) \<and>
    pack_vot (t, A, 1, me) = Inr yesA \<and> pack_vot (t, B, 1, me) = Inr yesB \<and>
    PubSend [FB RSPVOTE, FB yesA] \<in> set (gt_out s3) \<and>
    PubSend [FB RSPVOTE, FB yesB] \<in> set (gt_out s3)"
proof -
  obtain s1 yesA where s1: "handleNetMessage [FB REQVOTE, FB askA] n1 s = (Inr (), s1)"
    "voter_ok s1 me" "pack_vot (t, A, 1, me) = Inr yesA" "PubSend [FB RSPVOTE, FB yesA] \<in> set (gt_out s1)"
    using wp_total [OF voter_reqvote_spec [OF assms(1,3,4,2,8), of n1]] by auto
  obtain s2 where s2: "handleNetMessage [FB AUTHORITY, FB leadA] n2 s1 = (Inr (), s2)"
    "voter_ok s2 me" "gt_votedFor s2 = None" "set (gt_out s1) \<subseteq> set (gt_out s2)"
    using wp_total [OF follower_authority_spec [OF s1(2) assms(3,4,6,7,10), of n2]] by auto
  obtain s3 yesB where s3: "handleNetMessage [FB REQVOTE, FB askB] n3 s2 = (Inr (), s3)"
    "pack_vot (t, B, 1, me) = Inr yesB" "PubSend [FB RSPVOTE, FB yesB] \<in> set (gt_out s3)"
    "set (gt_out s2) \<subseteq> set (gt_out s3)"
    using wp_total [OF voter_reqvote_spec [OF s2(2) assms(3,5) s2(3) assms(9), of n3]] by auto
  show ?thesis using s1 s2 s3 by blast
qed

theorem follower_votes_twice_witness:
  "idA \<noteq> idB \<and> (\<exists>a l b s1 s2 s3 yA yB.
     handleNetMessage [FB REQVOTE, FB a] 5 (sample_thread ''CCCCCCCCCCCCCCCC'') = (Inr (), s1) \<and>
     handleNetMessage [FB AUTHORITY, FB l] 6 s1 = (Inr (), s2) \<and>
     handleNetMessage [FB REQVOTE, FB b] 7 s2 = (Inr (), s3) \<and>
     pack_vot (1, idA, 1, ''CCCCCCCCCCCCCCCC'') = Inr yA \<and>
     pack_vot (1, idB, 1, ''CCCCCCCCCCCCCCCC'') = Inr yB \<and>
     PubSend [FB RSPVOTE, FB yA] \<in> set (gt_out s3) \<and> PubSend [FB RSPVOTE, FB yB] \<in> set (gt_out s3))"
proof -
  let ?C = "''CCCCCCCCCCCCCCCC''" and ?s = "sample_thread ''CCCCCCCCCCCCCCCC''"
  have ok: "voter_ok ?s ?C" "gt_votedFor ?s = None" "u32 1" "length idA = 16" "length idB = 16"
    by (simp_all add: voter_ok_def sample_defs u32_def)
  obtain a b l where m: "pack_req (1, idA) = Inr a" "pack_req (1, idB) = Inr b"
    "pack_ldr (1, idA, 1, 1) = Inr l"
    using wreq.pack_total [of "(1, idA)"] wreq.pack_total [of "(1, idB)"]
      wldr.pack_total [of "(1, idA, 1, 1)"] ok by auto
  from follower_votes_twice [OF ok ok(3) ok(3) m, of 5 6 7]
  obtain s1 s2 s3 yA yB where r: "handleNetMessage [FB REQVOTE, FB a] 5 ?s = (Inr (), s1)"
    "handleNetMessage [FB AUTHORITY, FB l] 6 s1 = (Inr (), s2)"
    "handleNetMessage [FB REQVOTE, FB b] 7 s2 = (Inr (), s3)"
    "pack_vot (1, idA, 1, ?C) = Inr yA" "pack_vot (1, idB, 1, ?C) = Inr yB"
    "PubSend [FB RSPVOTE, FB yA] \<in> set (gt_out s3)" "PubSend [FB RSPVOTE, FB yB] \<in> set (gt_out s3)"
    by blast
  have "idA \<noteq> idB" by (simp add: idA_def idB_def)
  with r show ?thesis by blast
qed

end
