(* ===== verification/DcNetwork.thy ===== *)
theory DcNetwork
  imports DcVotes
begin

text \<open>
  A whole group: the threads of its members (\<open>GroupThread\<close> of \<open>riaps/run/dc.py\<close>) and the messages
  between them. The theory follows what remains of a group after an election has failed.
\<close>

section \<open>A thread that no longer stands for election\<close>

text \<open>Messages that neither announce a leader nor come from one.\<close>

definition calm_cmd :: "frame \<Rightarrow> bool" where
  "calm_cmd c \<longleftrightarrow> c \<in> {FB HEARTBEAT, FB GROUP_MSG, FB GROUP_MLT, FB RSPVOTE}"

definition calm_effect :: "effect \<Rightarrow> bool" where
  "calm_effect x = (case x of
     PubSend fs \<Rightarrow> (case fs of [] \<Rightarrow> False | c # _ \<Rightarrow> calm_cmd c)
   | QrySend _ \<Rightarrow> False | AnsSend _ \<Rightarrow> False | _ \<Rightarrow> True)"

text \<open>A follower that knows no leader and waits for none.\<close>

definition dormant :: "gthread \<Rightarrow> bool" where
  "dormant s \<longleftrightarrow> gt_coordinated s \<and> gt_state s = FOLLOWER \<and> gt_leaderDeadline s = None \<and>
     gt_leader s = None \<and> gt_polls s = [] \<and> list_all calm_effect (gt_out s)"

abbreviation sleeps :: "unit gact \<Rightarrow> gthread \<Rightarrow> bool" where
  "sleeps m s \<equiv> wp m (\<lambda>_. dormant) (\<lambda>_. dormant) s"

lemma sleeps_ops:
  assumes "dormant s"
  shows "sleeps (ret ()) s" "sleeps (raise e) s" "sleeps (toComp fs) s"
    "calm_cmd (FB c) \<Longrightarrow> sleeps (sendGroup c f) s" "sleeps (setTimeout v now) s"
    "sleeps (setElectionTimeout now) s" "sleeps (updateTimeout now) s"
    "sleeps (sub_update h p) s" "sleeps (heartbeat now) s"
    "sleeps (upd (\<lambda>s. s\<lparr>gt_peers := g s\<rparr>)) s" "sleeps (upd (\<lambda>s. s\<lparr>gt_numPeers := k s\<rparr>)) s"
    "sleeps (forward c f) s" "sleeps (assertA b) s"
  using assms
  by (auto simp: dormant_def calm_effect_def calm_cmd_def wp_simps updateTimeout_def sub_update_def
      heartbeat_def forward_def split: option.split sum.split)

lemma sleeps_seqA: "dormant s \<Longrightarrow> (\<And>m t. m \<in> set ms \<Longrightarrow> dormant t \<Longrightarrow> sleeps m t) \<Longrightarrow> sleeps (seqA ms) s"
  by (rule wp_seqA_inv [where I = dormant])

lemma sleeps_updatePeers: "dormant s \<Longrightarrow> sleeps (updatePeers now) s"
  unfolding updatePeers_def sendChangeMessage_def wp_rd Let_def
  by (auto simp: sleeps_ops intro!: sleeps_seqA wp_forA_inv [where I = dormant])

lemma sleeps_net_leave: "dormant s \<Longrightarrow> sleeps (net_leave f) s"
  unfolding net_leave_def sendChangeMessage_def
  by (auto simp: wp_bnd wp_lift wp_rd wp_raise sleeps_ops intro!: sleeps_seqA split: sum.split)

lemma sleeps_net_heartbeat: "dormant s \<Longrightarrow> sleeps (net_heartbeat f now) s"
  unfolding net_heartbeat_def sendChangeMessage_def
  by (auto simp: wp_rd sleeps_ops wp_whenA intro!: sleeps_seqA split: sum.split)

lemma sleeps_handleTimeout: "dormant s \<Longrightarrow> sleeps (handleTimeout cp now) s"
proof -
  have polls: "sleeps (checkAllPolls cp now) t" if "dormant t" for t
    using that by (auto simp: checkAllPolls_def wp_simps forA.simps dormant_def)
  have act: "sleeps (case gt_state t of FOLLOWER \<Rightarrow> followerTimeout now
      | CANDIDATE \<Rightarrow> candidateTimeout now | LEADER \<Rightarrow> leaderTimeout now) t" if "dormant t" for t
    using that sleeps_ops(5) [OF that]
    by (simp add: followerTimeout_def wp_rd dormant_def)
  have tm: "sleeps (rd gt_state (\<lambda>st. case st of FOLLOWER \<Rightarrow> followerTimeout now
      | CANDIDATE \<Rightarrow> candidateTimeout now | LEADER \<Rightarrow> leaderTimeout now)) t"
    "sleeps (rd gt_coordinated assertA) t" if "dormant t" for t
    using act [OF that] sleeps_ops(13) [OF that] by (simp_all add: wp_rd)
  assume d: "dormant s"
  show "sleeps (handleTimeout cp now) s"
    unfolding handleTimeout_def
  proof (rule sleeps_seqA [OF d])
    fix m t assume "dormant t" "m \<in> set [rd gt_coordinated assertA, updatePeers now, checkAllPolls cp now,
      rd gt_state (\<lambda>st. case st of FOLLOWER \<Rightarrow> followerTimeout now
      | CANDIDATE \<Rightarrow> candidateTimeout now | LEADER \<Rightarrow> leaderTimeout now)]"
    then show "sleeps m t"
      by (elim set_ConsD [elim_format] disjE) (simp_all add: tm sleeps_updatePeers polls)
  qed
qed

lemma sleeps_withLeader: "dormant s \<Longrightarrow> sleeps (withLeader m) s"
  using sleeps_ops(3) [of s "[FB GROUP_NLD]"] by (auto simp: withLeader_def wp_rd dormant_def)

lemma sleeps_reportZMQ: "dormant s \<Longrightarrow> sleeps m s \<Longrightarrow> sleeps (reportZMQ m) s"
  unfolding reportZMQ_def wp_tryA
  by (erule wp_mono) (auto simp: sleeps_ops split: pyexc.split)

lemma sleeps_handleCompMessage:
  "dormant s \<Longrightarrow> wp (handleCompMessage cp fs) (\<lambda>_. dormant) (\<lambda>_. dormant) s"
proof -
  assume d: "dormant s"
  have send: "sleeps (sendGroup GROUP_MSG m) t" "sleeps (sendGroup GROUP_MLT m) t"
    if "dormant t" for m t
    using that by (auto intro!: sleeps_ops simp: calm_cmd_def)
  have msg: "sleeps (comp_msg fs) s"
    unfolding comp_msg_def
    by (auto simp: wp_bnd wp_lift d intro!: sleeps_reportZMQ sleeps_seqA send sleeps_ops split: sum.split)
  have rest: "sleeps (comp_upd fs) s" "sleeps comp_mlt s"
    unfolding comp_upd_def comp_mlt_def
    by (auto simp: wp_bnd wp_lift wp_rd d intro!: sleeps_ops send split: sum.split)
  note ldr = sleeps_withLeader [OF d]
  show ?thesis
    unfolding handleCompMessage_def comp_mtl_def comp_mfl_def comp_rfv_def comp_rtc_def
    using d msg rest ldr
    by (auto simp: wp_bnd wp_lift wp_ret split: sum.split)
qed

lemma sleeps_election_net: "dormant s \<Longrightarrow> calm_cmd c \<Longrightarrow> sleeps (election_net c f now) s"
  using sleeps_ops(6) [of s now]
  by (auto simp: election_net_def wp_rd wp_ret follower_net_def calm_cmd_def dc_commands dormant_def)

lemma calm_not: "calm_cmd (FB GROUP_RCM) = False" "calm_cmd (FB GROUP_ANN) = False"
  by (simp_all add: calm_cmd_def dc_commands)

lemma sleeps_handleNetMessage:
  assumes "dormant s" "raw = c # rest" "calm_cmd c"
  shows "sleeps (handleNetMessage raw now) s"
proof (cases "recv_frames raw")
  case (Inl e)
  with assms(1) show ?thesis by (simp add: handleNetMessage_def wp_simps)
next
  case (Inr fs')
  have fs: "fs' = raw" using Inr by (auto simp: recv_frames_def split: if_splits sum.splits)
  show ?thesis
    using assms Inr fs sleeps_election_net [OF _ assms(3)]
    by (auto simp: handleNetMessage_def Let_def wp_bnd wp_lift sleeps_ops sleeps_net_leave wp_rd wp_whenA
        sleeps_net_heartbeat calm_not intro!: sleeps_seqA)
qed

lemma sleeps_set_env: "dormant s \<Longrightarrow> dormant (set_env r s)"
  by (simp add: dormant_def set_env_def)

section \<open>The group\<close>

text \<open>
  The threads of a group, those still running, and the messages that may still be delivered: all
  that was ever sent, in any order, any number of times or never.
\<close>

record 'i group =
  members :: "'i \<Rightarrow> gthread"
  running :: "'i set"

definition deliverable :: "'i group \<Rightarrow> round \<Rightarrow> bool" where
  "deliverable g r \<longleftrightarrow>
     (\<forall>fs. ev_net r = Some fs \<longrightarrow> (\<exists>i. PubSend fs \<in> set (gt_out (members g i)))) \<and>
     (\<forall>fs. ev_ans r = Some fs \<longrightarrow> (\<exists>i. QrySend (tl fs) \<in> set (gt_out (members g i)))) \<and>
     (\<forall>fs. ev_qry r = Some fs \<longrightarrow> (\<exists>i f. AnsSend (f # fs) \<in> set (gt_out (members g i))))"

text \<open>One member runs one round of its loop; it stops when it leaves or an exception ends it.\<close>

inductive group_step :: "capnp \<Rightarrow> 'i group \<Rightarrow> 'i group \<Rightarrow> bool" for cp where
  round: "i \<in> running g \<Longrightarrow> deliverable g r \<Longrightarrow> run_round cp r (members g i) = (res, t) \<Longrightarrow>
    group_step cp g \<lparr>members = (members g)(i := t),
      running = (if res = Inr False then running g else running g - {i})\<rparr>"

abbreviation group_run :: "capnp \<Rightarrow> 'i group \<Rightarrow> 'i group \<Rightarrow> bool" where
  "group_run cp \<equiv> (group_step cp)\<^sup>*\<^sup>*"

definition all_dormant :: "'i group \<Rightarrow> bool" where
  "all_dormant g \<longleftrightarrow> (\<forall>i. dormant (members g i))"

lemma sleeps_run_round:
  assumes "all_dormant g" "deliverable g r"
  shows "wp (run_round cp r) (\<lambda>_. dormant) (\<lambda>_. dormant) (members g i)"
proof -
  have d: "dormant (members g j)" for j using assms(1) by (simp add: all_dormant_def)
  then have calm: "list_all calm_effect (gt_out (members g j))" for j
    by (simp add: dormant_def)
  have eff: "x \<in> set (gt_out (members g j)) \<Longrightarrow> calm_effect x" for x j
    using calm [of j] by (simp add: list_all_iff)
  have out: "QrySend fs \<notin> set (gt_out (members g j))" "AnsSend fs \<notin> set (gt_out (members g j))"
    for fs j
    by (auto dest!: eff simp: calm_effect_def)
  have pub: "\<exists>c rest. fs = c # rest \<and> calm_cmd c" if "PubSend fs \<in> set (gt_out (members g j))" for fs j
    using eff [OF that] by (simp add: calm_effect_def split: list.splits)
  have none: "ev_ans r = None" "ev_qry r = None"
    using assms(2) out by (cases "ev_ans r"; cases "ev_qry r"; simp add: deliverable_def)+
  have net: "ev_net r = Some fs \<Longrightarrow> \<exists>c rest. fs = c # rest \<and> calm_cmd c" for fs
    using assms(2) pub by (auto simp: deliverable_def)
  have hn: "sleeps (dispatch (ev_net r) (\<lambda>fs. handleNetMessage fs (ev_time r))) s" if "dormant s" for s
    using net that by (cases "ev_net r") (auto simp: dispatch_def wp_simps intro: sleeps_handleNetMessage)
  have dp: "sleeps (dispatch None h) s" if "dormant s" for s :: gthread and h :: "frame list \<Rightarrow> unit gact"
    using that by (simp add: dispatch_def wp_simps)
  have hc: "wp (case ev_comp r of None \<Rightarrow> ret False | Some fs \<Rightarrow> handleCompMessage cp fs)
      (\<lambda>_. dormant) (\<lambda>_. dormant) s" if "dormant s" for s
    using that by (auto simp: wp_simps sleeps_handleCompMessage split: option.split)
  have pre: "sleeps (whenA c (seqA [heartbeat (ev_time r), updatePeers (ev_time r)])) s"
    if "dormant s" for s c
    using that sleeps_ops(9) [OF that]
    by (auto simp: wp_whenA sleeps_ops sleeps_updatePeers intro!: sleeps_seqA)
  have post: "sleeps (whenA c (seqA [dispatch (ev_ans r) (handleMessageForLeader cp),
      dispatch (ev_qry r) handleMessageForMember])) s" if "dormant s" for s c
    using that by (auto simp: wp_whenA none dp intro!: sleeps_seqA)
  show ?thesis
    unfolding run_round_def Let_def wp_bnd wp_upd wp_rd
    apply (rule wp_mono [OF pre [OF sleeps_set_env [OF d]]])
     apply (simp only: wp_if wp_bnd wp_ret split: if_split)
     apply (intro conjI impI)
      apply (erule sleeps_handleTimeout)
     apply (rule wp_mono [OF hc], assumption)
      apply (subst wp_bnd, rule wp_mono [OF hn], assumption)
       apply (subst wp_bnd, subst wp_ret, erule post)
      apply assumption+
    done
qed

lemma group_step_dormant: "group_step cp g h \<Longrightarrow> all_dormant g \<Longrightarrow> all_dormant h"
proof (induction rule: group_step.induct)
  case (round i g r res t)
  from sleeps_run_round [OF round(4,2), of cp i] round(3)
  have "dormant t" by (auto simp: wp_def split: sum.splits)
  with round(4) show ?case by (simp add: all_dormant_def)
qed

lemma group_run_dormant: "group_run cp g h \<Longrightarrow> all_dormant g \<Longrightarrow> all_dormant h"
  by (induction rule: rtranclp_induct) (auto intro: group_step_dormant)
section \<open>Properties\<close>

text \<open>
  A candidate whose election times out becomes a follower that knows no leader and has no
  deadline after which it would stand again; with no poll and no earlier election message of its
  own in transit it is dormant.
\<close>

theorem failed_candidate_waits:
  assumes "gt_inv s" "gt_state s = CANDIDATE"
  shows "wp (candidateTimeout now)
      (\<lambda>_ t. gt_state t = FOLLOWER \<and> gt_leader t = None \<and> gt_votedFor t = None \<and>
         gt_leaderDeadline t = None \<and> gt_timeout t = Some (gt_groupHeartbeat s) \<and> gt_out t = gt_out s)
      (\<lambda>_ _. False) s"
  using assms
  by (auto simp: candidateTimeout_def leaderExits_def wp_simps gt_inv_def role_ok_def)

theorem failed_candidate_waits_witness:
  "wp (candidateTimeout 7)
      (\<lambda>_ t. gt_state t = FOLLOWER \<and> gt_leader t = None \<and> gt_votedFor t = None \<and>
         gt_leaderDeadline t = None \<and> gt_timeout t = Some 1000 \<and> gt_out t = [])
      (\<lambda>_ _. False)
      ((sample_thread idA)\<lparr>gt_state := CANDIDATE, gt_votes := 1, gt_votedFor := Some idA\<rparr>)"
  using failed_candidate_waits
    [of "(sample_thread idA)\<lparr>gt_state := CANDIDATE, gt_votes := 1, gt_votedFor := Some idA\<rparr>" 7]
  by (simp add: gt_inv_defs sample_defs idA_def)

text \<open>
  Once every member of a group is dormant, none of them ever stands for election or accepts a
  leader again, whatever the components request, whenever the members run, and in whatever order
  messages are delivered, repeated or lost: the deadline that starts an election is set only by a
  message from a leader.
\<close>

theorem dormant_group_elects_nobody:
  assumes "all_dormant g" "group_run cp g h"
  shows "gt_state (members h i) = FOLLOWER \<and> gt_leader (members h i) = None \<and>
    PubSend (FB REQVOTE # fs) \<notin> set (gt_out (members h i)) \<and>
    PubSend (FB AUTHORITY # fs) \<notin> set (gt_out (members h i))"
proof -
  have "dormant (members h i)"
    using group_run_dormant [OF assms(2,1)] by (simp add: all_dormant_def)
  moreover have "\<not> calm_cmd (FB REQVOTE)" "\<not> calm_cmd (FB AUTHORITY)"
    by (simp_all add: calm_cmd_def dc_commands)
  ultimately show ?thesis
    by (auto simp: dormant_def calm_effect_def list_all_iff)
qed

definition tired :: "bytes \<Rightarrow> gthread" where
  "tired i = (sample_thread i)\<lparr>gt_leaderDeadline := None, gt_term := 1, gt_numPeers := 3,
     gt_peers := [(idA, 0), (idB, 0), (''CCCCCCCCCCCCCCCC'', 0)]\<rparr>"

definition tired_group :: "bool group" where
  "tired_group = \<lparr>members = (\<lambda>b. tired (if b then idA else idB)), running = {True}\<rparr>"

text \<open>Nine time units later, with three live peers in a group of three, a round brings nothing.\<close>

theorem dormant_group_elects_nobody_witness:
  "gt_state (snd (run_round sample_capnp (sample_round\<lparr>ev_time := 1\<rparr>) (tired idA))) = FOLLOWER"
proof -
  let ?r = "sample_round\<lparr>ev_time := 1\<rparr>"
  obtain res t where run: "run_round sample_capnp ?r (tired idA) = (res, t)"
    by (cases "run_round sample_capnp ?r (tired idA)")
  let ?h = "\<lparr>members = (members tired_group)(True := t),
    running = (if res = Inr False then running tired_group else running tired_group - {True})\<rparr>"
  have "dormant (tired i)" for i
    by (simp add: dormant_def tired_def sample_defs)
  then have d: "all_dormant tired_group"
    by (simp add: all_dormant_def tired_group_def)
  have "group_step sample_capnp tired_group ?h"
    by (rule group_step.round [where r = ?r])
      (use run in \<open>simp_all add: tired_group_def deliverable_def sample_round_def\<close>)
  from dormant_group_elects_nobody [OF d r_into_rtranclp [of "group_step sample_capnp", OF this], of True]
  show ?thesis using run by simp
qed

end
