(* ===== verification/DcGroup.thy ===== *)
theory DcGroup
  imports DcElection
begin

text \<open>
  The component's side of coordination (\<open>riaps/run/dc.py\<close>): the \<open>Group\<close> object that talks to its
  \<open>GroupThread\<close> over a pair of sockets, and the \<open>Coordinator\<close> that keeps a component's groups.

  \<^item> What the thread sends back is a list of messages, consumed in order; an operation that waits
    for a message that never comes answers \<open>None\<close>.
  \<^item> The component's own handlers are a parameter \<open>usr\<close>: any action on the group object. Pickle is
    a parameter too, a \<open>dumps\<close> and a \<open>loads\<close> that may fail.
\<close>

section \<open>The group object\<close>

datatype group_event =
    HGroupMessage | HMessageToLeader | HMessageFromLeader
  | HActionVoteRequest string pyfloat | HVoteRequest string | HVoteResult string ballot
  | HMemberJoined frame | HMemberLeft frame | HLeaderElected frame | HLeaderExited frame

record grp =
  g_name :: string
  g_coordinated :: bool
  g_isTimed :: bool
  g_leader :: "bytes option"
  g_identity :: "frame option"
  g_queue :: "frame list"
  g_times :: "(frame \<times> frame) option"
  g_sent :: "frame list list"
  g_events :: "group_event list"

type_synonym 'a oact = "(grp, 'a) act"

text \<open>A call of one of the component's handlers, recorded before it runs.\<close>

definition call :: "(group_event \<Rightarrow> unit oact) \<Rightarrow> group_event \<Rightarrow> unit oact" where
  "call usr e = bnd (upd (\<lambda>s. s\<lparr>g_events := g_events s @ [e]\<rparr>)) (\<lambda>_. usr e)"

definition enqueue :: "frame \<Rightarrow> unit oact" where
  "enqueue m = upd (\<lambda>s. s\<lparr>g_queue := g_queue s @ [m]\<rparr>)"

text \<open>\<open>if self.isTimed\<close>: receive and send time are two frames that follow the payload.\<close>

definition saveTimes :: "frame list \<Rightarrow> nat \<Rightarrow> unit oact" where
  "saveTimes fs i = rd g_isTimed (\<lambda>timed. if timed then
     bnd (lift (frame_at fs i)) (\<lambda>r. bnd (lift (frame_at fs (i + 1))) (\<lambda>t.
       upd (\<lambda>s. s\<lparr>g_times := Some (r, t)\<rparr>)))
     else ret ())"

definition data_msg :: "(group_event \<Rightarrow> unit oact) \<Rightarrow> group_event \<Rightarrow> frame list \<Rightarrow> unit oact" where
  "data_msg usr e fs = bnd (lift (frame_at fs 1)) (\<lambda>m.
     seqA [enqueue m, saveTimes fs 2, call usr e])"

definition leader_msg :: "(group_event \<Rightarrow> unit oact) \<Rightarrow> frame list \<Rightarrow> unit oact" where
  "leader_msg usr fs = bnd (lift (frame_at fs 1)) (\<lambda>m. bnd (lift (frame_at fs 2)) (\<lambda>i.
     seqA [upd (\<lambda>s. s\<lparr>g_identity := Some i\<rparr>), enqueue m, saveTimes fs 3,
       call usr HMessageToLeader]))"

definition vote_request_msg :: "capnp \<Rightarrow> (group_event \<Rightarrow> unit oact) \<Rightarrow> frame list \<Rightarrow> unit oact" where
  "vote_request_msg cp usr fs = bnd (lift (frame_at fs 1)) (\<lambda>m. bnd (saveTimes fs 2) (\<lambda>_.
     bnd (lift (from_bytes cp m)) (\<lambda>v. case v of
       Rfv r \<Rightarrow> seqA [enqueue (FB (rfv_topic r)),
         (case rfv_subject r of
            ACTION \<Rightarrow> call usr (HActionVoteRequest (rfv_rfvId r) (rfv_release r))
          | VALUE \<Rightarrow> call usr (HVoteRequest (rfv_rfvId r)))]
     | _ \<Rightarrow> ret ())))"

definition vote_result_msg :: "capnp \<Rightarrow> (group_event \<Rightarrow> unit oact) \<Rightarrow> frame list \<Rightarrow> unit oact" where
  "vote_result_msg cp usr fs = bnd (lift (frame_at fs 1)) (\<lambda>m. bnd (saveTimes fs 2) (\<lambda>_.
     bnd (lift (from_bytes cp m)) (\<lambda>v. case v of
       Ann i b \<Rightarrow> call usr (HVoteResult i b)
     | _ \<Rightarrow> ret ())))"

definition change_msg :: "(group_event \<Rightarrow> unit oact) \<Rightarrow> (frame \<Rightarrow> group_event) \<Rightarrow> frame list \<Rightarrow> unit oact" where
  "change_msg usr e fs = bnd (lift (frame_at fs 1)) (\<lambda>i. call usr (e i))"

text \<open>\<open>Group.handleMessage\<close>: a \<open>ZMQError\<close> on the way becomes a \<open>PortError\<close>.\<close>

definition handleGroupMsg :: "capnp \<Rightarrow> (group_event \<Rightarrow> unit oact) \<Rightarrow> frame list \<Rightarrow> unit oact" where
  "handleGroupMsg cp usr fs = tryA (bnd (lift (frame_at fs 0)) (\<lambda>cmd.
     if cmd = FB GROUP_MSG then data_msg usr HGroupMessage fs
     else if cmd = FB GROUP_MTL then leader_msg usr fs
     else if cmd = FB GROUP_MFL then data_msg usr HMessageFromLeader fs
     else if cmd = FB GROUP_RCM then vote_request_msg cp usr fs
     else if cmd = FB GROUP_ANN then vote_result_msg cp usr fs
     else if cmd = FB GROUP_MJD then change_msg usr HMemberJoined fs
     else if cmd = FB GROUP_MLT then change_msg usr HMemberLeft fs
     else if cmd = FB GROUP_LEL then change_msg usr HLeaderElected fs
     else if cmd = FB GROUP_LEX then change_msg usr HLeaderExited fs
     else ret ()))
   (\<lambda>e. case e of ZMQError n \<Rightarrow> raise (PortError n) | _ \<Rightarrow> raise e)"

section \<open>Sending\<close>

text \<open>
  The loop of \<open>send_port\<close>: messages that are no answer are handled on the way. For \<open>GROUP_ERR\<close> the
  code calls \<open>PortError\<close> with three arguments; the constructor takes two, so a \<open>TypeError\<close> is what
  the caller sees, unless the error does not unpickle.
\<close>

fun await_reply :: "capnp \<Rightarrow> (group_event \<Rightarrow> unit oact) \<Rightarrow> frame list list \<Rightarrow> bool option oact" where
  "await_reply cp usr [] = ret None"
| "await_reply cp usr (fs # rest) = bnd (lift (frame_at fs 0)) (\<lambda>res.
     if res = FB GROUP_ACK then ret (Some True)
     else if res = FB GROUP_NLD then ret (Some False)
     else if res = FB GROUP_ERR then bnd (lift (frame_at fs 1)) (\<lambda>_. raise TypeError)
     else bnd (handleGroupMsg cp usr fs) (\<lambda>_. await_reply cp usr rest))"

text \<open>\<open>self.identity\<close> does not exist before it is first assigned.\<close>

definition identity_frames :: "bool \<Rightarrow> frame list oact" where
  "identity_frames has_identity = (if has_identity then rd g_identity (\<lambda>i. case i of
     None \<Rightarrow> raise AttributeError | Some f \<Rightarrow> ret [f]) else ret [])"

definition send_port ::
  "capnp \<Rightarrow> (group_event \<Rightarrow> unit oact) \<Rightarrow> frame list list \<Rightarrow> bytes \<Rightarrow> bytes \<Rightarrow> bool \<Rightarrow> bool option oact" where
  "send_port cp usr replies msgType msg has_identity = bnd (identity_frames has_identity) (\<lambda>idf.
     bnd (upd (\<lambda>s. s\<lparr>g_sent := g_sent s @ [[FB msgType, FB msg] @ idf]\<rparr>)) (\<lambda>_.
       await_reply cp usr replies))"

definition group_send ::
  "capnp \<Rightarrow> (group_event \<Rightarrow> unit oact) \<Rightarrow> frame list list \<Rightarrow> bytes \<Rightarrow> bool option oact" where
  "group_send cp usr replies msg = send_port cp usr replies GROUP_MSG msg False"

text \<open>\<open>Group.update\<close>: passes the address of a publisher on to the thread.\<close>

definition group_update :: "string \<Rightarrow> pyfloat \<Rightarrow> unit oact" where
  "group_update host port =
     upd (\<lambda>s. s\<lparr>g_sent := g_sent s @ [[FB GROUP_UPD, FB host, FD port]]\<rparr>)"

text \<open>\<open>if self.groupThread.leader\<close>: neither None nor empty.\<close>

definition hasLeader :: "grp \<Rightarrow> bool" where
  "hasLeader s \<longleftrightarrow> (case g_leader s of None \<Rightarrow> False | Some l \<Rightarrow> l \<noteq> [])"

text \<open>
  The operations of a coordinated group. In an uncoordinated one the code means to raise a
  \<open>PortError\<close>, but gives its constructor one argument instead of two.
\<close>

definition ifCoordinated :: "'a oact \<Rightarrow> 'a oact" where
  "ifCoordinated m = rd g_coordinated (\<lambda>c. if c then m else raise TypeError)"

definition group_sendToLeader ::
  "capnp \<Rightarrow> (group_event \<Rightarrow> unit oact) \<Rightarrow> frame list list \<Rightarrow> bytes \<Rightarrow> bool option oact" where
  "group_sendToLeader cp usr replies msg = ifCoordinated (rd hasLeader (\<lambda>l.
     if l then send_port cp usr replies GROUP_MTL msg False else ret (Some False)))"

definition group_sendToMember ::
  "capnp \<Rightarrow> (group_event \<Rightarrow> unit oact) \<Rightarrow> frame list list \<Rightarrow> bytes \<Rightarrow> frame option \<Rightarrow> bool option oact" where
  "group_sendToMember cp usr replies msg idn = ifCoordinated (rd hasLeader (\<lambda>l.
     if l then bnd (case idn of None \<Rightarrow> ret () | Some i \<Rightarrow> upd (\<lambda>s. s\<lparr>g_identity := Some i\<rparr>)) (\<lambda>_.
       rd g_identity (\<lambda>i. if i = None then raise AttributeError
         else send_port cp usr replies GROUP_MFL msg True))
     else ret (Some False)))"

section \<open>Votes\<close>

definition rfv_alphabet :: string where
  "rfv_alphabet = ''ABCDEFGHIJKLMNOPQRSTUVWXYZ0123456789''"

text \<open>\<open>''.join(random.choices(ascii_uppercase + digits, k=8))\<close>, from eight draws.\<close>

definition rfv_id :: "(nat \<Rightarrow> nat) \<Rightarrow> string" where
  "rfv_id draw = map (\<lambda>i. rfv_alphabet ! (draw i mod 36)) [0..<8]"

definition vote_timeout :: "pyfloat option \<Rightarrow> pyfloat" where
  "vote_timeout t = (case t of None \<Rightarrow> 0 | Some x \<Rightarrow> x / 1000)"

definition vote_request ::
  "bytes \<Rightarrow> string \<Rightarrow> voting \<Rightarrow> subject \<Rightarrow> pyfloat \<Rightarrow> pyfloat \<Rightarrow> pyfloat option \<Rightarrow> req_for_vote" where
  "vote_request topic i kind subj when now tmo = \<lparr> rfv_topic = topic, rfv_rfvId = i,
     rfv_kind = kind, rfv_subject = subj, rfv_release = when, rfv_started = now,
     rfv_timeout = vote_timeout tmo \<rparr>"

text \<open>What a request for a vote returns: an id, None or (\<open>requestVote_pyobj\<close>) False.\<close>

datatype vote_handle = VoteId string | NoVote | VoteFalse

definition ask ::
  "capnp \<Rightarrow> (group_event \<Rightarrow> unit oact) \<Rightarrow> frame list list \<Rightarrow> req_for_vote \<Rightarrow> vote_handle \<Rightarrow> vote_handle option oact" where
  "ask cp usr replies r none = ifCoordinated (rd hasLeader (\<lambda>l. if l then
     bnd (send_port cp usr replies GROUP_RFV (cp_enc cp (Rfv r)) False) (\<lambda>res.
       ret (case res of None \<Rightarrow> None | Some ok \<Rightarrow> Some (if ok then VoteId (rfv_rfvId r) else none)))
     else ret (Some none)))"

definition requestVote where
  "requestVote cp usr replies draw now topic kind tmo =
     ask cp usr replies (vote_request topic (rfv_id draw) kind VALUE 0 now tmo) NoVote"

definition requestVote_pyobj where
  "requestVote_pyobj cp usr replies draw now dumps topic kind tmo =
     ask cp usr replies (vote_request (dumps topic) (rfv_id draw) kind VALUE 0 now tmo) VoteFalse"

definition requestActionVote where
  "requestActionVote cp usr replies draw now action when kind tmo =
     ask cp usr replies (vote_request action (rfv_id draw) kind ACTION when now tmo) NoVote"

definition requestActionVote_pyobj where
  "requestActionVote_pyobj cp usr replies draw now dumps action when kind tmo =
     ask cp usr replies (vote_request (dumps action) (rfv_id draw) kind ACTION when now tmo) NoVote"

definition sendVote ::
  "capnp \<Rightarrow> (group_event \<Rightarrow> unit oact) \<Rightarrow> frame list list \<Rightarrow> string \<Rightarrow> bool \<Rightarrow> bool option oact" where
  "sendVote cp usr replies i v = ifCoordinated (
     send_port cp usr replies GROUP_RTC (cp_enc cp (Rtc i (if v then Yes else No))) False)"

section \<open>Receiving\<close>

definition EFAULT :: int where "EFAULT = 14"

definition recv_msg :: "frame oact" where
  "recv_msg = rd g_queue (\<lambda>q. case q of
     [] \<Rightarrow> raise (PortError EFAULT)
   | m # ms \<Rightarrow> bnd (upd (\<lambda>s. s\<lparr>g_queue := ms\<rparr>)) (\<lambda>_. ret m))"

definition recv_msg_pyobj :: "(frame \<Rightarrow> pyexc + 'o) \<Rightarrow> 'o oact" where
  "recv_msg_pyobj loads = bnd recv_msg (\<lambda>m. lift (loads m))"

section \<open>The coordinator\<close>

record group_spec =
  gs_message :: string
  gs_timed :: bool
  gs_kind :: string
  gs_params :: "(string, int) dict"

record group_timing =
  tm_heartbeat :: int
  tm_electionMin :: int
  tm_electionMax :: int
  tm_peerTimeout :: int
  tm_consensusTimeout :: int

text \<open>\<open>modelParams.get(name, None) or value\<close>: a parameter that is absent or 0 has its default.\<close>

definition group_param :: "group_spec \<Rightarrow> string \<Rightarrow> int \<Rightarrow> int" where
  "group_param gs n dflt = (case map_of (gs_params gs) n of
     None \<Rightarrow> dflt | Some v \<Rightarrow> (if v = 0 then dflt else v))"

definition setupParams :: "group_spec \<Rightarrow> pyexc + group_timing" where
  "setupParams gs = (let
     hb = group_param gs ''heartbeat'' 1000;
     mn = group_param gs ''electionMin'' 1500;
     mx = group_param gs ''electionMax'' 2000;
     pt = group_param gs ''peerTimeout'' 3000;
     ct = group_param gs ''consensusTimeout'' 1500
   in if list_all (\<lambda>v. v > 0) [hb, mn, mx, pt, ct] \<and> hb < mn \<and> mn < mx \<and> mx < pt \<and> ct < mx
      then Inr \<lparr>tm_heartbeat = hb, tm_electionMin = mn, tm_electionMax = mx, tm_peerTimeout = pt,
        tm_consensusTimeout = ct\<rparr>
      else Inl AssertionError)"

text \<open>The parameters of the group thread, from those of its group.\<close>

definition thread_config :: "group_spec \<Rightarrow> group_timing \<Rightarrow> int \<Rightarrow> bytes \<Rightarrow> bytes \<Rightarrow> int \<Rightarrow> gconfig" where
  "thread_config gs tm host actorId objId n = \<lparr> cf_kind = gs_kind gs, cf_timed = gs_timed gs,
     cf_host = host, cf_actorId = actorId, cf_objId = objId, cf_groupSize = n,
     cf_heartbeat = tm_heartbeat tm, cf_electionMin = tm_electionMin tm,
     cf_electionMax = tm_electionMax tm, cf_peerTimeout = tm_peerTimeout tm,
     cf_consensusTimeout = tm_consensusTimeout tm \<rparr>"

text \<open>
  The coordinator of one component: the group types of the application, the groups joined so far by
  their name (a group object is known by the number of its socket), the part's control messages.
\<close>

datatype group_note =
    JoinNote string string string string int string
  | LeaveNote string string

record coordinator =
  co_types :: "(string, group_spec) dict"
  co_members :: "(string, nat) dict"
  co_notes :: "group_note list"

type_synonym 'a cact = "(coordinator, 'a) act"

definition py_identifier :: "string \<Rightarrow> bool" where
  "py_identifier s = (case s of [] \<Rightarrow> False
     | c # cs \<Rightarrow> c \<in> set ''_abcdefghijklmnopqrstuvwxyzABCDEFGHIJKLMNOPQRSTUVWXYZ'' \<and>
         list_all (\<lambda>d. d \<in> set ''_abcdefghijklmnopqrstuvwxyzABCDEFGHIJKLMNOPQRSTUVWXYZ0123456789'') cs)"

definition groupName :: "string \<Rightarrow> string \<Rightarrow> string" where
  "groupName gt gi = gt @ ''.'' @ gi"

definition getGroup :: "string \<Rightarrow> string \<Rightarrow> coordinator \<Rightarrow> nat option" where
  "getGroup gt gi c = map_of (co_members c) (groupName gt gi)"

text \<open>
  \<open>Coordinator.joinGroup\<close> with the construction of the \<open>Group\<close>: \<open>sock\<close> is its new socket,
  \<open>host\<close> and \<open>port\<close> the address its publisher was bound to, \<open>partName\<close> the component's name.
\<close>

definition coord_joinGroup ::
  "string \<Rightarrow> string \<Rightarrow> nat \<Rightarrow> string \<Rightarrow> int \<Rightarrow> string \<Rightarrow> nat option cact" where
  "coord_joinGroup gt gi sock host port partName =
     (if \<not> py_identifier gi then ret None
      else rd (\<lambda>c. c) (\<lambda>c. case map_of (co_types c) gt of
        None \<Rightarrow> ret None
      | Some gs \<Rightarrow> (case getGroup gt gi c of
          Some g \<Rightarrow> ret (Some g)
        | None \<Rightarrow> bnd (lift (setupParams gs)) (\<lambda>_.
            bnd (upd (\<lambda>c. c\<lparr>co_notes := co_notes c @ [JoinNote gt gi (gs_message gs) host port partName],
                co_members := AList.update (groupName gt gi) sock (co_members c)\<rparr>)) (\<lambda>_.
              ret (Some sock))))))"

definition coord_leaveGroup :: "string \<Rightarrow> string \<Rightarrow> unit cact" where
  "coord_leaveGroup name partName = seqA [
     upd (\<lambda>c. c\<lparr>co_notes := co_notes c @ [LeaveNote name partName]\<rparr>),
     rd co_members (\<lambda>m. if has_key m name
       then upd (\<lambda>c. c\<lparr>co_members := AList.delete name (co_members c)\<rparr>)
       else raise KeyError)]"

section \<open>Properties\<close>

text \<open>
  The timing a group accepts is one its thread runs with: positive, and ordered so that every
  random draw the thread makes has a value. Anything else is rejected when the group is created.
\<close>

theorem accepted_timing_is_sane:
  "case setupParams gs of
     Inl e \<Rightarrow> e = AssertionError
   | Inr tm \<Rightarrow> (gs_kind gs \<noteq> ''default'' \<and> length (a @ i) = 16 \<longrightarrow> config_ok (thread_config gs tm h a i n)) \<and>
       0 < tm_consensusTimeout tm \<and> tm_consensusTimeout tm < tm_electionMax tm"
  by (auto simp: setupParams_def Let_def config_ok_def thread_config_def)

lemma accepted_timing_is_sane_witness:
  "config_ok (thread_config \<lparr>gs_message = ''M'', gs_timed = False, gs_kind = ''coordinated'',
      gs_params = [(''heartbeat'', 700), (''peerTimeout'', 0)]\<rparr>
     \<lparr>tm_heartbeat = 700, tm_electionMin = 1500, tm_electionMax = 2000, tm_peerTimeout = 3000,
      tm_consensusTimeout = 1500\<rparr> 1 (take 8 idA) (drop 8 idA) 3)"
  using accepted_timing_is_sane [of "\<lparr>gs_message = ''M'', gs_timed = False, gs_kind = ''coordinated'',
      gs_params = [(''heartbeat'', 700), (''peerTimeout'', 0)]\<rparr>" "take 8 idA" "drop 8 idA" 1 3]
  by (simp add: setupParams_def group_param_def idA_def)

lemma handle_data_msg: "\<not> g_isTimed s \<Longrightarrow> usr HGroupMessage = ret () \<Longrightarrow>
   handleGroupMsg cp usr [FB GROUP_MSG, FB m] s =
     (Inr (), s\<lparr>g_queue := g_queue s @ [FB m], g_events := g_events s @ [HGroupMessage]\<rparr>)"
  by (simp add: handleGroupMsg_def tryA_def bnd_def lift_def frame_at_def data_msg_def seqA.simps
      enqueue_def upd_def saveTimes_def rd_def call_def ret_def)

lemma await_data_msgs: "\<not> g_isTimed s \<Longrightarrow> usr HGroupMessage = ret () \<Longrightarrow>
   await_reply cp usr (map (\<lambda>m. [FB GROUP_MSG, FB m]) ms @ [FB GROUP_ACK] # rest) s =
     (Inr (Some True), s\<lparr>g_queue := g_queue s @ map FB ms,
        g_events := g_events s @ replicate (length ms) HGroupMessage\<rparr>)"
proof (induction ms arbitrary: s)
  case Nil
  then show ?case by (simp add: bnd_def lift_def frame_at_def ret_def)
next
  case (Cons m ms)
  from Cons.IH [of "s\<lparr>g_queue := g_queue s @ [FB m], g_events := g_events s @ [HGroupMessage]\<rparr>"]
    Cons.prems handle_data_msg [of s usr cp m]
  show ?case
    by (simp add: bnd_def lift_def frame_at_def dc_commands)
qed


definition sample_grp :: grp where
  "sample_grp = \<lparr> g_name = ''G.a'', g_coordinated = True, g_isTimed = False, g_leader = Some idB,
     g_identity = None, g_queue = [], g_times = None, g_sent = [], g_events = [] \<rparr>"


text \<open>
  What a group reports in place of the failures it announces. Operations on an uncoordinated
  group send nothing and raise a \<open>TypeError\<close>; so does a send that the thread answers with an
  error. Neither is the \<open>PortError\<close> of the documentation.
\<close>

theorem group_errors_are_type_errors:
  "\<not> g_coordinated s \<Longrightarrow>
     group_sendToLeader cp usr rs m s = (Inl TypeError, s) \<and>
     group_sendToMember cp usr rs m i s = (Inl TypeError, s) \<and>
     requestVote cp usr rs draw now m k t s = (Inl TypeError, s) \<and>
     requestActionVote cp usr rs draw now m w k t s = (Inl TypeError, s) \<and>
     sendVote cp usr rs rid v s = (Inl TypeError, s) \<and>
     fst (group_send cp usr ([FB GROUP_ERR, FErr n] # rs) m s) = Inl TypeError"
  by (simp add: group_sendToLeader_def group_sendToMember_def requestVote_def requestActionVote_def
      ask_def sendVote_def ifCoordinated_def rd_def raise_def group_send_def send_port_def
      identity_frames_def bnd_def ret_def upd_def lift_def frame_at_def dc_commands)

theorem group_errors_are_type_errors_witness:
  "fst (sendVote sample_capnp (\<lambda>_. ret ()) [] ''R'' True (sample_grp\<lparr>g_coordinated := False\<rparr>)) = Inl TypeError"
  using group_errors_are_type_errors [of "sample_grp\<lparr>g_coordinated := False\<rparr>" sample_capnp "\<lambda>_. ret ()" "[]"]
  by (simp add: sample_grp_def)

text \<open>
  A vote that a component requests reaches the members. The leader's thread opens a poll for
  the peers it has, with the identity of the requester, and publishes the request; a member's group
  object queues the topic and calls the vote handler with the request's id. This needs a codec that
  decodes this request as it was, and a request that is not older than its timeout.
\<close>

theorem vote_reaches_members:
  assumes codec: "cp_dec cp (cp_enc cp (Rfv r)) = Some (Rfv r)"
    and r: "r = vote_request topic i kind VALUE 0 now (Some tmo)" "tmo \<noteq> 0"
    and late: "env_time s - now \<le> tmo / 1000" and up: "pub_err s = None"
  shows "wp (requestPoll cp (FB (cp_enc cp (Rfv r))) member)
       (\<lambda>_ t. gt_out t = gt_out s @ [PubSend ([FB GROUP_RCM, FB (cp_enc cp (Rfv r))] @ stamp s)] \<and>
          (\<exists>p. map_of (gt_polls t) i = Some p \<and> p_member p = member \<and> p_kind p = kind \<and>
             p_numPeers p = gt_numPeers s \<and> p_voteCnt p = 0))
       (\<lambda>_ _. False) s \<and>
     (\<not> g_isTimed g \<longrightarrow> usr (HVoteRequest i) = ret () \<longrightarrow>
       handleGroupMsg cp usr [FB GROUP_RCM, FB (cp_enc cp (Rfv r))] g =
         (Inr (), g\<lparr>g_queue := g_queue g @ [FB topic], g_events := g_events g @ [HVoteRequest i]\<rparr>))"
proof (intro conjI impI)
  have dec: "from_bytes cp (FB (cp_enc cp (Rfv r))) = Inr (Rfv r)"
    by (simp add: from_bytes_def codec)
  have f: "rfv_rfvId r = i" "rfv_kind r = kind" "rfv_topic r = topic" "rfv_subject r = VALUE"
    "rfv_started r = now" "rfv_timeout r = tmo / 1000"
    using r(1) by (simp_all add: vote_request_def vote_timeout_def)
  show "wp (requestPoll cp (FB (cp_enc cp (Rfv r))) member)
       (\<lambda>_ t. gt_out t = gt_out s @ [PubSend ([FB GROUP_RCM, FB (cp_enc cp (Rfv r))] @ stamp s)] \<and>
          (\<exists>p. map_of (gt_polls t) i = Some p \<and> p_member p = member \<and> p_kind p = kind \<and>
             p_numPeers p = gt_numPeers s \<and> p_voteCnt p = 0))
       (\<lambda>_ _. False) s"
    using r(2) late up
    by (simp add: requestPoll_def startPoll_def wp_simps dec f Let_def new_poll_def stamp_def)
  assume "\<not> g_isTimed g" "usr (HVoteRequest i) = ret ()"
  then show "handleGroupMsg cp usr [FB GROUP_RCM, FB (cp_enc cp (Rfv r))] g =
         (Inr (), g\<lparr>g_queue := g_queue g @ [FB topic], g_events := g_events g @ [HVoteRequest i]\<rparr>)"
    by (simp add: handleGroupMsg_def tryA_def bnd_def lift_def frame_at_def dc_commands
        vote_request_msg_def saveTimes_def rd_def ret_def dec f seqA.simps enqueue_def
        upd_def call_def)
qed

definition sample_request :: req_for_vote where
  "sample_request = vote_request ''t'' ''ID'' MAJORITY VALUE 0 1 (Some 5000)"

definition vote_codec :: capnp where
  "vote_codec = \<lparr>cp_enc = (\<lambda>_. ''v''), cp_dec = (\<lambda>_. Some (Rfv sample_request))\<rparr>"

theorem vote_reaches_members_witness:
  "\<exists>t p. requestPoll vote_codec (FB ''v'') idB (sample_thread idA) = (Inr (), t) \<and>
     map_of (gt_polls t) ''ID'' = Some p \<and> p_member p = idB"
proof -
  have "wp (requestPoll vote_codec (FB (cp_enc vote_codec (Rfv sample_request))) idB)
      (\<lambda>_ t. \<exists>p. map_of (gt_polls t) ''ID'' = Some p \<and> p_member p = idB) (\<lambda>_ _. False) (sample_thread idA)"
    by (rule wp_mono [OF conjunct1 [OF vote_reaches_members [where topic = "''t''" and i = "''ID''"
        and kind = MAJORITY and now = 1 and tmo = 5000]]])
      (auto simp: vote_codec_def sample_request_def sample_thread_def sample_config_def gthread_init_def)
  from wp_total [OF this] show ?thesis by (auto simp: vote_codec_def)
qed

section \<open>The polls of a leader\<close>

definition poll_done :: "pyfloat \<Rightarrow> poll \<Rightarrow> bool" where
  "poll_done now p \<longleftrightarrow> expired p now \<or> allVoted p"

definition verdict :: "pyfloat \<Rightarrow> poll \<Rightarrow> ballot" where
  "verdict now p = (if expired p now then Timeout else if result p then Yes else No)"

definition announcement :: "capnp \<Rightarrow> gthread \<Rightarrow> poll \<Rightarrow> ballot \<Rightarrow> effect" where
  "announcement cp s p b = PubSend ([FB GROUP_ANN, FB (cp_enc cp (Ann (p_rfvId p) b))] @ stamp s)"

definition announced :: "capnp \<Rightarrow> gthread \<Rightarrow> pyfloat \<Rightarrow> (string \<times> poll) list \<Rightarrow> effect list" where
  "announced cp s now ps =
     map (\<lambda>(_, p). announcement cp s p (verdict now p)) (filter (\<lambda>(_, p). poll_done now p) ps)"

lemma wp_checkPoll: "pub_err s = None \<Longrightarrow> wp (checkPoll cp p now) Q E s =
    (if poll_done now p then Q True (s\<lparr>gt_out := gt_out s @ [announcement cp s p (verdict now p)]\<rparr>)
     else Q False s)"
  by (simp add: checkPoll_def announceConsensus_def wp_simps poll_done_def verdict_def announcement_def)

lemma wp_donePolls: "pub_err s = None \<Longrightarrow> wp (donePolls cp ps now) Q E s =
    Q (map fst (filter (\<lambda>(_, p). poll_done now p) ps)) (s\<lparr>gt_out := gt_out s @ announced cp s now ps\<rparr>)"
proof (induction ps arbitrary: s Q)
  case Nil
  then show ?case by (simp add: wp_simps announced_def)
next
  case (Cons kp ps)
  have st: "stamp (s\<lparr>gt_out := xs\<rparr>) = stamp s" for xs by (simp add: stamp_def)
  obtain k p where kp: "kp = (k, p)" by (cases kp)
  show ?case
    using Cons by (simp add: kp wp_simps wp_checkPoll announced_def announcement_def st)
qed

lemma wp_dropPolls: "wp (forA ks dropPoll) Q E s =
    Q () (s\<lparr>gt_polls := filter (\<lambda>(k, _). k \<notin> set ks) (gt_polls s)\<rparr>)"
proof (induction ks arbitrary: s)
  case Nil
  then show ?case by (simp add: forA.simps wp_simps case_prod_beta)
next
  case (Cons k ks)
  have "filter (\<lambda>(k', _). k' \<notin> set ks) (AList.delete k ps) = filter (\<lambda>(k', _). k' \<noteq> k \<and> k' \<notin> set ks) ps"
    for ps :: "(string \<times> poll) list"
    by (induction ps) (auto simp: AList.delete_eq)
  with Cons show ?case by (simp add: forA.simps wp_simps dropPoll_def)
qed

lemma kept_polls:
  assumes d: "distinct (dkeys ps)"
  shows "filter (\<lambda>(k, _). k \<notin> set (map fst (filter (\<lambda>(_, p). D p) ps))) ps = filter (\<lambda>(_, p). \<not> D p) ps"
proof (rule filter_cong [OF refl])
  fix x assume m: "x \<in> set ps"
  obtain k p where x: "x = (k, p)" by (cases x)
  have "(k, q) \<in> set ps \<longleftrightarrow> q = p" for q
    using m x map_of_is_SomeI [OF d, of k p] map_of_is_SomeI [OF d, of k q] by auto
  then show "(case x of (k, _) \<Rightarrow> k \<notin> set (map fst (filter (\<lambda>(_, p). D p) ps))) = (case x of (_, p) \<Rightarrow> \<not> D p)"
    by (auto simp: x image_iff)
qed

text \<open>
  At every timeout the leader settles its polls: each poll that has expired or that all peers
  have voted in is announced once, in the order the polls were opened, with its verdict (an
  expired poll is a timeout even when all voted), and is removed; the others stay as they are.
\<close>

theorem polls_are_settled:
  assumes "pub_err s = None" "distinct (dkeys (gt_polls s))"
  shows "checkAllPolls cp now s = (Inr (), s\<lparr>gt_out := gt_out s @ announced cp s now (gt_polls s),
      gt_polls := filter (\<lambda>(_, p). \<not> poll_done now p) (gt_polls s)\<rparr>)"
proof -
  have "wp (checkAllPolls cp now)
      (\<lambda>_ t. t = s\<lparr>gt_out := gt_out s @ announced cp s now (gt_polls s),
        gt_polls := filter (\<lambda>(_, p). \<not> poll_done now p) (gt_polls s)\<rparr>) (\<lambda>_ _. False) s"
    using assms kept_polls [OF assms(2), of "poll_done now"]
    by (simp add: checkAllPolls_def wp_simps wp_donePolls wp_dropPolls)
  from wp_total [OF this] show ?thesis by simp
qed

definition sample_poll :: poll where
  "sample_poll = new_poll sample_request idB 5 6 2"

theorem polls_are_settled_witness:
  "gt_out (snd (checkAllPolls vote_codec 7
      ((sample_thread idA)\<lparr>gt_polls := [(''ID'', sample_poll)]\<rparr>))) = [PubSend [FB GROUP_ANN, FB ''v'']]"
  using polls_are_settled [of "(sample_thread idA)\<lparr>gt_polls := [(''ID'', sample_poll)]\<rparr>" vote_codec 7]
  by (simp add: announced_def announcement_def poll_done_def expired_def sample_poll_def
      new_poll_def sample_defs stamp_def vote_codec_def)

text \<open>
  The time a request needed to reach the leader is taken off its deadline twice. A request
  that arrives \<open>delta\<close> after it was made, not too late for its timeout, gets the deadline
  \<open>started + timeout - delta\<close>, so it has expired before anyone can vote as soon as half of its
  timeout has passed on the way.
\<close>

theorem late_poll_is_born_expired:
  assumes "from_bytes cp msg = Inr (Rfv r)" "rfv_timeout r \<noteq> 0"
    "env_time s - rfv_started r \<le> rfv_timeout r"
  shows "\<exists>t p. startPoll cp msg member s = (Inr True, t) \<and>
    map_of (gt_polls t) (rfv_rfvId r) = Some p \<and>
    p_deadline p = rfv_started r + rfv_timeout r - (env_time s - rfv_started r) \<and>
    (expired p (env_time s) \<longleftrightarrow> 2 * (env_time s - rfv_started r) > rfv_timeout r)"
proof -
  have "wp (startPoll cp msg member) (\<lambda>ok t. ok \<and> (\<exists>p. map_of (gt_polls t) (rfv_rfvId r) = Some p \<and>
      p_deadline p = rfv_started r + rfv_timeout r - (env_time s - rfv_started r) \<and>
      (expired p (env_time s) \<longleftrightarrow> 2 * (env_time s - rfv_started r) > rfv_timeout r))) (\<lambda>_ _. False) s"
    using assms by (auto simp: startPoll_def wp_simps Let_def new_poll_def expired_def)
  from wp_total [OF this] show ?thesis by auto
qed

text \<open>A request of five seconds that took three to arrive.\<close>

theorem late_poll_is_born_expired_witness:
  "\<exists>t p. startPoll vote_codec (FB ''v'') idB ((sample_thread idA)\<lparr>env_time := 4\<rparr>) = (Inr True, t) \<and>
    map_of (gt_polls t) ''ID'' = Some p \<and> p_deadline p = 3"
  using late_poll_is_born_expired [of vote_codec "FB ''v''" sample_request "(sample_thread idA)\<lparr>env_time := 4\<rparr>" idB]
  by (auto simp: vote_codec_def from_bytes_def sample_request_def vote_request_def vote_timeout_def)

end
