(* ===== verification/CompThread.thy ===== *)
theory CompThread
  imports DcGroup "HOL-Library.Multiset"
begin

text \<open>
  The execution thread of a component (\<open>riaps/run/comp.py\<close>, class \<open>ComponentThread\<close>): the maps
  from sockets to ports and groups, the commands of the parent part, the execution of handlers, and
  the three message schedulers.

  \<^item> Sockets are numbers, the control socket is 0. A port object is known by its name, a group
    object by its name too; the maps hold these names.
  \<^item> The component's own code is a parameter \<open>usr\<close>: for the name and the arguments of a handler, an action on the
    thread's state that raises or returns the time it took.
  \<^item> What \<open>poller.poll\<close> returns is a list of results, consumed one by one; a scheduler that polls
    when the list is used up is \<open>Blocked\<close>.
\<close>

section \<open>State\<close>

type_synonym sock = nat

abbreviation (input) control :: sock where "control \<equiv> 0"

datatype port_kind = Tim | Ins | Pub | Sub | Clt | Srv | Req | Rep | Qry | Ans

record port_obj =
  po_kind :: port_kind
  po_socket :: "sock option"
  po_input :: bool
  po_index :: int
  po_deadline :: pyfloat
  po_servers :: "(string \<times> int) list"

datatype part_msg =
    PortReady string port_kind | SetupDone | DeadlineMsg | ExceptionMsg pyexc

datatype ct_effect =
    Dispatch sock | Call string "string list" | ToPart part_msg | Connect string string int
  | GroupUpdate string string int | Activate string | Deactivate string | Close sock

record cthread =
  ct_ports :: "(string, port_obj) dict"
  ct_poller :: "sock list"
  ct_nameMap :: "(sock, string) dict"
  ct_portMap :: "(sock, string) dict"
  ct_groupMap :: "(sock, string) dict"
  ct_groupNames :: "(string, sock) dict"
  ct_prioMap :: "(sock, int) dict"
  ct_toStop :: bool
  ct_pq :: "(int \<times> nat \<times> sock) list"
  ct_tc :: nat
  ct_dq :: "(int \<times> sock) list"
  ct_last :: int
  ct_out :: "ct_effect list"

type_synonym 'a tact = "(cthread, 'a) act"
type_synonym app = "string \<Rightarrow> string list \<Rightarrow> pyfloat tact"

definition log :: "ct_effect \<Rightarrow> unit tact" where
  "log x = upd (\<lambda>s. s\<lparr>ct_out := ct_out s @ [x]\<rparr>)"

text \<open>\<open>d[k]\<close>\<close>

definition getitem :: "('k, 'v) dict \<Rightarrow> 'k \<Rightarrow> pyexc + 'v" where
  "getitem d k = (case map_of d k of None \<Rightarrow> Inl KeyError | Some v \<Rightarrow> Inr v)"

text \<open>A method of the component instance; its result is not used.\<close>

definition invoke :: "app \<Rightarrow> string \<Rightarrow> string list \<Rightarrow> unit tact" where
  "invoke usr f args = seqA [log (Call f args), bnd (usr f args) (\<lambda>_. ret ())]"

section \<open>Set-up\<close>

text \<open>
  \<open>setupSockets\<close>: after the part's \<open>build\<close> message every port that needs the discovery service is
  reported. \<open>portKind\<close> comes from a fixed set, so the code's last branch is never taken.
\<close>

definition needs_disco :: "port_kind \<Rightarrow> bool" where
  "needs_disco k \<longleftrightarrow> k \<notin> {Tim, Ins}"

definition setupSockets :: "string \<Rightarrow> unit tact" where
  "setupSockets msg = (if msg \<noteq> ''build'' then raise (BuildError ''setupSockets: invalid msg'')
     else rd ct_ports (\<lambda>ps. seqA [
       forA ps (\<lambda>(n, p). if needs_disco (po_kind p) then log (ToPart (PortReady n (po_kind p))) else ret ()),
       log (ToPart SetupDone)]))"

definition poll_register :: "sock \<Rightarrow> cthread \<Rightarrow> cthread" where
  "poll_register k s = (if k \<in> set (ct_poller s) then s else s\<lparr>ct_poller := ct_poller s @ [k]\<rparr>)"

text \<open>One port of the loop in \<open>setupPoller\<close>.\<close>

definition addPort :: "string \<times> port_obj \<Rightarrow> unit tact" where
  "addPort = (\<lambda>(n, p). case po_socket p of
     None \<Rightarrow> ret ()
   | Some k \<Rightarrow> seqA [
       upd (\<lambda>s. s\<lparr>ct_portMap := AList.update k n (ct_portMap s)\<rparr>),
       whenA (po_input p) (seqA [upd (poll_register k), upd (\<lambda>s. s\<lparr>
         ct_nameMap := AList.update k n (ct_nameMap s),
         ct_prioMap := AList.update k (po_index p) (ct_prioMap s)\<rparr>)])])"

definition setupPoller :: "unit tact" where
  "setupPoller = seqA [
     upd (\<lambda>s. s\<lparr>ct_poller := [control], ct_nameMap := [(control, [])], ct_portMap := [],
       ct_groupMap := [], ct_groupNames := [], ct_prioMap := []\<rparr>),
     rd ct_ports (\<lambda>ps. forA ps addPort)]"

text \<open>\<open>del d[k]\<close>\<close>

definition delitem :: "('k, 'v) dict \<Rightarrow> 'k \<Rightarrow> pyexc + ('k, 'v) dict" where
  "delitem d k = (if has_key d k then Inr (AList.delete k d) else Inl KeyError)"

definition replaceSocket :: "string \<Rightarrow> sock \<Rightarrow> unit tact" where
  "replaceSocket portName new = rd (\<lambda>s. s) (\<lambda>s.
     bnd (lift (getitem (ct_ports s) portName)) (\<lambda>p. case po_socket p of
       None \<Rightarrow> raise KeyError
     | Some old \<Rightarrow> seqA [
         bnd (lift (delitem (ct_portMap s) old)) (\<lambda>m. upd (\<lambda>s. s\<lparr>ct_portMap := m\<rparr>)),
         whenA (po_input p) (seqA [
           upd (\<lambda>s. s\<lparr>ct_poller := filter (\<lambda>k. k \<noteq> old) (ct_poller s)\<rparr>),
           bnd (lift (delitem (ct_nameMap s) old)) (\<lambda>m. upd (\<lambda>s. s\<lparr>ct_nameMap := m\<rparr>)),
           bnd (lift (delitem (ct_prioMap s) old)) (\<lambda>m. upd (\<lambda>s. s\<lparr>ct_prioMap := m\<rparr>))]),
         log (Close old),
         addPort (portName, p\<lparr>po_socket := Some new\<rparr>)]))"

text \<open>
  \<open>resetConnSocket\<close> of the port then keeps the new socket and connects it to the same servers.
\<close>

definition resetConnSocket :: "string \<Rightarrow> sock \<Rightarrow> unit tact" where
  "resetConnSocket portName new = seqA [
     replaceSocket portName new,
     rd ct_ports (\<lambda>ps. bnd (lift (getitem ps portName)) (\<lambda>p. seqA [
       upd (\<lambda>s. s\<lparr>ct_ports := AList.update portName (p\<lparr>po_socket := Some new\<rparr>) (ct_ports s)\<rparr>),
       forA (po_servers p) (\<lambda>(h, n). log (Connect portName h n))]))]"

definition addGroupSocket :: "string \<Rightarrow> sock \<Rightarrow> int \<Rightarrow> unit tact" where
  "addGroupSocket g k prio = seqA [upd (poll_register k), upd (\<lambda>s. s\<lparr>
     ct_groupMap := AList.update k g (ct_groupMap s),
     ct_groupNames := AList.update g k (ct_groupNames s),
     ct_prioMap := AList.update k prio (ct_prioMap s)\<rparr>)]"

definition delGroupSocket :: "string \<Rightarrow> sock \<Rightarrow> unit tact" where
  "delGroupSocket g k = rd (\<lambda>s. s) (\<lambda>s. seqA [
     (if k \<in> set (ct_poller s) then upd (\<lambda>s. s\<lparr>ct_poller := filter (\<lambda>x. x \<noteq> k) (ct_poller s)\<rparr>)
      else raise KeyError),
     bnd (lift (delitem (ct_groupMap s) k)) (\<lambda>m. upd (\<lambda>s. s\<lparr>ct_groupMap := m\<rparr>)),
     bnd (lift (delitem (ct_groupNames s) g)) (\<lambda>m. upd (\<lambda>s. s\<lparr>ct_groupNames := m\<rparr>)),
     bnd (lift (delitem (ct_prioMap s) k)) (\<lambda>m. upd (\<lambda>s. s\<lparr>ct_prioMap := m\<rparr>))])"

section \<open>Commands of the part\<close>

datatype command =
    Kill | ActivateAll | DeactivateAll | Passivate
  | PortUpdate string string int | GroupUpdateCmd | LimitCPU | LimitMem | LimitSpc | LimitNet
  | NicState string | PeerState string string | UnknownCmd string

text \<open>Ports that connect take an address, ports that bind do not.\<close>

definition connects :: "port_kind \<Rightarrow> bool" where
  "connects k \<longleftrightarrow> k \<in> {Sub, Clt, Req, Qry}"

definition port_update :: "string \<Rightarrow> port_obj \<Rightarrow> string \<Rightarrow> int \<Rightarrow> unit tact" where
  "port_update n p h k = (if \<not> connects (po_kind p) then raise OperationError
     else if (h, k) \<in> set (po_servers p) then ret ()
     else seqA [
       upd (\<lambda>s. s\<lparr>ct_ports := AList.update n (p\<lparr>po_servers := po_servers p @ [(h, k)]\<rparr>) (ct_ports s)\<rparr>),
       log (Connect n h k)])"

definition portUpdate :: "string \<Rightarrow> string \<Rightarrow> int \<Rightarrow> unit tact" where
  "portUpdate n h k = rd (\<lambda>s. s) (\<lambda>s. case map_of (ct_ports s) n of
     Some p \<Rightarrow> port_update n p h k
   | None \<Rightarrow> (if has_key (ct_groupNames s) n then log (GroupUpdate n h k) else ret ()))"

text \<open>The answer, whether the thread must stop; the port and group updates answer None.\<close>

definition runCommand :: "app \<Rightarrow> command \<Rightarrow> bool tact" where
  "runCommand usr c = (case c of
     Kill \<Rightarrow> ret True
   | ActivateAll \<Rightarrow> bnd (seqA [
       rd ct_ports (\<lambda>ps. forA (map fst ps) (\<lambda>n. log (Activate n))),
       invoke usr ''handleActivate'' []]) (\<lambda>_. ret False)
   | DeactivateAll \<Rightarrow> bnd (seqA [
       invoke usr ''handleDeactivate'' [],
       rd ct_ports (\<lambda>ps. forA (map fst ps) (\<lambda>n. log (Deactivate n)))]) (\<lambda>_. ret False)
   | Passivate \<Rightarrow> bnd (invoke usr ''handlePassivate'' []) (\<lambda>_. ret False)
   | PortUpdate n h k \<Rightarrow> bnd (portUpdate n h k) (\<lambda>_. ret False)
   | GroupUpdateCmd \<Rightarrow> ret False
   | LimitCPU \<Rightarrow> bnd (invoke usr ''handleCPULimit'' []) (\<lambda>_. ret False)
   | LimitMem \<Rightarrow> bnd (invoke usr ''handleMemLimit'' []) (\<lambda>_. ret False)
   | LimitSpc \<Rightarrow> bnd (invoke usr ''handleSpcLimit'' []) (\<lambda>_. ret False)
   | LimitNet \<Rightarrow> bnd (invoke usr ''handleNetLimit'' []) (\<lambda>_. ret False)
   | NicState st \<Rightarrow> bnd (invoke usr ''handleNICStateChange'' [st]) (\<lambda>_. ret False)
   | PeerState st u \<Rightarrow> bnd (invoke usr ''handlePeerStateChange'' [st, u]) (\<lambda>_. ret False)
   | UnknownCmd _ \<Rightarrow> ret False)"

section \<open>Handlers\<close>

definition reportException :: "unit tact \<Rightarrow> unit tact" where
  "reportException m = tryA m (\<lambda>e. log (ToPart (ExceptionMsg e)))"

definition runPortHandler :: "app \<Rightarrow> string \<Rightarrow> pyfloat \<Rightarrow> unit tact" where
  "runPortHandler usr n deadline = reportException (bnd (usr (''on_'' @ n) []) (\<lambda>spent.
     if deadline \<noteq> 0 \<and> spent > deadline
     then seqA [log (ToPart DeadlineMsg), invoke usr ''handleDeadline'' [''on_'' @ n]]
     else ret ()))"

definition executeHandlerFor :: "app \<Rightarrow> sock \<Rightarrow> unit tact" where
  "executeHandlerFor usr k = bnd (log (Dispatch k)) (\<lambda>_. rd (\<lambda>s. s) (\<lambda>s.
     case map_of (ct_portMap s) k of
       Some obj \<Rightarrow> bnd (lift (getitem (ct_nameMap s) k)) (\<lambda>n.
         bnd (lift (getitem (ct_ports s) obj)) (\<lambda>p. runPortHandler usr n (po_deadline p)))
     | None \<Rightarrow> (case map_of (ct_groupMap s) k of
         Some g \<Rightarrow> reportException (bnd (usr ''handleMessage'' [g]) (\<lambda>_. ret ()))
       | None \<Rightarrow> ret ())))"

section \<open>Schedulers\<close>

record pollres =
  pr_cmd :: "command option"
  pr_socks :: "sock list"

datatype sched_end = Returned | Blocked | Raised pyexc

text \<open>\<open>batchScheduler\<close>\<close>

definition batchScheduler :: "app \<Rightarrow> sock list \<Rightarrow> unit tact" where
  "batchScheduler usr ks = forA ks (executeHandlerFor usr)"

text \<open>
  \<open>priorityScheduler\<close>: the heap is kept as a list; the least entry by priority, then by the number
  it got when it was pushed, is popped.
\<close>

definition job_less :: "int \<times> nat \<times> sock \<Rightarrow> int \<times> nat \<times> sock \<Rightarrow> bool" where
  "job_less x y \<longleftrightarrow> fst x < fst y \<or> fst x = fst y \<and> fst (snd x) < fst (snd y)"

fun least_job :: "int \<times> nat \<times> sock \<Rightarrow> (int \<times> nat \<times> sock) list \<Rightarrow> int \<times> nat \<times> sock" where
  "least_job j [] = j"
| "least_job j (x # xs) = least_job (if job_less x j then x else j) xs"

definition heappop :: "(int \<times> nat \<times> sock) list \<Rightarrow> ((int \<times> nat \<times> sock) \<times> (int \<times> nat \<times> sock) list) option" where
  "heappop q = (case q of [] \<Rightarrow> None | x # xs \<Rightarrow> (let j = least_job x xs in Some (j, remove1 j q)))"

text \<open>
  The loop over the sockets that are ready. The variable \<open>pri\<close> keeps its value when a socket is
  in neither map, and has none in the beginning.
\<close>

fun push_jobs :: "sock list \<Rightarrow> int option \<Rightarrow> unit tact" where
  "push_jobs [] pri = ret ()"
| "push_jobs (k # ks) pri = rd (\<lambda>s. s) (\<lambda>s.
     bnd (if has_key (ct_portMap s) k \<or> has_key (ct_groupMap s) k
          then bnd (lift (getitem (ct_prioMap s) k)) (\<lambda>p. ret (Some p)) else ret pri) (\<lambda>pri'.
     case pri' of None \<Rightarrow> raise NameError
     | Some p \<Rightarrow> bnd (upd (\<lambda>s. s\<lparr>ct_pq := (p, ct_tc s, k) # ct_pq s, ct_tc := ct_tc s + 1\<rparr>)) (\<lambda>_.
         push_jobs ks (Some p))))"

text \<open>The control message of a poll result, if there is one: it sets \<open>toStop\<close>.\<close>

definition control_msg :: "app \<Rightarrow> pollres \<Rightarrow> unit tact" where
  "control_msg usr r = (case pr_cmd r of None \<Rightarrow> ret ()
     | Some c \<Rightarrow> bnd (runCommand usr c) (\<lambda>b. upd (\<lambda>s. s\<lparr>ct_toStop := b\<rparr>)))"

text \<open>The inner loops of \<open>priorityScheduler\<close>, with the poll results still to come.\<close>

fun priority_loop :: "app \<Rightarrow> pollres list \<Rightarrow> cthread \<Rightarrow> sched_end \<times> cthread" where
  "priority_loop usr rs s = (case heappop (ct_pq s) of
     None \<Rightarrow> (Returned, s)
   | Some ((pri, cnt, k), q) \<Rightarrow>
       (case executeHandlerFor usr k (s\<lparr>ct_pq := q\<rparr>) of
          (Inl e, t) \<Rightarrow> (if e = IndexError then Returned else Raised e, t)
        | (Inr _, t) \<Rightarrow>
            if ct_pq t = [] then (Returned, t) else
            (case rs of [] \<Rightarrow> (Blocked, t)
             | r # rs' \<Rightarrow> (case control_msg usr r t of
                 (Inl e, u) \<Rightarrow> (if e = IndexError then Returned else Raised e, u)
               | (Inr _, u) \<Rightarrow>
                   if pr_cmd r \<noteq> None \<and> ct_toStop u then (Returned, u)
                   else (case push_jobs (pr_socks r) (Some pri) u of
                       (Inl e, v) \<Rightarrow> (Raised e, v)
                     | (Inr _, v) \<Rightarrow> priority_loop usr rs' v)))))"

declare priority_loop.simps [simp del]

definition priorityScheduler :: "app \<Rightarrow> sock list \<Rightarrow> pollres list \<Rightarrow> cthread \<Rightarrow> sched_end \<times> cthread" where
  "priorityScheduler usr ks rs s = (case push_jobs ks None s of
     (Inl e, t) \<Rightarrow> (Raised e, t) | (Inr _, t) \<Rightarrow> priority_loop usr rs t)"

text \<open>
  \<open>rrScheduler\<close>: the jobs in the order of their tags. Python's sort compares two jobs with the
  same tag by their sockets, which have no order.
\<close>

fun rr_jobs :: "sock list \<Rightarrow> int option \<Rightarrow> cthread \<Rightarrow> pyexc + (int \<times> sock) list" where
  "rr_jobs [] tag s = Inr []"
| "rr_jobs (k # ks) tag s = (case (if has_key (ct_portMap s) k \<or> has_key (ct_groupMap s) k
       then map_of (ct_prioMap s) k else tag) of
     None \<Rightarrow> Inl (if has_key (ct_portMap s) k \<or> has_key (ct_groupMap s) k then KeyError else NameError)
   | Some t \<Rightarrow> (case rr_jobs ks (Some t) s of Inl e \<Rightarrow> Inl e | Inr js \<Rightarrow> Inr ((t, k) # js)))"

definition sort_jobs :: "(int \<times> sock) list \<Rightarrow> pyexc + (int \<times> sock) list" where
  "sort_jobs js = (if distinct (map fst js) then Inr (sort_key fst js) else Inl TypeError)"

text \<open>\<open>jobs[-first:] + jobs[0:first]\<close>; \<open>jobs[-0:]\<close> is the whole list.\<close>

definition rr_rotate :: "nat \<Rightarrow> 'j list \<Rightarrow> 'j list" where
  "rr_rotate first js = (if first = 0 then js else drop (length js - first) js) @ take first js"

definition first_larger :: "int \<Rightarrow> (int \<times> sock) list \<Rightarrow> nat option" where
  "first_larger l js = (case filter (\<lambda>i. fst (js ! i) > l) [0..<length js] of
     [] \<Rightarrow> None | i # _ \<Rightarrow> Some i)"

definition rr_order :: "(int \<times> sock) list \<Rightarrow> (int \<times> sock) list tact" where
  "rr_order js = rd (\<lambda>s. s) (\<lambda>s.
     if length js = 1 then ret js
     else if ct_dq s \<noteq> [] then
       (case first_larger (ct_last s) js of None \<Rightarrow> ret js | Some i \<Rightarrow> ret (rr_rotate i js))
     else if js = [] then raise IndexError
     else bnd (upd (\<lambda>s. s\<lparr>ct_last := fst (last js)\<rparr>)) (\<lambda>_. ret js))"

text \<open>The deque from left to right: \<open>extendleft\<close> puts the first job next to the older ones.\<close>

definition rr_schedule :: "sock list \<Rightarrow> int option \<Rightarrow> unit tact" where
  "rr_schedule ks tag = rd (\<lambda>s. s) (\<lambda>s.
     bnd (lift (rr_jobs ks tag s)) (\<lambda>js. bnd (lift (sort_jobs js)) (\<lambda>js. bnd (rr_order js) (\<lambda>js.
       upd (\<lambda>s. s\<lparr>ct_dq := rev js @ ct_dq s\<rparr>)))))"

definition dq_pop :: "(int \<times> sock) list \<Rightarrow> ((int \<times> sock) \<times> (int \<times> sock) list) option" where
  "dq_pop q = (if q = [] then None else Some (last q, butlast q))"

fun rr_loop :: "app \<Rightarrow> pollres list \<Rightarrow> cthread \<Rightarrow> sched_end \<times> cthread" where
  "rr_loop usr rs s = (case dq_pop (ct_dq s) of
     None \<Rightarrow> (Returned, s)
   | Some ((tag, k), q) \<Rightarrow>
       (case executeHandlerFor usr k
           (s\<lparr>ct_dq := q, ct_last := (case q of [] \<Rightarrow> tag | (t, _) # _ \<Rightarrow> t)\<rparr>) of
          (Inl e, t) \<Rightarrow> (if e = IndexError then Returned else Raised e, t)
        | (Inr _, t) \<Rightarrow>
            if ct_dq t = [] then (Returned, t) else
            (case rs of [] \<Rightarrow> (Blocked, t)
             | r # rs' \<Rightarrow>
                 if pr_cmd r = None then rr_loop usr rs' t
                 else (case control_msg usr r t of
                   (Inl e, u) \<Rightarrow> (if e = IndexError then Returned else Raised e, u)
                 | (Inr _, u) \<Rightarrow>
                     if ct_toStop u then (Returned, u)
                     else if pr_socks r = [] then rr_loop usr rs' u
                     else (case rr_schedule (pr_socks r) (Some tag) u of
                         (Inl e, v) \<Rightarrow> (Raised e, v)
                       | (Inr _, v) \<Rightarrow> rr_loop usr rs' v)))))"

declare rr_loop.simps [simp del]

definition rrScheduler :: "app \<Rightarrow> sock list \<Rightarrow> pollres list \<Rightarrow> cthread \<Rightarrow> sched_end \<times> cthread" where
  "rrScheduler usr ks rs s = (case rr_schedule ks None s of
     (Inl e, t) \<Rightarrow> (Raised e, t) | (Inr _, t) \<Rightarrow> rr_loop usr rs t)"

section \<open>Groups of the component\<close>

text \<open>
  \<open>Component.joinGroup\<close> and \<open>leaveGroup\<close>, on the coordinator and the thread. When the coordinator
  refuses the group, \<open>addGroupSocket(None, ...)\<close> fails on \<open>None.getSocket\<close>.
\<close>

type_synonym component = "coordinator \<times> cthread"

definition on_coord :: "'a cact \<Rightarrow> (component, 'a) act" where
  "on_coord m = (\<lambda>(c, t). case m c of (r, c') \<Rightarrow> (r, (c', t)))"

definition on_thread :: "'a tact \<Rightarrow> (component, 'a) act" where
  "on_thread m = (\<lambda>(c, t). case m t of (r, t') \<Rightarrow> (r, (c, t')))"

definition comp_joinGroup ::
  "string \<Rightarrow> string \<Rightarrow> int \<Rightarrow> int \<Rightarrow> sock \<Rightarrow> string \<Rightarrow> int \<Rightarrow> string \<Rightarrow> (component, sock) act" where
  "comp_joinGroup gt gi n prio k host port part = rd fst (\<lambda>c.
     let g = getGroup gt gi c in
     if n < 1 then raise AssertionError
     else case g of
       Some k' \<Rightarrow> ret k'
     | None \<Rightarrow> bnd (on_coord (coord_joinGroup gt gi k host port part)) (\<lambda>r. case r of
         None \<Rightarrow> raise AttributeError
       | Some k' \<Rightarrow> bnd (on_thread (addGroupSocket (groupName gt gi) k' prio)) (\<lambda>_. ret k')))"

definition comp_leaveGroup :: "string \<Rightarrow> sock \<Rightarrow> string \<Rightarrow> (component, bool) act" where
  "comp_leaveGroup name k part = bnd (on_thread (delGroupSocket name k)) (\<lambda>_.
     bnd (on_coord (coord_leaveGroup name part)) (\<lambda>_. ret True))"

section \<open>Main loop\<close>

datatype sched_kind = DefaultSched | PrioritySched | RrSched | NoSched

definition setupScheduler :: "string \<Rightarrow> sched_kind tact" where
  "setupScheduler typ =
     (if typ = ''default'' then ret DefaultSched
      else if typ = ''priority'' then
        bnd (upd (\<lambda>s. s\<lparr>ct_pq := [], ct_tc := 0\<rparr>)) (\<lambda>_. ret PrioritySched)
      else if typ = ''rr'' then bnd (upd (\<lambda>s. s\<lparr>ct_dq := [], ct_last := - 1\<rparr>)) (\<lambda>_. ret RrSched)
      else ret NoSched)"

text \<open>
  \<open>schedule\<close> runs the chosen scheduler; \<open>polls\<close> are the results of the polls inside it. One
  round of the main loop is a poll result and the polls its scheduler makes.
\<close>

definition schedule :: "sched_kind \<Rightarrow> app \<Rightarrow> sock list \<Rightarrow> pollres list \<Rightarrow> cthread \<Rightarrow> sched_end \<times> cthread" where
  "schedule kind usr ks polls s = (case kind of
     DefaultSched \<Rightarrow> (case batchScheduler usr ks s of
        (Inl e, t) \<Rightarrow> (Raised e, t) | (Inr _, t) \<Rightarrow> (Returned, t))
   | PrioritySched \<Rightarrow> priorityScheduler usr ks polls s
   | RrSched \<Rightarrow> rrScheduler usr ks polls s
   | NoSched \<Rightarrow> (Returned, s))"

datatype thread_end = Stopped | Waiting | Died pyexc

fun comp_run :: "sched_kind \<Rightarrow> app \<Rightarrow> (pollres \<times> pollres list) list \<Rightarrow> cthread \<Rightarrow> thread_end \<times> cthread" where
  "comp_run kind usr [] s = (Waiting, s)"
| "comp_run kind usr ((r, polls) # rs) s = (case control_msg usr r s of
     (Inl e, t) \<Rightarrow> (Died e, t)
   | (Inr _, t) \<Rightarrow>
       if ct_toStop t then (Stopped, t)
       else if pr_socks r = [] then comp_run kind usr rs t
       else (case schedule kind usr (pr_socks r) polls t of
           (Raised e, u) \<Rightarrow> (Died e, u)
         | (Blocked, u) \<Rightarrow> (Waiting, u)
         | (Returned, u) \<Rightarrow> if ct_toStop u then (Stopped, u) else comp_run kind usr rs u))"

text \<open>Without a scheduler the thread stops at once.\<close>

definition comp_main :: "sched_kind \<Rightarrow> app \<Rightarrow> (pollres \<times> pollres list) list \<Rightarrow> cthread \<Rightarrow> thread_end \<times> cthread" where
  "comp_main kind usr rs s = (if kind = NoSched then (Stopped, s)
     else comp_run kind usr rs (s\<lparr>ct_toStop := False\<rparr>))"

end
