(* ===== verification/CompProps.thy ===== *)
theory CompProps
  imports CompThread
begin

text \<open>
  What the component thread (\<open>riaps/run/comp.py\<close>) guarantees and where it fails: handlers cannot
  break the thread, the tables of sockets stay consistent, and the schedulers' orders, stated over
  an interface for job queues that the heap and the deque of the code implement.
\<close>

section \<open>Job stores\<close>

text \<open>
  The queue a scheduler takes its jobs from: popping removes one job, and fails on the empty queue
  only. \<open>drain\<close> runs through a queue to which nothing is added.
\<close>

fun drain :: "('q \<Rightarrow> ('j \<times> 'q) option) \<Rightarrow> nat \<Rightarrow> 'q \<Rightarrow> 'j list" where
  "drain pop 0 q = []"
| "drain pop (Suc n) q = (case pop q of None \<Rightarrow> [] | Some (j, q') \<Rightarrow> j # drain pop n q')"

locale job_store =
  fixes pop :: "'q \<Rightarrow> ('j \<times> 'q) option"
    and jobs :: "'q \<Rightarrow> 'j multiset"
  assumes pop_None: "pop q = None \<longleftrightarrow> jobs q = {#}"
    and pop_Some: "pop q = Some (j, q') \<Longrightarrow> jobs q = add_mset j (jobs q')"
begin

lemma pop_ex: "jobs q \<noteq> {#} \<Longrightarrow> \<exists>j q'. pop q = Some (j, q')"
  using pop_None [of q] by fastforce

lemma drain_all: "mset (drain pop (size (jobs q)) q) = jobs q"
proof (induction "size (jobs q)" arbitrary: q)
  case 0
  then show ?case by simp
next
  case (Suc n)
  then have "jobs q \<noteq> {#}" by auto
  then obtain j q' where p: "pop q = Some (j, q')" using pop_ex by blast
  from pop_Some [OF p] Suc(2) have "n = size (jobs q')" by simp
  with Suc(1) [OF this] p pop_Some [OF p] show ?case by simp
qed

end

locale urgent_store = job_store +
  fixes less :: "'b \<Rightarrow> 'b \<Rightarrow> bool"
  assumes pop_least: "pop q = Some (j, q') \<Longrightarrow> i \<in># jobs q \<Longrightarrow> \<not> less i j"
begin

lemma drain_jobs: "set (drain pop n q) \<subseteq> set_mset (jobs q)"
proof (induction n arbitrary: q)
  case 0
  show ?case by simp
next
  case (Suc n)
  show ?case
  proof (cases "pop q")
    case (Some r)
    obtain j q' where r: "r = (j, q')" by (cases r)
    with Some pop_Some [of q j q'] Suc [of q'] show ?thesis by auto
  qed simp
qed

lemma drain_urgent: "sorted_wrt (\<lambda>i j. \<not> less j i) (drain pop n q)"
proof (induction n arbitrary: q)
  case 0
  show ?case by simp
next
  case (Suc n)
  show ?case
  proof (cases "pop q")
    case (Some r)
    obtain j q' where r: "r = (j, q')" by (cases r)
    have "i \<in># jobs q" if "i \<in> set (drain pop n q')" for i
      using that drain_jobs [of n q'] pop_Some Some r by fastforce
    then show ?thesis using Suc Some r pop_least by simp
  qed simp
qed

end

lemma job_less_trans: "\<not> job_less b a \<Longrightarrow> \<not> job_less c b \<Longrightarrow> \<not> job_less c a"
  by (auto simp: job_less_def)

lemma least_job_in: "least_job j xs \<in> insert j (set xs)"
proof (induction xs arbitrary: j)
  case (Cons a xs)
  show ?case using Cons [of "if job_less a j then a else j"] by (auto split: if_splits)
qed simp

lemma least_job_least: "x \<in> insert j (set xs) \<Longrightarrow> \<not> job_less x (least_job j xs)"
proof (induction xs arbitrary: j x)
  case Nil
  then show ?case by (simp add: job_less_def)
next
  case (Cons y ys)
  define m where "m = (if job_less y j then y else j)"
  have *: "\<not> job_less m (least_job m ys)" using Cons.IH by blast
  have "\<not> job_less j m" "\<not> job_less y m" by (auto simp: m_def job_less_def)
  then have "\<not> job_less j (least_job m ys)" "\<not> job_less y (least_job m ys)"
    using job_less_trans * by blast+
  moreover have "\<not> job_less x (least_job m ys)" if "x \<in> set ys"
    using Cons.IH [of x m] that by blast
  ultimately show ?case using Cons.prems by (auto simp: m_def [symmetric])
qed

lemma heappop_mset: "heappop q = Some (j, q') \<Longrightarrow> mset q = add_mset j (mset q')"
proof -
  assume h: "heappop q = Some (j, q')"
  then obtain x xs where q: "q = x # xs" by (auto simp: heappop_def split: list.splits)
  with h have "j = least_job x xs" "q' = remove1 j q" by (auto simp: heappop_def Let_def)
  then have "j \<in> set q" using least_job_in [of x xs] q by auto
  with \<open>q' = remove1 j q\<close> show ?thesis by simp
qed

interpretation heap: urgent_store heappop mset job_less
proof unfold_locales
  show "(heappop q = None) = (mset q = {#})" for q
    by (simp add: heappop_def Let_def split: list.split)
  show "heappop q = Some (j, q') \<Longrightarrow> mset q = add_mset j (mset q')" for q j q'
    by (rule heappop_mset)
  show "heappop q = Some (j, q') \<Longrightarrow> i \<in># mset q \<Longrightarrow> \<not> job_less i j" for q j q' i
    using least_job_least [of i] by (fastforce simp: heappop_def Let_def split: list.splits)
qed

interpretation deque: job_store dq_pop mset
proof unfold_locales
  show "(dq_pop q = None) = (mset q = {#})" for q
    by (simp add: dq_pop_def)
  show "dq_pop q = Some (j, q') \<Longrightarrow> mset q = add_mset j (mset q')" for q j q'
    by (cases q rule: rev_cases) (auto simp: dq_pop_def)
qed

section \<open>Handlers cannot break the thread\<close>

lemma log_run: "log x s = (Inr (), s\<lparr>ct_out := ct_out s @ [x]\<rparr>)"
  by (simp add: log_def upd_def)

text \<open>A socket the thread can serve: a known port or a group, with a priority.\<close>

definition served :: "cthread \<Rightarrow> sock \<Rightarrow> bool" where
  "served s k \<longleftrightarrow> has_key (ct_prioMap s) k \<and>
     (case map_of (ct_portMap s) k of
        Some n \<Rightarrow> map_of (ct_nameMap s) k = Some n \<and> has_key (ct_ports s) n
      | None \<Rightarrow> has_key (ct_groupMap s) k)"

text \<open>
  User code that raises whatever it likes and reports what it does, but leaves the thread's own
  tables and queues alone.
\<close>

definition not_dispatch :: "ct_effect \<Rightarrow> bool" where
  "not_dispatch x = (case x of Dispatch _ \<Rightarrow> False | _ \<Rightarrow> True)"

definition outputs :: "'a tact \<Rightarrow> cthread \<Rightarrow> bool" where
  "outputs m s \<longleftrightarrow> (\<exists>xs. snd (m s) = s\<lparr>ct_out := ct_out s @ xs\<rparr> \<and> list_all not_dispatch xs)"

definition tame :: "app \<Rightarrow> bool" where
  "tame usr \<longleftrightarrow> (\<forall>f args s. outputs (usr f args) s)"

lemma outputs_ret: "outputs (ret x) s"
  by (simp add: outputs_def ret_def exI [of _ "[]"])

lemma outputs_log: "not_dispatch x \<Longrightarrow> outputs (log x) s"
  by (auto simp: outputs_def log_run)

lemma outputs_bnd: "(\<And>s. outputs m s) \<Longrightarrow> (\<And>x s. outputs (k x) s) \<Longrightarrow> outputs (bnd m k) s"
proof -
  assume m: "\<And>s. outputs m s" and k: "\<And>x s. outputs (k x) s"
  obtain r t where mt: "m s = (r, t)" by (cases "m s")
  with m [of s] obtain xs where xs: "t = s\<lparr>ct_out := ct_out s @ xs\<rparr>" "list_all not_dispatch xs"
    by (auto simp: outputs_def)
  show ?thesis
  proof (cases r)
    case (Inl e)
    with mt xs show ?thesis by (auto simp: outputs_def bnd_def)
  next
    case (Inr x)
    from k [of x t] obtain ys where "snd (k x t) = t\<lparr>ct_out := ct_out t @ ys\<rparr>" "list_all not_dispatch ys"
      by (auto simp: outputs_def)
    with mt xs Inr show ?thesis by (auto simp: outputs_def bnd_def intro!: exI [of _ "xs @ ys"])
  qed
qed

lemma outputs_tryA: "(\<And>s. outputs m s) \<Longrightarrow> (\<And>e s. outputs (h e) s) \<Longrightarrow> outputs (tryA m h) s"
proof -
  assume m: "\<And>s. outputs m s" and h: "\<And>e s. outputs (h e) s"
  obtain r t where mt: "m s = (r, t)" by (cases "m s")
  with m [of s] obtain xs where xs: "t = s\<lparr>ct_out := ct_out s @ xs\<rparr>" "list_all not_dispatch xs"
    by (auto simp: outputs_def)
  show ?thesis
  proof (cases r)
    case (Inr e)
    with mt xs show ?thesis by (auto simp: outputs_def tryA_def)
  next
    case (Inl x)
    from h [of x t] obtain ys where "snd (h x t) = t\<lparr>ct_out := ct_out t @ ys\<rparr>" "list_all not_dispatch ys"
      by (auto simp: outputs_def)
    with mt xs Inl show ?thesis by (auto simp: outputs_def tryA_def intro!: exI [of _ "xs @ ys"])
  qed
qed

lemma outputs_invoke: "tame usr \<Longrightarrow> outputs (invoke usr f args) s"
  unfolding invoke_def seqA.simps tame_def
  by (intro outputs_bnd outputs_log outputs_ret) (auto simp: not_dispatch_def)

lemma tryA_log: "\<exists>t. reportException m s = (Inr (), t)"
  by (auto simp: reportException_def tryA_def log_run split: prod.split sum.split)

lemma outputs_handlers:
  assumes "tame usr"
  shows "outputs (runPortHandler usr n d) s"
    "outputs (reportException (bnd (usr f args) (\<lambda>_. ret ()))) s"
proof -
  have u: "outputs (usr g a) t" for g a t using assms by (simp add: tame_def)
  show "outputs (reportException (bnd (usr f args) (\<lambda>_. ret ()))) s"
    unfolding reportException_def
    by (intro outputs_tryA outputs_bnd outputs_ret outputs_log u) (simp add: not_dispatch_def)
  show "outputs (runPortHandler usr n d) s"
    unfolding runPortHandler_def reportException_def
    by (rule outputs_tryA, rule outputs_bnd, rule u)
      (auto simp: seqA.simps not_dispatch_def intro!: outputs_bnd outputs_log outputs_ret outputs_invoke assms)
qed

lemma executeHandlerFor_tame:
  assumes "tame usr" "served s k"
  shows "\<exists>xs. executeHandlerFor usr k s = (Inr (), s\<lparr>ct_out := ct_out s @ Dispatch k # xs\<rparr>) \<and>
    list_all not_dispatch xs"
proof -
  define t where "t = s\<lparr>ct_out := ct_out s @ [Dispatch k]\<rparr>"
  have *: "\<exists>xs. m t = (Inr (), s\<lparr>ct_out := ct_out s @ Dispatch k # xs\<rparr>) \<and> list_all not_dispatch xs"
    if "outputs m t" "\<exists>u. m t = (Inr (), u)" for m :: "unit tact"
    using that by (auto simp: outputs_def t_def)
  show ?thesis
  proof (cases "map_of (ct_portMap s) k")
    case None
    then obtain g where g: "map_of (ct_groupMap s) k = Some g"
      using assms(2) by (auto simp: served_def)
    have "executeHandlerFor usr k s = reportException (bnd (usr ''handleMessage'' [g]) (\<lambda>_. ret ())) t"
      using None g by (simp add: executeHandlerFor_def bnd_def log_run rd_def lift_def t_def)
    then show ?thesis using * [OF outputs_handlers(2) [OF assms(1)] tryA_log] by simp
  next
    case (Some n)
    then obtain p where p: "map_of (ct_nameMap s) k = Some n" "map_of (ct_ports s) n = Some p"
      using assms(2) by (auto simp: served_def)
    have "executeHandlerFor usr k s = runPortHandler usr n (po_deadline p) t"
      using Some p by (simp add: executeHandlerFor_def bnd_def log_run rd_def lift_def getitem_def t_def)
    moreover have "\<exists>u. runPortHandler usr n (po_deadline p) t = (Inr (), u)"
      unfolding runPortHandler_def by (rule tryA_log)
    ultimately show ?thesis using * [OF outputs_handlers(1) [OF assms(1)]] by simp
  qed
qed

section \<open>Properties of the schedulers\<close>

definition dispatched :: "cthread \<Rightarrow> sock list" where
  "dispatched s = concat (map (\<lambda>x. case x of Dispatch k \<Rightarrow> [k] | _ \<Rightarrow> []) (ct_out s))"

definition quiet_polls :: "pollres list \<Rightarrow> bool" where
  "quiet_polls rs \<longleftrightarrow> list_all (\<lambda>r. pr_cmd r = None \<and> pr_socks r = []) rs"

lemma served_frame [simp]:
  "served (s\<lparr>ct_pq := q\<rparr>) k = served s k" "served (s\<lparr>ct_out := xs\<rparr>) k = served s k"
  "served (s\<lparr>ct_tc := n\<rparr>) k = served s k" "served (s\<lparr>ct_dq := d\<rparr>) k = served s k"
  "served (s\<lparr>ct_last := l\<rparr>) k = served s k"
  by (cases "map_of (ct_portMap s) k"; simp add: served_def)+

lemma no_dispatch: "list_all not_dispatch xs \<Longrightarrow>
    concat (map (\<lambda>x. case x of Dispatch k \<Rightarrow> [k] | _ \<Rightarrow> []) xs) = []"
  by (induction xs) (auto simp: not_dispatch_def split: ct_effect.splits)

text \<open>One execution: the only dispatch is the socket's own, everything but the output stays.\<close>

lemma executeHandlerFor_dispatch:
  assumes "tame usr" "served s k"
  obtains xs where "executeHandlerFor usr k s = (Inr (), s\<lparr>ct_out := xs\<rparr>)"
    "dispatched (s\<lparr>ct_out := xs\<rparr>) = dispatched s @ [k]"
proof -
  obtain ys where y: "executeHandlerFor usr k s = (Inr (), s\<lparr>ct_out := ct_out s @ Dispatch k # ys\<rparr>)"
    "list_all not_dispatch ys" using executeHandlerFor_tame [OF assms] by blast
  from that [OF y(1)] y(2) show thesis by (simp add: dispatched_def no_dispatch)
qed

lemma control_msg_none: "pr_cmd r = None \<Longrightarrow> control_msg usr r s = (Inr (), s)"
  by (simp add: control_msg_def ret_def)

lemma priority_pop:
  assumes "tame usr" "ct_pq s \<noteq> []" "\<forall>j \<in> set (ct_pq s). served s (snd (snd j))"
  obtains p c k q xs where "heappop (ct_pq s) = Some ((p, c, k), q)"
    "executeHandlerFor usr k (s\<lparr>ct_pq := q\<rparr>) = (Inr (), s\<lparr>ct_pq := q, ct_out := xs\<rparr>)"
    "dispatched (s\<lparr>ct_pq := q, ct_out := xs\<rparr>) = dispatched s @ [k]"
    "\<forall>j \<in> set q. served s (snd (snd j))" "length (ct_pq s) = Suc (length q)"
proof -
  obtain p c k q where h: "heappop (ct_pq s) = Some ((p, c, k), q)"
    using heap.pop_ex [of "ct_pq s"] assms(2) by (metis mset_zero_iff prod.collapse)
  have m: "mset (ct_pq s) = add_mset (p, c, k) (mset q)"
    by (rule heap.pop_Some [OF h])
  then have "set (ct_pq s) = insert (p, c, k) (set q)"
    by (metis set_mset_mset set_mset_add_mset_insert)
  then have sv: "served (s\<lparr>ct_pq := q\<rparr>) k" "\<forall>j \<in> set q. served s (snd (snd j))"
    using assms(3) by fastforce+
  have len: "length (ct_pq s) = Suc (length q)" using m by (metis size_add_mset size_mset)
  obtain xs where x: "executeHandlerFor usr k (s\<lparr>ct_pq := q\<rparr>) = (Inr (), s\<lparr>ct_pq := q, ct_out := xs\<rparr>)"
    "dispatched (s\<lparr>ct_pq := q, ct_out := xs\<rparr>) = dispatched (s\<lparr>ct_pq := q\<rparr>) @ [k]"
    using executeHandlerFor_dispatch [OF assms(1) sv(1)] by metis
  from that [OF h x(1) _ sv(2) len] x(2) show thesis by (simp add: dispatched_def)
qed

lemma priority_loop_quiet:
  assumes "tame usr" "quiet_polls rs" "length (ct_pq s) \<le> Suc (length rs)"
    "\<forall>j \<in> set (ct_pq s). served s (snd (snd j))"
  shows "\<exists>t. priority_loop usr rs s = (Returned, t) \<and> ct_pq t = [] \<and>
    dispatched t = dispatched s @ map (\<lambda>j. snd (snd j)) (drain heappop (length (ct_pq s)) (ct_pq s))"
  using assms(2-4)
proof (induction rs arbitrary: s)
  case Nil
  show ?case
  proof (cases "ct_pq s = []")
    case False
    from priority_pop [OF assms(1) False Nil(3)] obtain p c k q xs
      where "heappop (ct_pq s) = Some ((p, c, k), q)"
        "executeHandlerFor usr k (s\<lparr>ct_pq := q\<rparr>) = (Inr (), s\<lparr>ct_pq := q, ct_out := xs\<rparr>)"
        "dispatched (s\<lparr>ct_pq := q, ct_out := xs\<rparr>) = dispatched s @ [k]"
        "length (ct_pq s) = Suc (length q)" by metis
    with Nil show ?thesis
      by (subst priority_loop.simps) simp
  qed (simp add: priority_loop.simps heappop_def)
next
  case (Cons r rs)
  show ?case
  proof (cases "ct_pq s = []")
    case False
    from priority_pop [OF assms(1) False Cons.prems(3)] obtain p c k q xs
      where h: "heappop (ct_pq s) = Some ((p, c, k), q)" and x:
        "executeHandlerFor usr k (s\<lparr>ct_pq := q\<rparr>) = (Inr (), s\<lparr>ct_pq := q, ct_out := xs\<rparr>)"
        "dispatched (s\<lparr>ct_pq := q, ct_out := xs\<rparr>) = dispatched s @ [k]"
        and sv: "\<forall>j \<in> set q. served s (snd (snd j))" and len: "length (ct_pq s) = Suc (length q)" by metis
    let ?s = "s\<lparr>ct_pq := q, ct_out := xs\<rparr>"
    have r: "pr_cmd r = None" "pr_socks r = []" "quiet_polls rs"
      using Cons.prems(1) by (auto simp: quiet_polls_def)
    have step: "priority_loop usr (r # rs) s = (if q = [] then (Returned, ?s) else priority_loop usr rs ?s)"
      using x h r by (subst priority_loop.simps) (simp add: control_msg_none ret_def)
    have "\<exists>t. priority_loop usr rs ?s = (Returned, t) \<and> ct_pq t = [] \<and>
        dispatched t = dispatched ?s @ map (\<lambda>j. snd (snd j)) (drain heappop (length q) q)"
      using Cons.IH [of ?s] r Cons.prems(2) sv len by simp
    then show ?thesis using step x(2) h len by (auto simp: dispatched_def)
  qed (simp add: priority_loop.simps heappop_def)
qed

text \<open>
  A handler cannot end the thread. Whatever the component's code for a port does, the thread
  goes on: an exception is sent to the part, and a handler that took longer than its deadline is
  reported, after which the component's deadline handler runs, contained in the same way.
\<close>

theorem handlers_are_contained:
  assumes "served s k" "map_of (ct_portMap s) k = Some n" "map_of (ct_ports s) n = Some p"
  shows "\<exists>t. executeHandlerFor usr k s = (Inr (), t) \<and>
    (case usr (''on_'' @ n) [] (s\<lparr>ct_out := ct_out s @ [Dispatch k]\<rparr>) of
       (Inl e, u) \<Rightarrow> t = u\<lparr>ct_out := ct_out u @ [ToPart (ExceptionMsg e)]\<rparr>
     | (Inr spent, u) \<Rightarrow>
         if po_deadline p \<noteq> 0 \<and> spent > po_deadline p
         then reportException (invoke usr ''handleDeadline'' [''on_'' @ n])
                (u\<lparr>ct_out := ct_out u @ [ToPart DeadlineMsg]\<rparr>) = (Inr (), t)
         else t = u)"
proof -
  let ?t = "s\<lparr>ct_out := ct_out s @ [Dispatch k]\<rparr>"
  have "executeHandlerFor usr k s = runPortHandler usr n (po_deadline p) ?t"
    using assms by (simp add: executeHandlerFor_def bnd_def log_run rd_def lift_def getitem_def served_def)
  moreover have "runPortHandler usr n (po_deadline p) ?t =
     (case usr (''on_'' @ n) [] ?t of
       (Inl e, u) \<Rightarrow> (Inr (), u\<lparr>ct_out := ct_out u @ [ToPart (ExceptionMsg e)]\<rparr>)
     | (Inr spent, u) \<Rightarrow>
         if po_deadline p \<noteq> 0 \<and> spent > po_deadline p
         then reportException (invoke usr ''handleDeadline'' [''on_'' @ n])
                (u\<lparr>ct_out := ct_out u @ [ToPart DeadlineMsg]\<rparr>)
         else (Inr (), u))"
    by (simp add: runPortHandler_def reportException_def tryA_def bnd_def log_run seqA.simps ret_def
        split: prod.split sum.split)
  moreover obtain t where "runPortHandler usr n (po_deadline p) ?t = (Inr (), t)"
    using tryA_log unfolding runPortHandler_def by blast
  ultimately show ?thesis
    by (intro exI [of _ t]) (auto dest: sym split: prod.splits sum.splits if_splits)
qed

definition sample_port :: "sock \<Rightarrow> int \<Rightarrow> port_obj" where
  "sample_port k i = \<lparr> po_kind = Sub, po_socket = Some k, po_input = True, po_index = i,
     po_deadline = 1, po_servers = [] \<rparr>"

definition sample_ct :: cthread where
  "sample_ct = \<lparr> ct_ports = [(''a'', sample_port 1 0), (''b'', sample_port 2 1)], ct_poller = [0, 1, 2],
     ct_nameMap = [(0, []), (1, ''a''), (2, ''b'')], ct_portMap = [(1, ''a''), (2, ''b'')],
     ct_groupMap = [(3, ''G.x''), (4, ''G.y'')], ct_groupNames = [(''G.x'', 3), (''G.y'', 4)],
     ct_prioMap = [(1, 0), (2, 1), (3, 256), (4, 256)], ct_toStop = False, ct_pq = [], ct_tc = 0,
     ct_dq = [], ct_last = - 1, ct_out = [] \<rparr>"

lemma sample_served: "served sample_ct 1" "served sample_ct 2" "served sample_ct 3" "served sample_ct 4"
  by (simp_all add: served_def sample_ct_def)

theorem handlers_are_contained_witness:
  "\<exists>t. executeHandlerFor (\<lambda>_ _. raise ValueError) 1 sample_ct = (Inr (), t) \<and>
     ct_out t = [Dispatch 1, ToPart (ExceptionMsg ValueError)]"
  using handlers_are_contained [OF sample_served(1), of "''a''" "sample_port 1 0" "\<lambda>_ _. raise ValueError"]
  by (auto simp: sample_ct_def raise_def)

lemma push_jobs_served:
  assumes "\<forall>k \<in> set ks. served s k"
  shows "\<exists>q n. push_jobs ks pri s = (Inr (), s\<lparr>ct_pq := q, ct_tc := n\<rparr>) \<and>
    mset (map (\<lambda>j. snd (snd j)) q) = mset (map (\<lambda>j. snd (snd j)) (ct_pq s)) + mset ks"
  using assms
proof (induction ks arbitrary: pri s)
  case Nil
  then show ?case by (auto simp: ret_def intro!: exI [of _ "ct_pq s"] exI [of _ "ct_tc s"])
next
  case (Cons k ks)
  obtain p where p: "map_of (ct_prioMap s) k = Some p"
    "map_of (ct_portMap s) k \<noteq> None \<or> map_of (ct_groupMap s) k \<noteq> None"
    using Cons.prems by (cases "map_of (ct_portMap s) k") (auto simp: served_def)
  let ?s = "s\<lparr>ct_pq := (p, ct_tc s, k) # ct_pq s, ct_tc := ct_tc s + 1\<rparr>"
  have step: "push_jobs (k # ks) pri s = push_jobs ks (Some p) ?s"
    using p by (auto simp: rd_def bnd_def lift_def getitem_def ret_def upd_def)
  obtain q n where "push_jobs ks (Some p) ?s = (Inr (), ?s\<lparr>ct_pq := q, ct_tc := n\<rparr>)"
    "mset (map (\<lambda>j. snd (snd j)) q) = mset (map (\<lambda>j. snd (snd j)) (ct_pq ?s)) + mset ks"
    using Cons.IH [of ?s "Some p"] Cons.prems by auto
  then show ?case using step by (auto intro!: exI [of _ q] exI [of _ n])
qed


lemma sample_idle: "ct_pq sample_ct = []" "dispatched sample_ct = []"
  by (simp_all add: sample_ct_def dispatched_def)


text \<open>
  The poll between two jobs reports sockets whose job is already queued, because their message
  is still unread, and they are queued again. With two ready sockets of one message each and a
  poller that reports exactly the sockets with an unread message, the second socket is served, its
  message read, and its second job stays behind: the scheduler then waits for another message
  with a handler queued that has nothing to read.
\<close>

lemma heappop_two: "p < q \<or> p = q \<and> m < n \<Longrightarrow> heappop [(q, n, b), (p, m, a)] = Some ((p, m, a), [(q, n, b)])"
  by (auto simp: heappop_def Let_def job_less_def)

theorem priority_queues_twice:
  assumes "tame usr" "served s a" "served s b" "ct_pq s = []"
    "map_of (ct_prioMap s) a = Some p" "map_of (ct_prioMap s) b = Some q" "p \<le> q"
  shows "\<exists>t c. priorityScheduler usr [a, b] [\<lparr>pr_cmd = None, pr_socks = [b]\<rparr>] s = (Blocked, t) \<and>
    dispatched t = dispatched s @ [a, b] \<and> ct_pq t = [(q, c, b)]"
proof -
  let ?n = "ct_tc s"
  have known: "map_of (ct_portMap s) k \<noteq> None \<or> map_of (ct_groupMap s) k \<noteq> None" if "served s k" for k
    using that by (cases "map_of (ct_portMap s) k") (auto simp: served_def)
  let ?s1 = "s\<lparr>ct_pq := [(q, ?n + 1, b), (p, ?n, a)], ct_tc := ?n + 2\<rparr>"
  have "push_jobs [a, b] None s = (Inr (), ?s1)"
    using known [OF assms(2)] known [OF assms(3)] assms(4-6)
    by (auto simp: rd_def bnd_def lift_def getitem_def ret_def upd_def)
  moreover obtain xs where xs: "executeHandlerFor usr a (?s1\<lparr>ct_pq := [(q, ?n + 1, b)]\<rparr>) =
      (Inr (), ?s1\<lparr>ct_pq := [(q, ?n + 1, b)], ct_out := xs\<rparr>)"
    "dispatched (?s1\<lparr>ct_pq := [(q, ?n + 1, b)], ct_out := xs\<rparr>) = dispatched (?s1\<lparr>ct_pq := [(q, ?n + 1, b)]\<rparr>) @ [a]"
    using executeHandlerFor_dispatch [OF assms(1), of "?s1\<lparr>ct_pq := [(q, ?n + 1, b)]\<rparr>" a] assms(2) by auto
  let ?s2 = "s\<lparr>ct_pq := [(q, ?n + 2, b), (q, ?n + 1, b)], ct_tc := ?n + 3, ct_out := xs\<rparr>"
  have "push_jobs [b] (Some p) (?s1\<lparr>ct_pq := [(q, ?n + 1, b)], ct_out := xs\<rparr>) = (Inr (), ?s2)"
    using known [OF assms(3)] assms(6)
    by (auto simp: rd_def bnd_def lift_def getitem_def ret_def upd_def)
  moreover obtain ys where ys: "executeHandlerFor usr b (?s2\<lparr>ct_pq := [(q, ?n + 2, b)]\<rparr>) =
      (Inr (), ?s2\<lparr>ct_pq := [(q, ?n + 2, b)], ct_out := ys\<rparr>)"
    "dispatched (?s2\<lparr>ct_pq := [(q, ?n + 2, b)], ct_out := ys\<rparr>) = dispatched (?s2\<lparr>ct_pq := [(q, ?n + 2, b)]\<rparr>) @ [b]"
    using executeHandlerFor_dispatch [OF assms(1), of "?s2\<lparr>ct_pq := [(q, ?n + 2, b)]\<rparr>" b] assms(3) by auto
  moreover have "heappop (ct_pq ?s1) = Some ((p, ?n, a), [(q, ?n + 1, b)])"
    "heappop (ct_pq ?s2) = Some ((q, ?n + 1, b), [(q, ?n + 2, b)])"
    using heappop_two [of p q ?n "?n + 1"] heappop_two [of q q "?n + 1" "?n + 2"] assms(7) order_le_less [of p q] by auto
  ultimately show ?thesis using xs
    by (auto simp: priorityScheduler_def priority_loop.simps control_msg_none dispatched_def
        simp del: push_jobs.simps)
qed

theorem priority_queues_twice_witness:
  "\<exists>t c. priorityScheduler (\<lambda>_ _. ret 0) [1, 2] [\<lparr>pr_cmd = None, pr_socks = [2]\<rparr>] sample_ct = (Blocked, t) \<and>
    dispatched t = [1, 2] \<and> ct_pq t = [(1, c, 2)]"
proof -
  have "tame (\<lambda>_ _. ret 0)" by (simp add: tame_def outputs_ret)
  moreover have "map_of (ct_prioMap sample_ct) 1 = Some 0" "map_of (ct_prioMap sample_ct) 2 = Some 1"
    by (simp_all add: sample_ct_def)
  ultimately show ?thesis
    using priority_queues_twice [of "\<lambda>_ _. ret 0" sample_ct 1 2 0 1] sample_served sample_idle by simp
qed

lemma rr_rotate_mset:
  assumes "i < length js"
  shows "mset (rr_rotate i js) = mset js \<longleftrightarrow> i = 0 \<or> 2 * i = length js"
proof (cases "i = 0 \<or> 2 * i = length js")
  case True
  have "mset js = mset (take i js @ drop i js)" by simp
  also have "\<dots> = mset (take i js) + mset (drop i js)" by (rule mset_append)
  finally have split: "mset (take i js) + mset (drop i js) = mset js" ..
  have "length js - i = i" if "i \<noteq> 0" using True that by linarith
  then have "rr_rotate i js = drop i js @ take i js" if "i \<noteq> 0"
    using that by (simp add: rr_rotate_def)
  then have "mset (rr_rotate i js) = mset js" if "i \<noteq> 0" using split that by (simp add: add.commute)
  with True show ?thesis by (cases "i = 0") (simp_all add: rr_rotate_def)
next
  case False
  then have "length (rr_rotate i js) = 2 * i"
    using assms by (simp add: rr_rotate_def)
  with False mset_eq_length [of "rr_rotate i js" js] show ?thesis by auto
qed

text \<open>
  The round-robin scheduler reorders jobs that come in behind others by putting the first job
  with a larger tag than the last one queued in front. The expression the code uses keeps exactly
  the jobs it was given only if that job is the first anyway or stands exactly in the middle;
  otherwise jobs are lost or queued twice.
\<close>

theorem rr_loses_jobs:
  assumes "ct_dq s \<noteq> []" "length js \<noteq> 1" "first_larger (ct_last s) js = Some i"
  shows "\<exists>js'. rr_order js s = (Inr js', s) \<and>
    (mset js' = mset js \<longleftrightarrow> i = 0 \<or> 2 * i = length js)"
proof (intro exI conjI)
  show "rr_order js s = (Inr (rr_rotate i js), s)"
    using assms by (simp add: rr_order_def rd_def ret_def)
  obtain il where f: "filter (\<lambda>i. fst (js ! i) > ct_last s) [0..<length js] = i # il"
    using assms(3) by (auto simp: first_larger_def split: list.splits)
  have "i \<in> set (filter (\<lambda>i. fst (js ! i) > ct_last s) [0..<length js])" by (simp only: f) simp
  then have i: "i < length js" by simp
  show "mset (rr_rotate i js) = mset js \<longleftrightarrow> i = 0 \<or> 2 * i = length js"
    by (rule rr_rotate_mset [OF i])
qed

theorem rr_loses_jobs_witness:
  "\<exists>js'. rr_order [(2, 5), (4, 6), (6, 7)] (sample_ct\<lparr>ct_dq := [(3, 4)], ct_last := 3\<rparr>) =
      (Inr js', sample_ct\<lparr>ct_dq := [(3, 4)], ct_last := 3\<rparr>) \<and> mset js' \<noteq> mset [(2, 5), (4, 6), (6, 7)]"
  using rr_loses_jobs [of "sample_ct\<lparr>ct_dq := [(3, 4)], ct_last := 3\<rparr>" "[(2, 5), (4, 6), (6, 7)]" 1]
  by (simp add: first_larger_def sample_ct_def upt_rec)

text \<open>
  Under the round-robin scheduler two ready sockets with the same tag end the thread: the sort
  has to compare the sockets. Groups joined with the default priority all have the tag 256.
\<close>

theorem rr_equal_tags_kill:
  assumes "\<forall>k \<in> set ks. served s k" "\<not> distinct (map (\<lambda>k. map_of (ct_prioMap s) k) ks)"
    "control_msg usr r s = (Inr (), s)" "\<not> ct_toStop s" "pr_socks r = ks"
  shows "comp_run RrSched usr ((r, polls) # rs) s = (Died TypeError, s)"
proof -
  have "\<exists>js. rr_jobs ks tag s = Inr js \<and> map (Some \<circ> fst) js = map (\<lambda>k. map_of (ct_prioMap s) k) ks" for tag
    using assms(1)
  proof (induction ks arbitrary: tag)
    case (Cons k ks)
    then obtain p where p: "map_of (ct_prioMap s) k = Some p"
      "map_of (ct_portMap s) k \<noteq> None \<or> map_of (ct_groupMap s) k \<noteq> None"
      by (cases "map_of (ct_portMap s) k") (auto simp: served_def)
    with Cons.IH [of "Some p"] Cons.prems show ?case by auto
  qed simp
  then obtain js where js: "rr_jobs ks None s = Inr js"
    "map (Some \<circ> fst) js = map (\<lambda>k. map_of (ct_prioMap s) k) ks" by blast
  have "\<not> distinct (map fst js)"
    using js(2) assms(2) by (metis distinct_map inj_Some list.map_comp inj_on_subset subset_UNIV)
  then have "rr_schedule ks None s = (Inl TypeError, s)"
    using js by (simp add: rr_schedule_def rd_def bnd_def lift_def sort_jobs_def)
  moreover have "ks \<noteq> []" using assms(2) by auto
  ultimately show ?thesis
    using assms by (simp add: schedule_def rrScheduler_def)
qed

text \<open>Two groups of one component, both with a message.\<close>

theorem rr_equal_tags_kill_witness:
  "comp_run RrSched (\<lambda>_ _. ret 0) [(\<lparr>pr_cmd = None, pr_socks = [3, 4]\<rparr>, [])] sample_ct = (Died TypeError, sample_ct)"
  using rr_equal_tags_kill [of "[3, 4]" sample_ct "\<lambda>_ _. ret 0" "\<lparr>pr_cmd = None, pr_socks = [3, 4]\<rparr>" "[]" "[]"]
    sample_served by (simp add: control_msg_none, simp add: sample_ct_def)

section \<open>The tables of sockets\<close>

definition linked :: "cthread \<Rightarrow> sock \<Rightarrow> bool" where
  "linked s k \<longleftrightarrow> served s k \<and> (\<forall>n. map_of (ct_portMap s) k = Some n \<longrightarrow>
     (\<exists>p. map_of (ct_ports s) n = Some p \<and> po_socket p = Some k \<and> po_input p))"

definition port_view :: "cthread \<Rightarrow> string \<Rightarrow> (sock option \<times> bool) option" where
  "port_view s n = map_option (\<lambda>p. (po_socket p, po_input p)) (map_of (ct_ports s) n)"

lemma linked_iff: "linked s k \<longleftrightarrow> has_key (ct_prioMap s) k \<and>
    (map_of (ct_portMap s) k = None \<and> has_key (ct_groupMap s) k \<or>
     (\<exists>n. map_of (ct_portMap s) k = Some n \<and> map_of (ct_nameMap s) k = Some n \<and>
        port_view s n = Some (Some k, True)))"
  by (cases "map_of (ct_portMap s) k") (auto simp: linked_def served_def port_view_def)

definition tables_ok :: "cthread \<Rightarrow> bool" where
  "tables_ok s \<longleftrightarrow> (\<forall>k \<in> set (ct_poller s). k = control \<or> linked s k)"

text \<open>The ports of a part: distinct names, no socket shared, none the control socket.\<close>

definition ports_ok :: "(string, port_obj) dict \<Rightarrow> bool" where
  "ports_ok ps \<longleftrightarrow> distinct (dkeys ps) \<and> (\<forall>(n, p) \<in> set ps. po_socket p \<noteq> Some control \<and>
     (\<forall>(m, q) \<in> set ps. po_socket p \<noteq> None \<and> po_socket p = po_socket q \<longrightarrow> n = m))"

definition inputs :: "(string, port_obj) dict \<Rightarrow> sock set" where
  "inputs ps = {k. \<exists>(n, p) \<in> set ps. po_socket p = Some k \<and> po_input p}"

definition setup_inv :: "cthread \<Rightarrow> (string, port_obj) dict \<Rightarrow> cthread \<Rightarrow> bool" where
  "setup_inv s ps t \<longleftrightarrow> ct_ports t = ct_ports s \<and> ct_groupMap t = [] \<and>
     set (ct_poller t) = insert control (inputs ps) \<and>
     (\<forall>k n. map_of (ct_portMap t) k = Some n \<longleftrightarrow> (\<exists>p. (n, p) \<in> set ps \<and> po_socket p = Some k)) \<and>
     (\<forall>k \<in> inputs ps. map_of (ct_nameMap t) k = map_of (ct_portMap t) k \<and> has_key (ct_prioMap t) k)"

lemma inputs_snoc: "inputs (ps @ [(n, p)]) =
    (if po_input p \<and> po_socket p \<noteq> None then insert (the (po_socket p)) (inputs ps) else inputs ps)"
  by (auto simp: inputs_def)

lemma addPort_step:
  assumes "setup_inv s ps t" "ports_ok (ps @ (n, p) # qs)"
  shows "\<exists>u. addPort (n, p) t = (Inr (), u) \<and> setup_inv s (ps @ [(n, p)]) u"
proof (cases "po_socket p")
  case None
  with assms show ?thesis
    by (auto simp: addPort_def ret_def setup_inv_def inputs_snoc)
next
  case (Some k)
  have fresh: "m = n" if "(m, q) \<in> set ps" "po_socket q = Some k" for m q
    using assms(2) that Some by (fastforce simp: ports_ok_def)
  have "n \<notin> fst ` set ps" using assms(2) by (auto simp: ports_ok_def)
  then have new: "(m, q) \<in> set ps \<Longrightarrow> po_socket q \<noteq> Some k" for m q
    using fresh by force
  then have "k \<notin> inputs ps" by (auto simp: inputs_def)
  moreover have "k \<noteq> control" using assms(2) Some by (auto simp: ports_ok_def)
  ultimately show ?thesis
    using assms(1) Some new
    by (auto simp: addPort_def seqA.simps bnd_def upd_def whenA_def ret_def poll_register_def
        setup_inv_def inputs_snoc)
qed

lemma addPorts:
  "setup_inv s ps t \<Longrightarrow> ports_ok (ps @ qs) \<Longrightarrow> \<exists>u. forA qs addPort t = (Inr (), u) \<and> setup_inv s (ps @ qs) u"
proof (induction qs arbitrary: ps t)
  case Nil
  then show ?case by (simp add: forA.simps ret_def)
next
  case (Cons q qs)
  obtain n p where q: "q = (n, p)" by (cases q)
  obtain u where u: "addPort (n, p) t = (Inr (), u)" "setup_inv s (ps @ [(n, p)]) u"
    using addPort_step Cons.prems q by blast
  with Cons.IH [OF u(2)] Cons.prems(2) q show ?case by (simp add: forA.simps bnd_def)
qed

lemma setup_tables: "setup_inv s (ct_ports s) t \<Longrightarrow> ports_ok (ct_ports s) \<Longrightarrow> tables_ok t"
proof -
  assume i: "setup_inv s (ct_ports s) t" and p: "ports_ok (ct_ports s)"
  have d: "distinct (dkeys (ct_ports s))" using p by (simp add: ports_ok_def)
  have "linked t k" if k: "k \<in> inputs (ct_ports s)" for k
  proof -
    obtain n q where nq: "(n, q) \<in> set (ct_ports s)" "po_socket q = Some k" "po_input q"
      using k by (auto simp: inputs_def)
    then have m: "map_of (ct_portMap t) k = Some n" "map_of (ct_ports t) n = Some q"
      using i map_of_is_SomeI [OF d] by (auto simp: setup_inv_def)
    then show ?thesis using i k nq by (auto simp: linked_iff setup_inv_def port_view_def)
  qed
  then show ?thesis using i by (auto simp: tables_ok_def setup_inv_def)
qed

text \<open>
  After the set-up the poller watches the control socket and the sockets of the input ports,
  nothing else, and each of them can be served.
\<close>

theorem setup_registers_inputs:
  assumes "ports_ok (ct_ports s)"
  shows "\<exists>t. setupPoller s = (Inr (), t) \<and> set (ct_poller t) = insert control (inputs (ct_ports s)) \<and>
    (\<forall>k \<in> set (ct_poller t). k = control \<or> served t k)"
proof -
  let ?s = "s\<lparr>ct_poller := [control], ct_nameMap := [(control, [])], ct_portMap := [],
       ct_groupMap := [], ct_groupNames := [], ct_prioMap := []\<rparr>"
  have "setup_inv s [] ?s" by (simp add: setup_inv_def inputs_def)
  then obtain t where t: "forA (ct_ports s) addPort ?s = (Inr (), t)" "setup_inv s (ct_ports s) t"
    using addPorts [of s "[]" ?s "ct_ports s"] assms by auto
  then have "setupPoller s = (Inr (), t)"
    by (simp add: setupPoller_def seqA.simps bnd_def upd_def rd_def ret_def)
  moreover have "tables_ok t" using setup_tables t(2) assms by blast
  ultimately show ?thesis using t(2) by (auto simp: setup_inv_def tables_ok_def linked_def)
qed

theorem setup_registers_inputs_witness:
  "\<exists>t. setupPoller sample_ct = (Inr (), t) \<and> set (ct_poller t) = {0, 1, 2}"
proof -
  have "ports_ok (ct_ports sample_ct)" "inputs (ct_ports sample_ct) = {1, 2}"
    by (auto simp: ports_ok_def inputs_def sample_ct_def sample_port_def)
  then show ?thesis using setup_registers_inputs [of sample_ct] by auto
qed

text \<open>
  What changes the tables afterwards: groups joined and left, connecting ports reset or updated.
  New sockets are numbered by the context: the second component is the next number.
\<close>

datatype table_op =
    AddGroup string int | DelGroup string sock | ResetPort string | UpdatePort string string int

fun table_step :: "cthread \<times> nat \<Rightarrow> table_op \<Rightarrow> (pyexc + unit) \<times> (cthread \<times> nat)" where
  "table_step (s, n) op = (let (r, t) = (case op of
       AddGroup g prio \<Rightarrow> addGroupSocket g n prio s
     | DelGroup g k \<Rightarrow> delGroupSocket g k s
     | ResetPort p \<Rightarrow> resetConnSocket p n s
     | UpdatePort p h k \<Rightarrow> portUpdate p h k s) in (r, (t, n + 1)))"

definition tables_inv :: "cthread \<times> nat \<Rightarrow> bool" where
  "tables_inv = (\<lambda>(s, n). tables_ok s \<and> control < n \<and> (\<forall>k \<in> set (ct_poller s). k < n) \<and>
     (\<forall>k. has_key (ct_portMap s) k \<longrightarrow> k < n) \<and>
     (\<forall>m k b. port_view s m = Some (Some k, b) \<longrightarrow> k < n \<and>
        (\<forall>m' b'. port_view s m' = Some (Some k, b') \<longrightarrow> m' = m)))"

lemma port_view_update: "port_view (s\<lparr>ct_ports := AList.update n p (ct_ports s)\<rparr>) m =
    (if m = n then Some (po_socket p, po_input p) else port_view s m)"
  by (simp add: port_view_def)

text \<open>Two states with the same tables, where the ports differ at most in their servers.\<close>

definition alike :: "cthread \<Rightarrow> cthread \<Rightarrow> bool" where
  "alike s t \<longleftrightarrow> ct_poller t = ct_poller s \<and> ct_portMap t = ct_portMap s \<and> ct_groupMap t = ct_groupMap s \<and>
     ct_nameMap t = ct_nameMap s \<and> ct_prioMap t = ct_prioMap s \<and> (\<forall>m. port_view t m = port_view s m)"

lemma alike_inv: "alike s t \<Longrightarrow> tables_inv (s, n) \<Longrightarrow> tables_inv (t, n + 1)"
  by (auto simp: alike_def tables_inv_def tables_ok_def linked_iff less_Suc_eq)

lemma addGroup_inv:
  assumes "tables_inv (s, n)" "addGroupSocket g n prio s = (r, t)"
  shows "tables_inv (t, n + 1)"
proof -
  have "n \<notin> set (ct_poller s)" "map_of (ct_portMap s) n = None"
    using assms(1) by (auto simp: tables_inv_def)
  then have t: "t = s\<lparr>ct_poller := ct_poller s @ [n], ct_groupMap := AList.update n g (ct_groupMap s),
      ct_groupNames := AList.update g n (ct_groupNames s), ct_prioMap := AList.update n prio (ct_prioMap s)\<rparr>"
    and new: "map_of (ct_portMap s) n = None"
    using assms(2) by (simp_all add: addGroupSocket_def seqA.simps bnd_def upd_def ret_def poll_register_def)
  have "linked t k" if "k = n \<or> linked s k" for k
    using that new by (auto simp: t linked_iff port_view_def)
  then show ?thesis using assms(1) by (auto simp: t tables_inv_def tables_ok_def less_Suc_eq port_view_def)
qed

lemma delGroup_inv:
  assumes "tables_inv (s, n)" "delGroupSocket g k s = (Inr (), t)"
  shows "tables_inv (t, n + 1)"
proof -
  have t: "t = s\<lparr>ct_poller := filter (\<lambda>x. x \<noteq> k) (ct_poller s), ct_groupMap := AList.delete k (ct_groupMap s),
      ct_groupNames := AList.delete g (ct_groupNames s), ct_prioMap := AList.delete k (ct_prioMap s)\<rparr>"
    using assms(2) by (auto simp: delGroupSocket_def seqA.simps bnd_def upd_def ret_def rd_def raise_def
        lift_def delitem_def split: if_splits)
  have "linked t j" if "j \<noteq> k" "linked s j" for j
    using that by (auto simp: t linked_iff port_view_def)
  then show ?thesis using assms(1) by (auto simp: t tables_inv_def tables_ok_def less_Suc_eq port_view_def)
qed

lemma portUpdate_inv:
  assumes "tables_inv (s, n)" "portUpdate pn h k s = (Inr (), t)"
  shows "tables_inv (t, n + 1)"
proof (rule alike_inv [OF _ assms(1)])
  show "alike s t"
    using assms(2)
    by (auto simp: portUpdate_def port_update_def rd_def ret_def raise_def seqA.simps bnd_def upd_def log_run
        alike_def port_view_def split: option.splits if_splits)
qed

lemma log_all: "forA xs (\<lambda>(h, n). log (Connect pn h n)) s =
    (Inr (), s\<lparr>ct_out := ct_out s @ map (\<lambda>(h, n). Connect pn h n) xs\<rparr>)"
  by (induction xs arbitrary: s) (auto simp: forA.simps ret_def bnd_def log_run)

lemma reset_state:
  assumes "tables_inv (s, n)" "resetConnSocket pn n s = (Inr (), t)"
  obtains p old where "map_of (ct_ports s) pn = Some p" "po_socket p = Some old"
    "has_key (ct_portMap s) old"
    "t = s\<lparr>ct_ports := AList.update pn (p\<lparr>po_socket := Some n\<rparr>) (ct_ports s),
       ct_portMap := AList.update n pn (AList.delete old (ct_portMap s)),
       ct_poller := (if po_input p then filter (\<lambda>k. k \<noteq> old) (ct_poller s) @ [n] else ct_poller s),
       ct_nameMap := (if po_input p then AList.update n pn (AList.delete old (ct_nameMap s)) else ct_nameMap s),
       ct_prioMap := (if po_input p then AList.update n (po_index p) (AList.delete old (ct_prioMap s)) else ct_prioMap s),
       ct_out := ct_out s @ Close old # map (\<lambda>(h, n). Connect pn h n) (po_servers p)\<rparr>"
proof -
  have "n \<notin> set (ct_poller s)" using assms(1) by (auto simp: tables_inv_def)
  with assms(2) show thesis
    by (auto simp: resetConnSocket_def replaceSocket_def addPort_def rd_def ret_def raise_def seqA.simps bnd_def
        upd_def lift_def getitem_def delitem_def whenA_def log_run log_all poll_register_def
        intro!: that split: option.splits if_splits)
qed

lemma reset_inv:
  assumes "tables_inv (s, n)" "resetConnSocket pn n s = (Inr (), t)"
  shows "tables_inv (t, n + 1)"
proof -
  obtain p old where p: "map_of (ct_ports s) pn = Some p" "po_socket p = Some old" "has_key (ct_portMap s) old"
    and t: "t = s\<lparr>ct_ports := AList.update pn (p\<lparr>po_socket := Some n\<rparr>) (ct_ports s),
       ct_portMap := AList.update n pn (AList.delete old (ct_portMap s)),
       ct_poller := (if po_input p then filter (\<lambda>k. k \<noteq> old) (ct_poller s) @ [n] else ct_poller s),
       ct_nameMap := (if po_input p then AList.update n pn (AList.delete old (ct_nameMap s)) else ct_nameMap s),
       ct_prioMap := (if po_input p then AList.update n (po_index p) (AList.delete old (ct_prioMap s)) else ct_prioMap s),
       ct_out := ct_out s @ Close old # map (\<lambda>(h, n). Connect pn h n) (po_servers p)\<rparr>"
    by (rule reset_state [OF assms])
  have v: "port_view t m = (if m = pn then Some (Some n, po_input p) else port_view s m)" for m
    by (simp add: t port_view_def)
  have pv: "port_view s pn = Some (Some old, po_input p)"
    using p by (simp add: port_view_def)
  have uniq: "m = pn" if "port_view s m = Some (Some old, b)" for m b
    using assms(1) that pv by (fastforce simp: tables_inv_def)
  have small: "k < n" if "port_view s m = Some (Some k, b)" for m k b
    using assms(1) that by (fastforce simp: tables_inv_def)
  have keep: "linked t k" if k: "k \<in> set (ct_poller s)" "k \<noteq> control" "po_input p \<longrightarrow> k \<noteq> old" for k
  proof -
    have l: "linked s k" and kn: "k \<noteq> n" using k assms(1) by (auto simp: tables_inv_def tables_ok_def)
    show ?thesis
    proof (cases "map_of (ct_portMap s) k")
      case None
      then have "k \<noteq> old" using p(3) by auto
      with None l kn show ?thesis by (auto simp: linked_iff t)
    next
      case (Some m)
      with l have m: "map_of (ct_nameMap s) k = Some m" "port_view s m = Some (Some k, True)" "has_key (ct_prioMap s) k"
        by (auto simp: linked_iff)
      have ko: "k \<noteq> old" using k(3) m(2) uniq pv by fastforce
      then have "m \<noteq> pn" using m(2) pv by auto
      then have "port_view t m = Some (Some k, True)" using m(2) by (simp only: v if_False)
      moreover have "map_of (ct_portMap t) k = Some m" "map_of (ct_nameMap t) k = Some m" "has_key (ct_prioMap t) k"
        using Some m(1,3) ko kn by (simp_all add: t)
      ultimately show ?thesis unfolding linked_iff by simp
    qed
  qed
  have new: "linked t n" if "po_input p"
  proof -
    have "port_view t pn = Some (Some n, True)" using that v [of pn] by simp
    moreover have "map_of (ct_portMap t) n = Some pn" "map_of (ct_nameMap t) n = Some pn" "has_key (ct_prioMap t) n"
      using that by (simp_all add: t)
    ultimately show ?thesis unfolding linked_iff by simp
  qed
  have "tables_ok t"
    unfolding tables_ok_def
  proof
    fix k assume "k \<in> set (ct_poller t)"
    then have "k \<in> set (ct_poller s) \<and> (po_input p \<longrightarrow> k \<noteq> old) \<or> k = n \<and> po_input p"
      by (auto simp: t split: if_splits)
    with keep new show "k = control \<or> linked t k" by blast
  qed
  moreover have "control < n + 1" "\<forall>k \<in> set (ct_poller t). k < n + 1"
    using assms(1) by (auto simp: t tables_inv_def less_Suc_eq)
  moreover have "\<forall>k. has_key (ct_portMap t) k \<longrightarrow> k < n + 1"
    using assms(1) by (auto simp: t tables_inv_def less_Suc_eq)
  moreover have "k < n + 1 \<and> (\<forall>m' b'. port_view t m' = Some (Some k, b') \<longrightarrow> m' = m)"
    if k: "port_view t m = Some (Some k, b)" for m k b
  proof (cases "m = pn")
    case True
    with k small show ?thesis by (auto simp: v split: if_splits)
  next
    case False
    with k have s: "port_view s m = Some (Some k, b)" by (simp add: v)
    then have "m' = m" if "port_view s m' = Some (Some k, b')" for m' b'
      using assms(1) that by (fastforce simp: tables_inv_def)
    with small [OF s] show ?thesis by (auto simp: v)
  qed
  ultimately show ?thesis unfolding tables_inv_def by blast
qed

interpretation tables: stepped_object table_step "\<lambda>_. True" tables_inv
proof unfold_locales
  fix w op r w' assume i: "tables_inv w" and st: "table_step w op = (Inr r, w')"
  obtain s n where w: "w = (s, n)" by (cases w)
  from st show "tables_inv w'"
    using i addGroup_inv delGroup_inv reset_inv portUpdate_inv
    by (cases op) (auto simp: w split: prod.splits)
qed

text \<open>
  Whatever groups the component joins and leaves and whatever ports are reset or updated after
  the set-up, every socket in the poller other than the control socket can be served: it has a
  priority and belongs to a port, under its right name, or to a group.
\<close>

theorem polled_sockets_are_served:
  assumes "ports_ok (ct_ports s)" "\<forall>(n, p) \<in> set (ct_ports s). \<forall>k. po_socket p = Some k \<longrightarrow> k < m"
    "setupPoller s = (Inr (), t)" "control < m" "run_steps table_step (t, m) ops = Some (u, m')"
    "k \<in> set (ct_poller u)" "k \<noteq> control"
  shows "served u k"
proof -
  let ?s = "s\<lparr>ct_poller := [control], ct_nameMap := [(control, [])], ct_portMap := [],
       ct_groupMap := [], ct_groupNames := [], ct_prioMap := []\<rparr>"
  have "setup_inv s [] ?s" by (simp add: setup_inv_def inputs_def)
  then obtain t' where t': "forA (ct_ports s) addPort ?s = (Inr (), t')" "setup_inv s (ct_ports s) t'"
    using addPorts [of s "[]" ?s "ct_ports s"] assms(1) by auto
  then have "t' = t" using assms(3) by (simp add: setupPoller_def seqA.simps bnd_def upd_def rd_def ret_def)
  with t' have t: "setup_inv s (ct_ports s) t" by simp
  have d: "distinct (dkeys (ct_ports s))" using assms(1) by (simp add: ports_ok_def)
  have pv: "\<exists>p. (n, p) \<in> set (ct_ports s) \<and> po_socket p = Some j" if "port_view t n = Some (Some j, b)" for n j b
    using that t by (auto simp: port_view_def setup_inv_def dest: map_of_SomeD)
  have small: "j < m" if "(n, p) \<in> set (ct_ports s)" "po_socket p = Some j" for n p j
    using assms(2) that by fastforce
  have "n' = n" if "port_view t n = Some (Some j, b)" "port_view t n' = Some (Some j, b')" for n n' j b b'
    using pv [OF that(1)] pv [OF that(2)] assms(1) by (fastforce simp: ports_ok_def)
  moreover have "tables_ok t" using setup_tables t assms(1) by blast
  moreover have "\<forall>j \<in> set (ct_poller t). j < m" "\<forall>j. has_key (ct_portMap t) j \<longrightarrow> j < m"
    using t small assms(4) by (auto simp: setup_inv_def inputs_def)
  ultimately have "tables_inv (t, m)"
    using pv small assms(4) unfolding tables_inv_def by blast
  then have "tables_inv (u, m')"
    using tables.run_keeps assms(5) by (metis list.pred_True)
  with assms(6,7) show ?thesis by (auto simp: tables_inv_def tables_ok_def linked_def)
qed

theorem polled_sockets_are_served_witness:
  "\<exists>t u. run_steps table_step (t, 3) [AddGroup ''G.z'' 256, ResetPort ''a''] = Some (u, 5) \<and> served u 4"
proof -
  obtain t where t: "setupPoller sample_ct = (Inr (), t)"
    "t = sample_ct\<lparr>ct_groupMap := [], ct_groupNames := [], ct_prioMap := [(1, 0), (2, 1)]\<rparr>"
    by (simp add: setupPoller_def sample_ct_def sample_port_def seqA.simps bnd_def upd_def rd_def ret_def
        forA.simps addPort_def whenA_def poll_register_def)
  obtain u where u: "run_steps table_step (t, 3) [AddGroup ''G.z'' 256, ResetPort ''a''] = Some (u, 5)" "4 \<in> set (ct_poller u)"
    using t(2) by (auto simp: sample_ct_def sample_port_def addGroupSocket_def resetConnSocket_def replaceSocket_def
        seqA.simps bnd_def upd_def rd_def ret_def forA.simps addPort_def whenA_def poll_register_def lift_def
        getitem_def delitem_def log_def)
  have "ports_ok (ct_ports sample_ct)" "\<forall>(n, p) \<in> set (ct_ports sample_ct). \<forall>k. po_socket p = Some k \<longrightarrow> k < 3"
    by (auto simp: ports_ok_def sample_ct_def sample_port_def)
  from polled_sockets_are_served [OF this t(1) _ u(1,2)] u(1) show ?thesis by auto
qed

section \<open>Groups of a component\<close>

text \<open>
  Joining is idempotent and leaving undoes it. A first join enters the group in the
  coordinator and its socket in the poller; joining again returns the same socket and changes
  nothing; leaving takes the socket out of the poller and the group out of the coordinator. A name
  that is no identifier ends in an \<open>AttributeError\<close>, not in the \<open>None\<close> the coordinator returns.
\<close>

theorem join_and_leave:
  assumes "py_identifier gi" "map_of (co_types c) gt = Some gs" "setupParams gs = Inr tm"
    "getGroup gt gi c = None" "1 \<le> n" "k \<notin> set (ct_poller t)"
    "\<not> py_identifier gj" "getGroup gt gj c = None"
  shows "\<exists>c1 t1. comp_joinGroup gt gi n prio k host port part (c, t) = (Inr k, (c1, t1)) \<and>
    getGroup gt gi c1 = Some k \<and> ct_poller t1 = ct_poller t @ [k] \<and>
    comp_joinGroup gt gi n prio j host port part (c1, t1) = (Inr k, (c1, t1)) \<and>
    comp_joinGroup gt gj n prio j host port part (c, t) = (Inl AttributeError, (c, t)) \<and>
    (\<exists>c2 t2. comp_leaveGroup (groupName gt gi) k part (c1, t1) = (Inr True, (c2, t2)) \<and>
       getGroup gt gi c2 = None \<and> ct_poller t2 = ct_poller t)"
proof -
  have eq: "filter (\<lambda>x. x \<noteq> k) (ct_poller t) = ct_poller t"
    using assms(6) by (auto simp: filter_id_conv)
  show ?thesis
    using assms eq
    by (auto simp: comp_joinGroup_def rd_def Let_def bnd_def on_coord_def on_thread_def coord_joinGroup_def
        lift_def upd_def ret_def raise_def addGroupSocket_def seqA.simps poll_register_def getGroup_def
        comp_leaveGroup_def delGroupSocket_def delitem_def coord_leaveGroup_def split: prod.splits)
qed

definition sample_coord :: coordinator where
  "sample_coord = \<lparr> co_types = [(''G'', \<lparr>gs_message = ''M'', gs_timed = False, gs_kind = ''default'', gs_params = []\<rparr>)],
     co_members = [], co_notes = [] \<rparr>"

theorem join_and_leave_witness:
  "\<exists>c t. comp_joinGroup ''G'' ''x'' 1 256 7 ''h'' 5000 ''c'' (sample_coord, sample_ct) = (Inr 7, (c, t)) \<and>
     getGroup ''G'' ''x'' c = Some 7"
proof -
  let ?gs = "\<lparr>gs_message = ''M'', gs_timed = False, gs_kind = ''default'', gs_params = []\<rparr>"
  have "setupParams ?gs = Inr \<lparr>tm_heartbeat = 1000, tm_electionMin = 1500, tm_electionMax = 2000,
      tm_peerTimeout = 3000, tm_consensusTimeout = 1500\<rparr>"
    by (simp add: setupParams_def group_param_def)
  moreover have "py_identifier ''x''" "\<not> py_identifier ''2''" "map_of (co_types sample_coord) ''G'' = Some ?gs"
    "getGroup ''G'' i sample_coord = None" "7 \<notin> set (ct_poller sample_ct)" for i
    by (simp_all add: py_identifier_def sample_coord_def getGroup_def sample_ct_def)
  ultimately show ?thesis
    using join_and_leave [of "''x''" sample_coord "''G''" ?gs _ 1 7 sample_ct "''2''" 256 "''h''" 5000 "''c''" 8] by blast
qed

end
