(* ===== verification/Fsm.thy ===== *)
theory Fsm
  imports Prelude
begin

text \<open>
  Finite-state machine components (\<open>riaps/run/fsm.py\<close>, class \<open>FSM\<close>): the decorators that collect
  transitions, the checks and tables of the constructor, and the processing of one event.

  \<^item> States and events are known by the names of their enumeration members. Guards, actions, entry
    and exit functions are arbitrary actions on the component and may raise.
  \<^item> The component has the current state, its own data, and a log of the three notes the class
    writes when an event does not lead to exactly one transition.
\<close>

section \<open>State\<close>

datatype fsm_note =
    Nondeterminism string string | UnhandledEvent string string | NoTransition string

record 'c machine =
  m_current :: string
  m_data :: 'c
  m_notes :: "fsm_note list"

type_synonym ('c, 'a) mact = "('c machine, 'a) act"

record 'c trans =
  t_guard :: "('c, bool) mact"
  t_then :: "string option"
  t_func :: "('c, unit) mact"

text \<open>
  What the decorators leave on the enumeration members: per event the states in \<open>__on__\<close> and the
  transitions for each state, per state its entry and exit functions.
\<close>

record 'c fsm_defs =
  d_states :: "string list"
  d_events :: "string list"
  d_on :: "(string, string list) dict"
  d_trans :: "(string \<times> string, 'c trans list) dict"
  d_entry :: "(string, ('c, unit) mact) dict"
  d_exit :: "(string, ('c, unit) mact) dict"

definition lookup :: "('k, 'v) dict \<Rightarrow> 'k \<Rightarrow> 'v \<Rightarrow> 'v" where
  "lookup d k dflt = (case map_of d k of None \<Rightarrow> dflt | Some v \<Rightarrow> v)"

text \<open>The decorator \<open>on(event, state, guard, then)\<close>; without a guard it is always true.\<close>

definition fsm_on :: "string \<Rightarrow> string \<Rightarrow> ('c, bool) mact option \<Rightarrow> string option \<Rightarrow>
    ('c, unit) mact \<Rightarrow> 'c fsm_defs \<Rightarrow> 'c fsm_defs" where
  "fsm_on ev st guard thn f d = d\<lparr>
     d_on := AList.update ev (lookup (d_on d) ev [] @ [st]) (d_on d),
     d_trans := AList.update (ev, st) (lookup (d_trans d) (ev, st) [] @
       [\<lparr>t_guard = (case guard of None \<Rightarrow> ret True | Some g \<Rightarrow> g), t_then = thn, t_func = f\<rparr>]) (d_trans d)\<rparr>"

definition fsm_entry :: "string \<Rightarrow> ('c, unit) mact \<Rightarrow> 'c fsm_defs \<Rightarrow> 'c fsm_defs" where
  "fsm_entry st f d = d\<lparr>d_entry := AList.update st f (d_entry d)\<rparr>"

definition fsm_exit :: "string \<Rightarrow> ('c, unit) mact \<Rightarrow> 'c fsm_defs \<Rightarrow> 'c fsm_defs" where
  "fsm_exit st f d = d\<lparr>d_exit := AList.update st f (d_exit d)\<rparr>"

section \<open>The constructor\<close>

record 'c fsm =
  f_states :: "string list"
  f_events :: "string list"
  f_initial :: string
  f_trans :: "(string, (string, 'c trans list) dict) dict"
  f_entry :: "(string, ('c, unit) mact) dict"
  f_exit :: "(string, ('c, unit) mact) dict"

text \<open>The checks on the transitions of one event in one state.\<close>

definition target_in :: "string set \<Rightarrow> 'c trans \<Rightarrow> bool" where
  "target_in S t \<longleftrightarrow> (case t_then t of None \<Rightarrow> True | Some n \<Rightarrow> n \<in> S)"

definition state_trans :: "'c fsm_defs \<Rightarrow> string \<Rightarrow> string \<Rightarrow> pyexc + 'c trans list" where
  "state_trans d ev st = (if st \<notin> set (d_states d) then Inl AssertionError
     else case map_of (d_trans d) (ev, st) of
       None \<Rightarrow> Inl AssertionError
     | Some ts \<Rightarrow> (if list_all (target_in (set (d_states d))) ts
         then Inr ts else Inl AssertionError))"

fun on_map :: "'c fsm_defs \<Rightarrow> string \<Rightarrow> string list \<Rightarrow> (string, 'c trans list) dict
    \<Rightarrow> pyexc + (string, 'c trans list) dict" where
  "on_map d ev [] m = Inr m"
| "on_map d ev (st # sts) m = (case state_trans d ev st of
     Inl e \<Rightarrow> Inl e | Inr ts \<Rightarrow> on_map d ev sts (AList.update st ts m))"

fun trans_map :: "'c fsm_defs \<Rightarrow> string list \<Rightarrow> (string, (string, 'c trans list) dict) dict
    \<Rightarrow> pyexc + (string, (string, 'c trans list) dict) dict" where
  "trans_map d [] m = Inr m"
| "trans_map d (ev # evs) m = (case map_of (d_on d) ev of
     None \<Rightarrow> trans_map d evs m
   | Some sts \<Rightarrow> (case on_map d ev sts [] of
       Inl e \<Rightarrow> Inl e | Inr om \<Rightarrow> trans_map d evs (AList.update ev om m)))"

definition fsm_init :: "'c fsm_defs \<Rightarrow> string \<Rightarrow> pyexc + 'c fsm" where
  "fsm_init d initial = (if initial \<notin> set (d_states d) then Inl AssertionError
     else case trans_map d (d_events d) [] of
       Inl e \<Rightarrow> Inl e
     | Inr tm \<Rightarrow> Inr \<lparr> f_states = d_states d, f_events = d_events d, f_initial = initial, f_trans = tm,
         f_entry = filter (\<lambda>(s, _). s \<in> set (d_states d)) (d_entry d),
         f_exit = filter (\<lambda>(s, _). s \<in> set (d_states d)) (d_exit d) \<rparr>)"

definition fsm_new :: "'c fsm \<Rightarrow> 'c \<Rightarrow> 'c machine" where
  "fsm_new f x = \<lparr> m_current = f_initial f, m_data = x, m_notes = [] \<rparr>"

text \<open>The setter of \<open>state\<close>.\<close>

definition set_state :: "'c fsm \<Rightarrow> string \<Rightarrow> ('c, unit) mact" where
  "set_state f st = (if st \<in> set (f_states f) then upd (\<lambda>s. s\<lparr>m_current := st\<rparr>) else raise AssertionError)"

section \<open>Events\<close>

definition add_note :: "fsm_note \<Rightarrow> ('c, unit) mact" where
  "add_note n = upd (\<lambda>s. s\<lparr>m_notes := m_notes s @ [n]\<rparr>)"

text \<open>\<open>f = map.get(state); if f: f(self)\<close>\<close>

definition run_hook :: "(string, ('c, unit) mact) dict \<Rightarrow> string \<Rightarrow> ('c, unit) mact" where
  "run_hook d st = (case map_of d st of None \<Rightarrow> ret () | Some f \<Rightarrow> f)"

text \<open>A transition that fires, in the state \<open>cid\<close> the machine had when the event came.\<close>

definition fire :: "'c fsm \<Rightarrow> string \<Rightarrow> 'c trans \<Rightarrow> ('c, unit) mact" where
  "fire f cid t = seqA [
     run_hook (f_exit f) cid,
     t_func t,
     rd m_current (\<lambda>cur. let nxt = (case t_then t of None \<Rightarrow> cur | Some n \<Rightarrow> n) in seqA [
       run_hook (f_entry f) nxt,
       upd (\<lambda>s. s\<lparr>m_current := nxt\<rparr>)])]"

fun try_trans :: "'c fsm \<Rightarrow> string \<Rightarrow> string \<Rightarrow> bool \<Rightarrow> 'c trans list \<Rightarrow> ('c, unit) mact" where
  "try_trans f ev cid fired [] = ret ()"
| "try_trans f ev cid fired (t # ts) = bnd (t_guard t) (\<lambda>cond.
     if cond then bnd (if fired then add_note (Nondeterminism ev cid) else fire f cid t)
       (\<lambda>_. try_trans f ev cid True ts)
     else try_trans f ev cid fired ts)"

text \<open>
  \<open>_update\<close>: the message of the event's port is read first, whatever happens then; reading may
  fail, which is ignored. Empty tables count as absent.
\<close>

definition fsm_update :: "'c fsm \<Rightarrow> (string \<Rightarrow> ('c, unit) mact) \<Rightarrow> string \<Rightarrow> ('c, unit) mact" where
  "fsm_update f recv ev = rd m_current (\<lambda>cid.
     bnd (tryA (recv ev) (\<lambda>_. ret ())) (\<lambda>_.
       case lookup (f_trans f) ev [] of
         [] \<Rightarrow> add_note (NoTransition ev)
       | om \<Rightarrow> (case lookup om cid [] of
           [] \<Rightarrow> rd m_current (\<lambda>cur. add_note (UnhandledEvent ev cur))
         | ts \<Rightarrow> try_trans f ev cid False ts)))"

section \<open>The states of a machine\<close>

text \<open>
  Component code that changes the state through the setter only, if at all: run in a declared
  state, it leaves the machine in a declared state, also when it raises.
\<close>

definition in_states :: "'c fsm \<Rightarrow> 'c machine \<Rightarrow> bool" where
  "in_states f s \<longleftrightarrow> m_current s \<in> set (f_states f)"

definition lawful :: "'c fsm \<Rightarrow> ('c, 'a) mact \<Rightarrow> bool" where
  "lawful f m \<longleftrightarrow> (\<forall>s. in_states f s \<longrightarrow> wp m (\<lambda>_. in_states f) (\<lambda>_. in_states f) s)"

definition lawful_trans :: "'c fsm \<Rightarrow> 'c trans \<Rightarrow> bool" where
  "lawful_trans f t \<longleftrightarrow> lawful f (t_guard t) \<and> lawful f (t_func t) \<and>
     target_in (set (f_states f)) t"

definition lawful_code :: "'c fsm \<Rightarrow> bool" where
  "lawful_code f \<longleftrightarrow>
     (\<forall>(_, om) \<in> set (f_trans f). \<forall>(_, ts) \<in> set om. \<forall>t \<in> set ts. lawful f (t_guard t) \<and> lawful f (t_func t)) \<and>
     (\<forall>(_, h) \<in> set (f_entry f). lawful f h) \<and> (\<forall>(_, h) \<in> set (f_exit f). lawful f h)"

text \<open>What the constructor checked: every target of a transition is a declared state.\<close>

definition targets_ok :: "'c fsm \<Rightarrow> bool" where
  "targets_ok f \<longleftrightarrow> (\<forall>(_, om) \<in> set (f_trans f). \<forall>(_, ts) \<in> set om. \<forall>t \<in> set ts.
     target_in (set (f_states f)) t)"

lemma state_trans_ok: "state_trans d ev st = Inr ts \<Longrightarrow> t \<in> set ts \<Longrightarrow>
    target_in (set (d_states d)) t"
  by (auto simp: state_trans_def list_all_iff split: if_splits option.splits)

lemma on_map_ok:
  assumes "on_map d ev sts m = Inr om"
    "\<forall>(_, ts) \<in> set m. \<forall>t \<in> set ts. target_in (set (d_states d)) t"
  shows "\<forall>(_, ts) \<in> set om. \<forall>t \<in> set ts. target_in (set (d_states d)) t"
  using assms
proof (induction sts arbitrary: m)
  case (Cons st sts)
  then obtain ts where ts: "state_trans d ev st = Inr ts" by (auto split: sum.splits)
  show ?case
    by (rule Cons.IH [of "AList.update st ts m"])
      (use Cons.prems ts state_trans_ok [OF ts] in \<open>auto dest!: set_update_subset split: prod.splits\<close>)
qed simp

lemma trans_map_ok:
  assumes "trans_map d evs m = Inr tm"
    "\<forall>(_, om) \<in> set m. \<forall>(_, ts) \<in> set om. \<forall>t \<in> set ts. target_in (set (d_states d)) t"
  shows "\<forall>(_, om) \<in> set tm. \<forall>(_, ts) \<in> set om. \<forall>t \<in> set ts. target_in (set (d_states d)) t"
  using assms
proof (induction evs arbitrary: m)
  case (Cons ev evs)
  show ?case
  proof (cases "map_of (d_on d) ev")
    case None
    with Cons show ?thesis by simp
  next
    case (Some sts)
    with Cons.prems obtain om where om: "on_map d ev sts [] = Inr om" by (auto split: sum.splits)
    show ?thesis
      by (rule Cons.IH [of "AList.update ev om m"])
        (use Cons.prems Some om on_map_ok [OF om] in \<open>auto dest!: set_update_subset split: prod.splits\<close>)
  qed
qed simp

lemma fsm_init_ok: "fsm_init d i = Inr f \<Longrightarrow> targets_ok f \<and> f_initial f \<in> set (f_states f)"
proof -
  assume a: "fsm_init d i = Inr f"
  then obtain tm where tm: "trans_map d (d_events d) [] = Inr tm" and i: "i \<in> set (d_states d)"
    by (auto simp: fsm_init_def split: if_splits sum.splits)
  with a have f: "f_trans f = tm" "f_states f = d_states d" "f_initial f = i"
    by (auto simp: fsm_init_def)
  from trans_map_ok [OF tm] i show "targets_ok f \<and> f_initial f \<in> set (f_states f)"
    by (simp add: targets_ok_def f)
qed

lemma lookup_in: "lookup d k [] = x # xs \<Longrightarrow> (k, x # xs) \<in> set d"
  by (auto simp: lookup_def dest: map_of_SomeD split: option.splits)

lemma lawful_hook: "\<forall>(_, h) \<in> set d. lawful f h \<Longrightarrow> lawful f (run_hook d st)"
  by (auto simp: run_hook_def lawful_def wp_simps dest!: map_of_SomeD split: option.split)

lemma lawful_seqA: "list_all (lawful f) ms \<Longrightarrow> lawful f (seqA ms)"
  unfolding lawful_def by (auto simp: list_all_iff intro: wp_seqA_inv [where I = "in_states f"])

lemma lawful_bnd: "lawful f m \<Longrightarrow> (\<And>x. lawful f (k x)) \<Longrightarrow> lawful f (bnd m k)"
  unfolding lawful_def wp_bnd by (blast intro: wp_mono)

lemma lawful_basic: "lawful f (ret x)" "lawful f (add_note n)" "lawful f (rd m_current (\<lambda>c. add_note (g c)))"
  by (simp_all add: lawful_def wp_simps add_note_def in_states_def)

lemma lawful_tryA: "lawful f m \<Longrightarrow> lawful f (tryA m (\<lambda>_. ret ()))"
  unfolding lawful_def by (auto simp: wp_tryA wp_ret elim: wp_mono)

lemma lawful_fire:
  assumes "lawful_code f" "lawful_trans f t"
  shows "lawful f (fire f cid t)"
proof -
  have h: "lawful f (run_hook (f_exit f) st)" "lawful f (run_hook (f_entry f) st)" for st
    using assms(1) by (auto simp: lawful_code_def intro: lawful_hook)
  have upd: "lawful f (upd (\<lambda>s. s\<lparr>m_current := n\<rparr>))" if "n \<in> set (f_states f)" for n
    using that by (simp add: lawful_def wp_simps in_states_def)
  have enter: "lawful f (seqA [run_hook (f_entry f) n, upd (\<lambda>s. s\<lparr>m_current := n\<rparr>)])"
    if "n \<in> set (f_states f)" for n
    by (rule lawful_seqA) (simp add: h upd that)
  have "lawful f (rd m_current (\<lambda>cur. let nxt = (case t_then t of None \<Rightarrow> cur | Some n \<Rightarrow> n) in
      seqA [run_hook (f_entry f) nxt, upd (\<lambda>s. s\<lparr>m_current := nxt\<rparr>)]))"
    using enter assms(2)
    by (auto simp: lawful_def wp_rd Let_def in_states_def lawful_trans_def target_in_def split: option.splits)
  then show ?thesis
    unfolding fire_def by (intro lawful_seqA) (use h assms(2) in \<open>simp add: lawful_trans_def\<close>)
qed

lemma lawful_try_trans: "lawful_code f \<Longrightarrow> \<forall>t \<in> set ts. lawful_trans f t \<Longrightarrow> lawful f (try_trans f ev cid fired ts)"
proof (induction ts arbitrary: fired)
  case Nil
  then show ?case by (simp add: lawful_basic)
next
  case (Cons t ts)
  then have "lawful f (t_guard t)" "lawful f (fire f cid t)"
    by (simp_all add: lawful_fire lawful_trans_def)
  with Cons show ?case by (auto intro!: lawful_bnd simp: lawful_basic)
qed

lemma lawful_update:
  assumes "lawful_code f" "targets_ok f" "\<And>ev. lawful f (recv ev)"
  shows "lawful f (fsm_update f recv ev)"
proof -
  have t: "lawful_trans f t" if "(ev, om) \<in> set (f_trans f)" "(st, ts) \<in> set om" "t \<in> set ts" for om st ts t
    using assms(1,2) that by (fastforce simp: lawful_trans_def lawful_code_def targets_ok_def)
  have body: "lawful f (case lookup (f_trans f) ev [] of [] \<Rightarrow> add_note (NoTransition ev)
       | om \<Rightarrow> (case lookup om cid [] of
           [] \<Rightarrow> rd m_current (\<lambda>cur. add_note (UnhandledEvent ev cur))
         | ts \<Rightarrow> try_trans f ev cid False ts))" for cid
  proof (cases "lookup (f_trans f) ev []")
    case (Cons o1 om)
    show ?thesis
    proof (cases "lookup (o1 # om) cid []")
      case (Cons t1 ts)
      have "lawful f (try_trans f ev cid False (t1 # ts))"
        by (rule lawful_try_trans [OF assms(1)])
          (use t lookup_in [OF \<open>lookup (f_trans f) ev [] = o1 # om\<close>] lookup_in [OF Cons] in blast)
      with \<open>lookup (f_trans f) ev [] = o1 # om\<close> Cons show ?thesis by (simp del: try_trans.simps)
    qed (simp add: Cons lawful_basic)
  qed (simp add: lawful_basic)
  have "lawful f (bnd (tryA (recv ev) (\<lambda>_. ret ())) (\<lambda>_. case lookup (f_trans f) ev [] of
         [] \<Rightarrow> add_note (NoTransition ev)
       | om \<Rightarrow> (case lookup om cid [] of
           [] \<Rightarrow> rd m_current (\<lambda>cur. add_note (UnhandledEvent ev cur))
         | ts \<Rightarrow> try_trans f ev cid False ts)))" for cid
    by (intro lawful_bnd lawful_tryA assms(3) body)
  then show ?thesis unfolding fsm_update_def lawful_def by (simp add: wp_rd)
qed

section \<open>Properties\<close>

text \<open>The machine as an object that handles events, whether an event's code raises or not.\<close>

definition fsm_step :: "'c fsm \<Rightarrow> (string \<Rightarrow> ('c, unit) mact) \<Rightarrow> 'c machine \<Rightarrow> string \<Rightarrow> (pyexc + unit) \<times> 'c machine" where
  "fsm_step f recv s ev = (Inr (), exec (fsm_update f recv ev) s)"

interpretation fsm_object: stepped_object "\<lambda>(f, recv, s) ev. let (r, t) = fsm_step f recv s ev in (r, (f, recv, t))"
  "\<lambda>_. True" "\<lambda>(f, recv, s). lawful_code f \<and> targets_ok f \<and> (\<forall>ev. lawful f (recv ev)) \<and> in_states f s"
proof unfold_locales
  fix x :: "'a fsm \<times> (string \<Rightarrow> ('a, unit) mact) \<times> 'a machine" and e r y
  assume i: "case x of (f, recv, s) \<Rightarrow> lawful_code f \<and> targets_ok f \<and> (\<forall>ev. lawful f (recv ev)) \<and> in_states f s"
    and st: "(case x of (f, recv, s) \<Rightarrow> \<lambda>ev. let (r, t) = fsm_step f recv s ev in (r, (f, recv, t))) e = (Inr r, y)"
  obtain f recv s where x: "x = (f, recv, s)" by (cases x)
  have l: "lawful f (fsm_update f recv e)" "in_states f s" using i lawful_update x by auto
  then have "wp (fsm_update f recv e) (\<lambda>_. in_states f) (\<lambda>_. in_states f) s"
    by (simp only: lawful_def)
  then have "in_states f (exec (fsm_update f recv e) s)"
    unfolding wp_def exec_def by (simp split: prod.splits sum.splits)
  moreover have "y = (f, recv, exec (fsm_update f recv e) s)"
    using st x by (simp add: fsm_step_def)
  ultimately show "case y of (f, recv, s) \<Rightarrow> lawful_code f \<and> targets_ok f \<and> (\<forall>ev. lawful f (recv ev)) \<and> in_states f s"
    using i x by simp
qed

fun run_events :: "'c fsm \<Rightarrow> (string \<Rightarrow> ('c, unit) mact) \<Rightarrow> 'c machine \<Rightarrow> string list \<Rightarrow> 'c machine" where
  "run_events f recv s [] = s"
| "run_events f recv s (ev # evs) = run_events f recv (exec (fsm_update f recv ev) s) evs"

lemma run_events_steps: "run_steps (\<lambda>(f, recv, s) ev. let (r, t) = fsm_step f recv s ev in (r, (f, recv, t))) (f, recv, s) evs
    = Some (f, recv, run_events f recv s evs)"
  by (induction evs arbitrary: s) (simp_all add: fsm_step_def)

text \<open>
  C24: a machine is always in one of its declared states. If the constructor accepted the
  definitions and the component's code changes the state through the setter only, then after any
  events, also ones whose code raised, the current state is a declared one.
\<close>

theorem fsm_state_declared:
  assumes "fsm_init d i = Inr f" "lawful_code f" "\<And>ev. lawful f (recv ev)"
  shows "m_current (run_events f recv (fsm_new f x) evs) \<in> set (f_states f)"
proof -
  have "targets_ok f" "in_states f (fsm_new f x)"
    using fsm_init_ok [OF assms(1)] by (simp_all add: in_states_def fsm_new_def)
  then show ?thesis
    using fsm_object.run_keeps [OF _ _ run_events_steps, of f recv "fsm_new f x" evs] assms(2,3)
    by (simp add: in_states_def list.pred_True)
qed

definition lamp_defs :: "nat fsm_defs" where
  "lamp_defs = fsm_on ''push'' ''off'' None (Some ''on'') (upd (\<lambda>s. s\<lparr>m_data := m_data s + 1\<rparr>))
     (fsm_on ''push'' ''on'' None (Some ''off'') (raise ValueError)
       \<lparr> d_states = [''off'', ''on''], d_events = [''push''], d_on = [], d_trans = [], d_entry = [], d_exit = [] \<rparr>)"

definition lamp :: "nat fsm" where
  "lamp = (case fsm_init lamp_defs ''off'' of Inr f \<Rightarrow> f | Inl _ \<Rightarrow> undefined)"

lemma lamp_init: "fsm_init lamp_defs ''off'' = Inr lamp"
  and lamp_parts: "f_states lamp = [''off'', ''on'']" "f_initial lamp = ''off''" "f_entry lamp = []" "f_exit lamp = []"
    "f_trans lamp = [(''push'', [(''on'', [\<lparr>t_guard = ret True, t_then = Some ''off'', t_func = raise ValueError\<rparr>]),
      (''off'', [\<lparr>t_guard = ret True, t_then = Some ''on'', t_func = upd (\<lambda>s. s\<lparr>m_data := m_data s + 1\<rparr>)\<rparr>])])]"
  by (simp_all add: lamp_def fsm_init_def lamp_defs_def fsm_on_def lookup_def state_trans_def target_in_def)

theorem fsm_state_declared_witness:
  "m_current (run_events lamp (\<lambda>_. ret ()) (fsm_new lamp 0) [''push'', ''push'', ''pull'']) \<in> {''off'', ''on''}"
proof -
  have "lawful_code lamp"
    by (simp add: lawful_code_def lamp_parts lawful_def wp_simps in_states_def)
  from fsm_state_declared [OF lamp_init this, of "\<lambda>_. ret ()" 0 "[''push'', ''push'', ''pull'']"] show ?thesis
    by (simp add: lawful_basic lamp_parts del: run_events.simps)
qed


end
