(* ===== verification/DiscoText.thy ===== *)
theory DiscoText
  imports Prelude
begin

text \<open>
  The strings of the discovery service (\<open>riaps/discd/discs.py\<close>): splitting at a separator, as
  \<open>re.split(':', s)\<close> and \<open>s.split('.')\<close> do, and \<open>int(s)\<close> of a string. Keys, values and clients
  travel as strings joined with \<open>'/'\<close> and \<open>':'\<close>; the lemmas say when the parts come back.
\<close>

section \<open>Splitting\<close>

fun split_on :: "char \<Rightarrow> string \<Rightarrow> string list" where
  "split_on c [] = [[]]"
| "split_on c (x # xs) = (if x = c then [] # split_on c xs
     else (case split_on c xs of [] \<Rightarrow> [[x]] | w # ws \<Rightarrow> (x # w) # ws))"

lemma split_on_plain [simp]: "c \<notin> set w \<Longrightarrow> split_on c w = [w]"
  by (induction w) auto

lemma split_on_sep [simp]: "c \<notin> set w \<Longrightarrow> split_on c (w @ c # s) = w # split_on c s"
  by (induction w) auto

lemma split_on_not_Nil [simp]: "split_on c s \<noteq> []"
  by (induction s) (auto split: list.splits)

section \<open>Integers\<close>

definition is_digit :: "char \<Rightarrow> bool" where
  "is_digit c \<longleftrightarrow> (48::nat) \<le> of_char c \<and> (of_char c :: nat) \<le> 57"

definition is_blank :: "char \<Rightarrow> bool" where
  "is_blank c \<longleftrightarrow> (of_char c :: nat) \<in> set [9, 10, 11, 12, 13, 28, 29, 30, 31, 32]"

definition digits_val :: "string \<Rightarrow> nat" where
  "digits_val s = fold (\<lambda>c n. n * 10 + (of_char c - 48)) s 0"

text \<open>\<open>int(s)\<close>: blanks around, a sign, digits with single underscores between them.\<close>

definition parse_sign :: "string \<Rightarrow> bool \<times> string" where
  "parse_sign s = (case s of [] \<Rightarrow> (False, [])
     | c # cs \<Rightarrow> (if c = CHR ''-'' then (True, cs) else if c = CHR ''+'' then (False, cs) else (False, s)))"

definition parse_int :: "string \<Rightarrow> pyexc + int" where
  "parse_int s =
     (let (neg, t) = parse_sign (rev (dropWhile is_blank (rev (dropWhile is_blank s))));
          gs = split_on CHR ''_'' t
      in if list_all (\<lambda>g. g \<noteq> [] \<and> list_all is_digit g) gs
         then Inr ((if neg then -1 else 1) * int (digits_val (concat gs))) else Inl ValueError)"

lemma digit_char: "n < 10 \<Longrightarrow> is_digit (char_of (48 + n :: nat))"
  by (simp add: is_digit_def)

lemma nat_str_digits: "list_all is_digit (nat_str n)"
  by (induction n rule: nat_str.induct) (subst nat_str.simps, simp add: digit_char del: char_of_nat)

lemma nat_str_not_Nil [simp]: "nat_str n \<noteq> []"
  by (subst nat_str.simps) simp

lemma digits_val_snoc: "digits_val (s @ [c]) = digits_val s * 10 + (of_char c - 48)"
  by (simp add: digits_val_def)

lemma digits_val_nat_str [simp]: "digits_val (nat_str n) = n"
proof (induction n rule: nat_str.induct)
  case (1 n)
  show ?case
  proof (cases "n < 10")
    case True
    then show ?thesis by (subst nat_str.simps) (simp add: digits_val_def)
  next
    case False
    then show ?thesis using 1 by (subst nat_str.simps) (simp add: digits_val_snoc)
  qed
qed

lemma digit_facts: "is_digit c \<Longrightarrow> \<not> is_blank c \<and> c \<noteq> CHR ''_'' \<and> c \<noteq> CHR ''-'' \<and> c \<noteq> CHR ''+''
    \<and> c \<noteq> CHR '':'' \<and> c \<noteq> CHR ''/'' \<and> c \<noteq> CHR ''.''"
  by (auto simp: is_digit_def is_blank_def)

lemma dropWhile_blank_digits: "list_all is_digit s \<Longrightarrow> dropWhile is_blank s = s"
  by (cases s) (auto dest: digit_facts)

lemma parse_digits:
  assumes "list_all is_digit s" "s \<noteq> []"
  shows "parse_int s = Inr (int (digits_val s))"
    and "parse_int (CHR ''-'' # s) = Inr (- int (digits_val s))"
proof -
  have r: "list_all is_digit (rev s)" using assms(1) by simp
  have u: "CHR ''_'' \<notin> set s" using assms(1) digit_facts by (auto simp: list_all_iff)
  have sg: "parse_sign s = (False, s)"
    using assms digit_facts by (cases s) (auto simp: parse_sign_def)
  have m: "\<not> is_blank CHR ''-''" by (simp add: is_blank_def)
  from r have d: "dropWhile is_blank (rev s @ [CHR ''-'']) = rev s @ [CHR ''-'']"
    using assms(2) by (cases "rev s") (auto dest: digit_facts)
  show "parse_int s = Inr (int (digits_val s))"
    using assms by (simp add: parse_int_def dropWhile_blank_digits r sg u)
  show "parse_int (CHR ''-'' # s) = Inr (- int (digits_val s))"
    using assms u m by (simp add: parse_int_def d parse_sign_def)
qed

lemma parse_int_str [simp]: "parse_int (int_str n) = Inr n"
  using parse_digits [OF nat_str_digits nat_str_not_Nil] by (simp add: int_str_def)

lemma int_str_chars: "x \<in> set (int_str n) \<Longrightarrow> is_digit x \<or> x = CHR ''-''"
  using nat_str_digits by (auto simp: int_str_def list_all_iff split: if_splits)

lemma int_str_no_sep: "CHR '':'' \<notin> set (int_str n)" "CHR ''/'' \<notin> set (int_str n)"
  by (auto dest!: int_str_chars digit_facts)

end
