(* ===== verification/Zyre.thy ===== *)
theory Zyre
  imports Prelude
begin

text \<open>
  The events of zyre, the library for peer discovery on the local network, as the loops of
  \<open>DhtPeerMon\<close> (\<open>riaps/discd/dbase_dht.py\<close>) and \<open>FMMonitor\<close> (\<open>riaps/deplo/fm.py\<close>) receive them: a
  peer enters, with its address and headers, joins and leaves groups, sends messages, exits.
\<close>

datatype zyre_event =
    Enter string string "(string, bytes) dict"
  | Join string bytes
  | Shout string string
  | Whisper string string
  | Leave string bytes
  | Exit string
  | Other string

fun event_peer :: "zyre_event \<Rightarrow> string" where
  "event_peer (Enter p _ _) = p"
| "event_peer (Join p _) = p"
| "event_peer (Shout p _) = p"
| "event_peer (Whisper p _) = p"
| "event_peer (Leave p _) = p"
| "event_peer (Exit p) = p"
| "event_peer (Other p) = p"

end
