(* ===== verification/TimerPort.thy ===== *)
theory TimerPort
  imports Prelude
begin

text \<open>
  Timer ports (\<open>riaps/run/timPort.py\<close>): the thread \<open>TimerThread\<close> that waits for commands with a
  timeout, and the class \<open>TimPort\<close> through which a component drives it.

  \<^item> One iteration of the thread's loop is \<open>timer_turn\<close>: what \<open>waitFor\<close> returned, a command or
    \<open>None\<close> when the timeout has passed, and the time \<open>time.time()\<close> reads in this iteration.
  \<^item> \<open>timer_step\<close> puts it on a clock: the wait begins with the time of the last iteration, a
    timeout comes no earlier than it has passed, and a negative timeout, to zmq's poller an
    infinite one, never passes. How late a thread is scheduled is left open.
  \<^item> The ticks the thread sends are kept in \<open>tm_out\<close>, the last one at the end.
\<close>

section \<open>The timer thread\<close>

datatype tcmd = TERMINATE | ACTIVATE | DEACTIVATE | START | CANCEL | HALT | OtherMsg

record timer =
  tm_period :: "pyfloat option"
  tm_periodic :: bool
  tm_delay :: "pyfloat option"
  tm_timeout :: "int option"
  tm_active :: bool
  tm_running :: bool
  tm_skip :: bool
  tm_last :: "pyfloat option"
  tm_out :: "pyfloat list"
  tm_errors :: "tcmd list"
  tm_over :: bool

definition timer_init :: "int \<Rightarrow> timer" where
  "timer_init ms = \<lparr> tm_period = (if ms = 0 then None else Some (of_int ms / 1000)), tm_periodic = (ms \<noteq> 0),
     tm_delay = None, tm_timeout = None, tm_active = False, tm_running = False, tm_skip = False,
     tm_last = None, tm_out = [], tm_errors = [], tm_over = False \<rparr>"

type_synonym 'a tmact = "(timer, 'a) act"

text \<open>\<open>int(x * 1000)\<close>, where \<open>x\<close> may be \<open>None\<close>.\<close>

definition to_ms :: "pyfloat option \<Rightarrow> pyexc + int" where
  "to_ms x = (case x of None \<Rightarrow> Inl TypeError | Some t \<Rightarrow> Inr (py_int (t * 1000)))"

definition wait_period :: "unit tmact" where
  "wait_period = bnd (rd tm_period (\<lambda>p. lift (to_ms p))) (\<lambda>ms. upd (\<lambda>s. s\<lparr>tm_timeout := Some ms\<rparr>))"

definition cmdError :: "tcmd \<Rightarrow> unit tmact" where
  "cmdError c = upd (\<lambda>s. s\<lparr>tm_errors := tm_errors s @ [c]\<rparr>)"

definition on_timeout :: "pyfloat \<Rightarrow> unit tmact" where
  "on_timeout now = rd (\<lambda>s. s) (\<lambda>s.
     if \<not> tm_active s then upd (\<lambda>s. s\<lparr>tm_timeout := None\<rparr>)
     else seqA [
       upd (\<lambda>s. s\<lparr>tm_last := Some now\<rparr>),
       whenA (tm_running s) (if tm_periodic s \<and> tm_skip s then upd (\<lambda>s. s\<lparr>tm_skip := False\<rparr>)
         else upd (\<lambda>s. s\<lparr>tm_out := tm_out s @ [now]\<rparr>)),
       (if tm_periodic s then wait_period
        else upd (\<lambda>s. s\<lparr>tm_running := False, tm_timeout := None\<rparr>))])"

definition on_start :: "unit tmact" where
  "on_start = rd (\<lambda>s. s) (\<lambda>s. if tm_active s then seqA [
       (if tm_periodic s then wait_period
        else bnd (lift (to_ms (tm_delay s))) (\<lambda>ms. upd (\<lambda>s. s\<lparr>tm_timeout := Some ms\<rparr>))),
       upd (\<lambda>s. s\<lparr>tm_running := True\<rparr>)]
     else cmdError START)"

definition on_cancel :: "pyfloat \<Rightarrow> unit tmact" where
  "on_cancel now = rd (\<lambda>s. s) (\<lambda>s. if tm_periodic s
     then (case tm_last s of None \<Rightarrow> ret ()
       | Some l \<Rightarrow> (case tm_period s of None \<Rightarrow> raise TypeError
         | Some p \<Rightarrow> upd (\<lambda>s. s\<lparr>tm_timeout := Some (py_int ((l + p - now) * 1000)), tm_skip := True\<rparr>)))
     else upd (\<lambda>s. s\<lparr>tm_running := False, tm_timeout := None\<rparr>))"

fun timer_turn :: "tcmd option \<Rightarrow> pyfloat \<Rightarrow> unit tmact" where
  "timer_turn (Some TERMINATE) now = upd (\<lambda>s. s\<lparr>tm_over := True\<rparr>)"
| "timer_turn None now = on_timeout now"
| "timer_turn (Some ACTIVATE) now = upd (\<lambda>s. s\<lparr>tm_active := True, tm_last := None\<rparr>)"
| "timer_turn (Some DEACTIVATE) now = upd (\<lambda>s. s\<lparr>tm_active := False, tm_timeout := None, tm_last := None\<rparr>)"
| "timer_turn (Some START) now = on_start"
| "timer_turn (Some CANCEL) now = on_cancel now"
| "timer_turn (Some HALT) now = upd (\<lambda>s. s\<lparr>tm_timeout := None, tm_running := False\<rparr>)"
| "timer_turn (Some OtherMsg) now = cmdError OtherMsg"

definition thread_setPeriod :: "pyfloat \<Rightarrow> unit tmact" where
  "thread_setPeriod p = seqA [assertA (p > 0), upd (\<lambda>s. s\<lparr>tm_period := Some p\<rparr>)]"

definition thread_setDelay :: "pyfloat \<Rightarrow> unit tmact" where
  "thread_setDelay d = seqA [assertA (d > 0), upd (\<lambda>s. s\<lparr>tm_delay := Some d\<rparr>)]"

subsection \<open>The thread on a clock\<close>

definition due :: "timer \<Rightarrow> pyfloat \<Rightarrow> pyfloat \<Rightarrow> bool" where
  "due s since now \<longleftrightarrow> (case tm_timeout s of None \<Rightarrow> False
     | Some ms \<Rightarrow> 0 \<le> ms \<and> since + of_int ms / 1000 \<le> now)"

text \<open>An event that cannot happen, a timeout before its time or anything in the past, changes nothing.\<close>

definition timer_step :: "timer \<times> pyfloat \<Rightarrow> tcmd option \<times> pyfloat \<Rightarrow> (pyexc + unit) \<times> (timer \<times> pyfloat)" where
  "timer_step = (\<lambda>(s, since) (ev, now).
     if tm_over s \<or> now < since \<or> ev = None \<and> \<not> due s since now then (Inr (), (s, since))
     else let (r, t) = timer_turn ev now s in (r, (t, now)))"

section \<open>The timer port\<close>

text \<open>
  The port shares the period and the delay with its thread and sends it commands over a socket;
  \<open>tp_wire\<close> holds them in order. An argument of \<open>setPeriod\<close> is a float or something else.
\<close>

record timPort =
  tp_spec :: int
  tp_thread :: "timer option"
  tp_socket :: bool
  tp_wire :: "tcmd list"
  tp_info :: bool

type_synonym 'a tpact = "(timPort, 'a) act"

definition timPort_init :: "int \<Rightarrow> timPort" where
  "timPort_init ms = \<lparr> tp_spec = ms, tp_thread = None, tp_socket = False, tp_wire = [], tp_info = False \<rparr>"

definition tim_setup :: "unit tpact" where
  "tim_setup = upd (\<lambda>p. p\<lparr>tp_thread := Some (timer_init (tp_spec p))\<rparr>)"

definition tim_setupSocket :: "unit tpact" where
  "tim_setupSocket = rd tp_thread (\<lambda>th. if th = None then raise AttributeError
     else upd (\<lambda>p. p\<lparr>tp_socket := True, tp_info := True\<rparr>))"

definition tim_send :: "tcmd \<Rightarrow> unit tpact" where
  "tim_send c = rd tp_thread (\<lambda>th. whenA (th \<noteq> None) (rd tp_socket (\<lambda>b.
     if b then upd (\<lambda>p. p\<lparr>tp_wire := tp_wire p @ [c]\<rparr>) else raise AttributeError)))"

definition tim_activate :: "unit tpact" where
  "tim_activate = rd tp_thread (\<lambda>th. case th of None \<Rightarrow> ret ()
     | Some t \<Rightarrow> seqA [tim_send ACTIVATE,
         whenA (tm_period t \<noteq> None \<and> tm_period t \<noteq> Some 0) (tim_send START)])"

definition tim_deactivate :: "unit tpact" where "tim_deactivate = tim_send DEACTIVATE"
definition tim_launch :: "unit tpact" where "tim_launch = tim_send START"
definition tim_cancel :: "unit tpact" where "tim_cancel = tim_send CANCEL"
definition tim_halt :: "unit tpact" where "tim_halt = tim_send HALT"
definition tim_terminate :: "unit tpact" where "tim_terminate = tim_send TERMINATE"

definition on_timer :: "unit tmact \<Rightarrow> unit tpact" where
  "on_timer m = (\<lambda>p. case tp_thread p of None \<Rightarrow> (Inr (), p)
     | Some t \<Rightarrow> (case m t of (r, t') \<Rightarrow> (r, p\<lparr>tp_thread := Some t'\<rparr>)))"

definition tim_setPeriod :: "pyfloat option \<Rightarrow> unit tpact" where
  "tim_setPeriod a = (case a of None \<Rightarrow> raise OperationError
     | Some p \<Rightarrow> if p > 0 then on_timer (thread_setPeriod p) else raise OperationError)"

definition tim_setDelay :: "pyfloat option \<Rightarrow> unit tpact" where
  "tim_setDelay a = (case a of None \<Rightarrow> raise OperationError
     | Some d \<Rightarrow> if d > 0 then on_timer (thread_setDelay d) else raise OperationError)"

definition tim_getPeriod :: "timPort \<Rightarrow> pyfloat option" where
  "tim_getPeriod p = (case tp_thread p of None \<Rightarrow> None | Some t \<Rightarrow> tm_period t)"

definition tim_getDelay :: "timPort \<Rightarrow> pyfloat option" where
  "tim_getDelay p = (case tp_thread p of None \<Rightarrow> None | Some t \<Rightarrow> tm_delay t)"

definition tim_running :: "timPort \<Rightarrow> bool option" where
  "tim_running p = map_option tm_running (tp_thread p)"

definition tim_send_pyobj :: "'m \<Rightarrow> unit tpact" where
  "tim_send_pyobj m = raise OperationError"

section \<open>Ticks of a periodic timer\<close>

text \<open>
  The invariant of a periodic timer: successive ticks are a period apart, and unless the next
  timeout is one to be skipped it passes no earlier than a period after the last tick.
\<close>

definition spaced :: "int \<Rightarrow> pyfloat list \<Rightarrow> bool" where
  "spaced ms = sorted_wrt (\<lambda>a b. a + of_int ms / 1000 \<le> b)"

definition ticks_inv :: "int \<Rightarrow> timer \<times> pyfloat \<Rightarrow> bool" where
  "ticks_inv ms = (\<lambda>(s, now). tm_period s = Some (of_int ms / 1000) \<and> tm_periodic s \<and>
     spaced ms (tm_out s) \<and> (\<forall>x \<in> set (tm_out s). x \<le> now) \<and>
     (\<forall>w. tm_timeout s = Some w \<longrightarrow> tm_skip s \<or>
        (\<forall>x \<in> set (tm_out s). x + of_int ms / 1000 \<le> now + of_int w / 1000)))"

lemma spaced_snoc: "spaced ms (xs @ [b]) \<longleftrightarrow> spaced ms xs \<and> (\<forall>a \<in> set xs. a + of_int ms / 1000 \<le> b)"
  by (simp add: spaced_def sorted_wrt_append)

lemma ticks_inv_later: "ticks_inv ms (s, t) \<Longrightarrow> t \<le> now \<Longrightarrow> ticks_inv ms (s, now)"
  by (fastforce simp: ticks_inv_def)

lemma wait_period_keeps: "ticks_inv ms (s, now) \<Longrightarrow> wait_period s = (r, t) \<Longrightarrow> ticks_inv ms (t, now) \<and>
    t = s\<lparr>tm_timeout := Some ms\<rparr>"
  by (auto simp: ticks_inv_def wait_period_def bnd_def rd_def lift_def to_ms_def upd_def)

lemma on_timeout_keeps:
  assumes i: "ticks_inv ms (s, since)" "since \<le> now" "due s since now" and t: "on_timeout now s = (r, t)"
  shows "ticks_inv ms (t, now)"
proof (cases "tm_active s")
  case False
  with i t show ?thesis by (fastforce simp: on_timeout_def rd_def upd_def ticks_inv_def)
next
  case True
  let ?s = "s\<lparr>tm_last := Some now\<rparr>"
  let ?u = "if \<not> tm_running s then ?s else if tm_skip s then ?s\<lparr>tm_skip := False\<rparr>
    else ?s\<lparr>tm_out := tm_out s @ [now]\<rparr>"
  have p: "tm_periodic s" "tm_period s = Some (of_int ms / 1000)" using i by (auto simp: ticks_inv_def)
  from t True p have "t = ?u\<lparr>tm_timeout := Some ms\<rparr>"
    by (auto simp: on_timeout_def rd_def upd_def seqA.simps bnd_def ret_def whenA_def wait_period_def
        lift_def to_ms_def split: if_splits)
  moreover have "\<forall>x \<in> set (tm_out s). x \<le> now"
    using i(1,2) by (fastforce simp: ticks_inv_def)
  moreover have "\<forall>x \<in> set (tm_out s). x + of_int ms / 1000 \<le> now" if "\<not> tm_skip s"
    using i that by (fastforce simp: ticks_inv_def due_def split: option.splits)
  ultimately have "t = ?u\<lparr>tm_timeout := Some ms\<rparr> \<and> spaced ms (tm_out ?u) \<and> (\<forall>x \<in> set (tm_out ?u). x \<le> now)"
    using i(1) by (auto simp: ticks_inv_def spaced_snoc)
  then show ?thesis using p by (auto simp: ticks_inv_def)
qed

lemma timer_turn_keeps:
  assumes i: "ticks_inv ms (s, now)" and t: "timer_turn (Some c) now s = (r, t)"
  shows "ticks_inv ms (t, now)"
proof (cases c)
  case START
  with i t show ?thesis
    by (auto simp: on_start_def rd_def upd_def cmdError_def seqA.simps bnd_def ret_def wait_period_def
        lift_def to_ms_def ticks_inv_def split: if_splits)
next
  case CANCEL
  with i t show ?thesis
    by (auto simp: on_cancel_def rd_def upd_def ret_def ticks_inv_def split: option.splits)
qed (use i t in \<open>auto simp: upd_def cmdError_def ticks_inv_def\<close>)

lemma timer_step_keeps:
  assumes i: "ticks_inv ms x" and t: "timer_step x e = (r, y)"
  shows "ticks_inv ms y"
proof -
  obtain s since ev now where x: "x = (s, since)" "e = (ev, now)" by (cases x, cases e)
  show ?thesis
  proof (cases "tm_over s \<or> now < since \<or> ev = None \<and> \<not> due s since now")
    case True
    with i t x show ?thesis by (simp add: timer_step_def)
  next
    case False
    then obtain r' u where u: "timer_turn ev now s = (r', u)" "y = (u, now)"
      using t x by (auto simp: timer_step_def split: prod.splits)
    show ?thesis
    proof (cases ev)
      case None
      with False u i x show ?thesis by (auto intro: on_timeout_keeps)
    next
      case (Some c)
      have "ticks_inv ms (s, now)" by (rule ticks_inv_later) (use i x False in auto)
      from timer_turn_keeps [OF this] u Some show ?thesis by blast
    qed
  qed
qed

interpretation timer: stepped_object timer_step "\<lambda>_. True" "ticks_inv ms" for ms
  by unfold_locales (rule timer_step_keeps)


lemmas timer_eval = timer_step_def timer_init_def upd_def on_start_def on_cancel_def on_timeout_def wait_period_def
  cmdError_def rd_def seqA.simps bnd_def ret_def whenA_def lift_def raise_def to_ms_def due_def


section \<open>Commands of a port\<close>

text \<open>What a port has put on the wire reaches its thread in order, here all at one time.\<close>

definition deliver :: "timPort \<Rightarrow> pyfloat \<Rightarrow> (tcmd option \<times> pyfloat) list" where
  "deliver p now = map (\<lambda>c. (Some c, now)) (tp_wire p)"

lemma periodic_expiry:
  assumes "tm_period s = Some (of_int ms / 1000)" "tm_periodic s" "tm_active s" "tm_running s" "\<not> tm_skip s"
    "\<not> tm_over s" "tm_timeout s = Some ms" "0 \<le> ms" "since + of_int ms / 1000 \<le> now"
  shows "timer_step (s, since) (None, now) = (Inr (), (s\<lparr>tm_last := Some now, tm_out := tm_out s @ [now]\<rparr>, now))"
proof -
  have "since \<le> now" using assms(8,9) by (smt (verit) divide_nonneg_nonneg of_int_0_le_iff)
  with assms show ?thesis by (simp add: timer_eval)
qed

lemma periodic_expiries:
  assumes "tm_period s = Some (of_int ms / 1000)" "tm_periodic s" "tm_active s" "tm_running s" "\<not> tm_skip s"
    "\<not> tm_over s" "tm_timeout s = Some ms" "0 \<le> ms" "sorted_wrt (\<lambda>a b. a + of_int ms / 1000 \<le> b) (since # ts)"
  shows "\<exists>u. run_steps timer_step (s, since) (map (Pair None) ts) = Some u \<and> tm_out (fst u) = tm_out s @ ts"
  using assms
proof (induction ts arbitrary: s since)
  case (Cons x ts)
  let ?s = "s\<lparr>tm_last := Some x, tm_out := tm_out s @ [x]\<rparr>"
  have "timer_step (s, since) (None, x) = (Inr (), (?s, x))"
    by (rule periodic_expiry) (use Cons.prems in auto)
  moreover have "\<exists>u. run_steps timer_step (?s, x) (map (Pair None) ts) = Some u \<and> tm_out (fst u) = tm_out ?s @ ts"
    by (rule Cons.IH) (use Cons.prems in auto)
  ultimately show ?case by simp
qed simp

lemma activate_wire:
  "exec (seqA [tim_setup, tim_setupSocket, tim_activate]) (timPort_init ms) = \<lparr> tp_spec = ms,
     tp_thread = Some (timer_init ms), tp_socket = True, tp_wire = (if ms = 0 then [ACTIVATE] else [ACTIVATE, START]),
     tp_info = True \<rparr>"
  by (cases "ms = 0") (simp_all add: exec_def seqA.simps bnd_def tim_setup_def tim_setupSocket_def tim_activate_def
      tim_send_def timPort_init_def upd_def rd_def ret_def whenA_def timer_init_def del: not_None_eq)

text \<open>
  Activating a periodic port starts its timer, and from then on every timeout, however
  late it comes, is a tick with its time; activating a sporadic port starts nothing.
\<close>

theorem activated_port_ticks:
  assumes "0 \<le> ms" "sorted_wrt (\<lambda>a b. a + of_int ms / 1000 \<le> b) (now # ts)"
    "p = exec (seqA [tim_setup, tim_setupSocket, tim_activate]) (timPort_init ms)"
  shows "\<exists>s t. run_steps timer_step (timer_init ms, now) (deliver p now @ map (Pair None) ts) = Some (s, t) \<and>
    tm_out s = (if ms = 0 then [] else ts)"
proof (cases "ms = 0")
  case True
  have "run_steps timer_step (s, now) (map (Pair None) ts) = Some (s, now)" if "tm_timeout s = None" for s
    using that by (induction ts) (auto simp: timer_step_def due_def)
  then show ?thesis using assms(3) True unfolding run_steps_append
    by (simp add: activate_wire deliver_def timer_step_def timer_init_def upd_def)
next
  case False
  let ?s = "(timer_init ms)\<lparr>tm_active := True, tm_timeout := Some ms, tm_running := True\<rparr>"
  have "run_steps timer_step (timer_init ms, now) (deliver p now) = Some (?s, now)"
    unfolding assms(3) activate_wire deliver_def using False by (simp add: timer_eval)
  moreover have "\<exists>u. run_steps timer_step (?s, now) (map (Pair None) ts) = Some u \<and> tm_out (fst u) = tm_out ?s @ ts"
    by (rule periodic_expiries) (use assms(1,2) False in \<open>simp_all add: timer_init_def\<close>)
  ultimately show ?thesis using False unfolding run_steps_append by (auto simp: timer_init_def)
qed

theorem activated_port_ticks_witness:
  "\<exists>s t. run_steps timer_step (timer_init 500, 0) (deliver (exec (seqA [tim_setup, tim_setupSocket, tim_activate])
     (timPort_init 500)) 0 @ map (Pair None) [0.5, 2]) = Some (s, t) \<and> tm_out s = [0.5, 2]"
  using activated_port_ticks [of 500 0 "[0.5, 2]", OF _ _ refl] by simp

text \<open>
  \<open>cancel\<close> takes back exactly the next firing of a periodic timer: the first timeout after
  it sends nothing, the second one does. On a sporadic timer that runs it takes back the only one.
\<close>

theorem cancel_skips_one:
  assumes "tm_active s" "tm_running s" "\<not> tm_over s" "\<not> tm_skip s" "tm_period s = Some (of_int ms / 1000)" "0 < ms"
    "tm_last s = Some l" "l \<le> since" "since \<le> c" "c \<le> l + of_int ms / 1000" "l + of_int ms / 1000 \<le> a" "a + of_int ms / 1000 \<le> b"
  shows "\<exists>u. run_steps timer_step (s, since) [(Some CANCEL, c), (None, a), (None, b)] = Some (u, if tm_periodic s then b else c) \<and>
    tm_out u = (if tm_periodic s then tm_out s @ [b] else tm_out s) \<and> tm_running u = tm_periodic s"
proof (cases "tm_periodic s")
  case False
  then show ?thesis using assms(3,9) by (simp add: timer_eval)
next
  case True
  define w where "w = py_int ((l + of_int ms / 1000 - c) * 1000)"
  have w: "0 \<le> w" "c + of_int w / 1000 \<le> a"
  proof -
    have nn: "0 \<le> (l + of_int ms / 1000 - c) * 1000" using assms(10) by simp
    then show "0 \<le> w" unfolding w_def py_int_def by simp
    have "of_int w \<le> (l + of_int ms / 1000 - c) * 1000"
      using nn unfolding w_def py_int_def by simp
    with assms(11) show "c + of_int w / 1000 \<le> a" by simp
  qed
  let ?s1 = "s\<lparr>tm_timeout := Some w, tm_skip := True\<rparr>"
  let ?s2 = "?s1\<lparr>tm_last := Some a, tm_skip := False, tm_timeout := Some ms\<rparr>"
  have "timer_step (s, since) (Some CANCEL, c) = (Inr (), (?s1, c))"
    using assms(3,5,7,9) True by (simp add: timer_eval on_cancel_def w_def)
  moreover have "timer_step (?s1, c) (None, a) = (Inr (), (?s2, a))"
    using assms(1-6,10,11) True w by (simp add: timer_eval)
  moreover have "timer_step (?s2, a) (None, b) = (Inr (), (?s2\<lparr>tm_last := Some b, tm_out := tm_out ?s2 @ [b]\<rparr>, b))"
    by (rule periodic_expiry [where ms = ms]) (use assms True in auto)
  ultimately show ?thesis using True assms(2) by simp
qed

definition ticking :: timer where
  "ticking = (timer_init 100)\<lparr>tm_active := True, tm_running := True, tm_timeout := Some 100, tm_last := Some 1\<rparr>"

theorem cancel_skips_one_witness:
  "\<exists>u. run_steps timer_step (ticking, 1) [(Some CANCEL, 1.02), (None, 1.1), (None, 1.2)] = Some (u, 1.2) \<and>
     tm_out u = [1.2] \<and> tm_running u"
  using cancel_skips_one [of ticking 100 1 1 "1.02" "1.1" "1.2"] by (simp add: ticking_def timer_init_def)

text \<open>
  A periodic timer can be stopped for good by \<open>setPeriod\<close> and \<open>cancel\<close>: when a shorter period has
  already passed since the last firing, \<open>cancel\<close> computes a negative timeout, which the poller
  takes for an infinite one, and no further tick comes although the timer runs.
\<close>

theorem cancel_can_stop_the_timer:
  assumes "tm_periodic s" "\<not> tm_over s" "tm_last s = Some l" "0 < p" "since \<le> c" "l + p + 0.001 \<le> c"
    "thread_setPeriod p s = (Inr (), s')"
  shows "\<exists>u. timer_step (s', since) (Some CANCEL, c) = (Inr (), (u, c)) \<and> tm_running u = tm_running s \<and>
    (\<forall>ts. run_steps timer_step (u, c) (map (Pair None) ts) = Some (u, c))"
proof -
  define w where "w = py_int ((l + p - c) * 1000)"
  have "(l + p - c) * 1000 \<le> -1" using assms(6) by simp
  then have "w < 0" unfolding w_def py_int_def by (auto simp: ceiling_less_iff)
  have s': "s' = s\<lparr>tm_period := Some p\<rparr>"
    using assms(4,7) by (simp add: thread_setPeriod_def seqA.simps bnd_def assertA_def ret_def upd_def)
  let ?u = "s'\<lparr>tm_timeout := Some w, tm_skip := True\<rparr>"
  have "timer_step (s', since) (Some CANCEL, c) = (Inr (), (?u, c))"
    using assms(1-3,5) s' by (simp add: timer_eval on_cancel_def w_def)
  moreover have "run_steps timer_step (?u, c) (map (Pair None) ts) = Some (?u, c)" for ts
    using \<open>w < 0\<close> by (induction ts) (auto simp: timer_step_def due_def)
  ultimately show ?thesis using s' by auto
qed

theorem cancel_can_stop_the_timer_witness:
  "\<exists>u. timer_step ((ticking\<lparr>tm_period := Some 0.01\<rparr>), 1) (Some CANCEL, 1.05) = (Inr (), (u, 1.05)) \<and> tm_running u \<and>
     run_steps timer_step (u, 1.05) [(None, 2), (None, 3)] = Some (u, 1.05)"
proof -
  let ?s = "ticking\<lparr>tm_period := Some 0.01\<rparr>"
  have "thread_setPeriod 0.01 ticking = (Inr (), ?s)"
    by (simp add: thread_setPeriod_def seqA.simps bnd_def assertA_def ret_def upd_def)
  then obtain u where "timer_step (?s, 1) (Some CANCEL, 1.05) = (Inr (), (u, 1.05))" "tm_running u = tm_running ticking"
    "\<forall>ts. run_steps timer_step (u, 1.05) (map (Pair None) ts) = Some (u, 1.05)"
    using cancel_can_stop_the_timer [of ticking 1 "0.01" 1 "1.05" ?s] by (auto simp: ticking_def timer_init_def)
  then show ?thesis by (intro exI [of _ u]) (auto simp: ticking_def dest: spec [of _ "[2, 3]"])
qed

text \<open>
  A sporadic port that is launched before its delay is set ends its timer thread with
  \<open>TypeError\<close>; so does activating it once a period has been set on it.
\<close>

theorem launch_without_delay_kills:
  assumes "0 < x" "p = exec (seqA ([tim_setup, tim_setupSocket] @ (if b then [tim_setPeriod (Some x), tim_activate]
     else [tim_activate, tim_launch]))) (timPort_init 0)" "tp_thread p = Some t"
  shows "tp_wire p = [ACTIVATE, START] \<and> fst (timer_turn (Some START) now (exec (timer_turn (Some ACTIVATE) now) t)) = Inl TypeError"
  using assms
  by (cases b) (auto simp: exec_def seqA.simps bnd_def tim_setup_def tim_setupSocket_def tim_activate_def tim_send_def tim_launch_def
      timPort_init_def upd_def rd_def ret_def whenA_def timer_init_def tim_setPeriod_def on_timer_def thread_setPeriod_def
      assertA_def on_start_def lift_def to_ms_def)

theorem launch_without_delay_kills_witness:
  "fst (timer_turn (Some START) 1 (exec (timer_turn (Some ACTIVATE) 1) (timer_init 0))) = Inl TypeError"
  using launch_without_delay_kills [of 1 _ False, OF _ refl, of "timer_init 0"]
  by (simp add: exec_def seqA.simps bnd_def tim_setup_def tim_setupSocket_def tim_activate_def tim_send_def tim_launch_def
      timPort_init_def upd_def rd_def ret_def whenA_def timer_init_def del: timer_turn.simps)

end
