(* ===== verification/FaultMon.thy ===== *)
theory FaultMon
  imports Prelude DiscoText Zyre
begin

text \<open>
  The fault manager of the deployment service (\<open>riaps/deplo/fm.py\<close>): \<open>FMMonitor\<close>, the thread that
  learns from the zyre network which nodes run which application and tells the local actors
  about their peers, \<open>NICMonitor\<close>, and the tables \<open>FaultManager\<close> keeps for applications and actors.

  \<^item> One iteration of the monitor's loop is \<open>fm_turn\<close>: a command of the manager or a zyre event.
    Zyre calls and messages to the manager are appended to \<open>fm_out\<close>.
  \<^item> A Python set is a list without repetition; the order in which the code iterates over it, which
    Python does not fix, is the order of the list.
  \<^item> \<open>parse.parse("tcp://{}:{}", a)\<close> is a parameter: the address and port, or \<open>None\<close>.
\<close>

section \<open>The fault monitor\<close>

type_synonym tell = "string \<times> string \<times> string \<times> string"

datatype fm_out = ZJoin bytes | ZLeave bytes | ZShout bytes string | ZWhisper string string | Tell tell

datatype fm_cmd =
    FStop | FSetupApp string | FCleanupApp string | FAddActor string string
  | FDelActor string string | FDieActor string string | FOther

record fmMon =
  fm_peers :: "(string, string) dict"
  fm_groups :: "(string, string list) dict"
  fm_actors :: "(string, string list) dict"
  fm_out :: "fm_out list"
  fm_over :: bool

type_synonym 'a fmact = "(fmMon, 'a) act"

definition fmMon_new :: fmMon where
  "fmMon_new = \<lparr> fm_peers = [], fm_groups = [], fm_actors = [], fm_out = [ZJoin ''riaps''], fm_over = False \<rparr>"

definition fm_headerKey :: "string \<Rightarrow> bytes" where
  "fm_headerKey ip = ''riaps@'' @ ip"

definition fm_PEERMARK :: bytes where "fm_PEERMARK = ''CAFE''"

definition groupName :: "string \<Rightarrow> bytes" where
  "groupName app = ''riaps.'' @ app"

definition fm_emit :: "fm_out \<Rightarrow> unit fmact" where
  "fm_emit x = upd (\<lambda>s. s\<lparr>fm_out := fm_out s @ [x]\<rparr>)"

definition set_group :: "string \<Rightarrow> string list \<Rightarrow> unit fmact" where
  "set_group app ps = upd (\<lambda>s. s\<lparr>fm_groups := AList.update app ps (fm_groups s)\<rparr>)"

definition set_actors :: "string \<Rightarrow> string list \<Rightarrow> unit fmact" where
  "set_actors app as = upd (\<lambda>s. s\<lparr>fm_actors := AList.update app as (fm_actors s)\<rparr>)"

text \<open>Tell every local actor of an application something about a peer, if the application is known.\<close>

definition tell_actors :: "string \<Rightarrow> string \<Rightarrow> string \<Rightarrow> unit fmact" where
  "tell_actors head app peer = rd fm_actors (\<lambda>m. case map_of m app of None \<Rightarrow> ret ()
     | Some as \<Rightarrow> forA as (\<lambda>a. fm_emit (Tell (head, app, a, peer))))"

subsection \<open>Commands\<close>

definition fm_setupApp :: "string \<Rightarrow> unit fmact" where
  "fm_setupApp app = seqA [
     fm_emit (ZJoin (groupName app)),
     rd fm_groups (\<lambda>g. whenA (\<not> has_key g app) (seqA [set_group app [], set_actors app []]))]"

definition fm_cleanupApp :: "string \<Rightarrow> unit fmact" where
  "fm_cleanupApp app = seqA [
     fm_emit (ZLeave (groupName app)),
     upd (\<lambda>s. s\<lparr>fm_groups := AList.delete app (fm_groups s)\<rparr>)]"

definition actor_text :: "char \<Rightarrow> string \<Rightarrow> string \<Rightarrow> string" where
  "actor_text c app actor = c # '' '' @ app @ ''.'' @ actor"

definition fm_addActor :: "string \<Rightarrow> string \<Rightarrow> unit fmact" where
  "fm_addActor app actor = rd fm_groups (\<lambda>g. case map_of g app of None \<Rightarrow> raise AssertionError
     | Some peers \<Rightarrow> rd fm_actors (\<lambda>m. case map_of m app of None \<Rightarrow> raise KeyError
     | Some as \<Rightarrow> seqA [
         set_actors app (if actor \<in> set as then as else as @ [actor]),
         fm_emit (ZShout (groupName app) (actor_text CHR ''+'' app actor)),
         forA peers (\<lambda>p. fm_emit (Tell (''peer+'', app, actor, p)))]))"

text \<open>\<open>delActor\<close> and \<open>dieActor\<close> differ in the character they shout.\<close>

definition fm_removeActor :: "char \<Rightarrow> string \<Rightarrow> string \<Rightarrow> unit fmact" where
  "fm_removeActor c app actor = rd (\<lambda>s. s) (\<lambda>s. if \<not> has_key (fm_groups s) app then raise AssertionError
     else case map_of (fm_actors s) app of None \<Rightarrow> raise KeyError
     | Some as \<Rightarrow> if actor \<notin> set as then raise AssertionError else seqA [
         set_actors app (removeAll actor as),
         fm_emit (ZShout (groupName app) (actor_text c app actor))])"

text \<open>After the loop: every local actor of a known application is announced as gone.\<close>

definition fm_farewell :: "unit fmact" where
  "fm_farewell = seqA [
     rd fm_actors (\<lambda>m. forA m (\<lambda>(app, as). rd fm_groups (\<lambda>g. whenA (has_key g app)
       (forA as (\<lambda>a. fm_emit (ZShout (groupName app) (actor_text CHR ''-'' app a))))))),
     fm_emit (ZLeave ''riaps''),
     upd (\<lambda>s. s\<lparr>fm_over := True\<rparr>)]"

fun fm_command :: "fm_cmd \<Rightarrow> unit fmact" where
  "fm_command FStop = fm_farewell"
| "fm_command (FSetupApp app) = fm_setupApp app"
| "fm_command (FCleanupApp app) = fm_cleanupApp app"
| "fm_command (FAddActor app actor) = fm_addActor app actor"
| "fm_command (FDelActor app actor) = fm_removeActor CHR ''-'' app actor"
| "fm_command (FDieActor app actor) = fm_removeActor CHR ''?'' app actor"
| "fm_command FOther = ret ()"

subsection \<open>Zyre events\<close>

definition fm_enter :: "(string \<Rightarrow> (string \<times> string) option) \<Rightarrow> string \<Rightarrow> string \<Rightarrow> (string, bytes) dict \<Rightarrow> unit fmact" where
  "fm_enter parse uuid addr headers = (case parse addr of None \<Rightarrow> ret ()
     | Some (ip, _) \<Rightarrow> whenA (map_of headers (fm_headerKey ip) = Some fm_PEERMARK)
         (upd (\<lambda>s. s\<lparr>fm_peers := AList.update uuid addr (fm_peers s)\<rparr>)))"

text \<open>\<open>_head, appName = groupName.split('.')\<close>, the rest only if the head is \<open>riaps\<close>.\<close>

definition group_app :: "bytes \<Rightarrow> pyexc + string option" where
  "group_app grp = (if grp = ''riaps'' then Inr None else case split_on CHR ''.'' grp of
     [h, app] \<Rightarrow> Inr (if h = ''riaps'' then Some app else None)
   | _ \<Rightarrow> Inl ValueError)"

definition fm_join :: "string \<Rightarrow> bytes \<Rightarrow> unit fmact" where
  "fm_join uuid grp = bnd (lift (group_app grp)) (\<lambda>x. case x of None \<Rightarrow> ret ()
     | Some app \<Rightarrow> seqA [
         rd (\<lambda>s. s) (\<lambda>s. case map_of (fm_groups s) app of
           None \<Rightarrow> seqA [set_group app [uuid], whenA (\<not> has_key (fm_actors s) app) (set_actors app [])]
         | Some ps \<Rightarrow> set_group app (if uuid \<in> set ps then ps else ps @ [uuid])),
         rd fm_actors (\<lambda>m. case map_of m app of None \<Rightarrow> ret ()
         | Some as \<Rightarrow> forA as (\<lambda>a. seqA [
             fm_emit (ZWhisper uuid (actor_text CHR ''+'' app a)),
             fm_emit (Tell (''peer+'', app, a, uuid))]))])"

definition fm_leave :: "string \<Rightarrow> bytes \<Rightarrow> unit fmact" where
  "fm_leave uuid grp = bnd (lift (group_app grp)) (\<lambda>x. case x of None \<Rightarrow> ret ()
     | Some app \<Rightarrow> seqA [
         rd fm_groups (\<lambda>g. case map_of g app of None \<Rightarrow> ret ()
         | Some ps \<Rightarrow> if uuid \<in> set ps then set_group app (removeAll uuid ps) else raise KeyError),
         tell_actors ''peer-'' app uuid])"

definition fm_exit :: "string \<Rightarrow> unit fmact" where
  "fm_exit uuid = seqA [
     rd fm_groups (\<lambda>g. forA g (\<lambda>(app, ps). whenA (uuid \<in> set ps) (tell_actors ''peer-'' app uuid))),
     upd (\<lambda>s. s\<lparr>fm_peers := AList.delete uuid (fm_peers s)\<rparr>)]"

text \<open>\<open>cmd, pair = arg.split(' ')\<close> and \<open>appName, actorName = pair.split('.', 1)\<close>.\<close>

definition parse_told :: "string \<Rightarrow> pyexc + (string \<times> string)" where
  "parse_told arg = (case split_on CHR '' '' arg of
     [cmd, p] \<Rightarrow> (if CHR ''.'' \<in> set p then Inr (cmd, takeWhile (\<lambda>c. c \<noteq> CHR ''.'') p) else Inl ValueError)
   | _ \<Rightarrow> Inl ValueError)"

definition fm_told :: "string \<Rightarrow> string \<Rightarrow> unit fmact" where
  "fm_told uuid arg = bnd (lift (parse_told arg)) (\<lambda>(cmd, app).
     let head = (if cmd = ''+'' then ''peer+'' else if cmd = ''-'' \<or> cmd = ''?'' then ''peer-'' else ''?'') in seqA [
       rd fm_groups (\<lambda>g. whenA (\<not> has_key g app) (set_group app [uuid])),
       tell_actors head app uuid])"

fun fm_event :: "(string \<Rightarrow> (string \<times> string) option) \<Rightarrow> zyre_event \<Rightarrow> unit fmact" where
  "fm_event parse (Enter uuid addr headers) = fm_enter parse uuid addr headers"
| "fm_event parse ev = rd fm_peers (\<lambda>peers. if \<not> has_key peers (event_peer ev) then ret () else (case ev of
     Join uuid grp \<Rightarrow> fm_join uuid grp
   | Leave uuid grp \<Rightarrow> fm_leave uuid grp
   | Exit uuid \<Rightarrow> fm_exit uuid
   | Shout uuid arg \<Rightarrow> fm_told uuid arg
   | Whisper uuid arg \<Rightarrow> fm_told uuid arg
   | _ \<Rightarrow> ret ()))"

fun fm_turn :: "(string \<Rightarrow> (string \<times> string) option) \<Rightarrow> fm_cmd + zyre_event \<Rightarrow> unit fmact" where
  "fm_turn parse (Inl c) = fm_command c"
| "fm_turn parse (Inr ev) = fm_event parse ev"

section \<open>The network interface\<close>

text \<open>\<open>NICMonitor.run\<close>: one message about the interface, its state and its carrier.\<close>

record nicMon =
  nm_state :: string
  nm_carrier :: int
  nm_sent :: "string list"

definition nicMon_new :: nicMon where
  "nicMon_new = \<lparr> nm_state = '''', nm_carrier = -1, nm_sent = [] \<rparr>"

definition nic_info :: "string \<Rightarrow> string \<Rightarrow> string \<Rightarrow> int \<Rightarrow> nicMon \<Rightarrow> nicMon" where
  "nic_info nic ifname state carrier m = (if ifname \<noteq> nic then m else
     (if state \<noteq> nm_state m \<and> carrier \<noteq> nm_carrier m
      then (if state \<noteq> ''UP'' \<or> carrier \<noteq> 1 then m\<lparr>nm_sent := nm_sent m @ [''nic-'']\<rparr>
            else m\<lparr>nm_sent := nm_sent m @ [''nic+'']\<rparr>)
      else m)\<lparr>nm_state := state, nm_carrier := carrier\<rparr>)"

section \<open>The fault manager\<close>

text \<open>
  \<open>FaultManager\<close> has an \<open>AppFaultManager\<close> per application and that an \<open>ActorFaultManager\<close> per actor,
  of which only the flag \<open>started\<close> matters. Commands for the monitor go over a socket, in order.
\<close>

record fman =
  fa_apps :: "(string, (string, bool) dict) dict"
  fa_sent :: "fm_cmd list"

type_synonym 'a fact = "(fman, 'a) act"

definition fman_new :: fman where "fman_new = \<lparr> fa_apps = [], fa_sent = [] \<rparr>"

definition fa_send :: "fm_cmd \<Rightarrow> unit fact" where
  "fa_send c = upd (\<lambda>s. s\<lparr>fa_sent := fa_sent s @ [c]\<rparr>)"

definition fa_put :: "string \<Rightarrow> (string, bool) dict \<Rightarrow> unit fact" where
  "fa_put app d = upd (\<lambda>s. s\<lparr>fa_apps := AList.update app d (fa_apps s)\<rparr>)"

definition fa_app :: "pyexc \<Rightarrow> string \<Rightarrow> ((string, bool) dict \<Rightarrow> 'a fact) \<Rightarrow> 'a fact" where
  "fa_app e app k = rd fa_apps (\<lambda>m. case map_of m app of None \<Rightarrow> raise e | Some d \<Rightarrow> k d)"

definition unknown_app :: "string \<Rightarrow> pyexc" where
  "unknown_app app = BuildError (''appName '' @ CHR 0x27 # app @ CHR 0x27 # '' is unknown'')"

text \<open>The operations of the \<open>AppFaultManager\<close> of \<open>app\<close>, whose actors are \<open>d\<close>.\<close>

definition afm_init :: "string \<Rightarrow> unit fact" where
  "afm_init app = seqA [fa_send (FSetupApp app), fa_put app []]"

definition afm_addActor :: "string \<Rightarrow> string \<Rightarrow> (string, bool) dict \<Rightarrow> unit fact" where
  "afm_addActor app actor d = whenA (\<not> has_key d actor) (fa_put app (AList.update actor False d))"

definition afm_addClientDevice :: "string \<Rightarrow> (string, bool) dict \<Rightarrow> unit fact" where
  "afm_addClientDevice actor d = assertA (has_key d actor)"

definition afm_startActor :: "string \<Rightarrow> string \<Rightarrow> (string, bool) dict \<Rightarrow> unit fact" where
  "afm_startActor app actor d = seqA [
     assertA (has_key d actor), fa_put app (AList.update actor True d), fa_send (FAddActor app actor)]"

definition afm_stopActor :: "string \<Rightarrow> string \<Rightarrow> (string, bool) dict \<Rightarrow> unit fact" where
  "afm_stopActor app actor d = seqA [
     assertA (has_key d actor), fa_put app (AList.update actor False d), fa_send (FDelActor app actor)]"

definition afm_cleanupApp :: "string \<Rightarrow> unit fact" where
  "afm_cleanupApp app = fa_send (FCleanupApp app)"

text \<open>\<open>FaultManager\<close>; starting or stopping an actor of an unknown application is a \<open>KeyError\<close>.\<close>

definition fa_setupApp :: "string \<Rightarrow> unit fact" where
  "fa_setupApp app = rd fa_apps (\<lambda>m. whenA (\<not> has_key m app) (afm_init app))"

definition fa_addActor :: "string \<Rightarrow> string \<Rightarrow> unit fact" where
  "fa_addActor app actor = fa_app (unknown_app app) app (afm_addActor app actor)"

definition fa_addClientDevice :: "string \<Rightarrow> string \<Rightarrow> unit fact" where
  "fa_addClientDevice app actor = fa_app (unknown_app app) app (afm_addClientDevice actor)"

definition fa_startActor :: "string \<Rightarrow> string \<Rightarrow> unit fact" where
  "fa_startActor app actor = fa_app KeyError app (afm_startActor app actor)"

definition fa_stopActor :: "string \<Rightarrow> string \<Rightarrow> unit fact" where
  "fa_stopActor app actor = fa_app KeyError app (afm_stopActor app actor)"

definition fa_cleanupApp :: "string \<Rightarrow> unit fact" where
  "fa_cleanupApp app = fa_app (unknown_app app) app (\<lambda>_. seqA [
     afm_cleanupApp app, upd (\<lambda>s. s\<lparr>fa_apps := AList.delete app (fa_apps s)\<rparr>)])"

definition fa_cleanupApps :: "unit fact" where
  "fa_cleanupApps = rd fa_apps (\<lambda>m. forA m (\<lambda>(app, _). fa_cleanupApp app))"

end
