(* ===== verification/FaultMonProps.thy ===== *)
theory FaultMonProps
  imports FaultMon
begin

text \<open>
  Properties of the fault manager (\<open>riaps/deplo/fm.py\<close>): what the monitor tells the local actors
  of their peers, that only peers with the mark are spoken of, that the manager's commands are ones
  the monitor can carry out, and the runs in which it loses track or ends with an exception.
\<close>

section \<open>What the handlers do\<close>

lemma forA_out: "forA xs (\<lambda>x s. (Inr (), s\<lparr>fm_out := fm_out s @ f x\<rparr>)) s =
    (Inr (), s\<lparr>fm_out := fm_out s @ concat (map f xs)\<rparr>)"
  by (induction xs arbitrary: s) (simp_all add: forA.simps bnd_def ret_def)

lemma concat_single [simp]: "concat (map (\<lambda>x. [f x]) xs) = map f xs"
  by (induction xs) auto

lemmas fm_run = seqA.simps bnd_def rd_def ret_def upd_def raise_def lift_def whenA_def fm_emit_def
  set_group_def set_actors_def forA_out

lemma tell_actors_result: "tell_actors h app p s = (Inr (), s\<lparr>fm_out := fm_out s @
    (case map_of (fm_actors s) app of None \<Rightarrow> [] | Some as \<Rightarrow> map (\<lambda>a. Tell (h, app, a, p)) as)\<rparr>)"
  by (simp add: tell_actors_def fm_run split: option.split)

definition add_to :: "'a \<Rightarrow> 'a list \<Rightarrow> 'a list" where
  "add_to x xs = (if x \<in> set xs then xs else xs @ [x])"

lemma set_add_to [simp]: "set (add_to x xs) = insert x (set xs)"
  by (auto simp: add_to_def)

lemma fm_addActor_result:
  assumes "map_of (fm_groups s) app = Some ps" "map_of (fm_actors s) app = Some as"
  shows "fm_addActor app a s = (Inr (), s\<lparr>fm_actors := AList.update app (add_to a as) (fm_actors s),
    fm_out := fm_out s @ ZShout (groupName app) (actor_text CHR ''+'' app a) #
      map (\<lambda>p. Tell (''peer+'', app, a, p)) ps\<rparr>)"
  using assms by (simp add: fm_addActor_def fm_run add_to_def)

lemma fm_removeActor_result:
  assumes "has_key (fm_groups s) app" "map_of (fm_actors s) app = Some as" "a \<in> set as"
  shows "fm_removeActor c app a s = (Inr (), s\<lparr>fm_actors := AList.update app (removeAll a as) (fm_actors s),
    fm_out := fm_out s @ [ZShout (groupName app) (actor_text c app a)]\<rparr>)"
  using assms by (simp add: fm_removeActor_def fm_run)

definition joined :: "fmMon \<Rightarrow> string \<Rightarrow> string \<Rightarrow> fmMon" where
  "joined s uuid app = s\<lparr>
     fm_groups := AList.update app (case map_of (fm_groups s) app of None \<Rightarrow> [uuid] | Some ps \<Rightarrow> add_to uuid ps) (fm_groups s),
     fm_actors := (if has_key (fm_groups s) app \<or> has_key (fm_actors s) app then fm_actors s
       else AList.update app [] (fm_actors s))\<rparr>"

lemma fm_join_result:
  assumes "group_app grp = Inr (Some app)"
  shows "fm_join uuid grp s = (Inr (), (joined s uuid app)\<lparr>fm_out := fm_out s @
    (case map_of (fm_actors (joined s uuid app)) app of None \<Rightarrow> []
     | Some as \<Rightarrow> concat (map (\<lambda>a. [ZWhisper uuid (actor_text CHR ''+'' app a), Tell (''peer+'', app, a, uuid)]) as))\<rparr>)"
  using assms
  by (auto simp: fm_join_def joined_def fm_run add_to_def split: option.split)

lemma fm_leave_result:
  assumes "group_app grp = Inr (Some app)" "map_of (fm_groups s) app = Some ps" "uuid \<in> set ps"
  shows "fm_leave uuid grp s = (Inr (), s\<lparr>fm_groups := AList.update app (removeAll uuid ps) (fm_groups s),
    fm_out := fm_out s @ (case map_of (fm_actors s) app of None \<Rightarrow> [] | Some as \<Rightarrow> map (\<lambda>a. Tell (''peer-'', app, a, uuid)) as)\<rparr>)"
  using assms by (simp add: fm_leave_def fm_run tell_actors_result split: option.split)

section \<open>What an actor believes\<close>

text \<open>
  The peers an actor knows of: those it was told of and not told to be lost since it was announced
  to the group.
\<close>

definition hears :: "string \<Rightarrow> string \<Rightarrow> fm_out \<Rightarrow> string set \<Rightarrow> string set" where
  "hears app a x B = (case x of
     Tell (h, app', a', p) \<Rightarrow> (if app' = app \<and> a' = a
       then (if h = ''peer+'' then insert p B else if h = ''peer-'' then B - {p} else B) else B)
   | ZShout g t \<Rightarrow> (if g = groupName app \<and> t = actor_text CHR ''+'' app a then {} else B)
   | _ \<Rightarrow> B)"

definition believes :: "fm_out list \<Rightarrow> string \<Rightarrow> string \<Rightarrow> string set" where
  "believes out app a = fold (hears app a) out {}"

lemma believes_append: "believes (xs @ ys) app a = fold (hears app a) ys (believes xs app a)"
  by (simp add: believes_def)

lemma hears_peers: "fold (hears app a) (map (\<lambda>p. Tell (''peer+'', app', a', p)) ps) B =
    (if app' = app \<and> a' = a then B \<union> set ps else B)"
  by (induction ps arbitrary: B) (auto simp: hears_def)

lemma hears_lost: "fold (hears app a) (map (\<lambda>a'. Tell (''peer-'', app', a', p)) as) B =
    (if app' = app \<and> a \<in> set as then B - {p} else B)"
  by (induction as arbitrary: B) (auto simp: hears_def)

lemma hears_told: "fold (hears app a) (map (\<lambda>a'. Tell (''peer+'', app', a', p)) as) B =
    (if app' = app \<and> a \<in> set as then insert p B else B)"
  by (induction as arbitrary: B) (auto simp: hears_def)

lemma hears_met: "fold (hears app a) (concat (map (\<lambda>a'. [ZWhisper p (actor_text CHR ''+'' app' a'), Tell (''peer+'', app', a', p)]) as)) B =
    (if app' = app \<and> a \<in> set as then insert p B else B)"
  by (induction as arbitrary: B) (auto simp: hears_def)

lemma hears_shout: "hears app a (ZShout (groupName app') (actor_text c app' a')) B =
    (if c = CHR ''+'' \<and> app' = app \<and> a' = a then {} else B)"
  by (auto simp: hears_def groupName_def actor_text_def)

lemma hears_zjoin [simp]: "hears app a (ZJoin g) B = B"
  by (simp add: hears_def)

text \<open>
  What is left out: peers that vanish without leaving, actors elsewhere that stop, and the cleanup
  of an application. A message comes from a member of the group, and members alone leave.
\<close>

definition member :: "fmMon \<Rightarrow> string \<Rightarrow> string \<Rightarrow> bool" where
  "member s app uuid \<longleftrightarrow> (case map_of (fm_groups s) app of None \<Rightarrow> False | Some ps \<Rightarrow> uuid \<in> set ps)"

fun sane_event :: "fmMon \<Rightarrow> zyre_event \<Rightarrow> bool" where
  "sane_event s (Leave uuid grp) = (case group_app grp of Inr (Some app) \<Rightarrow> member s app uuid | _ \<Rightarrow> True)"
| "sane_event s (Shout uuid arg) = (case parse_told arg of Inr (cmd, app) \<Rightarrow> cmd = ''+'' \<and> member s app uuid | _ \<Rightarrow> False)"
| "sane_event s (Whisper uuid arg) = (case parse_told arg of Inr (cmd, app) \<Rightarrow> cmd = ''+'' \<and> member s app uuid | _ \<Rightarrow> False)"
| "sane_event s (Exit uuid) = False"
| "sane_event s _ = True"

fun sane :: "fmMon \<Rightarrow> fm_cmd + zyre_event \<Rightarrow> bool" where
  "sane s (Inl (FCleanupApp app)) = False"
| "sane s (Inl FStop) = False"
| "sane s (Inl _) = True"
| "sane s (Inr ev) = sane_event s ev"

definition fm_step :: "(string \<Rightarrow> (string \<times> string) option) \<times> fmMon \<Rightarrow> fm_cmd + zyre_event
    \<Rightarrow> (pyexc + unit) \<times> ((string \<Rightarrow> (string \<times> string) option) \<times> fmMon)" where
  "fm_step = (\<lambda>(parse, s) x. if sane s x then let (r, t) = fm_turn parse x s in (r, (parse, t)) else (Inr (), (parse, s)))"

definition tracked :: "fmMon \<Rightarrow> bool" where
  "tracked s \<longleftrightarrow> (\<forall>app as a. map_of (fm_actors s) app = Some as \<and> a \<in> set as \<longrightarrow>
     (\<exists>ps. map_of (fm_groups s) app = Some ps \<and> believes (fm_out s) app a = set ps))"

lemma trackedI: "(\<And>app as a. map_of (fm_actors s) app = Some as \<Longrightarrow> a \<in> set as \<Longrightarrow>
     \<exists>ps. map_of (fm_groups s) app = Some ps \<and> believes (fm_out s) app a = set ps) \<Longrightarrow> tracked s"
  by (auto simp: tracked_def)

lemma trackedD: "tracked s \<Longrightarrow> map_of (fm_actors s) app = Some as \<Longrightarrow> a \<in> set as \<Longrightarrow>
    \<exists>ps. map_of (fm_groups s) app = Some ps \<and> believes (fm_out s) app a = set ps"
  by (auto simp: tracked_def)

lemmas hears_all = believes_append hears_peers hears_lost hears_met hears_told hears_shout

lemma tracked_setup: "tracked s \<Longrightarrow> fm_setupApp app s = (r, t) \<Longrightarrow> tracked t"
  by (auto simp: fm_setupApp_def fm_run tracked_def hears_all split: if_splits)

lemma tracked_add:
  assumes "tracked s" "fm_addActor app a s = (Inr (), t)"
  shows "tracked t"
proof -
  from assms(2) obtain ps as where m: "map_of (fm_groups s) app = Some ps" "map_of (fm_actors s) app = Some as"
    by (auto simp: fm_addActor_def rd_def raise_def split: option.splits)
  have t: "t = s\<lparr>fm_actors := AList.update app (add_to a as) (fm_actors s), fm_out := fm_out s @
      ZShout (groupName app) (actor_text CHR ''+'' app a) # map (\<lambda>p. Tell (''peer+'', app, a, p)) ps\<rparr>"
    using assms(2) fm_addActor_result [OF m] by simp
  show ?thesis
  proof (rule trackedI)
    fix app' as' a' assume "map_of (fm_actors t) app' = Some as'" "a' \<in> set as'"
    then show "\<exists>ps. map_of (fm_groups t) app' = Some ps \<and> believes (fm_out t) app' a' = set ps"
      using m trackedD [OF assms(1), of app' as' a'] trackedD [OF assms(1) m(2), of a']
      by (auto simp: t hears_all split: if_splits)
  qed
qed

lemma tracked_remove:
  assumes "tracked s" "fm_removeActor c app a s = (Inr (), t)" "c \<noteq> CHR ''+''"
  shows "tracked t"
proof -
  from assms(2) obtain as where m: "has_key (fm_groups s) app" "map_of (fm_actors s) app = Some as" "a \<in> set as"
    by (auto simp: fm_removeActor_def rd_def raise_def split: option.splits if_splits)
  have t: "t = s\<lparr>fm_actors := AList.update app (removeAll a as) (fm_actors s), fm_out := fm_out s @
      [ZShout (groupName app) (actor_text c app a)]\<rparr>"
    using assms(2) fm_removeActor_result [OF m, of c] by simp
  show ?thesis
  proof (rule trackedI)
    fix app' as' a' assume "map_of (fm_actors t) app' = Some as'" "a' \<in> set as'"
    then show "\<exists>ps. map_of (fm_groups t) app' = Some ps \<and> believes (fm_out t) app' a' = set ps"
      using m assms(3) trackedD [OF assms(1), of app' as' a'] trackedD [OF assms(1) m(2), of a']
      by (auto simp: t hears_all split: if_splits)
  qed
qed

lemma tracked_join:
  assumes "tracked s" "group_app grp = Inr (Some app)" "fm_join uuid grp s = (Inr (), t)"
  shows "tracked t"
proof (rule trackedI)
  fix app' as' a' assume a: "map_of (fm_actors t) app' = Some as'" "a' \<in> set as'"
  with fm_join_result [OF assms(2), of uuid s] assms(3) have "map_of (fm_actors s) app' = Some as'"
    by (auto simp: joined_def split: if_splits)
  from trackedD [OF assms(1) this a(2)] obtain ps
    where "map_of (fm_groups s) app' = Some ps" "believes (fm_out s) app' a' = set ps" by blast
  with \<open>map_of (fm_actors s) app' = Some as'\<close> a(2) fm_join_result [OF assms(2), of uuid s] assms(3)
  show "\<exists>ps. map_of (fm_groups t) app' = Some ps \<and> believes (fm_out t) app' a' = set ps"
    by (cases "app' = app") (auto simp: joined_def hears_all split: option.splits if_splits)
qed

lemma tracked_leave:
  assumes "tracked s" "group_app grp = Inr (Some app)" "member s app uuid" "fm_leave uuid grp s = (Inr (), t)"
  shows "tracked t"
proof -
  from assms(3) obtain ps where m: "map_of (fm_groups s) app = Some ps" "uuid \<in> set ps"
    by (auto simp: member_def split: option.splits)
  have t: "t = s\<lparr>fm_groups := AList.update app (removeAll uuid ps) (fm_groups s), fm_out := fm_out s @
      (case map_of (fm_actors s) app of None \<Rightarrow> [] | Some as \<Rightarrow> map (\<lambda>a. Tell (''peer-'', app, a, uuid)) as)\<rparr>"
    using assms(4) fm_leave_result [OF assms(2) m] by simp
  show ?thesis
  proof (rule trackedI)
    fix app' as' a' assume "map_of (fm_actors t) app' = Some as'" "a' \<in> set as'"
    then show "\<exists>ps. map_of (fm_groups t) app' = Some ps \<and> believes (fm_out t) app' a' = set ps"
      using m trackedD [OF assms(1), of app' as' a']
      by (cases "app' = app") (auto simp: t hears_all split: option.splits)
  qed
qed

lemma tracked_told:
  assumes "tracked s" "parse_told arg = Inr (''+'', app)" "member s app uuid" "fm_told uuid arg s = (r, t)"
  shows "tracked t"
proof -
  from assms(3) obtain ps where m: "map_of (fm_groups s) app = Some ps" "uuid \<in> set ps"
    by (auto simp: member_def split: option.splits)
  have t: "t = s\<lparr>fm_out := fm_out s @ (case map_of (fm_actors s) app of None \<Rightarrow> []
      | Some as \<Rightarrow> map (\<lambda>a. Tell (''peer+'', app, a, uuid)) as)\<rparr>"
    using assms(2,4) m by (auto simp: fm_told_def fm_run tell_actors_result split: option.split)
  show ?thesis
  proof (rule trackedI)
    fix app' as' a' assume "map_of (fm_actors t) app' = Some as'" "a' \<in> set as'"
    then show "\<exists>ps. map_of (fm_groups t) app' = Some ps \<and> believes (fm_out t) app' a' = set ps"
      using m trackedD [OF assms(1), of app' as' a']
      by (cases "app' = app") (auto simp: t hears_all insert_absorb split: option.splits)
  qed
qed

lemma tracked_enter: "tracked s \<Longrightarrow> fm_enter parse uuid addr h s = (r, t) \<Longrightarrow> tracked t"
  by (auto simp: fm_enter_def fm_run tracked_def split: option.splits if_splits)

lemma group_app_none: "group_app grp = Inr None \<Longrightarrow> fm_join uuid grp s = (Inr (), s)"
  "group_app grp = Inr None \<Longrightarrow> fm_leave uuid grp s = (Inr (), s)"
  by (simp_all add: fm_join_def fm_leave_def fm_run)

lemma tracked_event:
  assumes "tracked s" "sane_event s ev" "fm_event parse ev s = (Inr (), t)"
  shows "tracked t"
proof (cases "\<exists>u a h. ev = Enter u a h")
  case True
  with assms show ?thesis by (auto intro: tracked_enter)
next
  case False
  show ?thesis
  proof (cases "has_key (fm_peers s) (event_peer ev)")
    case False
    with \<open>\<nexists>u a h. ev = Enter u a h\<close> assms show ?thesis by (cases ev) (auto simp: fm_run)
  next
    case known: True
    show ?thesis
    proof (cases ev)
      case (Join uuid grp)
      with assms known show ?thesis
        by (cases "group_app grp"; cases "projr (group_app grp)")
          (auto simp: rd_def group_app_none intro: tracked_join, auto simp: fm_join_def fm_run)
    next
      case (Leave uuid grp)
      with assms known show ?thesis
        by (cases "group_app grp"; cases "projr (group_app grp)")
          (auto simp: rd_def group_app_none intro: tracked_leave, auto simp: fm_leave_def fm_run)
    qed (use assms known False in \<open>auto simp: rd_def ret_def split: sum.splits prod.splits intro: tracked_told\<close>)
  qed
qed

lemma tracked_command:
  assumes "tracked s" "sane s (Inl c)" "fm_command c s = (Inr (), t)"
  shows "tracked t"
  using assms by (cases c) (auto intro: tracked_setup tracked_add tracked_remove simp: ret_def)

interpretation monitor: stepped_object fm_step "\<lambda>_. True" "\<lambda>(parse, s). tracked s"
proof unfold_locales
  fix x :: "(string \<Rightarrow> (string \<times> string) option) \<times> fmMon" and e r y
  assume i: "case x of (parse, s) \<Rightarrow> tracked s" and st: "fm_step x e = (Inr r, y)"
  obtain parse s where x: "x = (parse, s)" by (cases x)
  show "case y of (parse, s) \<Rightarrow> tracked s"
  proof (cases "sane s e")
    case True
    with st x obtain t where t: "fm_turn parse e s = (Inr (), t)" "y = (parse, t)"
      by (auto simp: fm_step_def split: prod.splits)
    with i x True show ?thesis by (cases e) (auto intro: tracked_command tracked_event)
  qed (use i st x in \<open>auto simp: fm_step_def\<close>)
qed


definition one_peer :: "string \<Rightarrow> (string \<times> string) option" where
  "one_peer a = (if a = ''tcp://h:1'' then Some (''h'', ''1'') else None)"

definition peer_enters :: "fm_cmd + zyre_event" where
  "peer_enters = Inr (Enter ''p'' ''tcp://h:1'' [(''riaps@h'', ''CAFE'')])"

lemmas fm_eval = fm_step_def fm_run fmMon_new_def fm_setupApp_def fm_addActor_def fm_enter_def fm_join_def fm_told_def
  fm_exit_def fm_leave_def fm_cleanupApp_def fm_removeActor_def parse_told_def group_app_def tell_actors_def one_peer_def peer_enters_def fm_headerKey_def fm_PEERMARK_def
  member_def groupName_def actor_text_def


section \<open>Whom the monitor speaks of\<close>

text \<open>The peers a state mentions: known ones, members of groups, and those actors were told of.\<close>

definition mentioned :: "fmMon \<Rightarrow> string set" where
  "mentioned s = set (dkeys (fm_peers s)) \<union> \<Union> (set ` snd ` set (fm_groups s)) \<union> {p. \<exists>h app a. Tell (h, app, a, p) \<in> set (fm_out s)}"

definition shows_mark :: "(string \<Rightarrow> (string \<times> string) option) \<Rightarrow> string \<Rightarrow> fm_cmd + zyre_event \<Rightarrow> bool" where
  "shows_mark parse p x \<longleftrightarrow> (\<exists>addr h ip port. x = Inr (Enter p addr h) \<and> parse addr = Some (ip, port) \<and>
     map_of h (''riaps@'' @ ip) = Some ''CAFE'')"

definition only :: "string set \<Rightarrow> fmMon \<Rightarrow> bool" where
  "only P s \<longleftrightarrow> set (dkeys (fm_peers s)) \<subseteq> P \<and> (\<forall>x \<in> set (fm_groups s). set (snd x) \<subseteq> P) \<and>
     (\<forall>h app a p. Tell (h, app, a, p) \<in> set (fm_out s) \<longrightarrow> p \<in> P)"

lemma only_mentioned: "only P s \<longleftrightarrow> mentioned s \<subseteq> P"
  unfolding only_def mentioned_def by blast

lemma only_mono: "only P s \<Longrightarrow> P \<subseteq> P' \<Longrightarrow> only P' s"
  unfolding only_mentioned by blast

lemma only_emit: "only P s \<Longrightarrow> (\<And>h app a p. x = Tell (h, app, a, p) \<Longrightarrow> p \<in> P) \<Longrightarrow> only P (s\<lparr>fm_out := fm_out s @ [x]\<rparr>)"
  by (auto simp: only_def)

lemma only_group: "only P s \<Longrightarrow> set ps \<subseteq> P \<Longrightarrow> only P (s\<lparr>fm_groups := AList.update app ps (fm_groups s)\<rparr>)"
  by (force simp: only_def dest: set_update_subset)

lemma only_enter: "only P s \<Longrightarrow> u \<in> P \<Longrightarrow> only P (s\<lparr>fm_peers := AList.update u a (fm_peers s)\<rparr>)"
  by (force simp: only_def dest: set_update_subset)

lemma only_actors: "only P s \<Longrightarrow> only P (s\<lparr>fm_actors := as\<rparr>)"
  by (simp add: only_def)

lemma only_members: "only P s \<Longrightarrow> map_of (fm_groups s) app = Some ps \<Longrightarrow> p \<in> set ps \<Longrightarrow> p \<in> P"
  by (force simp: only_def dest: map_of_SomeD)

lemma only_del: "only P s \<Longrightarrow> only P (s\<lparr>fm_groups := AList.delete app (fm_groups s)\<rparr>)"
  "only P s \<Longrightarrow> only P (s\<lparr>fm_peers := AList.delete u (fm_peers s)\<rparr>)"
  "only P s \<Longrightarrow> only P (s\<lparr>fm_over := b\<rparr>)"
  by (auto simp: only_def dkeys_delete)

text \<open>\<open>keepsP P m\<close>: the action speaks of peers in \<open>P\<close> only, as long as the state does.\<close>

definition keepsP :: "string set \<Rightarrow> 'a fmact \<Rightarrow> bool" where
  "keepsP P m \<longleftrightarrow> (\<forall>s. only P s \<longrightarrow> wp m (\<lambda>_. only P) (\<lambda>_ _. True) s)"

named_theorems keepsP_rules

lemma keepsP_returns: "keepsP P m \<Longrightarrow> only P s \<Longrightarrow> m s = (Inr x, t) \<Longrightarrow> only P t"
  unfolding keepsP_def by (blast dest: wp_returns)

lemma keepsP_basic [keepsP_rules]: "keepsP P (ret x)" "keepsP P (raise e)" "keepsP P (lift r)"
  by (auto simp: keepsP_def wp_simps split: sum.split)

lemma keepsP_bnd [keepsP_rules]: "keepsP P m \<Longrightarrow> (\<And>x. keepsP P (k x)) \<Longrightarrow> keepsP P (bnd m k)"
  unfolding keepsP_def wp_bnd by (blast intro: wp_mono)

lemma keepsP_rd_actors [keepsP_rules]: "(\<And>x. keepsP P (k x)) \<Longrightarrow> keepsP P (rd fm_actors k)"
  by (simp add: keepsP_def wp_rd)

lemma keepsP_seqA [keepsP_rules]: "list_all (keepsP P) ms \<Longrightarrow> keepsP P (seqA ms)"
  unfolding keepsP_def by (auto simp: list_all_iff intro: wp_seqA_inv [where I = "only P"])

lemma keepsP_forA [keepsP_rules]: "(\<And>x. x \<in> set xs \<Longrightarrow> keepsP P (f x)) \<Longrightarrow> keepsP P (forA xs f)"
  unfolding keepsP_def by (auto intro: wp_forA_inv [where I = "only P"])

lemma keepsP_whenA [keepsP_rules]: "(b \<Longrightarrow> keepsP P m) \<Longrightarrow> keepsP P (whenA b m)"
  by (simp add: keepsP_def wp_whenA)

lemma keepsP_emit [keepsP_rules]: "(\<And>h app a p. x = Tell (h, app, a, p) \<Longrightarrow> p \<in> P) \<Longrightarrow> keepsP P (fm_emit x)"
  by (simp add: keepsP_def fm_emit_def wp_upd only_emit)

lemma keepsP_set_group [keepsP_rules]: "set ps \<subseteq> P \<Longrightarrow> keepsP P (set_group app ps)"
  by (simp add: keepsP_def set_group_def wp_upd only_group)

lemma keepsP_set_actors [keepsP_rules]: "keepsP P (set_actors app as)"
  by (simp add: keepsP_def set_actors_def wp_upd only_actors)

lemma keepsP_upd_del [keepsP_rules]:
  "keepsP P (upd (\<lambda>s. s\<lparr>fm_groups := AList.delete app (fm_groups s)\<rparr>))"
  "keepsP P (upd (\<lambda>s. s\<lparr>fm_peers := AList.delete u (fm_peers s)\<rparr>))" "keepsP P (upd (\<lambda>s. s\<lparr>fm_over := b\<rparr>))"
  by (simp_all add: keepsP_def wp_upd only_del)

text \<open>Reading the groups, a handler may rely on their members.\<close>

lemma keepsP_rd_groups [keepsP_rules]:
  "(\<And>g. (\<And>app ps p. map_of g app = Some ps \<Longrightarrow> p \<in> set ps \<Longrightarrow> p \<in> P) \<Longrightarrow> keepsP P (k g)) \<Longrightarrow> keepsP P (rd fm_groups k)"
  unfolding keepsP_def wp_rd by (blast dest: only_members)

lemma keepsP_rd_state [keepsP_rules]:
  "(\<And>s. (\<And>app ps p. map_of (fm_groups s) app = Some ps \<Longrightarrow> p \<in> set ps \<Longrightarrow> p \<in> P) \<Longrightarrow> keepsP P (k s)) \<Longrightarrow> keepsP P (rd (\<lambda>s. s) k)"
  unfolding keepsP_def wp_rd by (blast dest: only_members)

lemma keepsP_tell [keepsP_rules]: "p \<in> P \<Longrightarrow> keepsP P (tell_actors h app p)"
  unfolding tell_actors_def by (intro keepsP_rules) (auto intro!: keepsP_rules split: option.split)

lemma keepsP_command: "keepsP P (fm_command c)"
proof (cases c)
  case FStop
  then show ?thesis by (auto simp: fm_farewell_def intro!: keepsP_rules)
next
  case (FSetupApp app)
  then show ?thesis by (auto simp: fm_setupApp_def intro!: keepsP_rules)
next
  case (FCleanupApp app)
  then show ?thesis by (auto simp: fm_cleanupApp_def intro!: keepsP_rules)
next
  case (FAddActor app a)
  then show ?thesis
    by (auto simp: fm_addActor_def intro!: keepsP_rules split: option.split)
next
  case (FDelActor app a)
  then show ?thesis by (auto simp: fm_removeActor_def intro!: keepsP_rules split: option.split)
next
  case (FDieActor app a)
  then show ?thesis by (auto simp: fm_removeActor_def intro!: keepsP_rules split: option.split)
qed (simp add: keepsP_rules)

lemma keepsP_join: "u \<in> P \<Longrightarrow> keepsP P (fm_join u grp)"
  by (auto simp: fm_join_def intro!: keepsP_rules split: option.split)

lemma keepsP_leave: "u \<in> P \<Longrightarrow> keepsP P (fm_leave u grp)"
  by (auto simp: fm_leave_def intro!: keepsP_rules split: option.split)

lemma keepsP_exit: "u \<in> P \<Longrightarrow> keepsP P (fm_exit u)"
  by (auto simp: fm_exit_def intro!: keepsP_rules)

lemma keepsP_told: "u \<in> P \<Longrightarrow> keepsP P (fm_told u arg)"
  by (auto simp: fm_told_def intro!: keepsP_rules)

lemma only_event:
  assumes "only P s" "\<And>p. shows_mark parse p (Inr ev) \<Longrightarrow> p \<in> P" "fm_event parse ev s = (Inr (), t)"
  shows "only P t"
proof (cases "\<exists>u a h. ev = Enter u a h")
  case True
  then obtain u a h where "ev = Enter u a h" by blast
  with assms show ?thesis
    by (auto simp: fm_enter_def fm_run shows_mark_def fm_headerKey_def fm_PEERMARK_def
        intro: only_enter split: option.splits if_splits)
next
  case other: False
  show ?thesis
  proof (cases "has_key (fm_peers s) (event_peer ev)")
    case False
    with other assms show ?thesis by (cases ev) (auto simp: fm_run)
  next
    case True
    then have u: "event_peer ev \<in> P" using assms(1) unfolding has_key_iff only_def by blast
    have "\<exists>m. fm_event parse ev s = m s \<and> keepsP P m"
      using other True u
      by (cases ev) (fastforce simp: rd_def intro: keepsP_join keepsP_leave keepsP_exit keepsP_told keepsP_basic)+
    then obtain m where "m s = (Inr (), t)" "keepsP P m" using assms(3) by force
    with assms(1) show ?thesis by (blast intro: keepsP_returns)
  qed
qed

definition marks_step :: "(string \<Rightarrow> (string \<times> string) option) \<times> (fm_cmd + zyre_event) list \<times> fmMon \<Rightarrow> fm_cmd + zyre_event
    \<Rightarrow> (pyexc + unit) \<times> ((string \<Rightarrow> (string \<times> string) option) \<times> (fm_cmd + zyre_event) list \<times> fmMon)" where
  "marks_step = (\<lambda>(parse, seen, s) x. let (r, t) = fm_turn parse x s in (r, (parse, seen @ [x], t)))"

definition marks_inv :: "(string \<Rightarrow> (string \<times> string) option) \<times> (fm_cmd + zyre_event) list \<times> fmMon \<Rightarrow> bool" where
  "marks_inv = (\<lambda>(parse, seen, s). only {p. \<exists>x \<in> set seen. shows_mark parse p x} s)"

interpretation marks: stepped_object marks_step "\<lambda>_. True" marks_inv
proof unfold_locales
  fix z e r y assume i: "marks_inv z" and st: "marks_step z e = (Inr r, y)"
  obtain parse seen s where z: "z = (parse, seen, s)" by (cases z)
  with st obtain t where t: "fm_turn parse e s = (Inr (), t)" "y = (parse, seen @ [e], t)"
    by (auto simp: marks_step_def split: prod.splits)
  let ?P = "{p. \<exists>x \<in> set (seen @ [e]). shows_mark parse p x}"
  have o: "only ?P s" by (rule only_mono) (use i z in \<open>auto simp: marks_inv_def\<close>)
  have "only ?P t"
  proof (cases e)
    case (Inl c)
    with t have "fm_command c s = (Inr (), t)" by simp
    from keepsP_returns [OF keepsP_command o this] show ?thesis .
  next
    case (Inr ev)
    then show ?thesis using t o by (auto intro: only_event)
  qed
  then show "marks_inv y" by (simp add: marks_inv_def t)
qed

lemma marks_steps_seen: "run_steps marks_step (parse, seen, s) evs = Some (parse', seen', t) \<Longrightarrow>
    parse' = parse \<and> seen' = seen @ evs"
proof (induction evs arbitrary: seen s)
  case (Cons e es)
  then obtain u where "run_steps marks_step (parse, seen @ [e], u) es = Some (parse', seen', t)"
    by (auto simp: marks_step_def split: prod.splits sum.splits)
  from Cons.IH [OF this] show ?case by simp
qed simp

text \<open>
  The monitor speaks of marked peers only. After any commands and events, every peer it knows
  or has in a group, and every peer a local actor has been told of, has entered with a header that
  carries the mark for its own address.
\<close>

theorem only_marked_peers_are_told:
  assumes "run_steps marks_step (parse, [], fmMon_new) evs = Some (parse', seen, s)" "p \<in> mentioned s"
  shows "\<exists>x \<in> set evs. shows_mark parse p x"
proof -
  have "marks_inv (parse, [], fmMon_new)"
    by (simp add: marks_inv_def only_def fmMon_new_def)
  then have "marks_inv (parse', seen, s)" using marks.run_keeps [OF _ _ assms(1)] by (simp add: list.pred_True)
  with marks_steps_seen [OF assms(1)] assms(2) show ?thesis by (auto simp: marks_inv_def only_mentioned)
qed

theorem only_marked_peers_are_told_witness:
  "\<exists>x \<in> set [Inl (FSetupApp ''x''), peer_enters, Inr (Join ''p'' ''riaps.x''), Inr (Join ''q'' ''riaps.x''),
     Inl (FAddActor ''x'' ''a'')]. shows_mark one_peer ''p'' x"
proof -
  let ?evs = "[Inl (FSetupApp ''x''), peer_enters, Inr (Join ''p'' ''riaps.x''), Inr (Join ''q'' ''riaps.x''),
     Inl (FAddActor ''x'' ''a'')]"
  have "\<exists>s. run_steps marks_step (one_peer, [], fmMon_new) ?evs = Some (one_peer, ?evs, s) \<and>
      Tell (''peer+'', ''x'', ''a'', ''p'') \<in> set (fm_out s)"
    by (simp add: fm_eval marks_step_def)
  then obtain s where s: "run_steps marks_step (one_peer, [], fmMon_new) ?evs = Some (one_peer, ?evs, s)"
      "Tell (''peer+'', ''x'', ''a'', ''p'') \<in> set (fm_out s)" by blast
  from only_marked_peers_are_told [OF s(1), of "''p''"] s(2) show ?thesis by (auto simp: mentioned_def)
qed

section \<open>Where the monitor loses track\<close>

definition tells_to :: "(string, string list) dict \<Rightarrow> string \<Rightarrow> string \<Rightarrow> string \<times> string list \<Rightarrow> fm_out list" where
  "tells_to m h u = (\<lambda>(app, ps). if u \<in> set ps then (case map_of m app of None \<Rightarrow> []
     | Some as \<Rightarrow> map (\<lambda>a. Tell (h, app, a, u)) as) else [])"

lemma forA_tells: "forA xs (\<lambda>(app, ps). whenA (u \<in> set ps) (tell_actors h app u)) s =
    (Inr (), s\<lparr>fm_out := fm_out s @ concat (map (tells_to (fm_actors s) h u) xs)\<rparr>)"
proof (induction xs arbitrary: s)
  case (Cons x xs)
  obtain app ps where x: "x = (app, ps)" by (cases x)
  have "whenA (u \<in> set ps) (tell_actors h app u) s = (Inr (), s\<lparr>fm_out := fm_out s @ tells_to (fm_actors s) h u x\<rparr>)"
    by (simp add: whenA_def tell_actors_result tells_to_def x ret_def)
  with Cons.IH [of "s\<lparr>fm_out := fm_out s @ tells_to (fm_actors s) h u x\<rparr>"] show ?case
    by (simp add: forA.simps bnd_def x)
qed (simp add: forA.simps ret_def)

lemma in_concat_map: "x \<in> set xs \<Longrightarrow> y \<in> set (f x) \<Longrightarrow> y \<in> set (zs @ concat (map f xs))"
  by auto

lemma fm_exit_result: "fm_exit u s = (Inr (), s\<lparr>fm_peers := AList.delete u (fm_peers s),
    fm_out := fm_out s @ concat (map (tells_to (fm_actors s) ''peer-'' u) (fm_groups s))\<rparr>)"
  by (simp add: fm_exit_def seqA.simps bnd_def rd_def forA_tells upd_def ret_def)

text \<open>
  A peer that vanishes stays in its groups. When a member of a group exits, every actor of the
  application is told that it is lost, but an actor added later is told that it is there.
\<close>

theorem exited_peer_is_introduced:
  assumes "has_key (fm_peers s) u" "map_of (fm_groups s) app = Some ps" "u \<in> set ps" "map_of (fm_actors s) app = Some as"
    "b \<notin> set as"
  shows "\<exists>s1 s2. fm_turn parse (Inr (Exit u)) s = (Inr (), s1) \<and> (\<forall>a \<in> set as. Tell (''peer-'', app, a, u) \<in> set (fm_out s1)) \<and>
    \<not> has_key (fm_peers s1) u \<and>
    fm_turn parse (Inl (FAddActor app b)) s1 = (Inr (), s2) \<and> u \<in> believes (fm_out s2) app b"
proof -
  define s1 where "s1 = snd (fm_exit u s)"
  have s1: "fm_exit u s = (Inr (), s1)" "fm_groups s1 = fm_groups s" "fm_actors s1 = fm_actors s" "\<not> has_key (fm_peers s1) u"
    by (simp_all add: s1_def fm_exit_result)
  have "Tell (''peer-'', app, a, u) \<in> set (tells_to (fm_actors s) ''peer-'' u (app, ps))" if "a \<in> set as" for a
    using that assms(3,4) by (simp add: tells_to_def)
  moreover have "fm_out s1 = fm_out s @ concat (map (tells_to (fm_actors s) ''peer-'' u) (fm_groups s))"
    by (simp add: s1_def fm_exit_result)
  ultimately have "\<forall>a \<in> set as. Tell (''peer-'', app, a, u) \<in> set (fm_out s1)"
    by (metis in_concat_map [OF map_of_SomeD [OF assms(2)]])
  moreover have "fm_turn parse (Inr (Exit u)) s = (Inr (), s1)" using assms(1) by (simp add: rd_def s1(1) del: not_None_eq)
  moreover define s2 where "s2 = snd (fm_addActor app b s1)"
  moreover have "fm_addActor app b s1 = (Inr (), s2)" "u \<in> believes (fm_out s2) app b"
    using fm_addActor_result [of s1 app ps as b] assms(2-4) s1(2,3) by (simp_all add: hears_all s2_def)
  ultimately show ?thesis using s1(4) by auto
qed

definition one_member :: fmMon where
  "one_member = \<lparr> fm_peers = [(''p'', ''tcp://h:1'')], fm_groups = [(''x'', [''p''])], fm_actors = [(''x'', [''a''])],
     fm_out = [], fm_over = False \<rparr>"

theorem exited_peer_is_introduced_witness:
  "\<exists>s1 s2. fm_turn one_peer (Inr (Exit ''p'')) one_member = (Inr (), s1) \<and>
     fm_turn one_peer (Inl (FAddActor ''x'' ''b'')) s1 = (Inr (), s2) \<and> ''p'' \<in> believes (fm_out s2) ''x'' ''b''"
  using exited_peer_is_introduced [of one_member "''p''" "''x''" "[''p'']" "[''a'']" "''b''" one_peer]
  unfolding one_member_def by fastforce

text \<open>
  Deploying an application again makes the monitor forget who is in its group. The next of
  these peers to leave ends the monitor with \<open>KeyError\<close>, and no actor on this node learns anything of
  its peers any more.
\<close>

theorem redeploy_then_leave_kills:
  assumes "has_key (fm_peers s) u" "CHR ''.'' \<notin> set app"
  shows "\<exists>t. run_steps (\<lambda>s x. fm_turn parse x s) s
      [Inr (Join u (groupName app)), Inl (FCleanupApp app), Inl (FSetupApp app)] = Some t \<and>
    fm_turn parse (Inr (Leave u (groupName app))) t = (Inl KeyError, t)"
proof -
  have g: "group_app (groupName app) = Inr (Some app)"
    using assms(2) by (simp add: group_app_def groupName_def)
  let ?j = "(joined s u app)\<lparr>fm_out := fm_out s @
    (case map_of (fm_actors (joined s u app)) app of None \<Rightarrow> []
     | Some as \<Rightarrow> concat (map (\<lambda>a. [ZWhisper u (actor_text CHR ''+'' app a), Tell (''peer+'', app, a, u)]) as))\<rparr>"
  have "fm_turn parse (Inr (Join u (groupName app))) s = (Inr (), ?j)"
    using assms(1) fm_join_result [OF g, of u s] by (auto simp: rd_def)
  moreover have "has_key (fm_peers ?j) u" using assms(1) by (simp add: joined_def)
  ultimately show ?thesis
    using g by (simp add: fm_cleanupApp_def fm_setupApp_def fm_leave_def fm_run)
qed

theorem redeploy_then_leave_kills_witness:
  "\<exists>t. fm_turn one_peer (Inr (Leave ''p'' (groupName ''x''))) t = (Inl KeyError, t)"
  using redeploy_then_leave_kills [of one_member "''p''" "''x''" one_peer] by (auto simp: one_member_def)

text \<open>
  The interface monitor reports a message only when the state and the carrier have both
  changed since the last one: a link whose carrier comes back before its state does, in two
  messages, is never reported to be up, and one that loses them in two messages never to be down.
\<close>

theorem nic_half_changes_unreported:
  assumes "s1 = nm_state m \<or> c1 = nm_carrier m" "s2 = s1 \<or> c2 = c1"
  shows "nm_sent (nic_info nic nic s2 c2 (nic_info nic nic s1 c1 m)) = nm_sent m"
  using assms by (auto simp: nic_info_def)

theorem nic_half_changes_unreported_witness:
  "nm_sent (nic_info ''eth0'' ''eth0'' ''UP'' 1 (nic_info ''eth0'' ''eth0'' ''DOWN'' 1
     \<lparr> nm_state = ''DOWN'', nm_carrier = 0, nm_sent = [''nic-''] \<rparr>)) = [''nic-'']"
  using nic_half_changes_unreported [of "''DOWN''" "\<lparr> nm_state = ''DOWN'', nm_carrier = 0, nm_sent = [''nic-''] \<rparr>" 1 "''UP''" 1 "''eth0''"]
  by simp

section \<open>Manager and monitor\<close>

text \<open>
  The manager's commands reach the monitor in order. An operation of the manager followed by the
  commands it has sent, or a zyre event, is one step; the deployment manager stops only actors it
  has started, and peers leave only groups they are in.
\<close>

datatype fm_op = OSetup string | OAdd string string | OStart string string | OStop string string
  | OCleanup string | OCleanupAll | ONet zyre_event

fun fa_run :: "fm_op \<Rightarrow> unit fact" where
  "fa_run (OSetup app) = fa_setupApp app"
| "fa_run (OAdd app a) = fa_addActor app a"
| "fa_run (OStart app a) = fa_startActor app a"
| "fa_run (OStop app a) = fa_stopActor app a"
| "fa_run (OCleanup app) = fa_cleanupApp app"
| "fa_run OCleanupAll = fa_cleanupApps"
| "fa_run (ONet ev) = ret ()"

definition is_started :: "fman \<Rightarrow> string \<Rightarrow> string \<Rightarrow> bool" where
  "is_started m app a \<longleftrightarrow> (case map_of (fa_apps m) app of None \<Rightarrow> False | Some d \<Rightarrow> map_of d a = Some True)"

fun possible :: "fman \<times> fmMon \<Rightarrow> fm_op \<Rightarrow> bool" where
  "possible (m, s) (OStop app a) = is_started m app a"
| "possible (m, s) (ONet (Leave u grp)) = (case group_app grp of Inr (Some app) \<Rightarrow> member s app u | Inr None \<Rightarrow> True | _ \<Rightarrow> False)"
| "possible (m, s) (ONet (Join u grp)) = (case group_app grp of Inr _ \<Rightarrow> True | _ \<Rightarrow> False)"
| "possible (m, s) (ONet (Shout u arg)) = (case parse_told arg of Inr (_, app) \<Rightarrow> has_key (fm_actors s) app | _ \<Rightarrow> False)"
| "possible (m, s) (ONet (Whisper u arg)) = (case parse_told arg of Inr (_, app) \<Rightarrow> has_key (fm_actors s) app | _ \<Rightarrow> False)"
| "possible _ _ = True"

definition fm_system :: "(string \<Rightarrow> (string \<times> string) option) \<Rightarrow> fman \<times> fmMon \<Rightarrow> fm_op \<Rightarrow> (pyexc + unit) \<times> (fman \<times> fmMon)" where
  "fm_system parse = (\<lambda>(m, s) op. if \<not> possible (m, s) op then (Inr (), (m, s)) else
     (case op of ONet ev \<Rightarrow> (case fm_event parse ev s of (r, t) \<Rightarrow> (r, (m, t)))
      | _ \<Rightarrow> let m' = snd (fa_run op m) in
          (case forA (drop (length (fa_sent m)) (fa_sent m')) fm_command s of (r, t) \<Rightarrow> (r, (m', t)))))"

text \<open>What the manager believes started is what the monitor has as an actor.\<close>

definition agree :: "fman \<times> fmMon \<Rightarrow> bool" where
  "agree = (\<lambda>(m, s). (\<forall>app d. map_of (fa_apps m) app = Some d \<longrightarrow> has_key (fm_groups s) app \<and>
      (\<forall>as. map_of (fm_actors s) app = Some as \<longrightarrow> (\<forall>a. map_of d a = Some True \<longrightarrow> a \<in> set as))) \<and>
    (\<forall>app. has_key (fm_groups s) app \<longrightarrow> has_key (fm_actors s) app))"

lemma agreeD: "agree (m, s) \<Longrightarrow> map_of (fa_apps m) app = Some d \<Longrightarrow>
    \<exists>ps as. map_of (fm_groups s) app = Some ps \<and> map_of (fm_actors s) app = Some as \<and> (\<forall>a. map_of d a = Some True \<longrightarrow> a \<in> set as)"
  unfolding agree_def by fastforce

lemma agreeI:
  assumes "\<And>app d. map_of (fa_apps m) app = Some d \<Longrightarrow> \<exists>ps as. map_of (fm_groups s) app = Some ps \<and>
      map_of (fm_actors s) app = Some as \<and> (\<forall>a. map_of d a = Some True \<longrightarrow> a \<in> set as)"
    "\<And>app. has_key (fm_groups s) app \<Longrightarrow> has_key (fm_actors s) app"
  shows "agree (m, s)"
  using assms unfolding agree_def by fastforce

lemma agree_known: "agree (m, s) \<Longrightarrow> has_key (fm_groups s) app \<Longrightarrow> has_key (fm_actors s) app"
  by (simp add: agree_def)

lemma agree_view: "agree (m, s) \<Longrightarrow> fm_groups t = fm_groups s \<Longrightarrow> fm_actors t = fm_actors s \<Longrightarrow> agree (m, t)"
  by (simp add: agree_def)

lemmas fa_run_defs = fa_setupApp_def fa_addActor_def fa_startActor_def fa_stopActor_def fa_cleanupApp_def
  afm_init_def afm_addActor_def afm_startActor_def afm_stopActor_def afm_cleanupApp_def
  fa_app_def fa_send_def fa_put_def assertA_def

text \<open>A monitor event leaves the manager alone and keeps the agreement.\<close>

lemma agree_join:
  assumes "agree (m, s)" "group_app grp = Inr (Some app)"
  shows "\<exists>t. fm_join u grp s = (Inr (), t) \<and> agree (m, t)"
proof -
  have "agree (m, joined s u app)"
  proof (rule agreeI)
    fix app' d assume "map_of (fa_apps m) app' = Some d"
    from agreeD [OF assms(1) this]
    show "\<exists>ps as. map_of (fm_groups (joined s u app)) app' = Some ps \<and> map_of (fm_actors (joined s u app)) app' = Some as \<and>
      (\<forall>a. map_of d a = Some True \<longrightarrow> a \<in> set as)"
      by (auto simp: joined_def)
  next
    fix app' assume "has_key (fm_groups (joined s u app)) app'"
    then show "has_key (fm_actors (joined s u app)) app'"
      using agree_known [OF assms(1), of app'] by (auto simp: joined_def split: if_splits)
  qed
  with fm_join_result [OF assms(2), of u s] show ?thesis by (auto intro: agree_view)
qed

lemma agree_leave:
  assumes "agree (m, s)" "group_app grp = Inr (Some app)" "member s app u"
  shows "\<exists>t. fm_leave u grp s = (Inr (), t) \<and> agree (m, t)"
proof -
  obtain ps where g: "map_of (fm_groups s) app = Some ps" "u \<in> set ps"
    using assms(3) by (auto simp: member_def split: option.splits)
  have "agree (m, s\<lparr>fm_groups := AList.update app (removeAll u ps) (fm_groups s)\<rparr>)"
  proof (rule agreeI)
    fix app' d assume "map_of (fa_apps m) app' = Some d"
    from agreeD [OF assms(1) this] show "\<exists>ps' as. map_of (fm_groups (s\<lparr>fm_groups := AList.update app (removeAll u ps) (fm_groups s)\<rparr>)) app' = Some ps' \<and>
        map_of (fm_actors (s\<lparr>fm_groups := AList.update app (removeAll u ps) (fm_groups s)\<rparr>)) app' = Some as \<and>
        (\<forall>a. map_of d a = Some True \<longrightarrow> a \<in> set as)" by auto
  next
    fix app' assume "has_key (fm_groups (s\<lparr>fm_groups := AList.update app (removeAll u ps) (fm_groups s)\<rparr>)) app'"
    then show "has_key (fm_actors (s\<lparr>fm_groups := AList.update app (removeAll u ps) (fm_groups s)\<rparr>)) app'"
      using agree_known [OF assms(1), of app'] g by (auto split: if_splits)
  qed
  with fm_leave_result [OF assms(2) g] show ?thesis by (auto intro: agree_view)
qed

lemma agree_told:
  assumes "agree (m, s)" "parse_told arg = Inr (c, app)" "has_key (fm_actors s) app"
  shows "\<exists>t. fm_told u arg s = (Inr (), t) \<and> agree (m, t)"
proof -
  let ?s = "if has_key (fm_groups s) app then s else s\<lparr>fm_groups := AList.update app [u] (fm_groups s)\<rparr>"
  have "agree (m, ?s)"
  proof (rule agreeI)
    fix app' d assume "map_of (fa_apps m) app' = Some d"
    from agreeD [OF assms(1) this]
    show "\<exists>ps as. map_of (fm_groups ?s) app' = Some ps \<and> map_of (fm_actors ?s) app' = Some as \<and>
      (\<forall>a. map_of d a = Some True \<longrightarrow> a \<in> set as)" by auto
  next
    fix app' assume "has_key (fm_groups ?s) app'"
    then show "has_key (fm_actors ?s) app'"
      using agree_known [OF assms(1), of app'] assms(3) by (auto split: if_splits)
  qed
  moreover define h where "h = (if c = ''+'' then ''peer+'' else if c = ''-'' \<or> c = ''?'' then ''peer-'' else ''?'')"
  moreover have "fm_told u arg s = tell_actors h app u ?s"
    by (cases "has_key (fm_groups s) app")
      (auto simp: fm_told_def assms(2) Let_def fm_run tell_actors_result h_def simp del: not_None_eq)
  moreover have "agree (m, snd (tell_actors h app u ?s))"
    by (rule agree_view [OF \<open>agree (m, ?s)\<close>]) (simp_all add: tell_actors_result)
  ultimately show ?thesis by (simp add: tell_actors_result)
qed

lemma agree_event:
  assumes "agree (m, s)" "possible (m, s) (ONet ev)"
  shows "\<exists>t. fm_event parse ev s = (Inr (), t) \<and> agree (m, t)"
proof (cases "\<exists>u a h. ev = Enter u a h")
  case True
  with assms(1) show ?thesis by (auto simp: fm_enter_def fm_run agree_def split: option.split)
next
  case other: False
  show ?thesis
  proof (cases "has_key (fm_peers s) (event_peer ev)")
    case False
    with other have "fm_event parse ev s = (Inr (), s)" by (cases ev) (auto simp: rd_def ret_def)
    with assms(1) show ?thesis by blast
  next
    case True
    show ?thesis
    proof (cases ev)
      case (Join u grp)
      with assms(2) obtain x where x: "group_app grp = Inr x" by (auto split: sum.splits)
      have "\<exists>t. fm_join u grp s = (Inr (), t) \<and> agree (m, t)"
        using x assms(1) agree_join [OF assms(1), of grp] by (cases x) (auto simp: group_app_none)
      with Join True show ?thesis by (auto simp: rd_def)
    next
      case (Leave u grp)
      with assms(2) obtain x where x: "group_app grp = Inr x" by (auto split: sum.splits)
      have "\<exists>t. fm_leave u grp s = (Inr (), t) \<and> agree (m, t)"
        using x assms Leave agree_leave [OF assms(1), of grp] by (cases x) (auto simp: group_app_none)
      with Leave True show ?thesis by (auto simp: rd_def)
    next
      case (Exit u)
      with True assms(1) show ?thesis by (auto simp: rd_def fm_exit_result agree_def)
    qed (use True other assms agree_told [OF assms(1)] in \<open>auto simp: rd_def ret_def split: sum.splits\<close>)
  qed
qed

lemma agree_setup:
  assumes "agree (m, s)"
  shows "\<exists>t. forA (drop (length (fa_sent m)) (fa_sent (snd (fa_setupApp app m)))) fm_command s = (Inr (), t) \<and>
    agree (snd (fa_setupApp app m), t)"
proof (cases "has_key (fa_apps m) app")
  case True
  then show ?thesis using assms by (auto simp: fa_run_defs fm_run forA.simps)
next
  case False
  show ?thesis
  proof (cases "has_key (fm_groups s) app")
    case True
    with False assms agree_known [OF assms True] show ?thesis
      by (auto simp: fa_run_defs fm_run forA.simps fm_setupApp_def agree_def)
  next
    case new: False
    with False assms show ?thesis
      by (auto simp: fa_run_defs fm_run forA.simps fm_setupApp_def agree_def)
  qed
qed

lemma agree_start:
  assumes "agree (m, s)"
  shows "\<exists>t. forA (drop (length (fa_sent m)) (fa_sent (snd (fa_startActor app a m)))) fm_command s = (Inr (), t) \<and>
    agree (snd (fa_startActor app a m), t)"
proof (cases "\<exists>d. map_of (fa_apps m) app = Some d \<and> has_key d a")
  case False
  then show ?thesis using assms by (auto simp: fa_run_defs fm_run forA.simps split: option.split)
next
  case True
  then obtain d where d: "map_of (fa_apps m) app = Some d" "has_key d a" by blast
  from agreeD [OF assms d(1)] obtain ps as where g: "map_of (fm_groups s) app = Some ps" "map_of (fm_actors s) app = Some as"
    "\<forall>a. map_of d a = Some True \<longrightarrow> a \<in> set as" by blast
  have m': "snd (fa_startActor app a m) = m\<lparr>fa_apps := AList.update app (AList.update a True d) (fa_apps m), fa_sent := fa_sent m @ [FAddActor app a]\<rparr>"
    using d by (simp add: fa_run_defs fm_run)
  let ?t = "s\<lparr>fm_actors := AList.update app (add_to a as) (fm_actors s), fm_out := fm_out s @
      ZShout (groupName app) (actor_text CHR ''+'' app a) # map (\<lambda>p. Tell (''peer+'', app, a, p)) ps\<rparr>"
  have "agree (snd (fa_startActor app a m), ?t)"
  proof (rule agreeI)
    fix app' d' assume "map_of (fa_apps (snd (fa_startActor app a m))) app' = Some d'"
    then show "\<exists>ps as. map_of (fm_groups ?t) app' = Some ps \<and> map_of (fm_actors ?t) app' = Some as \<and>
      (\<forall>a. map_of d' a = Some True \<longrightarrow> a \<in> set as)"
      using g agreeD [OF assms, of app' d'] by (auto simp: m' split: if_splits)
  next
    fix app' assume "has_key (fm_groups ?t) app'"
    with agree_known [OF assms, of app'] show "has_key (fm_actors ?t) app'" by auto
  qed
  then show ?thesis
    by (simp add: m' forA.simps bnd_def ret_def fm_addActor_result [OF g(1,2)])
qed

lemma agree_stop:
  assumes "agree (m, s)" "is_started m app a"
  shows "\<exists>t. forA (drop (length (fa_sent m)) (fa_sent (snd (fa_stopActor app a m)))) fm_command s = (Inr (), t) \<and>
    agree (snd (fa_stopActor app a m), t)"
proof -
  obtain d where d: "map_of (fa_apps m) app = Some d" "map_of d a = Some True"
    using assms(2) by (auto simp: is_started_def split: option.splits)
  from agreeD [OF assms(1) d(1)] obtain ps as where g: "map_of (fm_groups s) app = Some ps" "map_of (fm_actors s) app = Some as"
    "\<forall>a. map_of d a = Some True \<longrightarrow> a \<in> set as" by blast
  have m': "snd (fa_stopActor app a m) = m\<lparr>fa_apps := AList.update app (AList.update a False d) (fa_apps m), fa_sent := fa_sent m @ [FDelActor app a]\<rparr>"
    using d by (auto simp: fa_run_defs fm_run)
  have r: "fm_removeActor CHR ''-'' app a s = (Inr (), s\<lparr>fm_actors := AList.update app (removeAll a as) (fm_actors s),
    fm_out := fm_out s @ [ZShout (groupName app) (actor_text CHR ''-'' app a)]\<rparr>)" (is "_ = (_, ?t)")
    by (rule fm_removeActor_result) (use g d in auto)
  have "agree (snd (fa_stopActor app a m), ?t)"
  proof (rule agreeI)
    fix app' d' assume "map_of (fa_apps (snd (fa_stopActor app a m))) app' = Some d'"
    then show "\<exists>ps as. map_of (fm_groups ?t) app' = Some ps \<and> map_of (fm_actors ?t) app' = Some as \<and>
      (\<forall>a. map_of d' a = Some True \<longrightarrow> a \<in> set as)"
      using g agreeD [OF assms(1), of app' d'] by (auto simp: m' split: if_splits)
  next
    fix app' assume "has_key (fm_groups ?t) app'"
    with agree_known [OF assms(1), of app'] show "has_key (fm_actors ?t) app'" by auto
  qed
  then show ?thesis by (simp add: m' forA.simps bnd_def ret_def r)
qed

lemma cleanups_sent: "\<exists>apps. snd (forA xs (\<lambda>(app, d). fa_cleanupApp app) m) =
    m\<lparr>fa_apps := fold AList.delete apps (fa_apps m), fa_sent := fa_sent m @ map FCleanupApp apps\<rparr>"
proof (induction xs arbitrary: m)
  case Nil
  show ?case by (rule exI [of _ "[]"]) (simp add: forA.simps ret_def)
next
  case (Cons x xs)
  obtain app d where x: "x = (app, d)" by (cases x)
  show ?case
  proof (cases "has_key (fa_apps m) app")
    case False
    then show ?thesis
      by (intro exI [of _ "[]"]) (simp add: x forA.simps bnd_def fa_run_defs fm_run)
  next
    case True
    let ?m = "m\<lparr>fa_sent := fa_sent m @ [FCleanupApp app], fa_apps := AList.delete app (fa_apps m)\<rparr>"
    have "fa_cleanupApp app m = (Inr (), ?m)" using True by (auto simp: fa_run_defs fm_run)
    moreover obtain apps where "snd (forA xs (\<lambda>(app, d). fa_cleanupApp app) ?m) =
        ?m\<lparr>fa_apps := fold AList.delete apps (fa_apps ?m), fa_sent := fa_sent ?m @ map FCleanupApp apps\<rparr>"
      using Cons.IH [of ?m] by blast
    ultimately show ?thesis
      by (intro exI [of _ "app # apps"]) (simp add: x forA.simps bnd_def)
  qed
qed

lemma forA_cleanups: "\<exists>t. forA (map FCleanupApp apps) fm_command s = (Inr (), t) \<and>
    fm_groups t = fold AList.delete apps (fm_groups s) \<and> fm_actors t = fm_actors s"
proof (induction apps arbitrary: s)
  case (Cons a apps)
  from Cons.IH [of "s\<lparr>fm_out := fm_out s @ [ZLeave (groupName a)], fm_groups := AList.delete a (fm_groups s)\<rparr>"]
  show ?case by (simp add: forA.simps fm_cleanupApp_def fm_run)
qed (simp add: forA.simps ret_def)

lemma map_of_deletes: "map_of (fold AList.delete ks d) k = (if k \<in> set ks then None else map_of d k)"
  by (induction ks arbitrary: d) auto

lemma agree_cleanups:
  assumes "agree (m, s)"
    "m' = m\<lparr>fa_apps := fold AList.delete apps (fa_apps m), fa_sent := fa_sent m @ map FCleanupApp apps\<rparr>"
  shows "\<exists>t. forA (drop (length (fa_sent m)) (fa_sent m')) fm_command s = (Inr (), t) \<and> agree (m', t)"
proof -
  obtain t where t: "forA (map FCleanupApp apps) fm_command s = (Inr (), t)"
    "fm_groups t = fold AList.delete apps (fm_groups s)" "fm_actors t = fm_actors s"
    using forA_cleanups by blast
  have "agree (m', t)"
  proof (rule agreeI)
    fix app d assume "map_of (fa_apps m') app = Some d"
    then show "\<exists>ps as. map_of (fm_groups t) app = Some ps \<and> map_of (fm_actors t) app = Some as \<and>
      (\<forall>a. map_of d a = Some True \<longrightarrow> a \<in> set as)"
      using agreeD [OF assms(1), of app d] by (auto simp: assms(2) t map_of_deletes split: if_splits)
  next
    fix app assume "has_key (fm_groups t) app"
    then show "has_key (fm_actors t) app"
      using agree_known [OF assms(1), of app] by (auto simp: t map_of_deletes split: if_splits)
  qed
  with t(1) show ?thesis by (simp add: assms(2))
qed

lemma agree_system:
  assumes "agree x"
  shows "\<exists>y. fm_system parse x op = (Inr (), y) \<and> agree y"
proof -
  obtain m s where x: "x = (m, s)" by (cases x)
  show ?thesis
  proof (cases "possible (m, s) op")
    case False
    then show ?thesis using assms by (simp add: fm_system_def x)
  next
    case p: True
    have step: ?thesis if "\<nexists>ev. op = ONet ev"
      "\<exists>t. forA (drop (length (fa_sent m)) (fa_sent (snd (fa_run op m)))) fm_command s = (Inr (), t) \<and> agree (snd (fa_run op m), t)"
      using that p by (cases op) (auto simp: fm_system_def x)
    have quiet: "\<exists>t. forA (drop (length (fa_sent m)) (fa_sent (snd (fa_addActor app a m)))) fm_command s = (Inr (), t) \<and>
        agree (snd (fa_addActor app a m), t)" for app a
    proof -
      have "fa_sent (snd (fa_addActor app a m)) = fa_sent m"
        by (auto simp: fa_run_defs fm_run split: option.split)
      moreover have "agree (snd (fa_addActor app a m), s)"
        using assms x by (auto simp: fa_run_defs fm_run agree_def split: option.split)
      ultimately show ?thesis by (simp add: forA.simps ret_def)
    qed
    show ?thesis
    proof (cases op)
      case (OCleanup app)
      obtain apps where "snd (fa_cleanupApp app m) =
          m\<lparr>fa_apps := fold AList.delete apps (fa_apps m), fa_sent := fa_sent m @ map FCleanupApp apps\<rparr>"
        using cleanups_sent [of "[(app, [])]" m] by (auto simp: forA.simps bnd_def ret_def split: prod.splits sum.splits)
      with agree_cleanups assms x OCleanup show ?thesis by (intro step) auto
    next
      case OCleanupAll
      obtain apps where "snd (fa_cleanupApps m) =
          m\<lparr>fa_apps := fold AList.delete apps (fa_apps m), fa_sent := fa_sent m @ map FCleanupApp apps\<rparr>"
        using cleanups_sent [of "fa_apps m" m] by (auto simp: fa_cleanupApps_def rd_def)
      with agree_cleanups assms x OCleanupAll show ?thesis by (intro step) auto
    next
      case (ONet ev)
      with p agree_event [of m s ev parse] assms x show ?thesis by (fastforce simp: fm_system_def)
    qed (use assms x p step quiet agree_setup agree_start agree_stop in auto)
  qed
qed


end
