(* ===== verification/AppDb.thy ===== *)
theory AppDb
  imports Prelude
begin

text \<open>
  The application database of the deployment service (\<open>riaps/deplo/appdb.py\<close>, class \<open>AppDbase\<close>): it
  survives a restart of the service, which recovers the applications and actors from it.

  \<^item> lmdb is a parameter, the record \<open>lmdb\<close> of the transactions the class makes; each may raise.
    \<open>lmdb_laws\<close> states what its documentation says of them: a transaction that raises changes
    nothing.
  \<^item> A pickled value is kept as the Python value it loads to: a list, whose items are names or
    records of actors, the endpoint of the discovery database, or the record of its process.
\<close>

section \<open>The store\<close>

record actorCommand =
  ac_app :: string
  ac_model :: string
  ac_actor :: string
  ac_args :: "string list"
  ac_cmd :: "string list"
  ac_pid :: int
  ac_firewall :: "string list"
  ac_isdevice :: bool

record discoCommand =
  xc_cmd :: "string list"
  xc_pid :: int
  xc_args :: string

datatype dbitem = IName string | IActor actorCommand
datatype dbval = VList "dbitem list" | VDisco string string | VDiscoCmd discoCommand

record 'l lmdb =
  ld_open :: "bool \<Rightarrow> ('l, unit) act"
  ld_get :: "string \<Rightarrow> ('l, dbval option) act"
  ld_put :: "string \<Rightarrow> dbval \<Rightarrow> ('l, bool) act"
  ld_replace :: "string \<Rightarrow> dbval \<Rightarrow> ('l, unit) act"
  ld_delete :: "string \<Rightarrow> ('l, bool) act"
  ld_view :: "'l \<Rightarrow> string \<Rightarrow> dbval option"

definition lmdb_laws :: "'l lmdb \<Rightarrow> bool" where
  "lmdb_laws L \<longleftrightarrow>
     (\<forall>k s r t. ld_get L k s = (r, t) \<longrightarrow> ld_view L t = ld_view L s \<and> (\<forall>v. r = Inr v \<longrightarrow> v = ld_view L s k)) \<and>
     (\<forall>k v s r t. ld_put L k v s = (r, t) \<longrightarrow>
        ld_view L t = (case r of Inl _ \<Rightarrow> ld_view L s | Inr _ \<Rightarrow> (ld_view L s)(k \<mapsto> v))) \<and>
     (\<forall>k v s r t. ld_replace L k v s = (r, t) \<longrightarrow>
        ld_view L t = (case r of Inl _ \<Rightarrow> ld_view L s | Inr _ \<Rightarrow> (ld_view L s)(k \<mapsto> v))) \<and>
     (\<forall>k s r t. ld_delete L k s = (r, t) \<longrightarrow>
        ld_view L t = (case r of Inl _ \<Rightarrow> ld_view L s | Inr _ \<Rightarrow> (ld_view L s)(k := None)))"

section \<open>The database\<close>

record 'l appdb =
  ad_l :: "'l lmdb"
  ad_store :: 'l
  ad_create :: bool

type_synonym ('l, 'a) adact = "('l appdb, 'a) act"

definition RIAPSAPPS :: string where "RIAPSAPPS = ''RIAPSAPPS''"
definition RIAPSDISCO :: string where "RIAPSDISCO = ''RIAPSDISCO''"
definition RIAPSDISCOCMD :: string where "RIAPSDISCOCMD = ''RIAPSDISCOCMD''"

text \<open>The constructor's loop, which creates the database when it cannot be opened.\<close>

partial_function (option) open_db :: "'l appdb \<Rightarrow> ((pyexc + unit) \<times> 'l appdb) option" where
  "open_db s = (case ld_open (ad_l s) (ad_create s) (ad_store s) of
     (Inr _, t) \<Rightarrow> Some (Inr (), s\<lparr>ad_store := t\<rparr>)
   | (Inl e, t) \<Rightarrow> (if e = LmdbError then open_db (s\<lparr>ad_store := t, ad_create := True\<rparr>)
       else Some (Inl e, s\<lparr>ad_store := t\<rparr>)))"

definition appdb_init :: "'l lmdb \<Rightarrow> 'l \<Rightarrow> bool \<Rightarrow> bool \<Rightarrow> ((pyexc + unit) \<times> 'l appdb) option" where
  "appdb_init L l there writable = (let s = \<lparr> ad_l = L, ad_store = l, ad_create = False \<rparr> in
     if there \<and> \<not> writable then Some (Inl (BuildError ''app database is not writeable''), s) else open_db s)"

definition txn :: "('l lmdb \<Rightarrow> ('l, 'a) act) \<Rightarrow> ('l, 'a) adact" where
  "txn f = (\<lambda>s. case f (ad_l s) (ad_store s) of (r, t) \<Rightarrow> (r, s\<lparr>ad_store := t\<rparr>))"

definition getKeyValue :: "string \<Rightarrow> dbval option \<Rightarrow> ('l, dbval option) adact" where
  "getKeyValue key dflt = bnd (txn (\<lambda>L. ld_get L key)) (\<lambda>v. ret (case v of None \<Rightarrow> dflt | Some x \<Rightarrow> Some x))"

definition putKeyValue :: "string \<Rightarrow> dbval \<Rightarrow> ('l, bool) adact" where
  "putKeyValue key v = txn (\<lambda>L. ld_put L key v)"

definition replaceKeyValue :: "string \<Rightarrow> dbval \<Rightarrow> ('l, unit) adact" where
  "replaceKeyValue key v = txn (\<lambda>L. ld_replace L key v)"

definition app_delKey :: "string \<Rightarrow> ('l, bool) adact" where
  "app_delKey key = txn (\<lambda>L. ld_delete L key)"

definition getDisco :: "('l, dbval option) adact" where
  "getDisco = getKeyValue RIAPSDISCO None"

definition setDisco :: "string \<Rightarrow> string \<Rightarrow> ('l, bool) adact" where
  "setDisco host port = putKeyValue RIAPSDISCO (VDisco host port)"

definition getDiscoCommand :: "('l, dbval option) adact" where
  "getDiscoCommand = getKeyValue RIAPSDISCOCMD None"

definition setDiscoCommand :: "discoCommand \<Rightarrow> ('l, bool) adact" where
  "setDiscoCommand c = putKeyValue RIAPSDISCOCMD (VDiscoCmd c)"

definition delDiscoCommand :: "('l, bool) adact" where
  "delDiscoCommand = app_delKey RIAPSDISCOCMD"

text \<open>What the code needs as a list; an operation on anything else raises.\<close>

definition as_list :: "pyexc \<Rightarrow> dbval option \<Rightarrow> pyexc + dbitem list" where
  "as_list e v = (case v of Some (VList xs) \<Rightarrow> Inr xs | _ \<Rightarrow> Inl e)"

definition getApps :: "('l, dbitem list) adact" where
  "getApps = rd ad_create (\<lambda>c. if c then ret [] else
     bnd (getKeyValue RIAPSAPPS (Some (VList []))) (\<lambda>v. lift (as_list AssertionError v)))"

definition closeDbase :: "('l, unit) adact" where
  "closeDbase = bnd getApps (\<lambda>apps. seqA [
     forA apps (\<lambda>i. case i of IName app \<Rightarrow> bnd (app_delKey app) (\<lambda>_. ret ()) | IActor _ \<Rightarrow> raise TypeError),
     bnd (app_delKey RIAPSDISCO) (\<lambda>_. ret ()),
     bnd (app_delKey RIAPSAPPS) (\<lambda>_. ret ())])"

text \<open>\<open>ok = False; try: ...; ok = True; except: pass\<close>\<close>

definition try_ok :: "('l, bool) adact \<Rightarrow> ('l, bool) adact" where
  "try_ok m = tryA m (\<lambda>_. ret False)"

definition addApp :: "string \<Rightarrow> ('l, bool) adact" where
  "addApp app = try_ok (bnd (getKeyValue RIAPSAPPS None) (\<lambda>v.
     bnd (lift (case v of None \<Rightarrow> Inr [] | Some _ \<Rightarrow> as_list TypeError v)) (\<lambda>xs.
     let ys = (if IName app \<in> set xs then xs else xs @ [IName app]) in
     bnd (if v \<noteq> None then replaceKeyValue RIAPSAPPS (VList ys)
          else bnd (putKeyValue RIAPSAPPS (VList ys)) (\<lambda>_. ret ())) (\<lambda>_. ret True))))"

definition delApp :: "string \<Rightarrow> ('l, bool) adact" where
  "delApp app = try_ok (bnd (getKeyValue RIAPSAPPS (Some (VList []))) (\<lambda>v.
     bnd (lift (as_list TypeError v)) (\<lambda>xs.
     if IName app \<notin> set xs then ret False
     else bnd (app_delKey app) (\<lambda>_. bnd (replaceKeyValue RIAPSAPPS (VList (remove1 (IName app) xs))) (\<lambda>_. ret True)))))"

definition addAppActor :: "string \<Rightarrow> actorCommand \<Rightarrow> ('l, bool) adact" where
  "addAppActor app r = try_ok (bnd (getKeyValue app (Some (VList []))) (\<lambda>v.
     bnd (lift (as_list TypeError v)) (\<lambda>xs.
     bnd (replaceKeyValue app (VList (xs @ [IActor r]))) (\<lambda>_. ret True))))"

text \<open>\<open>None\<close> stands for the \<open>False\<close> that \<open>getAppActors\<close> returns when it fails.\<close>

definition getAppActors :: "string \<Rightarrow> ('l, dbval option) adact" where
  "getAppActors app = tryA (getKeyValue app (Some (VList []))) (\<lambda>_. ret None)"

text \<open>\<open>[a for a in actList if a.actor == name]\<close>; a name has no attribute \<open>actor\<close>.\<close>

fun actors_where :: "(actorCommand \<Rightarrow> bool) \<Rightarrow> dbitem list \<Rightarrow> pyexc + actorCommand list" where
  "actors_where p [] = Inr []"
| "actors_where p (IName n # xs) = Inl AttributeError"
| "actors_where p (IActor r # xs) = (case actors_where p xs of Inl e \<Rightarrow> Inl e | Inr rs \<Rightarrow> Inr (if p r then r # rs else rs))"

definition getAppActor :: "string \<Rightarrow> string \<Rightarrow> ('l, actorCommand option) adact" where
  "getAppActor app actor = tryA (bnd (getKeyValue app (Some (VList []))) (\<lambda>v.
     bnd (lift (as_list TypeError v)) (\<lambda>xs.
     bnd (lift (actors_where (\<lambda>r. ac_actor r = actor) xs)) (\<lambda>rs.
     case rs of [] \<Rightarrow> raise IndexError | r # _ \<Rightarrow> ret (Some r))))) (\<lambda>_. ret None)"

definition delAppActor :: "string \<Rightarrow> string \<Rightarrow> ('l, bool) adact" where
  "delAppActor app actor = try_ok (bnd (getKeyValue app (Some (VList []))) (\<lambda>v.
     bnd (lift (as_list TypeError v)) (\<lambda>xs.
     bnd (lift (actors_where (\<lambda>r. ac_actor r \<noteq> actor) xs)) (\<lambda>rs.
     bnd (replaceKeyValue app (VList (map IActor rs))) (\<lambda>_. ret True)))))"

end
