(* ===== verification/AppDbProps.thy ===== *)
theory AppDbProps
  imports AppDb
begin

text \<open>
  Properties of the application database: its values keep their types whatever fails, its
  operations refine a table of applications and their actors while the store works, the
  constructor opens it, and what is lost in the run that creates it.
\<close>

definition db_view :: "'l appdb \<Rightarrow> string \<Rightarrow> dbval option" where
  "db_view s = ld_view (ad_l s) (ad_store s)"

definition lawful_db :: "'l appdb \<Rightarrow> bool" where
  "lawful_db s \<longleftrightarrow> lmdb_laws (ad_l s)"

section \<open>The transactions\<close>

text \<open>What each transaction does to the view of a lawful store; the record of the object is kept.\<close>

definition same_db :: "'l appdb \<Rightarrow> 'l appdb \<Rightarrow> bool" where
  "same_db s t \<longleftrightarrow> ad_l t = ad_l s \<and> ad_create t = ad_create s"

lemma wp_getKeyValue:
  assumes "lawful_db s"
    "\<And>t. same_db s t \<Longrightarrow> db_view t = db_view s \<Longrightarrow> Q (case db_view s k of None \<Rightarrow> d | Some x \<Rightarrow> Some x) t"
    "\<And>e t. same_db s t \<Longrightarrow> db_view t = db_view s \<Longrightarrow> E e t"
  shows "wp (getKeyValue k d) Q E s"
proof -
  obtain r t where g: "ld_get (ad_l s) k (ad_store s) = (r, t)" by (cases "ld_get (ad_l s) k (ad_store s)")
  with assms(1) have "ld_view (ad_l s) t = ld_view (ad_l s) (ad_store s) \<and> (\<forall>v. r = Inr v \<longrightarrow> v = ld_view (ad_l s) (ad_store s) k)"
    unfolding lawful_db_def lmdb_laws_def by blast
  with g assms(2,3) [of "s\<lparr>ad_store := t\<rparr>"] show ?thesis
    by (auto simp: getKeyValue_def bnd_def ret_def wp_def txn_def db_view_def same_db_def split: sum.splits)
qed

lemma wp_write:
  assumes "m s = (r, s\<lparr>ad_store := t\<rparr>)"
    "ld_view (ad_l s) t = (case r of Inl _ \<Rightarrow> db_view s | Inr _ \<Rightarrow> V)"
    "\<And>x t. same_db s t \<Longrightarrow> db_view t = V \<Longrightarrow> Q x t" "\<And>e t. same_db s t \<Longrightarrow> db_view t = db_view s \<Longrightarrow> E e t"
  shows "wp m Q E s"
  using assms by (auto simp: wp_def db_view_def same_db_def split: sum.splits)

lemma wp_putKeyValue:
  assumes "lawful_db s" "\<And>x t. same_db s t \<Longrightarrow> db_view t = (db_view s)(k \<mapsto> v) \<Longrightarrow> Q x t"
    "\<And>e t. same_db s t \<Longrightarrow> db_view t = db_view s \<Longrightarrow> E e t"
  shows "wp (putKeyValue k v) Q E s"
proof -
  obtain r t where g: "ld_put (ad_l s) k v (ad_store s) = (r, t)" by (cases "ld_put (ad_l s) k v (ad_store s)")
  then have "ld_view (ad_l s) t = (case r of Inl _ \<Rightarrow> db_view s | Inr _ \<Rightarrow> (db_view s)(k \<mapsto> v))"
    using assms(1) unfolding lawful_db_def lmdb_laws_def db_view_def by blast
  moreover have "putKeyValue k v s = (r, s\<lparr>ad_store := t\<rparr>)" using g by (simp add: putKeyValue_def txn_def)
  ultimately show ?thesis using assms(2,3) by (intro wp_write) auto
qed

lemma wp_replaceKeyValue:
  assumes "lawful_db s" "\<And>x t. same_db s t \<Longrightarrow> db_view t = (db_view s)(k \<mapsto> v) \<Longrightarrow> Q x t"
    "\<And>e t. same_db s t \<Longrightarrow> db_view t = db_view s \<Longrightarrow> E e t"
  shows "wp (replaceKeyValue k v) Q E s"
proof -
  obtain r t where g: "ld_replace (ad_l s) k v (ad_store s) = (r, t)" by (cases "ld_replace (ad_l s) k v (ad_store s)")
  then have "ld_view (ad_l s) t = (case r of Inl _ \<Rightarrow> db_view s | Inr _ \<Rightarrow> (db_view s)(k \<mapsto> v))"
    using assms(1) unfolding lawful_db_def lmdb_laws_def db_view_def by blast
  moreover have "replaceKeyValue k v s = (r, s\<lparr>ad_store := t\<rparr>)" using g by (simp add: replaceKeyValue_def txn_def)
  ultimately show ?thesis using assms(2,3) by (intro wp_write) auto
qed

lemma wp_delKey:
  assumes "lawful_db s" "\<And>x t. same_db s t \<Longrightarrow> db_view t = (db_view s)(k := None) \<Longrightarrow> Q x t"
    "\<And>e t. same_db s t \<Longrightarrow> db_view t = db_view s \<Longrightarrow> E e t"
  shows "wp (app_delKey k) Q E s"
proof -
  obtain r t where g: "ld_delete (ad_l s) k (ad_store s) = (r, t)" by (cases "ld_delete (ad_l s) k (ad_store s)")
  then have "ld_view (ad_l s) t = (case r of Inl _ \<Rightarrow> db_view s | Inr _ \<Rightarrow> (db_view s)(k := None))"
    using assms(1) unfolding lawful_db_def lmdb_laws_def db_view_def by blast
  moreover have "app_delKey k s = (r, s\<lparr>ad_store := t\<rparr>)" using g by (simp add: app_delKey_def txn_def)
  ultimately show ?thesis using assms(2,3) by (intro wp_write) auto
qed

lemma lawful_same: "same_db s t \<Longrightarrow> lawful_db t = lawful_db s"
  by (simp add: same_db_def lawful_db_def)

lemma same_db_refl: "same_db s s"
  by (simp add: same_db_def)

lemma same_trans: "same_db s t \<Longrightarrow> same_db t u \<Longrightarrow> same_db s u"
  by (simp add: same_db_def)

section \<open>Applications and their actors\<close>

text \<open>The names in the list of applications and the records of an application, as the database reads them.\<close>

definition names_of :: "dbval option \<Rightarrow> string list" where
  "names_of v = (case v of Some (VList xs) \<Rightarrow> concat (map (\<lambda>i. case i of IName n \<Rightarrow> [n] | _ \<Rightarrow> []) xs) | _ \<Rightarrow> [])"

definition records_of :: "dbval option \<Rightarrow> actorCommand list" where
  "records_of v = (case v of Some (VList xs) \<Rightarrow> concat (map (\<lambda>i. case i of IActor r \<Rightarrow> [r] | _ \<Rightarrow> []) xs) | _ \<Rightarrow> [])"

definition is_names :: "dbval option \<Rightarrow> bool" where
  "is_names v \<longleftrightarrow> v = None \<or> (\<exists>ns. v = Some (VList (map IName ns)))"

definition is_records :: "dbval option \<Rightarrow> bool" where
  "is_records v \<longleftrightarrow> v = None \<or> (\<exists>rs. v = Some (VList (map IActor rs)))"

definition proper_app :: "string \<Rightarrow> bool" where
  "proper_app app \<longleftrightarrow> app \<notin> {RIAPSAPPS, RIAPSDISCO, RIAPSDISCOCMD}"

definition well_typed :: "(string \<Rightarrow> dbval option) \<Rightarrow> bool" where
  "well_typed V \<longleftrightarrow> is_names (V RIAPSAPPS) \<and> (\<forall>app. proper_app app \<longrightarrow> is_records (V app)) \<and>
     (\<forall>v. V RIAPSDISCO = Some v \<longrightarrow> (\<exists>h p. v = VDisco h p)) \<and> (\<forall>v. V RIAPSDISCOCMD = Some v \<longrightarrow> (\<exists>c. v = VDiscoCmd c))"

datatype ad_op = AddApp string | DelApp string | AddActor string actorCommand | DelActor string string
  | SetDisco string string | SetDiscoCommand discoCommand | DelDiscoCommand | CloseDbase

fun ad_run :: "ad_op \<Rightarrow> ('l, bool) adact" where
  "ad_run (AddApp app) = addApp app"
| "ad_run (DelApp app) = delApp app"
| "ad_run (AddActor app r) = addAppActor app r"
| "ad_run (DelActor app a) = delAppActor app a"
| "ad_run (SetDisco h p) = setDisco h p"
| "ad_run (SetDiscoCommand c) = setDiscoCommand c"
| "ad_run DelDiscoCommand = delDiscoCommand"
| "ad_run CloseDbase = bnd closeDbase (\<lambda>_. ret True)"

fun ad_proper :: "ad_op \<Rightarrow> bool" where
  "ad_proper (AddApp app) = proper_app app"
| "ad_proper (DelApp app) = proper_app app"
| "ad_proper (AddActor app r) = proper_app app"
| "ad_proper (DelActor app a) = proper_app app"
| "ad_proper _ = True"

lemma actors_where_records [simp]: "actors_where p (map IActor rs) = Inr (filter p rs)"
  by (induction rs) auto

lemma is_names_iff: "is_names (Some v) \<longleftrightarrow> (\<exists>ns. v = VList (map IName ns))"
  by (auto simp: is_names_def)

lemma is_records_iff: "is_records (Some v) \<longleftrightarrow> (\<exists>rs. v = VList (map IActor rs))"
  by (auto simp: is_records_def)

lemma names_map [simp]: "names_of (Some (VList (map IName ns))) = ns"
  by (induction ns) (auto simp: names_of_def)

lemma records_map [simp]: "records_of (Some (VList (map IActor rs))) = rs"
  by (induction rs) (auto simp: records_of_def)

lemma names_None [simp]: "names_of None = []" and records_None [simp]: "records_of None = []"
  by (simp_all add: names_of_def records_of_def)

lemma is_names_or: "is_names v \<Longrightarrow> (case v of None \<Rightarrow> Some (VList []) | Some x \<Rightarrow> Some x) = Some (VList (map IName (names_of v)))"
  by (auto simp: is_names_def)

lemma is_records_or: "is_records v \<Longrightarrow> (case v of None \<Rightarrow> Some (VList []) | Some x \<Rightarrow> Some x) = Some (VList (map IActor (records_of v)))"
  by (auto simp: is_records_def)

definition wt :: "'l appdb \<Rightarrow> bool" where
  "wt s \<longleftrightarrow> lawful_db s \<and> well_typed (db_view s)"

lemma wt_keep: "wt s \<Longrightarrow> same_db s t \<Longrightarrow> db_view t = db_view s \<Longrightarrow> wt t"
  by (simp add: wt_def lawful_same)

lemma wt_names: "wt s \<Longrightarrow> same_db s t \<Longrightarrow> db_view t = (db_view s)(RIAPSAPPS \<mapsto> VList (map IName ns)) \<Longrightarrow> wt t"
  by (auto simp: wt_def lawful_same well_typed_def is_names_iff proper_app_def RIAPSAPPS_def RIAPSDISCO_def RIAPSDISCOCMD_def)

lemma wt_records: "wt s \<Longrightarrow> same_db s t \<Longrightarrow> proper_app app \<Longrightarrow> db_view t = (db_view s)(app \<mapsto> VList (map IActor rs)) \<Longrightarrow> wt t"
  by (auto simp: wt_def lawful_same well_typed_def is_records_iff proper_app_def)

lemma wt_disco: "wt s \<Longrightarrow> same_db s t \<Longrightarrow> db_view t = (db_view s)(RIAPSDISCO \<mapsto> VDisco h p) \<Longrightarrow> wt t"
  "wt s \<Longrightarrow> same_db s t \<Longrightarrow> db_view t = (db_view s)(RIAPSDISCOCMD \<mapsto> VDiscoCmd c) \<Longrightarrow> wt t"
  by (auto simp: wt_def lawful_same well_typed_def proper_app_def RIAPSAPPS_def RIAPSDISCO_def RIAPSDISCOCMD_def)

lemma wt_delete: "wt s \<Longrightarrow> same_db s t \<Longrightarrow> db_view t = (db_view s)(k := None) \<Longrightarrow> wt t"
  by (auto simp: wt_def lawful_same well_typed_def is_names_def is_records_def)

lemma wt_lawful: "wt s \<Longrightarrow> lawful_db s"
  by (simp add: wt_def)

lemma wt_at: "wt s \<Longrightarrow> is_names (db_view s RIAPSAPPS)" "wt s \<Longrightarrow> proper_app app \<Longrightarrow> is_records (db_view s app)"
  by (simp_all add: wt_def well_typed_def)

text \<open>The abstract table: the applications and the records of each.\<close>

definition app_table :: "'l appdb \<Rightarrow> string list \<times> (string \<Rightarrow> actorCommand list)" where
  "app_table s = (names_of (db_view s RIAPSAPPS), \<lambda>app. if proper_app app then records_of (db_view s app) else [])"

fun table_spec :: "ad_op \<Rightarrow> string list \<times> (string \<Rightarrow> actorCommand list) \<Rightarrow> string list \<times> (string \<Rightarrow> actorCommand list)" where
  "table_spec (AddApp app) (ns, f) = (if app \<in> set ns then ns else ns @ [app], f)"
| "table_spec (DelApp app) (ns, f) = (remove1 app ns, f(app := []))"
| "table_spec (AddActor app r) (ns, f) = (ns, f(app := f app @ [r]))"
| "table_spec (DelActor app a) (ns, f) = (ns, f(app := filter (\<lambda>r. ac_actor r \<noteq> a) (f app)))"
| "table_spec _ x = x"

text \<open>One operation: its answer, and the table it leaves.\<close>

definition op_post :: "ad_op \<Rightarrow> 'l appdb \<Rightarrow> bool \<Rightarrow> 'l appdb \<Rightarrow> bool" where
  "op_post op s ok t \<longleftrightarrow> same_db s t \<and> wt t \<and> (app_table t = (if ok then table_spec op (app_table s) else app_table s) \<or>
     (\<exists>app. op = DelApp app \<and> \<not> ok \<and> app_table t = (fst (app_table s), (snd (app_table s))(app := []))))"

lemma table_keep: "db_view t = db_view s \<Longrightarrow> app_table t = app_table s"
  by (auto simp: app_table_def fun_eq_iff)

lemma not_proper: "\<not> proper_app RIAPSAPPS" "\<not> proper_app RIAPSDISCO" "\<not> proper_app RIAPSDISCOCMD"
  "RIAPSDISCO \<noteq> RIAPSAPPS" "RIAPSDISCOCMD \<noteq> RIAPSAPPS" "RIAPSAPPS \<noteq> RIAPSDISCO" "RIAPSAPPS \<noteq> RIAPSDISCOCMD"
  by (simp_all add: proper_app_def RIAPSAPPS_def RIAPSDISCO_def RIAPSDISCOCMD_def)

lemma table_names: "db_view t = (db_view s)(RIAPSAPPS \<mapsto> VList (map IName ns)) \<Longrightarrow> app_table t = (ns, snd (app_table s))"
  by (auto simp: app_table_def not_proper fun_eq_iff)

lemma table_records: "proper_app app \<Longrightarrow> db_view t = (db_view s)(app \<mapsto> VList (map IActor rs)) \<Longrightarrow>
    app_table t = (fst (app_table s), (snd (app_table s))(app := rs))"
  by (auto simp: app_table_def fun_eq_iff proper_app_def)

lemma table_delete: "proper_app app \<Longrightarrow> db_view t = (db_view s)(app := None) \<Longrightarrow>
    app_table t = (fst (app_table s), (snd (app_table s))(app := []))"
  by (auto simp: app_table_def fun_eq_iff proper_app_def)

lemma wp_addApp:
  assumes "wt s"
  shows "wp (addApp app) (op_post (AddApp app) s) (\<lambda>_ _. False) s"
proof -
  let ?ns = "names_of (db_view s RIAPSAPPS)"
  let ?ys = "if app \<in> set ?ns then ?ns else ?ns @ [app]"
  have v: "(case db_view s RIAPSAPPS of None \<Rightarrow> None | Some x \<Rightarrow> Some x) = db_view s RIAPSAPPS"
    by (simp split: option.split)
  have l: "(case db_view s RIAPSAPPS of None \<Rightarrow> Inr [] | Some _ \<Rightarrow> as_list TypeError (db_view s RIAPSAPPS)) = Inr (map IName ?ns)"
    using wt_at(1) [OF assms] by (auto simp: is_names_def as_list_def)
  have y: "(if IName app \<in> set (map IName ?ns) then map IName ?ns else map IName ?ns @ [IName app]) = map IName ?ys"
    by (auto simp: image_iff)
  have fin: "op_post (AddApp app) s True u" if "same_db s t" "db_view t = db_view s" "same_db t u"
    "db_view u = (db_view t)(RIAPSAPPS \<mapsto> VList (map IName ?ys))" for t u
  proof -
    have "same_db s u" by (rule same_trans [OF that(1,3)])
    then have "wt u" using that(2,4) by (auto intro: wt_names [OF assms])
    moreover have "app_table u = (?ys, snd (app_table s))" by (rule table_names) (use that in auto)
    ultimately show ?thesis using \<open>same_db s u\<close> by (auto simp: op_post_def app_table_def)
  qed
  have quit: "op_post (AddApp app) s False u" if "same_db s u" "db_view u = db_view s" for u
    using that wt_keep [OF assms that] table_keep [OF that(2)] by (simp add: op_post_def)
  show ?thesis
    unfolding addApp_def try_ok_def wp_tryA wp_bnd wp_ret
  proof (rule wp_getKeyValue [OF wt_lawful [OF assms]], unfold v)
    fix t assume t: "same_db s t" "db_view t = db_view s"
    have lt: "lawful_db t" using t assms by (simp add: lawful_same wt_lawful)
    show "wp (lift (case db_view s RIAPSAPPS of None \<Rightarrow> Inr [] | Some _ \<Rightarrow> as_list TypeError (db_view s RIAPSAPPS)))
      (\<lambda>x. wp (let ys = if IName app \<in> set x then x else x @ [IName app]
           in bnd (if db_view s RIAPSAPPS \<noteq> None then replaceKeyValue RIAPSAPPS (VList ys)
             else bnd (putKeyValue RIAPSAPPS (VList ys)) (\<lambda>_. ret ())) (\<lambda>_. ret True)) (op_post (AddApp app) s) (\<lambda>_. op_post (AddApp app) s False))
      (\<lambda>_. op_post (AddApp app) s False) t"
      unfolding l wp_lift sum.case Let_def y
      by (auto simp: wp_simps intro!: wp_replaceKeyValue [OF lt] wp_putKeyValue [OF lt] fin [OF t] quit intro: same_trans [OF t(1)] simp: t(2))
  next
    fix t :: "'a appdb" assume "same_db s t" "db_view t = db_view s"
    then show "op_post (AddApp app) s False t" by (rule quit)
  qed
qed

lemma op_quit: "wt s \<Longrightarrow> same_db s u \<Longrightarrow> db_view u = db_view s \<Longrightarrow> op_post op s False u"
  unfolding op_post_def using wt_keep [of s u] table_keep [of u s] by simp

lemma op_records:
  assumes "wt s" "same_db s t" "same_db t u" "db_view t = db_view s" "proper_app app"
    "db_view u = (db_view t)(app \<mapsto> VList (map IActor rs))"
    "table_spec op (app_table s) = (fst (app_table s), (snd (app_table s))(app := rs))"
  shows "op_post op s True u"
proof -
  have u: "same_db s u" "db_view u = (db_view s)(app \<mapsto> VList (map IActor rs))"
    using same_trans [OF assms(2,3)] assms(4,6) by simp_all
  have "wt u" by (rule wt_records [OF assms(1) u(1) assms(5) u(2)])
  moreover have "app_table u = (fst (app_table s), (snd (app_table s))(app := rs))" by (rule table_records [OF assms(5) u(2)])
  ultimately show ?thesis using assms(7) u(1) by (simp add: op_post_def)
qed

lemma list_of: "as_list e (Some (VList xs)) = Inr xs"
  by (simp add: as_list_def)

lemma snd_table: "proper_app app \<Longrightarrow> snd (app_table s) app = records_of (db_view s app)"
  by (simp add: app_table_def)

lemma table_spec_actor:
  "table_spec (AddActor app r) x = (fst x, (snd x)(app := snd x app @ [r]))"
  "table_spec (DelActor app a) x = (fst x, (snd x)(app := filter (\<lambda>r. ac_actor r \<noteq> a) (snd x app)))"
  "table_spec (DelApp app) x = (remove1 app (fst x), (snd x)(app := []))"
  by (cases x; simp)+

lemma wp_addAppActor:
  assumes "wt s" "proper_app app"
  shows "wp (addAppActor app r) (op_post (AddActor app r) s) (\<lambda>_ _. False) s"
  unfolding addAppActor_def try_ok_def wp_tryA wp_bnd wp_ret
proof (rule wp_getKeyValue [OF wt_lawful [OF assms(1)]], unfold is_records_or [OF wt_at(2) [OF assms]])
  fix t assume t: "same_db s t" "db_view t = db_view s"
  have lt: "lawful_db t" using t assms by (simp add: lawful_same wt_lawful)
  have rs: "map IActor (records_of (db_view s app)) @ [IActor r] = map IActor (records_of (db_view s app) @ [r])" by simp
  show "wp (lift (as_list TypeError (Some (VList (map IActor (records_of (db_view s app)))))))
     (\<lambda>x. wp (replaceKeyValue app (VList (x @ [IActor r]))) (\<lambda>x. op_post (AddActor app r) s True) (\<lambda>e. op_post (AddActor app r) s False))
     (\<lambda>e. op_post (AddActor app r) s False) t"
    unfolding list_of wp_lift sum.case rs
  proof (rule wp_replaceKeyValue [OF lt])
    fix x u assume "same_db t u" "db_view u = (db_view t)(app \<mapsto> VList (map IActor (records_of (db_view s app) @ [r])))"
    from op_records [OF assms(1) t(1) this(1) t(2) assms(2) this(2)]
    show "op_post (AddActor app r) s True u" by (simp add: table_spec_actor snd_table assms(2))
  next
    fix e u assume u: "same_db t u" "db_view u = db_view t"
    show "op_post (AddActor app r) s False u"
      by (rule op_quit [OF assms(1) same_trans [OF t(1) u(1)]]) (simp add: u(2) t(2))
  qed
next
  fix t :: "'a appdb" assume "same_db s t" "db_view t = db_view s"
  then show "op_post (AddActor app r) s False t" by (rule op_quit [OF assms(1)])
qed

lemma wp_delAppActor:
  assumes "wt s" "proper_app app"
  shows "wp (delAppActor app a) (op_post (DelActor app a) s) (\<lambda>_ _. False) s"
  unfolding delAppActor_def try_ok_def wp_tryA wp_bnd wp_ret
proof (rule wp_getKeyValue [OF wt_lawful [OF assms(1)]], unfold is_records_or [OF wt_at(2) [OF assms]])
  fix t assume t: "same_db s t" "db_view t = db_view s"
  have lt: "lawful_db t" using t assms by (simp add: lawful_same wt_lawful)
  show "wp (lift (as_list TypeError (Some (VList (map IActor (records_of (db_view s app)))))))
     (\<lambda>x. wp (lift (actors_where (\<lambda>r. ac_actor r \<noteq> a) x))
        (\<lambda>x. wp (replaceKeyValue app (VList (map IActor x))) (\<lambda>x. op_post (DelActor app a) s True) (\<lambda>e. op_post (DelActor app a) s False))
        (\<lambda>e. op_post (DelActor app a) s False))
     (\<lambda>e. op_post (DelActor app a) s False) t"
    unfolding list_of wp_lift sum.case actors_where_records
  proof (rule wp_replaceKeyValue [OF lt])
    fix x u assume "same_db t u" "db_view u = (db_view t)(app \<mapsto> VList (map IActor (filter (\<lambda>r. ac_actor r \<noteq> a) (records_of (db_view s app)))))"
    from op_records [OF assms(1) t(1) this(1) t(2) assms(2) this(2)]
    show "op_post (DelActor app a) s True u" by (simp add: table_spec_actor snd_table assms(2))
  next
    fix e u assume u: "same_db t u" "db_view u = db_view t"
    show "op_post (DelActor app a) s False u"
      by (rule op_quit [OF assms(1) same_trans [OF t(1) u(1)]]) (simp add: u(2) t(2))
  qed
next
  fix t :: "'a appdb" assume "same_db s t" "db_view t = db_view s"
  then show "op_post (DelActor app a) s False t" by (rule op_quit [OF assms(1)])
qed

lemma remove1_names: "remove1 (IName app) (map IName ns) = map IName (remove1 app ns)"
  by (induction ns) auto

lemma wp_delApp:
  assumes "wt s" "proper_app app"
  shows "wp (delApp app) (op_post (DelApp app) s) (\<lambda>_ _. False) s"
  unfolding delApp_def try_ok_def wp_tryA wp_bnd wp_ret
proof (rule wp_getKeyValue [OF wt_lawful [OF assms(1)]], unfold is_names_or [OF wt_at(1) [OF assms(1)]])
  let ?ns = "names_of (db_view s RIAPSAPPS)"
  fix t assume t: "same_db s t" "db_view t = db_view s"
  have lt: "lawful_db t" using t assms by (simp add: lawful_same wt_lawful)
  have part: "op_post (DelApp app) s False u" if "same_db t u" "db_view u = (db_view t)(app := None)" for u
  proof -
    have u: "same_db s u" "db_view u = (db_view s)(app := None)" using same_trans [OF t(1) that(1)] that(2) t(2) by simp_all
    have "wt u" by (rule wt_delete [OF assms(1) u])
    with table_delete [OF assms(2) u(2)] u(1) show ?thesis by (simp add: op_post_def)
  qed
  have fin: "op_post (DelApp app) s True v" if "same_db t u" "db_view u = (db_view t)(app := None)" "same_db u v"
    "db_view v = (db_view u)(RIAPSAPPS \<mapsto> VList (map IName (remove1 app ?ns)))" for u v
  proof -
    have u: "same_db s u" "db_view u = (db_view s)(app := None)" using same_trans [OF t(1) that(1)] that(2) t(2) by simp_all
    have "wt v" by (rule wt_names [OF wt_delete [OF assms(1) u] that(3,4)])
    moreover have "app_table v = (remove1 app ?ns, (snd (app_table s))(app := []))"
      using table_names [OF that(4)] table_delete [OF assms(2) u(2)] by simp
    ultimately show ?thesis using same_trans [OF u(1) that(3)] by (simp add: op_post_def table_spec_actor app_table_def)
  qed
  have quit: "op_post (DelApp app) s False u" if "same_db t u" "db_view u = db_view t" for u
    by (rule op_quit [OF assms(1) same_trans [OF t(1) that(1)]]) (simp add: that(2) t(2))
  have l: "lawful_db u" if "same_db t u" for u using that lt by (simp add: lawful_same)
  show "wp (lift (as_list TypeError (Some (VList (map IName ?ns)))))
     (\<lambda>x. wp (if IName app \<notin> set x then ret False
           else bnd (app_delKey app) (\<lambda>_. bnd (replaceKeyValue RIAPSAPPS (VList (remove1 (IName app) x))) (\<lambda>_. ret True)))
        (op_post (DelApp app) s) (\<lambda>e. op_post (DelApp app) s False))
     (\<lambda>e. op_post (DelApp app) s False) t"
    unfolding list_of wp_lift sum.case wp_if remove1_names wp_bnd wp_ret
    by (auto intro!: wp_delKey [OF lt] wp_replaceKeyValue [OF l] intro: part fin same_db_refl quit same_trans)
next
  fix t :: "'a appdb" assume "same_db s t" "db_view t = db_view s"
  then show "op_post (DelApp app) s False t" by (rule op_quit [OF assms(1)])
qed


text \<open>A store that works, as a dictionary.\<close>

definition dict_lmdb :: "(string, dbval) dict lmdb" where
  "dict_lmdb = \<lparr> ld_open = \<lambda>_. ret (), ld_get = \<lambda>k s. (Inr (map_of s k), s), ld_put = \<lambda>k v s. (Inr True, AList.update k v s),
     ld_replace = \<lambda>k v s. (Inr (), AList.update k v s), ld_delete = \<lambda>k s. (Inr (has_key s k), AList.delete k s), ld_view = map_of \<rparr>"

lemma dict_lmdb_laws: "lmdb_laws dict_lmdb"
  by (auto simp: lmdb_laws_def dict_lmdb_def fun_eq_iff)

definition empty_db :: "(string, dbval) dict appdb" where
  "empty_db = \<lparr> ad_l = dict_lmdb, ad_store = [], ad_create = False \<rparr>"

lemma empty_db_wt: "lawful_db empty_db" "well_typed (db_view empty_db)"
  by (simp_all add: lawful_db_def empty_db_def dict_lmdb_laws well_typed_def db_view_def is_names_def is_records_def)
    (simp_all add: dict_lmdb_def)


section \<open>Types and the constructor\<close>

lemma wp_wt_delKey: "wt s \<Longrightarrow> wp (app_delKey k) (\<lambda>_. wt) (\<lambda>_. wt) s"
  by (rule wp_delKey [OF wt_lawful]) (auto intro: wt_delete wt_keep)

lemma wp_wt_closeDbase:
  assumes "wt s"
  shows "wp closeDbase (\<lambda>_. wt) (\<lambda>_. wt) s"
proof -
  have del: "wp (bnd (app_delKey k) (\<lambda>_. ret ())) (\<lambda>_. wt) (\<lambda>_. wt) t" if "wt t" for k and t :: "'a appdb"
    using wp_wt_delKey [OF that, of k] by (simp add: wp_bnd wp_ret)
  have rest: "wp (seqA [forA apps (\<lambda>i. case i of IName app \<Rightarrow> bnd (app_delKey app) (\<lambda>_. ret ()) | IActor _ \<Rightarrow> raise TypeError),
      bnd (app_delKey RIAPSDISCO) (\<lambda>_. ret ()), bnd (app_delKey RIAPSAPPS) (\<lambda>_. ret ())]) (\<lambda>_. wt) (\<lambda>_. wt) t"
    if "wt t" for apps and t :: "'a appdb"
    by (rule wp_seqA_inv [where I = wt, OF that])
      (auto intro!: wp_forA_inv del simp: wp_raise split: dbitem.split)
  have "wp getApps (\<lambda>_. wt) (\<lambda>_. wt) s"
    unfolding getApps_def wp_rd wp_if wp_bnd wp_ret
    using assms
    by (auto intro!: wp_getKeyValue [OF wt_lawful] intro: wt_keep simp: wp_lift split: sum.split)
  then show ?thesis unfolding closeDbase_def wp_bnd by (rule wp_mono) (auto intro: rest)
qed

lemma wp_wt_run: "wt s \<Longrightarrow> ad_proper op \<Longrightarrow> wp (ad_run op) (\<lambda>_. wt) (\<lambda>_. wt) s"
proof (cases op)
  case (SetDisco h p)
  assume "wt s" with SetDisco show ?thesis
    by (auto simp: setDisco_def intro!: wp_putKeyValue [OF wt_lawful] intro: wt_disco wt_keep)
next
  case (SetDiscoCommand c)
  assume "wt s" with SetDiscoCommand show ?thesis
    by (auto simp: setDiscoCommand_def intro!: wp_putKeyValue [OF wt_lawful] intro: wt_disco wt_keep)
next
  case CloseDbase
  assume "wt s" with CloseDbase show ?thesis by (simp add: wp_bnd wp_ret wp_wt_closeDbase)
qed (auto simp: delDiscoCommand_def op_post_def intro: wp_wt_delKey wp_mono [OF wp_addApp] wp_mono [OF wp_delApp]
    wp_mono [OF wp_addAppActor] wp_mono [OF wp_delAppActor])

definition ad_step :: "'l appdb \<Rightarrow> ad_op \<Rightarrow> (pyexc + unit) \<times> 'l appdb" where
  "ad_step s op = (Inr (), exec (ad_run op) s)"

interpretation app_db: stepped_object ad_step ad_proper wt
proof unfold_locales
  fix s :: "'a appdb" and e r t assume "wt s" "ad_proper e" "ad_step s e = (Inr r, t)"
  then show "wt t" using wp_wt_run [of s e] by (auto simp: ad_step_def exec_def wp_def split: prod.splits sum.splits)
qed

text \<open>
  C32: the values of the database keep their types. After any operations, of which any may fail
  at any transaction, the applications are a list of names, each application has a list of
  records of actors, and the two entries of the discovery service are what they should be.
\<close>

theorem app_db_well_typed:
  assumes "lawful_db s" "well_typed (db_view s)" "list_all ad_proper ops" "run_steps ad_step s ops = Some t"
  shows "well_typed (db_view t)"
  using app_db.run_keeps [OF _ assms(3,4)] assms(1,2) by (simp add: wt_def)

theorem app_db_well_typed_witness:
  "\<exists>t. run_steps ad_step empty_db [AddApp ''x'', SetDisco ''h'' ''1'', DelApp ''x'', CloseDbase] = Some t \<and> well_typed (db_view t)"
proof -
  obtain t where t: "run_steps ad_step empty_db [AddApp ''x'', SetDisco ''h'' ''1'', DelApp ''x'', CloseDbase] = Some t"
    by (simp add: ad_step_def)
  have "list_all ad_proper [AddApp ''x'', SetDisco ''h'' ''1'', DelApp ''x'', CloseDbase]"
    by (simp add: proper_app_def RIAPSAPPS_def RIAPSDISCO_def RIAPSDISCOCMD_def)
  from app_db_well_typed [OF empty_db_wt this t] t show ?thesis by blast
qed

text \<open>
  The constructor returns whenever a database can be created. It opens the database at its
  first attempt, or creates it at the second, and \<open>create\<close> says which.
\<close>

theorem constructor_returns:
  assumes "\<And>l. fst (ld_open L True l) = Inr ()" "\<not> there \<or> writable"
    "fst (ld_open L False l) \<in> {Inr (), Inl LmdbError}"
  shows "\<exists>s. appdb_init L l there writable = Some (Inr (), s) \<and>
    (ad_create s \<longleftrightarrow> fst (ld_open L False l) = Inl LmdbError)"
proof -
  obtain t where t: "ld_open L False l = (fst (ld_open L False l), t)" by (metis prod.collapse)
  obtain u where u: "ld_open L True t = (Inr (), u)" using assms(1) [of t] by (metis prod.collapse)
  show ?thesis
    using assms(2,3) t u by (auto simp: appdb_init_def Let_def open_db.simps)
qed

theorem constructor_returns_witness:
  "\<exists>s. appdb_init dict_lmdb [] False False = Some (Inr (), s) \<and> \<not> ad_create s"
  using constructor_returns [of dict_lmdb False False "[]"] by (auto simp: dict_lmdb_def ret_def)

text \<open>
  In the run that creates the database its applications are invisible. \<open>getApps\<close> answers the
  empty list whatever was added, and \<open>closeDbase\<close> leaves the records of every application behind.
\<close>

theorem created_database_hides_apps:
  assumes "ad_create s" "lawful_db s" "well_typed (db_view s)" "addApp app s = (Inr True, t)"
  shows "getApps t = (Inr [], t) \<and> app \<in> set (fst (app_table t)) \<and>
    (\<forall>u. closeDbase t = (Inr (), u) \<longrightarrow> snd (app_table u) = snd (app_table t))"
proof -
  have "wt s" using assms(2,3) by (simp add: wt_def)
  from wp_returns [OF wp_addApp [OF this] assms(4)] have p: "op_post (AddApp app) s True t" .
  then have w: "wt t" and "app \<in> set (fst (app_table t))" by (cases "app_table s"; auto simp: op_post_def)+
  have c: "ad_create t" using p assms(1) by (simp add: op_post_def same_db_def)
  have g: "getApps t = (Inr [], t)" using c by (simp add: getApps_def rd_def ret_def)
  have "snd (app_table u) = snd (app_table t)" if "closeDbase t = (Inr (), u)" for u
  proof -
    have same: "snd (app_table v') = snd (app_table v)"
      if "db_view v' = (db_view v)(k := None)" "k = RIAPSDISCO \<or> k = RIAPSAPPS" for v v' k
      using that by (auto simp: app_table_def fun_eq_iff not_proper)
    have del: "wp (app_delKey k) (\<lambda>_ v'. wt v' \<and> snd (app_table v') = snd (app_table t)) (\<lambda>_ _. True) v"
      if v: "wt v" "snd (app_table v) = snd (app_table t)" "k = RIAPSDISCO \<or> k = RIAPSAPPS" for k v
      by (rule wp_delKey [OF wt_lawful [OF v(1)]]) (use v same wt_delete in metis)+
    let ?J = "\<lambda>v. wt v \<and> snd (app_table v) = snd (app_table t)"
    have del1: "wp (bnd (app_delKey k) (\<lambda>_. ret ())) (\<lambda>_. ?J) (\<lambda>_ _. True) v"
      if "?J v" "k = RIAPSDISCO \<or> k = RIAPSAPPS" for k v
      by (rule wp_bndI [where J = ?J, OF del]) (use that in \<open>simp_all add: wp_ret\<close>)
    have "wp (seqA [bnd (app_delKey RIAPSDISCO) (\<lambda>_. ret ()), bnd (app_delKey RIAPSAPPS) (\<lambda>_. ret ())])
        (\<lambda>_. ?J) (\<lambda>_ _. True) t"
      by (rule wp_seqA_inv) (use w del1 in auto)
    moreover have "closeDbase t = seqA [bnd (app_delKey RIAPSDISCO) (\<lambda>_. ret ()), bnd (app_delKey RIAPSAPPS) (\<lambda>_. ret ())] t"
      by (simp add: closeDbase_def bnd_def g seqA.simps forA.simps ret_def)
    ultimately show ?thesis using that wp_returns [of _ "\<lambda>_. ?J"] by fastforce
  qed
  with g \<open>app \<in> set (fst (app_table t))\<close> show ?thesis by blast
qed

theorem created_database_hides_apps_witness:
  "\<exists>t. addApp ''x'' (empty_db\<lparr>ad_create := True\<rparr>) = (Inr True, t) \<and> getApps t = (Inr [], t) \<and> ''x'' \<in> set (fst (app_table t))"
proof -
  let ?s = "empty_db\<lparr>ad_create := True\<rparr>"
  have w: "lawful_db ?s" "well_typed (db_view ?s)"
    using empty_db_wt by (simp_all add: lawful_db_def db_view_def)
  obtain t where "addApp ''x'' ?s = (Inr True, t)"
    by (simp add: addApp_def try_ok_def tryA_def getKeyValue_def putKeyValue_def txn_def bnd_def ret_def lift_def empty_db_def dict_lmdb_def)
  with created_database_hides_apps [OF _ w this] show ?thesis by auto
qed

end
