(* ===== verification/ProcMon.thy ===== *)
theory ProcMon
  imports Prelude
begin

text \<open>
  The process monitor of the deployment manager (\<open>riaps/deplo/procm.py\<close>): one \<open>ProcessMonitor\<close> thread
  per name, which waits for the end of a process and, unless it was released, reports it and waits
  for the answer, and the \<open>ProcessManager\<close>, the table of these threads.

  \<^item> A process is its pid. A thread object is its index in \<open>pm_threads\<close>, since a thread that was
    released lives on outside the table until its process ends.
  \<^item> \<open>proc.wait()\<close> is a wait for the process the field held when it was called, also when the field
    is set anew meanwhile.
  \<^item> A thread moves in two places, when its process has ended and when it is answered;
    \<open>pm_step\<close> interleaves these moves with the calls of the manager and the ends of processes.
\<close>

section \<open>Threads and the table\<close>

datatype pt_at = WaitsFor int | WaitsAnswer | ThreadOver

record pthread =
  pt_name :: string
  pt_proc :: int
  pt_at :: pt_at
  pt_released :: bool
  pt_terminated :: bool
  pt_unexpected :: bool

record procm =
  pm_monitors :: "(string, int \<times> nat) dict"
  pm_threads :: "pthread list"
  pm_reports :: "string list"

type_synonym 'a pmact = "(procm, 'a) act"

definition procm_new :: procm where
  "procm_new = \<lparr> pm_monitors = [], pm_threads = [], pm_reports = [] \<rparr>"

definition pthread_start :: "string \<Rightarrow> int \<Rightarrow> pthread" where
  "pthread_start q p = \<lparr> pt_name = q, pt_proc = p, pt_at = WaitsFor p, pt_released = False,
     pt_terminated = False, pt_unexpected = False \<rparr>"

definition on_pthread :: "nat \<Rightarrow> (pthread \<Rightarrow> pthread) \<Rightarrow> unit pmact" where
  "on_pthread i f = upd (\<lambda>s. s\<lparr>pm_threads := (pm_threads s)[i := f (pm_threads s ! i)]\<rparr>)"

section \<open>The manager\<close>

definition pm_put :: "string \<Rightarrow> int \<Rightarrow> nat \<Rightarrow> unit pmact" where
  "pm_put q p i = upd (\<lambda>s. s\<lparr>pm_monitors := AList.update q (p, i) (pm_monitors s)\<rparr>)"

definition procm_monitor :: "string \<Rightarrow> int \<Rightarrow> unit pmact" where
  "procm_monitor q p = rd (\<lambda>s. s) (\<lambda>s. case map_of (pm_monitors s) q of
     Some (_, i) \<Rightarrow> seqA [on_pthread i (\<lambda>t. t\<lparr>pt_proc := p\<rparr>), pm_put q p i]
   | None \<Rightarrow> seqA [pm_put q p (length (pm_threads s)),
       upd (\<lambda>s. s\<lparr>pm_threads := pm_threads s @ [pthread_start q p]\<rparr>)])"

definition procm_release :: "string \<Rightarrow> unit pmact" where
  "procm_release q = rd (\<lambda>s. s) (\<lambda>s. case map_of (pm_monitors s) q of
     Some (_, i) \<Rightarrow> whenA (\<not> pt_unexpected (pm_threads s ! i)) (seqA [
       on_pthread i (\<lambda>t. t\<lparr>pt_released := True\<rparr>),
       upd (\<lambda>s. s\<lparr>pm_monitors := AList.delete q (pm_monitors s)\<rparr>)])
   | None \<Rightarrow> ret ())"

text \<open>\<open>__destroy__\<close> calls \<open>terminate\<close> on the records of the table, which have no such attribute.\<close>

definition procm_destroy :: "unit pmact" where
  "procm_destroy = rd pm_monitors (\<lambda>m. seqA [
     forA m (\<lambda>_. raise AttributeError), upd (\<lambda>s. s\<lparr>pm_monitors := []\<rparr>)])"

section \<open>The threads\<close>

text \<open>\<open>wait()\<close> has returned.\<close>

definition pt_ended :: "nat \<Rightarrow> unit pmact" where
  "pt_ended i = rd (\<lambda>s. pm_threads s ! i) (\<lambda>t.
     if pt_terminated t \<or> pt_released t then on_pthread i (\<lambda>t. t\<lparr>pt_at := ThreadOver\<rparr>)
     else seqA [
       on_pthread i (\<lambda>t. t\<lparr>pt_unexpected := True, pt_at := WaitsAnswer\<rparr>),
       upd (\<lambda>s. s\<lparr>pm_reports := pm_reports s @ [pt_name t]\<rparr>)])"

text \<open>The answer has come, and the thread waits for the process it has now.\<close>

definition pt_answered :: "nat \<Rightarrow> unit pmact" where
  "pt_answered i = on_pthread i (\<lambda>t. t\<lparr>pt_unexpected := False, pt_at := WaitsFor (pt_proc t)\<rparr>)"

text \<open>The manager's socket sends an answer by the name of the thread; only one waiting for it takes it.\<close>

fun answer_thread :: "string \<Rightarrow> pthread list \<Rightarrow> nat option" where
  "answer_thread q [] = None"
| "answer_thread q (t # ts) = (if pt_name t = q \<and> pt_at t = WaitsAnswer then Some 0
     else map_option Suc (answer_thread q ts))"

definition procm_answer :: "string \<Rightarrow> unit pmact" where
  "procm_answer q = rd pm_threads (\<lambda>ts. case answer_thread q ts of None \<Rightarrow> ret () | Some i \<Rightarrow> pt_answered i)"

section \<open>Runs\<close>

record pm_sys =
  ps_m :: procm
  ps_dead :: "int list"

text \<open>A process monitored anew is one that runs: a call with one that has ended is excluded.\<close>

inductive pm_step :: "pm_sys \<Rightarrow> pm_sys \<Rightarrow> bool" where
  dies: "pm_step s (s\<lparr>ps_dead := p # ps_dead s\<rparr>)"
| monitors: "procm_monitor q p (ps_m s) = (Inr (), m) \<Longrightarrow> pm_step s (s\<lparr>ps_m := m\<rparr>)"
| releases: "procm_release q (ps_m s) = (Inr (), m) \<Longrightarrow> pm_step s (s\<lparr>ps_m := m\<rparr>)"
| ends: "i < length (pm_threads (ps_m s)) \<Longrightarrow> pt_at (pm_threads (ps_m s) ! i) = WaitsFor p \<Longrightarrow>
    p \<in> set (ps_dead s) \<Longrightarrow> pt_ended i (ps_m s) = (Inr (), m) \<Longrightarrow> pm_step s (s\<lparr>ps_m := m\<rparr>)"
| answers: "procm_answer q (ps_m s) = (Inr (), m) \<Longrightarrow> pm_step s (s\<lparr>ps_m := m\<rparr>)"

inductive pm_reach :: "pm_sys \<Rightarrow> bool" where
  start: "pm_reach \<lparr> ps_m = procm_new, ps_dead = [] \<rparr>"
| step: "pm_reach s \<Longrightarrow> pm_step s t \<Longrightarrow> pm_reach t"

section \<open>The table and the threads agree\<close>

definition pm_live :: "procm \<Rightarrow> nat \<Rightarrow> bool" where
  "pm_live m i \<longleftrightarrow> i < length (pm_threads m) \<and> \<not> pt_released (pm_threads m ! i)"

text \<open>
  The entries of the table are the threads that have not been released, under their names and with
  their processes; none of these has ended, and one is \<open>unexpected\<close> exactly while it waits for an
  answer, in which case it cannot be released.
\<close>

definition pthread_ok :: "pthread \<Rightarrow> bool" where
  "pthread_ok t \<longleftrightarrow> \<not> pt_terminated t \<and> (pt_unexpected t \<longleftrightarrow> pt_at t = WaitsAnswer) \<and>
     (pt_at t = ThreadOver \<longrightarrow> pt_released t) \<and> (pt_released t \<longrightarrow> \<not> pt_unexpected t)"

definition pm_inv :: "procm \<Rightarrow> bool" where
  "pm_inv m \<longleftrightarrow> list_all pthread_ok (pm_threads m) \<and>
     (\<forall>q p i. map_of (pm_monitors m) q = Some (p, i) \<longleftrightarrow>
        pm_live m i \<and> pt_name (pm_threads m ! i) = q \<and> pt_proc (pm_threads m ! i) = p)"

lemma pm_inv_iff: "pm_inv m \<Longrightarrow> map_of (pm_monitors m) q = Some (p, i) \<longleftrightarrow>
    pm_live m i \<and> pt_name (pm_threads m ! i) = q \<and> pt_proc (pm_threads m ! i) = p"
  unfolding pm_inv_def by (elim conjE allE)

lemma pm_inv_entry: "pm_inv m \<Longrightarrow> map_of (pm_monitors m) q = Some (p, i) \<Longrightarrow>
    pm_live m i \<and> pt_name (pm_threads m ! i) = q \<and> pt_proc (pm_threads m ! i) = p"
  by (simp add: pm_inv_iff)

lemma pm_inv_live: "pm_inv m \<Longrightarrow> pm_live m i \<Longrightarrow>
    map_of (pm_monitors m) (pt_name (pm_threads m ! i)) = Some (pt_proc (pm_threads m ! i), i)"
  by (simp add: pm_inv_iff)

lemma pm_inv_one: "pm_inv m \<Longrightarrow> pm_live m i \<Longrightarrow> pm_live m j \<Longrightarrow>
    pt_name (pm_threads m ! i) = pt_name (pm_threads m ! j) \<Longrightarrow> i = j"
  by (metis pm_inv_live option.inject prod.inject)

lemma pm_inv_thread: "pm_inv m \<Longrightarrow> i < length (pm_threads m) \<Longrightarrow> pthread_ok (pm_threads m ! i)"
  by (simp add: pm_inv_def list_all_length)

lemmas pm_run = seqA.simps bnd_def rd_def ret_def upd_def raise_def whenA_def on_pthread_def pm_put_def

text \<open>A move of one thread that keeps its name, its process and whether it is released.\<close>

lemma pm_inv_move:
  assumes "pm_inv m" "i < length (pm_threads m)" "pthread_ok t"
    "pt_name t = pt_name (pm_threads m ! i)" "pt_proc t = pt_proc (pm_threads m ! i)"
    "pt_released t = pt_released (pm_threads m ! i)"
    "pm_threads m' = (pm_threads m)[i := t]" "pm_monitors m' = pm_monitors m"
  shows "pm_inv m'"
proof -
  have "pm_live m' j = pm_live m j"
    "pt_name ((pm_threads m)[i := t] ! j) = pt_name (pm_threads m ! j)"
    "pt_proc ((pm_threads m)[i := t] ! j) = pt_proc (pm_threads m ! j)" for j
    using assms by (auto simp: pm_live_def nth_list_update)
  moreover have "pthread_ok ((pm_threads m)[i := t] ! j)" if "j < length (pm_threads m)" for j
    using assms(2,3) pm_inv_thread [OF assms(1) that] that by (simp add: nth_list_update)
  ultimately show ?thesis
    using assms(1,7,8) unfolding pm_inv_def by (simp add: list_all_length)
qed

lemma pm_inv_monitor:
  assumes "pm_inv m" "procm_monitor q p m = (Inr (), m')"
  shows "pm_inv m'"
proof (cases "map_of (pm_monitors m) q")
  case None
  let ?n = "length (pm_threads m)"
  have m': "m' = m\<lparr>pm_monitors := AList.update q (p, ?n) (pm_monitors m), pm_threads := pm_threads m @ [pthread_start q p]\<rparr>"
    using assms(2) None by (simp add: procm_monitor_def pm_run)
  have live: "pm_live m' j \<longleftrightarrow> pm_live m j \<or> j = ?n" for j
    unfolding m' pm_live_def by (auto simp: nth_append pthread_start_def)
  have fresh: "pt_name (pm_threads m ! j) \<noteq> q" if "pm_live m j" for j
    using pm_inv_live [OF assms(1) that] None by auto
  have nth: "pm_threads m' ! j = (if j = ?n then pthread_start q p else pm_threads m ! j)" if "pm_live m' j" for j
    using that live unfolding m' by (auto simp: nth_append pm_live_def)
  show ?thesis
    unfolding pm_inv_def
  proof (intro conjI allI)
    show "list_all pthread_ok (pm_threads m')"
      using assms(1) unfolding m' by (simp add: pm_inv_def pthread_ok_def pthread_start_def)
  next
    fix q' p' i
    have new: "\<not> pm_live m ?n" by (simp add: pm_live_def)
    have at: "map_of (pm_monitors m') q' = (if q' = q then Some (p, ?n) else map_of (pm_monitors m) q')"
      by (simp add: m')
    show "(map_of (pm_monitors m') q' = Some (p', i)) =
        (pm_live m' i \<and> pt_name (pm_threads m' ! i) = q' \<and> pt_proc (pm_threads m' ! i) = p')"
    proof (cases "i = ?n")
      case True
      then show ?thesis
        using new live [of i] nth [of i] pm_inv_iff [OF assms(1), of q' p' i] by (auto simp: at pthread_start_def)
    next
      case False
      then show ?thesis
        using live [of i] nth [of i] fresh [of i] pm_inv_iff [OF assms(1), of q' p' i] by (auto simp: at)
    qed
  qed
next
  case (Some e)
  obtain p0 i where e: "e = (p0, i)" by force
  note i = pm_inv_entry [OF assms(1) Some [unfolded e]]
  let ?t = "(pm_threads m ! i)\<lparr>pt_proc := p\<rparr>"
  have m': "m' = m\<lparr>pm_threads := (pm_threads m)[i := ?t], pm_monitors := AList.update q (p, i) (pm_monitors m)\<rparr>"
    using assms(2) Some e by (simp add: procm_monitor_def pm_run)
  have live: "pm_live m' j = pm_live m j" "pt_name (pm_threads m' ! j) = pt_name (pm_threads m ! j)"
    "pm_live m j \<Longrightarrow> pt_proc (pm_threads m' ! j) = (if j = i then p else pt_proc (pm_threads m ! j))" for j
    using i unfolding m' by (auto simp: pm_live_def nth_list_update)
  show ?thesis
    unfolding pm_inv_def
  proof (intro conjI allI)
    show "list_all pthread_ok (pm_threads m')"
      using assms(1) i unfolding m' by (auto simp: pm_inv_def pm_live_def pthread_ok_def list_all_length nth_list_update)
  next
    fix q' p' j
    have at: "map_of (pm_monitors m') q' = (if q' = q then Some (p, i) else map_of (pm_monitors m) q')"
      by (simp add: m')
    show "(map_of (pm_monitors m') q' = Some (p', j)) =
        (pm_live m' j \<and> pt_name (pm_threads m' ! j) = q' \<and> pt_proc (pm_threads m' ! j) = p')"
    proof (cases "j = i")
      case True
      then show ?thesis
        using live [of i] i pm_inv_iff [OF assms(1), of q' p' i] by (auto simp: at)
    next
      case False
      have "\<not> (pm_live m j \<and> pt_name (pm_threads m ! j) = q)"
        using False i pm_inv_one [OF assms(1), of i j] by auto
      with False show ?thesis
        using live [of j] pm_inv_iff [OF assms(1), of q' p' j] by (auto simp: at)
    qed
  qed
qed

lemma pm_inv_release:
  assumes "pm_inv m" "procm_release q m = (Inr (), m')"
  shows "pm_inv m'"
proof (cases "\<exists>p i. map_of (pm_monitors m) q = Some (p, i) \<and> \<not> pt_unexpected (pm_threads m ! i)")
  case False
  then have "m' = m" using assms(2) by (auto simp: procm_release_def pm_run split: option.splits if_splits)
  with assms(1) show ?thesis by simp
next
  case True
  then obtain p i where e: "map_of (pm_monitors m) q = Some (p, i)" and u: "\<not> pt_unexpected (pm_threads m ! i)" by blast
  note i = pm_inv_entry [OF assms(1) e]
  have m': "m' = m\<lparr>pm_threads := (pm_threads m)[i := (pm_threads m ! i)\<lparr>pt_released := True\<rparr>],
      pm_monitors := AList.delete q (pm_monitors m)\<rparr>"
    using assms(2) e u by (simp add: procm_release_def pm_run)
  have live: "pm_live m' j \<longleftrightarrow> pm_live m j \<and> j \<noteq> i" "pt_name (pm_threads m' ! j) = pt_name (pm_threads m ! j)"
    "pt_proc (pm_threads m' ! j) = pt_proc (pm_threads m ! j)" for j
    using i unfolding m' by (auto simp: pm_live_def nth_list_update)
  show ?thesis
    unfolding pm_inv_def
  proof (intro conjI allI)
    show "list_all pthread_ok (pm_threads m')"
      using assms(1) i u unfolding m' by (auto simp: pm_inv_def pm_live_def pthread_ok_def list_all_length nth_list_update)
  next
    fix q' p' j
    have at: "map_of (pm_monitors m') q' = (if q' = q then None else map_of (pm_monitors m) q')"
      by (simp add: m')
    have "pm_live m j \<Longrightarrow> pt_name (pm_threads m ! j) = q \<Longrightarrow> j = i"
      using i pm_inv_one [OF assms(1), of i j] by auto
    with i show "(map_of (pm_monitors m') q' = Some (p', j)) =
        (pm_live m' j \<and> pt_name (pm_threads m' ! j) = q' \<and> pt_proc (pm_threads m' ! j) = p')"
      using live [of j] pm_inv_iff [OF assms(1), of q' p' j] by (auto simp: at)
  qed
qed

lemma pm_inv_ended:
  assumes "pm_inv m" "i < length (pm_threads m)" "pt_ended i m = (Inr (), m')"
  shows "pm_inv m'"
proof -
  note ok = pm_inv_thread [OF assms(1,2)]
  show ?thesis
  proof (cases "pt_released (pm_threads m ! i)")
    case True
    then have "m' = m\<lparr>pm_threads := (pm_threads m)[i := (pm_threads m ! i)\<lparr>pt_at := ThreadOver\<rparr>]\<rparr>"
      using assms(3) by (auto simp: pt_ended_def pm_run)
    with True ok show ?thesis
      using pm_inv_move [OF assms(1,2), of "(pm_threads m ! i)\<lparr>pt_at := ThreadOver\<rparr>" m'] by (auto simp: pthread_ok_def)
  next
    case False
    let ?t = "(pm_threads m ! i)\<lparr>pt_unexpected := True, pt_at := WaitsAnswer\<rparr>"
    have "m' = m\<lparr>pm_threads := (pm_threads m)[i := ?t], pm_reports := pm_reports m @ [pt_name (pm_threads m ! i)]\<rparr>"
      using assms(3) ok False by (auto simp: pt_ended_def pm_run pthread_ok_def)
    with False ok show ?thesis
      using pm_inv_move [OF assms(1,2), of ?t m'] by (simp add: pthread_ok_def)
  qed
qed

lemma answer_thread_Some: "answer_thread q ts = Some i \<Longrightarrow> i < length ts \<and> pt_name (ts ! i) = q \<and> pt_at (ts ! i) = WaitsAnswer"
  by (induction q ts arbitrary: i rule: answer_thread.induct) (auto split: if_splits)

lemma answer_thread_None: "answer_thread q ts = None \<longleftrightarrow> (\<forall>t \<in> set ts. pt_name t = q \<longrightarrow> pt_at t \<noteq> WaitsAnswer)"
  by (induction q ts rule: answer_thread.induct) auto

lemma pm_inv_answer:
  assumes "pm_inv m" "procm_answer q m = (Inr (), m')"
  shows "pm_inv m'"
proof (cases "answer_thread q (pm_threads m)")
  case None
  with assms show ?thesis by (simp add: procm_answer_def pm_run)
next
  case (Some i)
  note i = answer_thread_Some [OF Some]
  let ?t = "(pm_threads m ! i)\<lparr>pt_unexpected := False, pt_at := WaitsFor (pt_proc (pm_threads m ! i))\<rparr>"
  have "m' = m\<lparr>pm_threads := (pm_threads m)[i := ?t]\<rparr>"
    using assms(2) Some i by (auto simp: procm_answer_def pt_answered_def pm_run)
  with i pm_inv_thread [OF assms(1), of i] show ?thesis
    using pm_inv_move [OF assms(1), of i ?t m'] by (simp add: pthread_ok_def)
qed

lemma pm_inv_step: "pm_inv (ps_m s) \<Longrightarrow> pm_step s t \<Longrightarrow> pm_inv (ps_m t)"
  by (erule pm_step.cases) (auto intro: pm_inv_monitor pm_inv_release pm_inv_ended pm_inv_answer)

lemma pm_inv_reach: "pm_reach s \<Longrightarrow> pm_inv (ps_m s)"
proof (induction rule: pm_reach.induct)
  case start
  show ?case by (simp add: pm_inv_def procm_new_def pm_live_def)
next
  case (step s t)
  then show ?case by (blast intro: pm_inv_step)
qed

section \<open>Reports\<close>

text \<open>
  C21: a report is true. In any run of the manager, its threads and the processes, the table holds
  exactly the threads that were not released, one for a name, and a thread reports only the end of
  a process that it waited for and that was in the table, and waits for the answer.
\<close>

theorem reports_are_true:
  assumes "pm_reach s" "pm_step s t"
  shows "(map_of (pm_monitors (ps_m s)) q = Some (p, i) \<longleftrightarrow> pm_live (ps_m s) i \<and>
      pt_name (pm_threads (ps_m s) ! i) = q \<and> pt_proc (pm_threads (ps_m s) ! i) = p) \<and>
    (pm_reports (ps_m t) = pm_reports (ps_m s) \<or>
      (\<exists>q i p. pm_reports (ps_m t) = pm_reports (ps_m s) @ [q] \<and>
        map_of (pm_monitors (ps_m s)) q = Some (pt_proc (pm_threads (ps_m s) ! i), i) \<and>
        pt_at (pm_threads (ps_m s) ! i) = WaitsFor p \<and> p \<in> set (ps_dead s) \<and>
        pt_at (pm_threads (ps_m t) ! i) = WaitsAnswer))"
  (is "?table \<and> ?report")
proof
  note inv = pm_inv_reach [OF assms(1)]
  show ?table by (rule pm_inv_iff [OF inv])
  show ?report
    using assms(2)
  proof (cases rule: pm_step.cases)
    case (ends i p m)
    show ?thesis
    proof (cases "pt_released (pm_threads (ps_m s) ! i)")
      case True
      with ends show ?thesis by (auto simp: pt_ended_def pm_run)
    next
      case False
      with ends(2) have "pm_live (ps_m s) i" by (simp add: pm_live_def)
      with ends False inv pm_inv_thread [OF inv, of i] show ?thesis
        by (intro disjI2 exI [of _ "pt_name (pm_threads (ps_m s) ! i)"] exI [of _ i] exI [of _ p])
          (auto simp: pt_ended_def pm_run pthread_ok_def pm_inv_live)
    qed
  qed (auto simp: procm_monitor_def procm_release_def procm_answer_def pt_answered_def pm_run split: option.splits if_splits)
qed

text \<open>A manager that has started one process, which has ended and been reported.\<close>

definition crashed :: "string \<Rightarrow> int \<Rightarrow> pm_sys" where
  "crashed q p = \<lparr> ps_m = \<lparr> pm_monitors = [(q, (p, 0))],
       pm_threads = [(pthread_start q p)\<lparr>pt_unexpected := True, pt_at := WaitsAnswer\<rparr>], pm_reports = [q] \<rparr>,
     ps_dead = [p] \<rparr>"

definition started :: "string \<Rightarrow> int \<Rightarrow> pm_sys" where
  "started q p = \<lparr> ps_m = \<lparr> pm_monitors = [(q, (p, 0))], pm_threads = [pthread_start q p], pm_reports = [] \<rparr>,
     ps_dead = [p] \<rparr>"

lemma crashed_reach: "pm_reach (started q p)" "pm_step (started q p) (crashed q p)"
proof -
  have "pm_step \<lparr> ps_m = procm_new, ps_dead = [] \<rparr> \<lparr> ps_m = procm_new, ps_dead = [p] \<rparr>"
    using pm_step.dies [of "\<lparr> ps_m = procm_new, ps_dead = [] \<rparr>" p] by simp
  moreover have "pm_step \<lparr> ps_m = procm_new, ps_dead = [p] \<rparr> (started q p)"
    using pm_step.monitors [of q p "\<lparr> ps_m = procm_new, ps_dead = [p] \<rparr>" "ps_m (started q p)"]
    by (simp add: procm_monitor_def pm_run procm_new_def started_def)
  ultimately show "pm_reach (started q p)" by (meson pm_reach.start pm_reach.step)
  show "pm_step (started q p) (crashed q p)"
    using pm_step.ends [of 0 "started q p" p "ps_m (crashed q p)"]
    by (simp add: pt_ended_def pm_run pthread_start_def started_def crashed_def)
qed

theorem reports_are_true_witness:
  "map_of (pm_monitors (ps_m (started ''a.b'' 7))) ''a.b'' = Some (7, 0) \<and>
   pm_reports (ps_m (crashed ''a.b'' 7)) \<noteq> pm_reports (ps_m (started ''a.b'' 7)) \<and>
   pm_live (ps_m (started ''a.b'' 7)) 0"
  using reports_are_true [OF crashed_reach, of "''a.b''" 7 "''a.b''" 7 0]
  by (simp add: started_def crashed_def)

text \<open>
  An actor that is halted after it has crashed, before the manager has handled the report, is
  reported for ever. Its release is ignored, the answer sends the thread back to wait for the same
  ended process, and the run goes on with a further report after each answer.
\<close>

theorem halted_after_crash_reports_forever:
  assumes "map_of (pm_monitors (ps_m s)) q = Some (p, i)" "answer_thread q (pm_threads (ps_m s)) = Some i"
    "pt_unexpected (pm_threads (ps_m s) ! i)" "\<not> pt_released (pm_threads (ps_m s) ! i)"
    "\<not> pt_terminated (pm_threads (ps_m s) ! i)" "pt_proc (pm_threads (ps_m s) ! i) \<in> set (ps_dead s)"
  shows "procm_release q (ps_m s) = (Inr (), ps_m s) \<and>
    (\<exists>t. pm_step\<^sup>*\<^sup>* s t \<and> t = s\<lparr>ps_m := (ps_m s)\<lparr>pm_reports := pm_reports (ps_m s) @ replicate n q\<rparr>\<rparr>)"
proof
  show "procm_release q (ps_m s) = (Inr (), ps_m s)"
    using assms by (simp add: procm_release_def pm_run)
  let ?t = "\<lambda>n. s\<lparr>ps_m := (ps_m s)\<lparr>pm_reports := pm_reports (ps_m s) @ replicate n q\<rparr>\<rparr>"
  let ?th = "pm_threads (ps_m s) ! i"
  note i = answer_thread_Some [OF assms(2)]
  have round: "pm_step\<^sup>*\<^sup>* (?t k) (?t (Suc k))" for k
  proof -
    let ?w = "?th\<lparr>pt_unexpected := False, pt_at := WaitsFor (pt_proc ?th)\<rparr>"
    let ?u = "s\<lparr>ps_m := (ps_m s)\<lparr>pm_threads := (pm_threads (ps_m s))[i := ?w],
      pm_reports := pm_reports (ps_m s) @ replicate k q\<rparr>\<rparr>"
    have first: "pm_step (?t k) ?u"
      using pm_step.answers [of q "?t k" "ps_m ?u"] assms(2) by (simp add: procm_answer_def pt_answered_def pm_run)
    have undo: "(pm_threads (ps_m s))[i := ?w\<lparr>pt_unexpected := True, pt_at := WaitsAnswer\<rparr>] = pm_threads (ps_m s)"
      using i assms(3) by (simp add: list_update_same_conv)
    have "pm_step ?u (?t (Suc k))"
      using pm_step.ends [of i ?u "pt_proc ?th" "ps_m (?t (Suc k))"] i assms(4,5,6) undo
      by (simp add: pt_ended_def pm_run replicate_append_same)
    then have "pm_step\<^sup>*\<^sup>* ?u (?t (Suc k))" by (rule r_into_rtranclp)
    with first show ?thesis by (rule converse_rtranclp_into_rtranclp)
  qed
  have "pm_step\<^sup>*\<^sup>* s (?t n)"
  proof (induction n)
    case 0
    have "?t 0 = s" by simp
    then show ?case by simp
  next
    case (Suc n)
    from Suc round [of n] show ?case by (rule rtranclp_trans)
  qed
  then show "\<exists>t. pm_step\<^sup>*\<^sup>* s t \<and> t = ?t n" by blast
qed

theorem halted_after_crash_reports_forever_witness:
  "\<exists>t. pm_step\<^sup>*\<^sup>* (crashed ''a.b'' 7) t \<and> pm_reports (ps_m t) = replicate 6 ''a.b''"
proof -
  obtain t where "pm_step\<^sup>*\<^sup>* (crashed ''a.b'' 7) t"
    "t = (crashed ''a.b'' 7)\<lparr>ps_m := (ps_m (crashed ''a.b'' 7))\<lparr>pm_reports := pm_reports (ps_m (crashed ''a.b'' 7)) @ replicate 5 ''a.b''\<rparr>\<rparr>"
    using halted_after_crash_reports_forever [of "crashed ''a.b'' 7" "''a.b''" 7 0 5]
    by (auto simp: crashed_def pthread_start_def)
  then show ?thesis by (intro exI [of _ t]) (simp add: crashed_def numeral_eq_Suc)
qed

text \<open>
  A restart hands the thread its new process. When a reported process is replaced, also with
  the release that \<open>stopActor\<close> makes before, the same thread waits for the new process once it is
  answered, and reports nothing until that has ended.
\<close>

theorem restart_watches_the_new_process:
  assumes "pm_inv m" "map_of (pm_monitors m) q = Some (p, i)" "pt_at (pm_threads m ! i) = WaitsAnswer"
    "m' = exec (seqA [procm_release q, procm_monitor q p', procm_answer q]) m"
  shows "pm_inv m' \<and> map_of (pm_monitors m') q = Some (p', i) \<and> pm_threads m' ! i = (pm_threads m ! i)\<lparr>pt_proc := p',
      pt_unexpected := False, pt_at := WaitsFor p'\<rparr> \<and> pm_reports m' = pm_reports m"
proof -
  have i: "pm_live m i" "pt_name (pm_threads m ! i) = q"
    using pm_inv_entry [OF assms(1,2)] by blast+
  have u: "pt_unexpected (pm_threads m ! i)"
    using pm_inv_thread [OF assms(1), of i] i(1) assms(3) by (simp add: pthread_ok_def pm_live_def)
  have r: "procm_release q m = (Inr (), m)"
    using assms(2) u by (simp add: procm_release_def pm_run)
  let ?m = "m\<lparr>pm_threads := (pm_threads m)[i := (pm_threads m ! i)\<lparr>pt_proc := p'\<rparr>],
    pm_monitors := AList.update q (p', i) (pm_monitors m)\<rparr>"
  have mon: "procm_monitor q p' m = (Inr (), ?m)"
    using assms(2) by (simp add: procm_monitor_def pm_run)
  have inv: "pm_inv ?m" by (rule pm_inv_monitor [OF assms(1) mon])
  have live: "i < length (pm_threads ?m)" using i(1) by (simp add: pm_live_def)
  have ans: "answer_thread q (pm_threads ?m) = Some i"
  proof (cases "answer_thread q (pm_threads ?m)")
    case None
    then have "pt_name (pm_threads ?m ! i) = q \<longrightarrow> pt_at (pm_threads ?m ! i) \<noteq> WaitsAnswer"
      using live unfolding answer_thread_None by (meson nth_mem)
    with i assms(3) live show ?thesis by simp
  next
    case (Some j)
    note j = answer_thread_Some [OF Some]
    have "pm_live ?m j"
      using pm_inv_thread [OF inv, of j] j unfolding pthread_ok_def pm_live_def by blast
    moreover have "pm_live ?m i" using i(1) by (simp add: pm_live_def)
    ultimately have "j = i" using pm_inv_one [OF inv, of j i] j i live by simp
    with Some show ?thesis by simp
  qed
  have run: "m' = ?m\<lparr>pm_threads := (pm_threads ?m)[i := (pm_threads ?m ! i)\<lparr>pt_unexpected := False,
      pt_at := WaitsFor p'\<rparr>]\<rparr>"
    using assms(4) r mon ans live by (simp add: exec_def seqA.simps bnd_def procm_answer_def pt_answered_def rd_def upd_def ret_def on_pthread_def)
  have "procm_answer q ?m = (Inr (), m')"
    using ans live by (simp add: run procm_answer_def pt_answered_def rd_def upd_def on_pthread_def)
  from pm_inv_answer [OF inv this] show ?thesis using live by (simp add: run)
qed

theorem restart_watches_the_new_process_witness:
  "pt_at (pm_threads (exec (seqA [procm_release ''a.b'', procm_monitor ''a.b'' 8, procm_answer ''a.b'']) (ps_m (crashed ''a.b'' 7))) ! 0)
    = WaitsFor 8"
proof -
  have "pm_reach (crashed ''a.b'' 7)" using crashed_reach by (blast intro: pm_reach.step)
  from pm_inv_reach [OF this] have inv: "pm_inv (ps_m (crashed ''a.b'' 7))" .
  have e: "map_of (pm_monitors (ps_m (crashed ''a.b'' 7))) ''a.b'' = Some (7, 0)"
    "pt_at (pm_threads (ps_m (crashed ''a.b'' 7)) ! 0) = WaitsAnswer" by (simp_all add: crashed_def)
  from restart_watches_the_new_process [OF inv e refl, of 8] show ?thesis by simp
qed

end
