(* ===== verification/ResMon.thy ===== *)
theory ResMon
  imports Prelude
begin

text \<open>
  The monitors of the resource manager: one thread per actor for its processor time
  (\<open>riaps/deplo/cpumon.py\<close>) and its memory (\<open>memmon.py\<close>), one thread for the disk quotas
  (\<open>spcmon.py\<close>) and one for the network (\<open>netmon.py\<close>). A monitor knows an actor by its name, and
  tells it through the identity it got when the actor registered.

  \<^item> The threads of an actor share their life cycle, the record \<open>rmon\<close>: three event flags and a
    place in the loop. A move of the thread takes the outcome of what it waits for, a measurement
    or an event, which may be an exception.
  \<^item> The tables of the quota and network monitors are shared with the manager under a lock.
  \<^item> Messages are the identities they are sent to, in order.
\<close>

section \<open>Names\<close>

definition fullName :: "string \<Rightarrow> string \<Rightarrow> string" where
  "fullName app actor = app @ ''.'' @ actor"

definition actorIdentity :: "string \<Rightarrow> string \<Rightarrow> int \<Rightarrow> string" where
  "actorIdentity app actor pid = app @ ''.'' @ actor @ ''-'' @ int_str pid"

section \<open>The monitors of an actor\<close>

datatype rm_at = NotStarted | Starting | LoopTop | Watching | Parked | MonOver | MonFailed

record rmon =
  rm_usage :: int
  rm_pid :: "int option"
  rm_devices :: "(string, string) dict"
  rm_running :: bool
  rm_stopped :: bool
  rm_terminated :: bool
  rm_alive :: bool
  rm_at :: rm_at
  rm_sent :: "string list"

type_synonym 'a rmact = "(rmon, 'a) act"

definition rmon_new :: "int \<Rightarrow> rmon" where
  "rmon_new usage = \<lparr> rm_usage = usage, rm_pid = None, rm_devices = [], rm_running = True, rm_stopped = False,
     rm_terminated = False, rm_alive = False, rm_at = NotStarted, rm_sent = [] \<rparr>"

definition rmon_setup :: "int \<Rightarrow> unit rmact" where
  "rmon_setup pid = upd (\<lambda>m. m\<lparr>rm_pid := Some pid\<rparr>)"

definition rmon_addClientDevice :: "string \<Rightarrow> string \<Rightarrow> unit rmact" where
  "rmon_addClientDevice app actor = rd rm_pid (\<lambda>p. case p of None \<Rightarrow> raise AttributeError
     | Some pid \<Rightarrow> upd (\<lambda>m. m\<lparr>rm_devices :=
         AList.update (fullName app actor) (actorIdentity app actor pid) (rm_devices m)\<rparr>))"

text \<open>\<open>start\<close>, once. Before its loop the processor monitor makes a measurement, which may raise.\<close>

definition rmon_start :: "unit rmact" where
  "rmon_start = rd rm_at (\<lambda>a. if a = NotStarted then upd (\<lambda>m. m\<lparr>rm_alive := True, rm_at := Starting\<rparr>) else raise RuntimeError)"

definition rmon_restart :: "unit rmact" where
  "rmon_restart = upd (\<lambda>m. m\<lparr>rm_stopped := False, rm_running := True\<rparr>)"

text \<open>\<open>stop\<close> clears \<open>running\<close> and then waits until \<open>stopped\<close> is set.\<close>

definition rmon_stop :: "unit rmact" where
  "rmon_stop = upd (\<lambda>m. m\<lparr>rm_running := False\<rparr>)"

definition rmon_terminate :: "unit rmact" where
  "rmon_terminate = seqA [
     upd (\<lambda>m. m\<lparr>rm_terminated := True\<rparr>),
     rd rm_stopped (\<lambda>b. whenA b (upd (\<lambda>m. m\<lparr>rm_stopped := False, rm_running := True\<rparr>)))]"

text \<open>The loop's head: the thread parks while it is not to run.\<close>

definition rmon_top :: "unit rmact" where
  "rmon_top = rd (\<lambda>m. m) (\<lambda>m. if \<not> rm_running m then upd (\<lambda>m. m\<lparr>rm_stopped := True, rm_at := Parked\<rparr>)
     else if rm_terminated m then upd (\<lambda>m. m\<lparr>rm_at := MonOver\<rparr>) else upd (\<lambda>m. m\<lparr>rm_at := Watching\<rparr>))"

definition rmon_wake :: "unit rmact" where
  "rmon_wake = rd (\<lambda>m. m) (\<lambda>m. whenA (rm_running m)
     (upd (\<lambda>m. m\<lparr>rm_at := (if rm_terminated m then MonOver else Watching)\<rparr>)))"

definition rmon_tell :: "unit rmact" where
  "rmon_tell = upd (\<lambda>m. m\<lparr>rm_sent := rm_sent m @ map snd (rm_devices m)\<rparr>)"

text \<open>The processor monitor has measured the usage over its interval, or the measurement raised.\<close>

definition cpu_measured :: "pyexc + int \<Rightarrow> unit rmact" where
  "cpu_measured r = (case r of
     Inl _ \<Rightarrow> upd (\<lambda>m. m\<lparr>rm_at := MonFailed\<rparr>)
   | Inr current \<Rightarrow> rd (\<lambda>m. m) (\<lambda>m. if rm_terminated m then upd (\<lambda>m. m\<lparr>rm_at := MonOver\<rparr>)
       else seqA [whenA (current \<noteq> 0 \<and> current > rm_usage m) rmon_tell, upd (\<lambda>m. m\<lparr>rm_at := LoopTop\<rparr>)]))"

text \<open>The event of the memory monitor has come, from the kernel or from \<open>stop\<close> or \<open>terminate\<close>.\<close>

definition mem_event :: "pyexc + int \<Rightarrow> unit rmact" where
  "mem_event r = (case r of
     Inl _ \<Rightarrow> upd (\<lambda>m. m\<lparr>rm_at := MonFailed\<rparr>)
   | Inr _ \<Rightarrow> rd (\<lambda>m. m) (\<lambda>m. if rm_terminated m then upd (\<lambda>m. m\<lparr>rm_at := MonOver\<rparr>)
       else seqA [whenA (rm_running m) rmon_tell, upd (\<lambda>m. m\<lparr>rm_at := LoopTop\<rparr>)]))"

text \<open>One move of a thread, whose outcome handler is one of the two above.\<close>

definition rmon_move :: "(pyexc + int \<Rightarrow> unit rmact) \<Rightarrow> pyexc + int \<Rightarrow> unit rmact" where
  "rmon_move h r = rd rm_at (\<lambda>a. case a of
       Starting \<Rightarrow> upd (\<lambda>m. m\<lparr>rm_at := (case r of Inl _ \<Rightarrow> MonFailed | Inr _ \<Rightarrow> LoopTop)\<rparr>)
     | LoopTop \<Rightarrow> rmon_top | Parked \<Rightarrow> rmon_wake | Watching \<Rightarrow> h r | _ \<Rightarrow> ret ())"

section \<open>Disk quotas\<close>

record spcMon =
  sm_uid2Name :: "(int, string list) dict"
  sm_name2Uid :: "(string, int) dict"
  sm_devices :: "(string, string) dict"
  sm_sent :: "string list"
  sm_over :: bool

type_synonym 'a spact = "(spcMon, 'a) act"

definition spcMon_new :: spcMon where
  "spcMon_new = \<lparr> sm_uid2Name = [], sm_name2Uid = [], sm_devices = [], sm_sent = [], sm_over = False \<rparr>"

text \<open>\<open>uid\<close> is the real user of the process, which the caller has looked up.\<close>

definition spc_addProc :: "string \<Rightarrow> int \<Rightarrow> unit spact" where
  "spc_addProc full uid = seqA [
     rd sm_uid2Name (\<lambda>d. upd (\<lambda>s. s\<lparr>sm_uid2Name :=
       AList.update uid (case map_of d uid of None \<Rightarrow> [full] | Some xs \<Rightarrow> xs @ [full]) d\<rparr>)),
     upd (\<lambda>s. s\<lparr>sm_name2Uid := AList.update full uid (sm_name2Uid s)\<rparr>)]"

definition spc_delProc :: "string \<Rightarrow> unit spact" where
  "spc_delProc full = rd sm_name2Uid (\<lambda>n. case map_of n full of None \<Rightarrow> raise KeyError
     | Some uid \<Rightarrow> rd sm_uid2Name (\<lambda>d. case map_of d uid of None \<Rightarrow> raise KeyError
       | Some xs \<Rightarrow> if full \<notin> set xs then raise ValueError else seqA [
           upd (\<lambda>s. s\<lparr>sm_uid2Name := AList.update uid (remove1 full xs) d\<rparr>),
           upd (\<lambda>s. s\<lparr>sm_name2Uid := AList.delete full n\<rparr>),
           rd sm_devices (\<lambda>ds. if \<not> has_key ds full then raise KeyError
             else upd (\<lambda>s. s\<lparr>sm_devices := AList.delete full ds\<rparr>))]))"

definition spc_addClientDevice :: "string \<Rightarrow> string \<Rightarrow> int \<Rightarrow> unit spact" where
  "spc_addClientDevice app actor pid = upd (\<lambda>s. s\<lparr>sm_devices :=
     AList.update (fullName app actor) (actorIdentity app actor pid) (sm_devices s)\<rparr>)"

text \<open>The kernel reports that \<open>uid\<close> has exceeded its quota; an exception ends the thread.\<close>

definition spc_tell :: "int \<Rightarrow> unit spact" where
  "spc_tell uid = rd sm_uid2Name (\<lambda>d. case map_of d uid of None \<Rightarrow> ret ()
     | Some xs \<Rightarrow> forA xs (\<lambda>full. rd sm_devices (\<lambda>ds. case map_of ds full of None \<Rightarrow> raise KeyError
         | Some identity \<Rightarrow> upd (\<lambda>s. s\<lparr>sm_sent := sm_sent s @ [identity]\<rparr>))))"

definition spc_exceeded :: "int \<Rightarrow> unit spact" where
  "spc_exceeded uid = rd sm_over (\<lambda>over. whenA (\<not> over) (tryA (spc_tell uid) (\<lambda>_. upd (\<lambda>s. s\<lparr>sm_over := True\<rparr>))))"

section \<open>Network rates\<close>

record netMon =
  nt_devices :: "(string, string) dict"
  nt_pid2Key :: "(int, string) dict"
  nt_pid2Rate :: "(int, int) dict"
  nt_sent :: "string list"

type_synonym 'a ntact = "(netMon, 'a) act"

definition netMon_new :: netMon where
  "netMon_new = \<lparr> nt_devices = [], nt_pid2Key = [], nt_pid2Rate = [], nt_sent = [] \<rparr>"

definition net_addProc :: "int \<Rightarrow> unit ntact" where
  "net_addProc pid = upd (\<lambda>s. s\<lparr>nt_pid2Key := AList.update pid ''???'' (nt_pid2Key s),
     nt_pid2Rate := AList.update pid 0 (nt_pid2Rate s)\<rparr>)"

definition net_delProc :: "string \<Rightarrow> int \<Rightarrow> unit ntact" where
  "net_delProc full pid = rd nt_devices (\<lambda>d. if \<not> has_key d full then raise KeyError else seqA [
     upd (\<lambda>s. s\<lparr>nt_devices := AList.delete full d\<rparr>),
     rd nt_pid2Key (\<lambda>k. if \<not> has_key k pid then raise KeyError else upd (\<lambda>s. s\<lparr>nt_pid2Key := AList.delete pid k\<rparr>)),
     rd nt_pid2Rate (\<lambda>k. if \<not> has_key k pid then raise KeyError else upd (\<lambda>s. s\<lparr>nt_pid2Rate := AList.delete pid k\<rparr>))])"

definition net_addClientDevice :: "string \<Rightarrow> string \<Rightarrow> int \<Rightarrow> int option \<Rightarrow> unit ntact" where
  "net_addClientDevice app actor pid rate = upd (\<lambda>s. s\<lparr>
     nt_devices := AList.update (fullName app actor) (actorIdentity app actor pid) (nt_devices s),
     nt_pid2Key := AList.update pid (fullName app actor) (nt_pid2Key s),
     nt_pid2Rate := AList.update pid (case rate of None \<Rightarrow> 0 | Some r \<Rightarrow> r) (nt_pid2Rate s)\<rparr>)"

text \<open>The library has measured the traffic of a process, in kilobytes per second.\<close>

definition network_activity :: "int \<Rightarrow> int \<Rightarrow> pyfloat \<Rightarrow> unit ntact" where
  "network_activity pid uid kbs = (if pid = 0 \<or> uid = 0 then ret ()
     else rd (\<lambda>s. s) (\<lambda>s. case map_of (nt_pid2Key s) pid of None \<Rightarrow> ret ()
       | Some key \<Rightarrow> (case map_of (nt_pid2Rate s) pid of None \<Rightarrow> raise KeyError
         | Some rate \<Rightarrow> whenA (rate \<noteq> 0 \<and> py_int (kbs * 10 * 1024) > rate)
             (case map_of (nt_devices s) key of None \<Rightarrow> raise KeyError
              | Some identity \<Rightarrow> upd (\<lambda>s. s\<lparr>nt_sent := nt_sent s @ [identity]\<rparr>)))))"

end
