(* ===== verification/ResMan.thy ===== *)
theory ResMan
  imports ResMon
begin

text \<open>
  The resource manager (\<open>riaps/deplo/resm.py\<close>): \<open>ResourceManager\<close>, an \<open>AppResourceManager\<close> per
  application and in it an \<open>ActorResourceManager\<close> per actor, which sets up what limits the actor and
  the monitors of \<open>ResMon\<close> that watch it.

  \<^item> \<open>riaps_sudo\<close> (\<open>riaps/utils/sudo.py\<close>) runs a command and never raises, and no caller looks at its
    result: \<open>rm_sudo\<close> is the list of the commands, in order.
  \<^item> The control groups, the user database and the process table are parameters, the record
    \<open>resos\<close>; an access may raise. A control group is named by its path.
  \<^item> An attribute that \<open>__init__\<close> may leave unset is an option, and reading it unset raises.
  \<^item> Where an operation waits for a monitor thread to stop or to end, the wait is not part of it;
    \<open>ResProps\<close> says when it ends.
\<close>

unbundle bit_operations_syntax

section \<open>Definitions of actors\<close>

record netUse =
  nu_rate :: int
  nu_ceil :: "int option"
  nu_burst :: "int option"

record cpuUse =
  cu_use :: int
  cu_interval :: int
  cu_max :: bool

text \<open>A part of the settings that is absent, or lacks an entry that makes its setup give up, is \<open>None\<close>.\<close>

record settings =
  us_cpu :: "cpuUse option"
  us_mem :: "int option"
  us_spc :: "int option"
  us_net :: "netUse option"

section \<open>State\<close>

record actorRM =
  ar_cpu :: "cpuUse option"
  ar_cpuMon :: "rmon option"
  ar_memMon :: "rmon option"
  ar_space :: "int option"
  ar_hasNet :: bool
  ar_rate :: "int option"
  ar_actorID :: int
  ar_proc :: "int option"
  ar_started :: "bool option"

record appRM =
  ap_user :: string
  ap_folder :: string
  ap_actors :: "(string, actorRM) dict"
  ap_actorID :: int
  ap_uid :: int
  ap_spcUsage :: int

record 'w resos =
  ro_group :: "string \<Rightarrow> ('w, unit) act"
  ro_drop :: "string \<Rightarrow> ('w, unit) act"
  ro_cfs :: "string \<Rightarrow> int \<Rightarrow> pyfloat \<Rightarrow> ('w, unit) act"
  ro_memwatch :: "string \<Rightarrow> int \<Rightarrow> ('w, unit) act"
  ro_classid :: "string \<Rightarrow> int \<Rightarrow> ('w, unit) act"
  ro_tasks :: "string \<Rightarrow> int \<Rightarrow> ('w, unit) act"
  ro_getpwnam :: "string \<Rightarrow> ('w, int) act"
  ro_process :: "int \<Rightarrow> ('w, int) act"

text \<open>What the host has: the control groups of RIAPS, and the values of the configuration.\<close>

record reshost =
  rh_cpu :: bool
  rh_mem :: bool
  rh_net :: bool
  rh_target :: string
  rh_uid :: int
  rh_riaps_uid :: string
  rh_nic :: string
  rh_rate :: string
  rh_ceil :: string

record 'w resm =
  rm_os :: "'w resos"
  rm_w :: 'w
  rm_host :: reshost
  rm_apps :: "(string, appRM) dict"
  rm_spc :: spcMon
  rm_net :: "netMon option"
  rm_sudo :: "string list"

type_synonym ('w, 'a) rsact = "('w resm, 'a) act"

definition res_os :: "('w resos \<Rightarrow> ('w, 'a) act) \<Rightarrow> ('w, 'a) rsact" where
  "res_os f = (\<lambda>s. case f (rm_os s) (rm_w s) of (r, w) \<Rightarrow> (r, s\<lparr>rm_w := w\<rparr>))"

definition res_sudo :: "string \<Rightarrow> ('w, unit) rsact" where
  "res_sudo cmd = upd (\<lambda>s. s\<lparr>rm_sudo := rm_sudo s @ [cmd]\<rparr>)"

definition on_spc :: "unit spact \<Rightarrow> ('w, unit) rsact" where
  "on_spc m = (\<lambda>s. case m (rm_spc s) of (r, p) \<Rightarrow> (r, s\<lparr>rm_spc := p\<rparr>))"

definition on_net :: "unit ntact \<Rightarrow> ('w, unit) rsact" where
  "on_net m = (\<lambda>s. case rm_net s of None \<Rightarrow> (Inr (), s)
     | Some n \<Rightarrow> (case m n of (r, n') \<Rightarrow> (r, s\<lparr>rm_net := Some n'\<rparr>)))"

text \<open>Run a monitor's operation.\<close>

definition run_mon :: "unit rmact \<Rightarrow> rmon \<Rightarrow> ('w, rmon) rsact" where
  "run_mon f m = (case f m of (Inl e, _) \<Rightarrow> raise e | (Inr _, m') \<Rightarrow> ret m')"

definition upd_app :: "string \<Rightarrow> (appRM \<Rightarrow> appRM) \<Rightarrow> ('w, unit) rsact" where
  "upd_app app f = upd (\<lambda>s. s\<lparr>rm_apps := map (\<lambda>(a, x). (a, if a = app then f x else x)) (rm_apps s)\<rparr>)"

definition with_app :: "pyexc \<Rightarrow> string \<Rightarrow> (appRM \<Rightarrow> ('w, 'a) rsact) \<Rightarrow> ('w, 'a) rsact" where
  "with_app e app k = rd rm_apps (\<lambda>m. case map_of m app of None \<Rightarrow> raise e | Some a \<Rightarrow> k a)"

text \<open>The words of a command line, and the paths of control groups.\<close>

fun cmdline :: "string list \<Rightarrow> string" where
  "cmdline [] = ''''"
| "cmdline [w] = w"
| "cmdline (w # ws) = w @ '' '' @ cmdline ws"

definition cgroup :: "string \<Rightarrow> string \<Rightarrow> string" where
  "cgroup kind app = ''/'' @ kind @ ''/riaps/'' @ app"

definition subgroup :: "string \<Rightarrow> string \<Rightarrow> string \<Rightarrow> string" where
  "subgroup kind app actor = cgroup kind app @ ''/'' @ actor"

section \<open>Quotas of an application\<close>

definition quota_cmd :: "string \<Rightarrow> int \<Rightarrow> int \<Rightarrow> int \<Rightarrow> int \<Rightarrow> string" where
  "quota_cmd user sb hb si hi = cmdline [''setquota -u'', user, int_str sb, int_str hb, int_str si, int_str hi, ''/'']"

definition addQuota :: "string \<Rightarrow> int \<Rightarrow> ('w, unit) rsact" where
  "addQuota app n = seqA [
     upd_app app (\<lambda>a. a\<lparr>ap_spcUsage := ap_spcUsage a + n\<rparr>),
     with_app KeyError app (\<lambda>a. rd rm_host (\<lambda>h. whenA (ap_user a \<noteq> rh_target h \<and> ap_spcUsage a \<noteq> 0)
       (res_sudo (quota_cmd (ap_user a) (py_int (0.9 * of_int (ap_spcUsage a))) (ap_spcUsage a) 100000 100000))))]"

definition delQuota :: "appRM \<Rightarrow> ('w, unit) rsact" where
  "delQuota a = rd rm_host (\<lambda>h. whenA (ap_user a \<noteq> rh_target h \<and> ap_spcUsage a \<noteq> 0)
     (res_sudo (quota_cmd (ap_user a) 0 0 0 0)))"

definition nextActorID :: "string \<Rightarrow> ('w, int) rsact" where
  "nextActorID app = with_app KeyError app (\<lambda>a. bnd (upd_app app (\<lambda>a. a\<lparr>ap_actorID := ap_actorID a + 1\<rparr>))
     (\<lambda>_. ret (ap_actorID a)))"

section \<open>The manager of an actor\<close>

text \<open>\<open>setupCPU\<close>: the period and quota written for the scheduler, in microseconds.\<close>

definition clamp :: "pyfloat \<Rightarrow> pyfloat" where
  "clamp x = (if x < 1000 then 1000 else if x > 1000000 then 1000000 else x)"

definition cfs_period :: "cpuUse \<Rightarrow> int" where
  "cfs_period c = (let i = cu_interval c * 1000 in if i < 1000 then 1000 else if i > 1000000 then 1000000 else i)"

definition cfs_quota :: "cpuUse \<Rightarrow> pyfloat" where
  "cfs_quota c = clamp (of_int (cu_use c) * 0.01 * of_int (cfs_period c))"

definition setupCPU :: "string \<Rightarrow> string \<Rightarrow> cpuUse option \<Rightarrow> ('w, rmon option) rsact" where
  "setupCPU app actor u = (case u of None \<Rightarrow> ret None
     | Some c \<Rightarrow> if cu_max c then ret (Some (rmon_new (cu_use c)))
       else rd rm_host (\<lambda>h. bnd (whenA (rh_cpu h)
         (res_os (\<lambda>os. ro_cfs os (subgroup ''cpu'' app actor) (cfs_period c) (cfs_quota c)))) (\<lambda>_. ret None)))"

definition setupMem :: "string \<Rightarrow> string \<Rightarrow> int option \<Rightarrow> ('w, rmon option) rsact" where
  "setupMem app actor u = (case u of None \<Rightarrow> ret None
     | Some n \<Rightarrow> rd rm_host (\<lambda>h. if rh_mem h
         then tryA (bnd (res_os (\<lambda>os. ro_memwatch os (subgroup ''memory'' app actor) (n * 1024)))
           (\<lambda>_. ret (Some (rmon_new n)))) (\<lambda>_. ret None)
         else ret None))"

text \<open>\<open>setupSpace\<close> only reads the setting. \<open>setupNet\<close> gives \<open>hasNet\<close> and the actor's number.\<close>

definition class_cmd :: "string \<Rightarrow> string \<Rightarrow> string \<Rightarrow> netUse \<Rightarrow> int \<Rightarrow> int \<Rightarrow> string" where
  "class_cmd nic parent child n ceil burst =
     ''tc class add dev '' @ nic @ '' parent '' @ parent @ '': classid '' @ parent @ '':'' @ child @
     '' htb rate '' @ int_str (nu_rate n) @ ''bps '' @
     (if ceil = 0 then '''' else ''ceil '' @ int_str ceil @ ''bps '') @
     (if burst = 0 then '''' else ''burst '' @ int_str burst)"

definition filter_cmd :: "string \<Rightarrow> string \<Rightarrow> string \<Rightarrow> string" where
  "filter_cmd nic parent child = ''tc filter add dev '' @ nic @ '' parent '' @ parent @ '':'' @ child @
     '' protocol ip prio 10 handle '' @ child @ '': cgroup''"

definition setupNet :: "string \<Rightarrow> string \<Rightarrow> netUse option \<Rightarrow> ('w, bool \<times> int) rsact" where
  "setupNet app actor u = (case u of None \<Rightarrow> ret (False, 0)
     | Some n \<Rightarrow> (case (nu_ceil n, nu_burst n) of
         (Some ceil, Some burst) \<Rightarrow> rd rm_host (\<lambda>h. if \<not> rh_net h then ret (False, 0) else
           with_app KeyError app (\<lambda>a. bnd (nextActorID app) (\<lambda>i.
             let parent = int_str (ap_uid a); child = int_str i in
             bnd (res_os (\<lambda>os. ro_classid os (subgroup ''net_cls'' app actor) (push_bit 16 (ap_uid a) OR i)))
               (\<lambda>_. bnd (res_sudo (class_cmd (rh_nic h) parent child n ceil burst))
               (\<lambda>_. bnd (res_sudo (filter_cmd (rh_nic h) parent child)) (\<lambda>_. ret (True, i)))))))
       | _ \<Rightarrow> raise KeyError))"

definition res_group :: "bool \<Rightarrow> string \<Rightarrow> ('w, unit) rsact" where
  "res_group b path = whenA b (res_os (\<lambda>os. ro_group os path))"

definition unmanaged :: actorRM where
  "unmanaged = \<lparr> ar_cpu = None, ar_cpuMon = None, ar_memMon = None, ar_space = None, ar_hasNet = False,
     ar_rate = None, ar_actorID = 0, ar_proc = None, ar_started = None \<rparr>"

definition actorRM_init :: "string \<Rightarrow> string \<Rightarrow> settings option \<Rightarrow> ('w, actorRM) rsact" where
  "actorRM_init app actor us = (case us of None \<Rightarrow> ret unmanaged
     | Some u \<Rightarrow> rd rm_host (\<lambda>h.
       bnd (seqA [res_group (rh_cpu h) (subgroup ''cpu'' app actor),
                  res_group (rh_mem h) (subgroup ''memory'' app actor),
                  res_group (rh_net h) (subgroup ''net_cls'' app actor)]) (\<lambda>_.
       bnd (setupCPU app actor (us_cpu u)) (\<lambda>cm.
       bnd (setupMem app actor (us_mem u)) (\<lambda>mm.
       bnd (case us_spc u of None \<Rightarrow> ret () | Some n \<Rightarrow> addQuota app n) (\<lambda>_.
       bnd (setupNet app actor (us_net u)) (\<lambda>(net, i).
       ret \<lparr> ar_cpu = us_cpu u, ar_cpuMon = cm, ar_memMon = mm, ar_space = us_spc u, ar_hasNet = net,
         ar_rate = map_option nu_rate (us_net u), ar_actorID = i, ar_proc = None, ar_started = Some False \<rparr>)))))))"

text \<open>An operation of the actor's manager changes its record where it stands, so that what was done before an exception stays.\<close>

definition mod_actor :: "string \<Rightarrow> string \<Rightarrow> (actorRM \<Rightarrow> actorRM) \<Rightarrow> ('w, unit) rsact" where
  "mod_actor app actor f = upd_app app (\<lambda>a. a\<lparr>ap_actors :=
     map (\<lambda>(k, x). (k, if k = actor then f x else x)) (ap_actors a)\<rparr>)"

text \<open>\<open>restart\<close> of a monitor, or \<open>start\<close> the first time.\<close>

definition mon_begin :: "rmon \<Rightarrow> ('w, rmon) rsact" where
  "mon_begin m = run_mon (if rm_alive m then rmon_restart else rmon_start) m"

text \<open>\<open>psutil.Process\<close>, in the setup of the processor monitor and in \<open>addProc\<close>, raises for a process that has ended.\<close>

definition actorRM_start_cpu :: "string \<Rightarrow> string \<Rightarrow> int \<Rightarrow> actorRM \<Rightarrow> ('w, unit) rsact" where
  "actorRM_start_cpu app actor pid a = (case ar_cpuMon a of
     Some m \<Rightarrow> let m' = exec (rmon_setup pid) m in seqA [
       mod_actor app actor (\<lambda>x. x\<lparr>ar_cpuMon := Some m'\<rparr>),
       bnd (res_os (\<lambda>os. ro_process os pid)) (\<lambda>_. bnd (mon_begin m') (\<lambda>m''. mod_actor app actor (\<lambda>x. x\<lparr>ar_cpuMon := Some m''\<rparr>)))]
   | None \<Rightarrow> rd rm_host (\<lambda>h. whenA (ar_cpu a \<noteq> None \<and> rh_cpu h)
       (res_os (\<lambda>os. ro_tasks os (subgroup ''cpu'' app actor) pid))))"

definition actorRM_start_mem :: "string \<Rightarrow> string \<Rightarrow> int \<Rightarrow> actorRM \<Rightarrow> ('w, unit) rsact" where
  "actorRM_start_mem app actor pid a = (case ar_memMon a of None \<Rightarrow> ret ()
   | Some m \<Rightarrow> seqA [
       res_os (\<lambda>os. ro_tasks os (subgroup ''memory'' app actor) pid),
       bnd (mon_begin (exec (rmon_setup pid) m)) (\<lambda>m'. mod_actor app actor (\<lambda>x. x\<lparr>ar_memMon := Some m'\<rparr>))])"

definition actorRM_start :: "string \<Rightarrow> string \<Rightarrow> int \<Rightarrow> actorRM \<Rightarrow> ('w, unit) rsact" where
  "actorRM_start app actor pid a = seqA [
     actorRM_start_cpu app actor pid a,
     actorRM_start_mem app actor pid a,
     whenA (ar_space a \<noteq> None) (bnd (res_os (\<lambda>os. ro_process os pid)) (\<lambda>uid. on_spc (spc_addProc (fullName app actor) uid))),
     rd rm_net (\<lambda>n. whenA (ar_hasNet a \<and> n \<noteq> None) (seqA [
       res_os (\<lambda>os. ro_tasks os (subgroup ''net_cls'' app actor) pid), on_net (net_addProc pid)])),
     mod_actor app actor (\<lambda>x. x\<lparr>ar_proc := Some pid, ar_started := Some True\<rparr>)]"

text \<open>\<open>stop\<close> of the monitors, and of the entries of the shared ones.\<close>

definition actorRM_stop :: "string \<Rightarrow> string \<Rightarrow> int \<Rightarrow> actorRM \<Rightarrow> ('w, unit) rsact" where
  "actorRM_stop app actor pid a = (case ar_started a of
     None \<Rightarrow> raise AttributeError
   | Some st \<Rightarrow> whenA st (seqA [
       mod_actor app actor (\<lambda>x. x\<lparr>ar_cpuMon := map_option (exec rmon_stop) (ar_cpuMon x),
         ar_memMon := map_option (exec rmon_stop) (ar_memMon x)\<rparr>),
       whenA (ar_space a \<noteq> None) (on_spc (spc_delProc (fullName app actor))),
       rd rm_net (\<lambda>n. whenA (n \<noteq> None \<and> (ar_hasNet a \<or> ar_rate a \<noteq> None)) (on_net (net_delProc (fullName app actor) pid))),
       mod_actor app actor (\<lambda>x. x\<lparr>ar_started := Some False\<rparr>)]))"

definition mon_client :: "string \<Rightarrow> string \<Rightarrow> rmon option \<Rightarrow> (rmon option \<Rightarrow> ('w, unit) rsact) \<Rightarrow> ('w, unit) rsact" where
  "mon_client app actor m k = (case m of None \<Rightarrow> ret ()
     | Some m \<Rightarrow> bnd (run_mon (rmon_addClientDevice app actor) m) (\<lambda>m. k (Some m)))"

definition actorRM_addClientDevice :: "string \<Rightarrow> string \<Rightarrow> actorRM \<Rightarrow> ('w, unit) rsact" where
  "actorRM_addClientDevice app actor a =
     (let proc = (\<lambda>k. case ar_proc a of None \<Rightarrow> raise AttributeError | Some pid \<Rightarrow> k pid) in seqA [
       mon_client app actor (ar_cpuMon a) (\<lambda>m. mod_actor app actor (\<lambda>x. x\<lparr>ar_cpuMon := m\<rparr>)),
       mon_client app actor (ar_memMon a) (\<lambda>m. mod_actor app actor (\<lambda>x. x\<lparr>ar_memMon := m\<rparr>)),
       whenA (ar_space a \<noteq> None) (proc (\<lambda>pid. on_spc (spc_addClientDevice app actor pid))),
       rd rm_net (\<lambda>n. whenA (n \<noteq> None \<and> (ar_hasNet a \<or> ar_rate a \<noteq> None))
         (proc (\<lambda>pid. on_net (net_addClientDevice app actor pid (ar_rate a)))))])"

text \<open>\<open>cleanupActor\<close>: the groups of the actor are deleted where that is possible.\<close>

definition try_drop :: "bool \<Rightarrow> string \<Rightarrow> ('w, unit) rsact" where
  "try_drop b path = whenA b (tryA (res_os (\<lambda>os. ro_drop os path)) (\<lambda>_. ret ()))"

definition actorRM_cleanup :: "string \<Rightarrow> int \<Rightarrow> string \<Rightarrow> actorRM \<Rightarrow> ('w, unit) rsact" where
  "actorRM_cleanup app uid actor a = rd rm_host (\<lambda>h. seqA [
     try_drop (ar_cpu a \<noteq> None \<and> ar_cpuMon a = None \<and> rh_cpu h) (subgroup ''cpu'' app actor),
     try_drop (ar_memMon a \<noteq> None \<and> rh_mem h) (subgroup ''memory'' app actor),
     whenA (ar_hasNet a) (seqA [
       try_drop (rh_net h) (subgroup ''net_cls'' app actor),
       res_sudo (''tc class del dev '' @ rh_nic h @ '' parent '' @ int_str uid @ '': classid '' @ int_str uid @ '':''
         @ int_str (ar_actorID a))])])"

section \<open>The manager of an application\<close>

definition put_actor :: "string \<Rightarrow> string \<Rightarrow> actorRM \<Rightarrow> ('w, unit) rsact" where
  "put_actor app actor x = upd_app app (\<lambda>a. a\<lparr>ap_actors := AList.update actor x (ap_actors a)\<rparr>)"

definition with_actor :: "pyexc \<Rightarrow> string \<Rightarrow> string \<Rightarrow> (actorRM \<Rightarrow> ('w, 'a) rsact) \<Rightarrow> ('w, 'a) rsact" where
  "with_actor e app actor k = with_app e app (\<lambda>a. case map_of (ap_actors a) actor of
     None \<Rightarrow> raise SetupError | Some x \<Rightarrow> k x)"

text \<open>The user of the application: known, created, or the default one.\<close>

definition app_user :: "string \<Rightarrow> ('w, string \<times> int) rsact" where
  "app_user user = rd rm_host (\<lambda>h.
     tryA (bnd (res_os (\<lambda>os. ro_getpwnam os user)) (\<lambda>u. if u = -1 then raise KeyError else ret (user, u))) (\<lambda>_.
     tryA (bnd (res_sudo (''adduser --disabled-login --gecos GECOS --no-create-home '' @ user))
         (\<lambda>_. bnd (res_os (\<lambda>os. ro_getpwnam os user)) (\<lambda>u. ret (user, u))))
       (\<lambda>_. ret (rh_target h, rh_uid h))))"

definition appRM_init :: "string \<Rightarrow> string \<Rightarrow> string \<Rightarrow> ('w, appRM) rsact" where
  "appRM_init app folder user = rd rm_host (\<lambda>h.
     bnd (seqA [res_group (rh_cpu h) (cgroup ''cpu'' app), res_group (rh_mem h) (cgroup ''memory'' app)]) (\<lambda>_.
     bnd (app_user user) (\<lambda>(name, uid).
     bnd (seqA [
       res_sudo (cmdline [''chown -R'', name @ '':'' @ name, folder]),
       res_sudo (''chmod o-rwx '' @ folder),
       res_sudo (''tc class add dev '' @ rh_nic h @ '' parent '' @ rh_riaps_uid h @ '':'' @ rh_riaps_uid h @ '' classid ''
         @ rh_riaps_uid h @ '':'' @ int_str uid @ '' htb rate '' @ rh_rate h @ '' ceil '' @ rh_ceil h),
       res_sudo (''tc qdisc add dev '' @ rh_nic h @ '' parent '' @ rh_riaps_uid h @ '':'' @ int_str uid
         @ '' handle '' @ int_str uid @ '': htb''),
       res_group (rh_net h) (cgroup ''net_cls'' app)]) (\<lambda>_.
     ret \<lparr> ap_user = name, ap_folder = folder, ap_actors = [], ap_actorID = 1, ap_uid = uid, ap_spcUsage = 0 \<rparr>))))"

definition chown_to :: "string \<Rightarrow> string \<Rightarrow> ('w, unit) rsact" where
  "chown_to user folder = res_sudo (cmdline [''chown -R'', user @ '':'' @ user, folder])"

definition claimApp :: "appRM \<Rightarrow> ('w, unit) rsact" where
  "claimApp a = chown_to (ap_user a) (ap_folder a)"

definition appRM_cleanup :: "string \<Rightarrow> appRM \<Rightarrow> ('w, unit) rsact" where
  "appRM_cleanup app a = rd rm_host (\<lambda>h. seqA [
     forA (ap_actors a) (\<lambda>(actor, x). actorRM_cleanup app (ap_uid a) actor x),
     tryA (seqA [
       whenA (rh_cpu h) (res_os (\<lambda>os. ro_drop os (cgroup ''cpu'' app))),
       whenA (rh_mem h) (res_os (\<lambda>os. ro_drop os (cgroup ''memory'' app))),
       whenA (rh_net h) (res_os (\<lambda>os. ro_drop os (cgroup ''net_cls'' app)))]) (\<lambda>_. ret ()),
     delQuota a,
     res_sudo (''tc qdisc del dev '' @ rh_nic h @ '' parent '' @ rh_riaps_uid h @ '':'' @ int_str (ap_uid a)
       @ '' handle '' @ int_str (ap_uid a) @ '':''),
     res_sudo (''tc class del dev '' @ rh_nic h @ '' parent '' @ rh_riaps_uid h @ '':'' @ rh_riaps_uid h @ '' classid ''
       @ rh_riaps_uid h @ '':'' @ int_str (ap_uid a)),
     whenA (ap_user a \<noteq> rh_target h) (seqA [
       res_sudo (''deluser '' @ ap_user a), res_sudo (''delgroup '' @ ap_user a)]),
     chown_to (rh_target h) (ap_folder a)])"

section \<open>The resource manager\<close>

definition res_unknown :: "string \<Rightarrow> pyexc" where
  "res_unknown app = BuildError (''appName '' @ CHR 0x27 # app @ CHR 0x27 # '' is unknown'')"

definition res_setupApp :: "string \<Rightarrow> string \<Rightarrow> string \<Rightarrow> ('w, unit) rsact" where
  "res_setupApp app folder user = rd rm_apps (\<lambda>m. case map_of m app of
     None \<Rightarrow> bnd (appRM_init app folder user) (\<lambda>a. upd (\<lambda>s. s\<lparr>rm_apps := AList.update app a (rm_apps s)\<rparr>))
   | Some a \<Rightarrow> claimApp a)"

definition getUserName :: "string \<Rightarrow> ('w, string) rsact" where
  "getUserName app = rd (\<lambda>s. s) (\<lambda>s. ret (case map_of (rm_apps s) app of
     None \<Rightarrow> rh_target (rm_host s) | Some a \<Rightarrow> ap_user a))"

definition res_addActor :: "string \<Rightarrow> string \<Rightarrow> settings option \<Rightarrow> ('w, unit) rsact" where
  "res_addActor app actor us = with_app (res_unknown app) app (\<lambda>a. whenA (\<not> has_key (ap_actors a) actor)
     (bnd (actorRM_init app actor us) (put_actor app actor)))"

definition res_addClientDevice :: "string \<Rightarrow> string \<Rightarrow> ('w, unit) rsact" where
  "res_addClientDevice app actor = with_actor (res_unknown app) app actor (actorRM_addClientDevice app actor)"

definition res_startActor :: "string \<Rightarrow> string \<Rightarrow> int \<Rightarrow> ('w, unit) rsact" where
  "res_startActor app actor pid = with_actor KeyError app actor (actorRM_start app actor pid)"

definition res_stopActor :: "string \<Rightarrow> string \<Rightarrow> int \<Rightarrow> ('w, unit) rsact" where
  "res_stopActor app actor pid = with_actor KeyError app actor (actorRM_stop app actor pid)"

definition res_reclaimApp :: "string \<Rightarrow> ('w, unit) rsact" where
  "res_reclaimApp app = with_app (res_unknown app) app (\<lambda>a. rd rm_host (\<lambda>h. chown_to (rh_target h) (ap_folder a)))"

definition res_cleanupApp :: "string \<Rightarrow> ('w, unit) rsact" where
  "res_cleanupApp app = with_app (res_unknown app) app (\<lambda>a. seqA [
     appRM_cleanup app a, upd (\<lambda>s. s\<lparr>rm_apps := AList.delete app (rm_apps s)\<rparr>)])"

definition res_cleanupApps :: "('w, unit) rsact" where
  "res_cleanupApps = rd rm_apps (\<lambda>m. forA m (\<lambda>(app, _). res_cleanupApp app))"

end
