(* ===== verification/ResProps.thy ===== *)
theory ResProps
  imports ResMan
begin

text \<open>
  Properties of the resource manager and its monitors: quotas and traffic classes of an
  application's actors, the share the scheduler is given, when stopping a monitor returns, and what
  goes wrong with an actor that has not registered.
\<close>

section \<open>Quotas and traffic classes\<close>

text \<open>
  The quota of an application is the sum of what its actors ask for, and its actors with a traffic
  class have numbers of their own.
\<close>

definition app_ok :: "appRM \<Rightarrow> bool" where
  "app_ok a \<longleftrightarrow> distinct (dkeys (ap_actors a)) \<and>
     ap_spcUsage a = sum_list (map (\<lambda>(_, x). case ar_space x of None \<Rightarrow> 0 | Some n \<Rightarrow> n) (ap_actors a)) \<and>
     distinct (map (ar_actorID \<circ> snd) (filter (\<lambda>(_, x). ar_hasNet x) (ap_actors a))) \<and>
     (\<forall>(_, x) \<in> set (ap_actors a). ar_actorID x < ap_actorID a) \<and> 0 < ap_actorID a"

definition res_inv :: "'w resm \<Rightarrow> bool" where
  "res_inv s \<longleftrightarrow> distinct (dkeys (rm_apps s)) \<and> (\<forall>(_, a) \<in> set (rm_apps s). app_ok a)"

lemma wp_with_app: "wp (with_app e app k) Q E s =
    (case map_of (rm_apps s) app of None \<Rightarrow> E e s | Some a \<Rightarrow> wp (k a) Q E s)"
  by (simp add: with_app_def wp_simps split: option.split)

lemma wp_with_actor: "wp (with_actor e app actor k) Q E s =
    (case map_of (rm_apps s) app of None \<Rightarrow> E e s | Some a \<Rightarrow>
       (case map_of (ap_actors a) actor of None \<Rightarrow> E SetupError s | Some x \<Rightarrow> wp (k x) Q E s))"
  by (simp add: with_actor_def wp_with_app wp_simps split: option.split)

lemma wp_res_sudo: "wp (res_sudo c) Q E s = Q () (s\<lparr>rm_sudo := rm_sudo s @ [c]\<rparr>)"
  by (simp add: res_sudo_def wp_simps)

text \<open>What does not touch the table of applications keeps everything that depends on it alone.\<close>

abbreviation keeps_apps :: "('w, 'a) rsact \<Rightarrow> bool" where
  "keeps_apps \<equiv> keeps_view rm_apps"

lemma res_os_keeps [preserve]: "(\<And>s w. I s \<Longrightarrow> I (s\<lparr>rm_w := w\<rparr>)) \<Longrightarrow> preserves I (res_os f)"
  by (simp add: preserves_def res_os_def split: prod.split)

lemma on_spc_keeps [preserve]: "(\<And>s p. I s \<Longrightarrow> I (s\<lparr>rm_spc := p\<rparr>)) \<Longrightarrow> preserves I (on_spc m)"
  by (simp add: preserves_def on_spc_def split: prod.split)

lemma on_net_keeps [preserve]: "(\<And>s n. I s \<Longrightarrow> I (s\<lparr>rm_net := n\<rparr>)) \<Longrightarrow> preserves I (on_net m)"
  by (simp add: preserves_def on_net_def split: prod.split option.split)

lemma res_sudo_keeps [preserve]: "(\<And>s c. I s \<Longrightarrow> I (s\<lparr>rm_sudo := c\<rparr>)) \<Longrightarrow> preserves I (res_sudo c)"
  by (simp add: preserves_def res_sudo_def upd_def)

lemmas keeps_wp = keeps_view_wp [where v = rm_apps]

lemmas res_parts = res_group_def setupCPU_def setupMem_def appRM_init_def app_user_def chown_to_def claimApp_def
  actorRM_cleanup_def try_drop_def appRM_cleanup_def delQuota_def

lemma keeps_parts:
  "keeps_apps (seqA [res_group b1 p1, res_group b2 p2, res_group b3 p3])" "keeps_apps (setupCPU app actor u)"
  "keeps_apps (setupMem app actor n)" "keeps_apps (appRM_init app folder user)" "keeps_apps (claimApp a)"
  "keeps_apps (appRM_cleanup app a)" "keeps_apps (res_os f)"
  unfolding res_parts by (rule keeps_viewI; intro preserve; simp)+

subsection \<open>Changing one application\<close>

definition apps_upd :: "string \<Rightarrow> (appRM \<Rightarrow> appRM) \<Rightarrow> (string, appRM) dict \<Rightarrow> (string, appRM) dict" where
  "apps_upd app f = map (\<lambda>(a, x). (a, if a = app then f x else x))"

lemma map_of_apps_upd: "map_of (apps_upd app f d) k = (if k = app then map_option f (map_of d k) else map_of d k)"
  unfolding apps_upd_def by (induction d) auto

lemma dkeys_apps_upd [simp]: "dkeys (apps_upd app f d) = dkeys d"
  unfolding apps_upd_def by (induction d) auto

lemma apps_upd_upd: "apps_upd app f (apps_upd app g d) = apps_upd app (f \<circ> g) d"
  unfolding apps_upd_def by (induction d) auto

lemma wp_upd_app: "wp (upd_app app f) Q E s = Q () (s\<lparr>rm_apps := apps_upd app f (rm_apps s)\<rparr>)"
  by (simp add: upd_app_def wp_simps apps_upd_def)

lemma res_inv_app: "res_inv s \<Longrightarrow> map_of (rm_apps s) app = Some a \<Longrightarrow> app_ok a"
  unfolding res_inv_def by (auto dest: map_of_SomeD)

lemma res_inv_same: "rm_apps t = rm_apps s \<Longrightarrow> res_inv t = res_inv s"
  by (simp add: res_inv_def)

lemma res_inv_apps_upd:
  assumes "res_inv s" "\<And>a. map_of (rm_apps s) app = Some a \<Longrightarrow> app_ok (f a)" "rm_apps t = apps_upd app f (rm_apps s)"
  shows "res_inv t"
proof -
  have d: "distinct (dkeys (rm_apps s))" using assms(1) by (simp add: res_inv_def)
  have "app_ok x" if "(k, x) \<in> set (rm_apps t)" for k x
  proof -
    have "map_of (rm_apps t) k = Some x" using that d assms(3) by simp
    then show ?thesis
      using assms res_inv_app [OF assms(1)] by (auto simp: map_of_apps_upd split: if_splits)
  qed
  with d assms(3) show ?thesis by (auto simp: res_inv_def)
qed

text \<open>Changing an actor in what does not count keeps the application in order.\<close>

definition actors_upd :: "string \<Rightarrow> (actorRM \<Rightarrow> actorRM) \<Rightarrow> appRM \<Rightarrow> appRM" where
  "actors_upd actor f a = a\<lparr>ap_actors := map (\<lambda>(k, x). (k, if k = actor then f x else x)) (ap_actors a)\<rparr>"

lemma map_of_actors_upd: "map_of (ap_actors (actors_upd actor f a)) actor = map_option f (map_of (ap_actors a) actor)"
proof -
  have "map_of (map (\<lambda>(k, x). (k, if k = actor then f x else x)) d) actor = map_option f (map_of d actor)" for d
    by (induction d) auto
  then show ?thesis by (simp add: actors_upd_def)
qed

lemma app_ok_actors_upd:
  assumes "app_ok a" "\<And>x. ar_space (f x) = ar_space x \<and> ar_hasNet (f x) = ar_hasNet x \<and> ar_actorID (f x) = ar_actorID x"
  shows "app_ok (actors_upd actor f a)"
proof -
  let ?d = "map (\<lambda>(k, x). (k, if k = actor then f x else x))"
  have f: "ar_space (f x) = ar_space x" "ar_hasNet (f x) = ar_hasNet x" "ar_actorID (f x) = ar_actorID x" for x
    using assms(2) by auto
  have "map (\<lambda>(_, x). case ar_space x of None \<Rightarrow> 0 | Some n \<Rightarrow> n) (?d xs)
      = map (\<lambda>(_, x). case ar_space x of None \<Rightarrow> 0 | Some n \<Rightarrow> n) xs" for xs
    by (induction xs) (auto simp: f)
  moreover have "map (ar_actorID \<circ> snd) (filter (\<lambda>(_, x). ar_hasNet x) (?d xs)) = map (ar_actorID \<circ> snd) (filter (\<lambda>(_, x). ar_hasNet x) xs)" for xs
    by (induction xs) (auto simp: f split: if_splits)
  moreover have "dkeys (?d xs) = dkeys xs" for xs
    by (induction xs) auto
  moreover have "(\<forall>(_, x) \<in> set (?d xs). ar_actorID x < n) = (\<forall>(_, x) \<in> set xs. ar_actorID x < n)" for xs n
    by (induction xs) (auto simp: f split: if_splits)
  ultimately show ?thesis using assms(1) by (cases a) (simp only: app_ok_def actors_upd_def appRM.simps simp_thms, blast)
qed

lemma mod_actor_run: "mod_actor app actor f s = (Inr (), s\<lparr>rm_apps := apps_upd app (actors_upd actor f) (rm_apps s)\<rparr>)"
proof -
  have m: "mod_actor app actor f = upd_app app (actors_upd actor f)"
    by (simp add: mod_actor_def actors_upd_def [abs_def])
  show ?thesis by (simp add: m upd_app_def upd_def apps_upd_def)
qed

subsection \<open>Adding an actor\<close>

definition spent :: "int \<Rightarrow> int \<Rightarrow> appRM \<Rightarrow> appRM" where
  "spent n k a = a\<lparr>ap_spcUsage := ap_spcUsage a + n, ap_actorID := ap_actorID a + k\<rparr>"

lemma wp_addQuota:
  assumes "map_of (rm_apps s) app = Some a" "\<And>t. rm_apps t = apps_upd app (spent n 0) (rm_apps s) \<Longrightarrow> Q () t"
  shows "wp (addQuota app n) Q E s"
proof -
  have f: "(\<lambda>a. a\<lparr>ap_spcUsage := ap_spcUsage a + n\<rparr>) = spent n 0"
    by (simp add: spent_def fun_eq_iff)
  have "wp (seqA [with_app KeyError app (\<lambda>a. rd rm_host (\<lambda>h. whenA (ap_user a \<noteq> rh_target h \<and> ap_spcUsage a \<noteq> 0)
       (res_sudo (quota_cmd (ap_user a) (py_int (0.9 * of_int (ap_spcUsage a))) (ap_spcUsage a) 100000 100000))))]) Q E
      (s\<lparr>rm_apps := apps_upd app (spent n 0) (rm_apps s)\<rparr>)"
    using assms by (auto simp: wp_simps wp_with_app wp_res_sudo map_of_apps_upd)
  then show ?thesis
    unfolding addQuota_def f by (simp add: wp_seqA_Cons wp_upd_app)
qed

lemma wp_nextActorID:
  assumes "map_of (rm_apps s) app = Some a" "\<And>t. rm_apps t = apps_upd app (spent 0 1) (rm_apps s) \<Longrightarrow> Q (ap_actorID a) t"
  shows "wp (nextActorID app) Q E s"
proof -
  have f: "(\<lambda>a. a\<lparr>ap_actorID := ap_actorID a + 1\<rparr>) = spent 0 1"
    by (simp add: spent_def fun_eq_iff)
  show ?thesis
    using assms unfolding nextActorID_def f by (simp add: wp_with_app wp_bnd wp_upd_app wp_simps)
qed

lemma wp_setupNet:
  assumes "map_of (rm_apps s) app = Some a"
    "\<And>t. rm_apps t = rm_apps s \<Longrightarrow> Q (False, 0) t"
    "\<And>t. rm_apps t = apps_upd app (spent 0 1) (rm_apps s) \<Longrightarrow> Q (True, ap_actorID a) t"
  shows "wp (setupNet app actor u) Q (\<lambda>_ _. True) s"
proof (cases u)
  case None
  with assms(2) show ?thesis by (simp add: setupNet_def wp_simps)
next
  case (Some n)
  show ?thesis
  proof (cases "nu_ceil n")
    case None
    with Some show ?thesis by (simp add: setupNet_def wp_simps)
  next
    case ceil: (Some c)
    show ?thesis
    proof (cases "nu_burst n")
      case None
      with Some ceil show ?thesis by (simp add: setupNet_def wp_simps)
    next
      case burst: (Some b)
      have rest: "wp (bnd (res_os f) (\<lambda>_. bnd (res_sudo c1) (\<lambda>_. bnd (res_sudo c2) (\<lambda>_. ret (True, ap_actorID a))))) Q (\<lambda>_ _. True) t"
        if "rm_apps t = apps_upd app (spent 0 1) (rm_apps s)" for t f c1 c2
        unfolding wp_bnd
        by (rule keeps_wp [OF keeps_parts(7)]) (use that assms(3) in \<open>simp_all add: wp_res_sudo wp_ret\<close>)
      have number: "wp (bnd (nextActorID app) k) Q (\<lambda>_ _. True) s" if "\<And>t. rm_apps t = apps_upd app (spent 0 1) (rm_apps s) \<Longrightarrow>
          wp (k (ap_actorID a)) Q (\<lambda>_ _. True) t" for k
        unfolding wp_bnd by (rule wp_nextActorID [OF assms(1)]) (rule that)
      from Some ceil burst assms(1,2) show ?thesis
        by (auto simp: setupNet_def wp_rd wp_if wp_ret wp_with_app Let_def intro!: number rest)
    qed
  qed
qed

lemma wp_actorRM_init:
  assumes "map_of (rm_apps s) app = Some a"
    "\<And>x k t. rm_apps t = apps_upd app (spent (case ar_space x of None \<Rightarrow> 0 | Some n \<Rightarrow> n) k) (rm_apps s) \<Longrightarrow>
      0 \<le> k \<Longrightarrow> (if ar_hasNet x then k = 1 \<and> ar_actorID x = ap_actorID a else ar_actorID x = 0) \<Longrightarrow> Q x t"
  shows "wp (actorRM_init app actor us) Q (\<lambda>_ _. True) s"
proof (cases us)
  case None
  have "apps_upd app (spent 0 0) d = d" for d
    by (induction d) (auto simp: apps_upd_def spent_def)
  with None assms(2) [of s unmanaged 0] show ?thesis
    by (simp add: actorRM_init_def wp_simps unmanaged_def)
next
  case (Some u)
  let ?n = "case us_spc u of None \<Rightarrow> 0 | Some n \<Rightarrow> n"
  define fin where "fin cm mm = (\<lambda>(net, i). ret \<lparr> ar_cpu = us_cpu u, ar_cpuMon = cm, ar_memMon = mm, ar_space = us_spc u, ar_hasNet = net,
         ar_rate = map_option nu_rate (us_net u), ar_actorID = i, ar_proc = None, ar_started = Some False \<rparr> :: ('a, actorRM) rsact)" for cm mm
  have net: "wp (bnd (setupNet app actor (us_net u)) (fin cm mm)) Q (\<lambda>_ _. True) t"
    if t: "rm_apps t = apps_upd app (spent ?n 0) (rm_apps s)" for t cm mm
  proof -
    have "map_of (rm_apps t) app = Some (spent ?n 0 a)" using assms(1) t by (simp add: map_of_apps_upd)
    moreover have "spent 0 1 \<circ> spent ?n 0 = spent ?n 1" by (simp add: fun_eq_iff spent_def)
    ultimately show ?thesis
      unfolding wp_bnd using t
      by (intro wp_setupNet [of t]) (auto simp: fin_def wp_ret apps_upd_upd spent_def intro!: assms(2))
  qed
  have quota: "wp (bnd (case us_spc u of None \<Rightarrow> ret () | Some n \<Rightarrow> addQuota app n) (\<lambda>_. bnd (setupNet app actor (us_net u)) (fin cm mm))) Q (\<lambda>_ _. True) t"
    if t: "rm_apps t = rm_apps s" for t cm mm
  proof (cases "us_spc u")
    case None
    have "apps_upd app (spent 0 0) d = d" for d
      by (induction d) (auto simp: apps_upd_def spent_def)
    with None t net [of t] show ?thesis by (simp add: wp_bnd wp_ret)
  next
    case (Some n)
    have "wp (addQuota app n) (\<lambda>_. wp (bnd (setupNet app actor (us_net u)) (fin cm mm)) Q (\<lambda>_ _. True)) (\<lambda>_ _. True) t"
      by (rule wp_addQuota [of t app a]) (use t net Some assms(1) in simp_all)
    with Some show ?thesis by (simp add: wp_bnd [of "addQuota app n"])
  qed
  show ?thesis
    unfolding actorRM_init_def Some option.case wp_rd fin_def [symmetric]
    by (rule wp_chain [OF keeps_wp [OF keeps_parts(1), where Q = "\<lambda>_ t. rm_apps t = rm_apps s" and E = "\<lambda>_ _. True"]], simp, simp,
        rule wp_chain [OF keeps_wp [OF keeps_parts(2), where Q = "\<lambda>_ t. rm_apps t = rm_apps s" and E = "\<lambda>_ _. True"]], simp, simp,
        rule wp_chain [OF keeps_wp [OF keeps_parts(3), where Q = "\<lambda>_ t. rm_apps t = rm_apps s" and E = "\<lambda>_ _. True"]], simp, simp,
        rule quota) simp_all
qed

lemma app_ok_add:
  assumes "app_ok a" "actor \<notin> set (dkeys (ap_actors a))" "0 \<le> k"
    "if ar_hasNet x then k = 1 \<and> ar_actorID x = ap_actorID a else ar_actorID x = 0"
  shows "app_ok ((spent (case ar_space x of None \<Rightarrow> 0 | Some n \<Rightarrow> n) k a)\<lparr>ap_actors := ap_actors a @ [(actor, x)]\<rparr>)"
  using assms by (auto simp: app_ok_def spent_def split: if_splits)

lemma update_fresh: "k \<notin> set (dkeys d) \<Longrightarrow> AList.update k v d = d @ [(k, v)]"
  by (induction d) auto

lemma wp_res_addActor: "res_inv s \<Longrightarrow> wp (res_addActor app actor us) (\<lambda>_. res_inv) (\<lambda>_ _. True) s"
proof (cases "map_of (rm_apps s) app")
  case None
  then show ?thesis by (simp add: res_addActor_def wp_with_app)
next
  case (Some a)
  assume inv: "res_inv s"
  note ok = res_inv_app [OF inv Some]
  have step: "res_inv t'" if new: "actor \<notin> set (dkeys (ap_actors a))"
    and t: "rm_apps t = apps_upd app (spent (case ar_space x of None \<Rightarrow> 0 | Some n \<Rightarrow> n) k) (rm_apps s)"
      "0 \<le> k" "if ar_hasNet x then k = 1 \<and> ar_actorID x = ap_actorID a else ar_actorID x = 0"
    and t': "rm_apps t' = apps_upd app (\<lambda>a. a\<lparr>ap_actors := AList.update actor x (ap_actors a)\<rparr>) (rm_apps t)" for x k t t'
  proof (rule res_inv_apps_upd [OF inv])
    let ?f = "(\<lambda>a. a\<lparr>ap_actors := AList.update actor x (ap_actors a)\<rparr>) \<circ> spent (case ar_space x of None \<Rightarrow> 0 | Some n \<Rightarrow> n) k"
    show "rm_apps t' = apps_upd app ?f (rm_apps s)" by (simp only: t' t(1) apps_upd_upd)
    fix b assume "map_of (rm_apps s) app = Some b"
    with Some have b: "b = a" by simp
    have "ap_actors (spent n k a) = ap_actors a" for n by (simp add: spent_def)
    then show "app_ok (?f b)"
      using app_ok_add [OF ok new t(2,3)] new by (simp add: b update_fresh)
  qed
  have "wp (bnd (actorRM_init app actor us) (put_actor app actor)) (\<lambda>_. res_inv) (\<lambda>_ _. True) s"
    if "actor \<notin> set (dkeys (ap_actors a))"
    unfolding wp_bnd
    by (rule wp_actorRM_init [OF Some], simp only: put_actor_def wp_upd_app) (rule step [OF that], auto)
  with inv Some show ?thesis
    by (auto simp: res_addActor_def wp_with_app wp_whenA map_of_eq_None_iff)
qed

lemma wp_keeps_inv: "keeps_apps m \<Longrightarrow> res_inv s \<Longrightarrow> wp m (\<lambda>_. res_inv) (\<lambda>_ _. True) s"
  by (erule keeps_wp) (simp_all add: res_inv_def)

lemma wp_free: "(\<And>x t. wp (k x) Q (\<lambda>_ _. True) t) \<Longrightarrow> wp (bnd m k) Q (\<lambda>_ _. True) s"
  unfolding wp_bnd by (rule wp_mono [OF wp_TrueI]) auto

lemma wp_res_setupApp: "res_inv s \<Longrightarrow> wp (res_setupApp app folder user) (\<lambda>_. res_inv) (\<lambda>_ _. True) s"
proof (cases "map_of (rm_apps s) app")
  case (Some a)
  assume "res_inv s"
  with Some show ?thesis
    using wp_keeps_inv [OF keeps_parts(5)] by (simp add: res_setupApp_def wp_rd)
next
  case None
  assume inv: "res_inv s"
  have "wp (appRM_init app folder user) (\<lambda>a t. app_ok a) (\<lambda>_ _. True) s"
    unfolding appRM_init_def wp_rd
    by (rule wp_free, rule wp_free, simp only: split_def, rule wp_free) (simp add: wp_ret app_ok_def)
  then have "wp (appRM_init app folder user) (\<lambda>a t. app_ok a \<and> rm_apps t = rm_apps s) (\<lambda>_ _. True) s"
    using keeps_wp [OF keeps_parts(4), of s "\<lambda>_ t. rm_apps t = rm_apps s" "\<lambda>_ _. True"] wp_conj by fastforce
  then have "wp (appRM_init app folder user) (\<lambda>a t. res_inv (t\<lparr>rm_apps := AList.update app a (rm_apps t)\<rparr>)) (\<lambda>_ _. True) s"
    by (rule wp_mono) (use inv in \<open>auto simp: res_inv_def distinct_update dest!: set_update_subset\<close>)
  with None show ?thesis by (simp add: res_setupApp_def wp_rd wp_bnd wp_upd_fun)
qed

lemma wp_res_cleanupApp: "res_inv s \<Longrightarrow> wp (res_cleanupApp app) (\<lambda>_. res_inv) (\<lambda>_ _. True) s"
proof -
  assume inv: "res_inv s"
  let ?J = "\<lambda>t. res_inv (t\<lparr>rm_apps := AList.delete app (rm_apps t)\<rparr>)"
  have "wp (appRM_cleanup app a) (\<lambda>_. ?J) (\<lambda>_ _. True) s" for a
    by (rule keeps_wp [OF keeps_parts(6)]) (use inv in \<open>auto simp: res_inv_def\<close>)
  then have "wp (seqA [appRM_cleanup app a, upd (\<lambda>s. s\<lparr>rm_apps := AList.delete app (rm_apps s)\<rparr>)]) (\<lambda>_. res_inv) (\<lambda>_ _. True) s" for a
    by (rule wp_seqA_ConsI) (simp add: wp_seqA_Cons wp_seqA_Nil wp_upd)
  then show ?thesis
    by (simp add: res_cleanupApp_def wp_with_app split: option.split)
qed

lemma wp_res_cleanupApps: "res_inv s \<Longrightarrow> wp res_cleanupApps (\<lambda>_. res_inv) (\<lambda>_ _. True) s"
  unfolding res_cleanupApps_def wp_rd by (rule wp_forA_inv) (auto split: prod.split intro: wp_res_cleanupApp)

subsection \<open>Every operation keeps the invariant\<close>

lemma mod_actor_keeps:
  assumes "\<And>x. ar_space (f x) = ar_space x \<and> ar_hasNet (f x) = ar_hasNet x \<and> ar_actorID (f x) = ar_actorID x"
  shows "preserves res_inv (mod_actor app actor f)"
  unfolding preserves_def mod_actor_run
proof (intro allI impI)
  fix s :: "'a resm" assume inv: "res_inv s"
  have "res_inv (s\<lparr>rm_apps := apps_upd app (actors_upd actor f) (rm_apps s)\<rparr>)"
    by (rule res_inv_apps_upd [OF inv]) (use assms res_inv_app [OF inv] app_ok_actors_upd in auto)
  then show "res_inv (snd (Inr (), s\<lparr>rm_apps := apps_upd app (actors_upd actor f) (rm_apps s)\<rparr>))" by simp
qed

lemmas res_calls = res_startActor_def res_stopActor_def res_addClientDevice_def actorRM_start_def actorRM_start_cpu_def
  actorRM_start_mem_def actorRM_stop_def actorRM_addClientDevice_def mon_client_def mon_begin_def run_mon_def
  with_actor_def with_app_def res_reclaimApp_def chown_to_def Let_def

lemma calls_keep:
  "preserves res_inv (res_startActor app actor pid)" "preserves res_inv (res_stopActor app actor pid)"
  "preserves res_inv (res_addClientDevice app actor)" "preserves res_inv (res_reclaimApp app)"
  unfolding res_calls by (intro preserve mod_actor_keeps; simp add: res_inv_def)+

text \<open>The operations of the resource manager, as the deployment manager calls them.\<close>

datatype res_op = RSetup string string string | RAdd string string "settings option" | RClient string string
  | RStart string string int | RStop string string int | RReclaim string | RCleanup string | RCleanupAll

fun res_step :: "'w resm \<Rightarrow> res_op \<Rightarrow> (pyexc + unit) \<times> 'w resm" where
  "res_step s (RSetup app folder user) = res_setupApp app folder user s"
| "res_step s (RAdd app actor us) = res_addActor app actor us s"
| "res_step s (RClient app actor) = res_addClientDevice app actor s"
| "res_step s (RStart app actor pid) = res_startActor app actor pid s"
| "res_step s (RStop app actor pid) = res_stopActor app actor pid s"
| "res_step s (RReclaim app) = res_reclaimApp app s"
| "res_step s (RCleanup app) = res_cleanupApp app s"
| "res_step s RCleanupAll = res_cleanupApps s"

lemma res_step_keeps:
  assumes "res_inv s" "res_step s op = (Inr (), t)"
  shows "res_inv t"
proof -
  have "wp (\<lambda>s. res_step s op) (\<lambda>_. res_inv) (\<lambda>_ _. True) s"
    using assms(1) wp_res_setupApp wp_res_addActor wp_res_cleanupApp wp_res_cleanupApps
      calls_keep [THEN preserves_wp, of s, THEN wp_mono]
    by (cases op) (simp_all add: wp_def)
  then show ?thesis using assms(2) by (auto simp: wp_def)
qed

interpretation resources: stepped_object res_step "\<lambda>_. True" res_inv
  by unfold_locales (simp add: res_step_keeps)

text \<open>A host where everything succeeds; its users are known, and the process of an actor is theirs.\<close>

definition toy_resos :: "unit resos" where
  "toy_resos = \<lparr> ro_group = (\<lambda>_. ret ()), ro_drop = (\<lambda>_. ret ()), ro_cfs = (\<lambda>_ _ _. ret ()), ro_memwatch = (\<lambda>_ _. ret ()),
     ro_classid = (\<lambda>_ _. ret ()), ro_tasks = (\<lambda>_ _. ret ()), ro_getpwnam = (\<lambda>_. ret 1001), ro_process = (\<lambda>_. ret 1001) \<rparr>"

definition toy_reshost :: reshost where
  "toy_reshost = \<lparr> rh_cpu = True, rh_mem = True, rh_net = True, rh_target = ''riaps'', rh_uid = 0, rh_riaps_uid = ''1000'',
     rh_nic = ''eth0'', rh_rate = ''1000kbps'', rh_ceil = ''1100kbps'' \<rparr>"

definition toy_resm :: "unit resm" where
  "toy_resm = \<lparr> rm_os = toy_resos, rm_w = (), rm_host = toy_reshost, rm_apps = [], rm_spc = spcMon_new,
     rm_net = Some netMon_new, rm_sudo = [] \<rparr>"

definition spc_settings :: "int \<Rightarrow> settings" where
  "spc_settings n = \<lparr> us_cpu = None, us_mem = None, us_spc = Some n, us_net = Some \<lparr> nu_rate = 8, nu_ceil = Some 9, nu_burst = Some 0 \<rparr> \<rparr>"

lemmas res_run = seqA.simps bnd_def rd_def ret_def upd_def raise_def lift_def whenA_def tryA_def with_app_def with_actor_def
  res_os_def res_sudo_def on_spc_def on_net_def run_mon_def upd_app_def mod_actor_def put_actor_def

lemmas toy_res = toy_resm_def toy_resos_def toy_reshost_def spcMon_new_def netMon_new_def

definition toy_app :: "unit resm" where
  "toy_app = exec (res_setupApp ''App'' ''/apps/App'' ''app1'') toy_resm"

text \<open>
  C22: the quota of an application is the sum of what its actors ask for, and no two of its actors
  share a traffic class, after any operations of the manager.
\<close>

theorem quotas_add_up:
  assumes "res_inv s" "run_steps res_step s ops = Some t" "map_of (rm_apps t) app = Some a"
  shows "ap_spcUsage a = sum_list (map (\<lambda>(_, x). case ar_space x of None \<Rightarrow> 0 | Some n \<Rightarrow> n) (ap_actors a)) \<and>
    distinct (map (ar_actorID \<circ> snd) (filter (\<lambda>(_, x). ar_hasNet x) (ap_actors a)))"
proof -
  have "res_inv t" by (rule resources.run_keeps [OF assms(1) _ assms(2)]) (simp add: list_all_iff)
  from res_inv_app [OF this assms(3)] show ?thesis by (simp add: app_ok_def)
qed

lemma toy_resm_inv: "res_inv toy_resm"
  by (simp add: res_inv_def toy_resm_def)

lemmas res_ops = res_setupApp_def appRM_init_def app_user_def res_group_def res_addActor_def actorRM_init_def
  setupCPU_def setupMem_def setupNet_def nextActorID_def addQuota_def

theorem quotas_add_up_witness:
  "\<exists>t a. run_steps res_step toy_resm [RSetup ''App'' ''/apps/App'' ''app1'', RAdd ''App'' ''a'' (Some (spc_settings 5)),
      RAdd ''App'' ''b'' (Some (spc_settings 7))] = Some t \<and> map_of (rm_apps t) ''App'' = Some a \<and>
    length (ap_actors a) = 2 \<and> distinct (map (ar_actorID \<circ> snd) (filter (\<lambda>(_, x). ar_hasNet x) (ap_actors a)))"
proof -
  obtain t a where t: "run_steps res_step toy_resm [RSetup ''App'' ''/apps/App'' ''app1'', RAdd ''App'' ''a'' (Some (spc_settings 5)),
      RAdd ''App'' ''b'' (Some (spc_settings 7))] = Some t" "map_of (rm_apps t) ''App'' = Some a" "length (ap_actors a) = 2"
    by (simp add: res_ops res_run toy_res spc_settings_def Let_def)
  with quotas_add_up [OF toy_resm_inv t(1,2)] show ?thesis by blast
qed

section \<open>Limits of the processor\<close>

text \<open>
  C35: the limits written for the scheduler are in its range. The period is between a millisecond and
  a second, the quota between a millisecond and a second of it; the quota is the asked percentage of
  the period where that is in the range, and never more than the period when at most 100 percent is asked.
\<close>

theorem cpu_limits_in_range:
  assumes "\<not> cu_max c" "rh_cpu (rm_host s)"
  shows "\<exists>p q. setupCPU app actor (Some c) s = bnd (res_os (\<lambda>os. ro_cfs os (subgroup ''cpu'' app actor) p q)) (\<lambda>_. ret None) s \<and>
    1000 \<le> p \<and> p \<le> 1000000 \<and> 1000 \<le> q \<and> q \<le> 1000000 \<and>
    (1 \<le> cu_interval c \<and> cu_interval c \<le> 1000 \<longrightarrow> p = cu_interval c * 1000) \<and>
    (100000 \<le> cu_use c * p \<and> cu_use c * p \<le> 100000000 \<longrightarrow> q * 100 = of_int (cu_use c * p)) \<and>
    (cu_use c \<le> 100 \<longrightarrow> q \<le> of_int p)"
proof -
  let ?p = "cfs_period c" and ?q = "cfs_quota c"
  have "setupCPU app actor (Some c) s = bnd (res_os (\<lambda>os. ro_cfs os (subgroup ''cpu'' app actor) ?p ?q)) (\<lambda>_. ret None) s"
    using assms by (simp add: setupCPU_def rd_def whenA_def)
  moreover have p: "1000 \<le> ?p" "?p \<le> 1000000" and "1 \<le> cu_interval c \<and> cu_interval c \<le> 1000 \<longrightarrow> ?p = cu_interval c * 1000"
    by (auto simp: cfs_period_def Let_def)
  moreover have "1000 \<le> ?q" "?q \<le> 1000000" by (auto simp: cfs_quota_def clamp_def)
  moreover have "?q * 100 = of_int (cu_use c * ?p)" if "100000 \<le> cu_use c * ?p" "cu_use c * ?p \<le> 100000000"
  proof -
    have "100000 \<le> (of_int (cu_use c * ?p) :: real)" "(of_int (cu_use c * ?p) :: real) \<le> 100000000"
      using that by linarith+
    then show ?thesis by (simp add: cfs_quota_def clamp_def)
  qed
  moreover have "?q \<le> of_int ?p" if "cu_use c \<le> 100"
  proof -
    have "cu_use c * ?p \<le> 100 * ?p" using that p(1) by (intro mult_right_mono) auto
    then have "(of_int (cu_use c * ?p) :: real) \<le> 100 * of_int ?p" by (metis of_int_le_iff of_int_mult of_int_numeral)
    then obtain x where x: "x = (of_int (cu_use c) * of_int ?p :: real)" "x \<le> 100 * of_int ?p" by simp
    have "?q = clamp (x / 100)" unfolding cfs_quota_def x(1) by (simp add: field_simps)
    moreover have "(1000 :: real) \<le> of_int ?p" "(of_int ?p :: real) \<le> 1000000" using p by linarith+
    ultimately show ?thesis using x(2) unfolding clamp_def by auto
  qed
  ultimately show ?thesis by blast
qed

theorem cpu_limits_in_range_witness:
  "\<exists>p q. setupCPU ''App'' ''a'' (Some \<lparr> cu_use = 50, cu_interval = 100, cu_max = False \<rparr>) toy_resm =
     bnd (res_os (\<lambda>os. ro_cfs os (subgroup ''cpu'' ''App'' ''a'') p q)) (\<lambda>_. ret None) toy_resm \<and> p = 100000 \<and> q = 50000"
  using cpu_limits_in_range [of "\<lparr> cu_use = 50, cu_interval = 100, cu_max = False \<rparr>" toy_resm "''App''" "''a''"]
  by (auto simp: toy_resm_def toy_reshost_def)

section \<open>Stopping a monitor\<close>

definition mon_moves :: "(pyexc + int \<Rightarrow> unit rmact) \<Rightarrow> (pyexc + int) list \<Rightarrow> rmon \<Rightarrow> rmon" where
  "mon_moves h rs m = foldl (\<lambda>m r. exec (rmon_move h r) m) m rs"

lemma mon_moves_simps: "mon_moves h [] m = m" "mon_moves h (r # rs) m = mon_moves h rs (exec (rmon_move h r) m)"
  by (simp_all add: mon_moves_def)

lemmas mon_run = exec_def rmon_move_def rmon_top_def rmon_wake_def rmon_tell_def cpu_measured_def mem_event_def
  seqA.simps bnd_def rd_def ret_def upd_def whenA_def

lemma failed_stays: "rm_at m = MonFailed \<Longrightarrow> mon_moves h rs m = m"
  by (induction rs arbitrary: m) (simp_all add: mon_moves_simps mon_run)

lemma move_busy:
  assumes "h = cpu_measured \<or> h = mem_event" "rm_at m = Starting \<or> rm_at m = Watching" "\<not> rm_terminated m"
  shows "rm_at (exec (rmon_move h (Inr r)) m) = LoopTop \<and> rm_running (exec (rmon_move h (Inr r)) m) = rm_running m"
  using assms by (auto simp: mon_run split: if_splits)

lemma move_top: "rm_at m = LoopTop \<Longrightarrow> \<not> rm_running m \<Longrightarrow> exec (rmon_move h r) m = m\<lparr>rm_stopped := True, rm_at := Parked\<rparr>"
  by (simp add: mon_run)


definition toy_mon :: rmon where
  "toy_mon = (rmon_new 80)\<lparr>rm_pid := Some 7, rm_alive := True, rm_at := Watching\<rparr>"


text \<open>
  \<open>stop\<close> waits for ever for a processor monitor whose process has ended. The measurement raises,
  which ends the thread, and nothing sets the event any more; \<open>restart\<close> does not bring it back.
\<close>

theorem stop_waits_for_dead_process:
  assumes "rm_at m \<in> {Starting, Watching}" "\<not> rm_stopped m" "dead = exec (rmon_move cpu_measured (Inl e)) m"
  shows "\<not> rm_stopped (mon_moves cpu_measured rs (exec rmon_stop dead)) \<and>
    rm_sent (mon_moves cpu_measured rs (exec rmon_restart dead)) = rm_sent m"
proof -
  have d: "rm_at dead = MonFailed" "\<not> rm_stopped dead" "rm_sent dead = rm_sent m"
    using assms by (auto simp: mon_run)
  have "rm_at (exec rmon_stop dead) = MonFailed" "\<not> rm_stopped (exec rmon_stop dead)"
    "rm_at (exec rmon_restart dead) = MonFailed" "rm_sent (exec rmon_restart dead) = rm_sent m"
    using d by (auto simp: exec_def rmon_stop_def rmon_restart_def upd_def)
  then show ?thesis by (simp add: failed_stays)
qed

theorem stop_waits_for_dead_process_witness:
  "\<not> rm_stopped (mon_moves cpu_measured rs (exec rmon_stop (exec (rmon_move cpu_measured (Inl KeyError)) toy_mon)))"
  using stop_waits_for_dead_process [of toy_mon _ KeyError rs] by (simp add: toy_mon_def rmon_new_def)

section \<open>Quotas exceeded\<close>

lemma spc_tell_known:
  assumes "\<forall>full \<in> set xs. has_key (sm_devices s) full"
  shows "forA xs (\<lambda>full. rd sm_devices (\<lambda>ds. case map_of ds full of None \<Rightarrow> raise KeyError
      | Some identity \<Rightarrow> upd (\<lambda>s. s\<lparr>sm_sent := sm_sent s @ [identity]\<rparr>))) s =
    (Inr (), s\<lparr>sm_sent := sm_sent s @ map (the \<circ> map_of (sm_devices s)) xs\<rparr>)"
  using assms by (induction xs arbitrary: s) (auto simp: forA.simps ret_def bnd_def rd_def upd_def)

lemma forA_append: "forA (xs @ ys) f = bnd (forA xs f) (\<lambda>_. forA ys f)"
  by (induction xs) (auto simp: forA.simps bnd_def ret_def fun_eq_iff split: prod.split sum.split)

text \<open>
  A quota that is exceeded is told to every actor of the user once, when all have registered.
  The first that has not ends the monitor's thread: the actors after it, and from then on all
  actors of the node, are never told.
\<close>

theorem unregistered_actor_ends_quota_monitor:
  assumes "map_of (sm_uid2Name s) uid = Some (xs @ ys)" "\<not> sm_over s" "\<forall>full \<in> set xs. has_key (sm_devices s) full"
    "ys = [] \<or> \<not> has_key (sm_devices s) (hd ys)"
  shows "\<exists>t. spc_exceeded uid s = (Inr (), t) \<and> sm_sent t = sm_sent s @ map (the \<circ> map_of (sm_devices s)) xs \<and>
    (sm_over t \<longleftrightarrow> ys \<noteq> []) \<and> (ys \<noteq> [] \<longrightarrow> spc_exceeded uid' t = (Inr (), t))"
proof (cases ys)
  case Nil
  with assms show ?thesis
    using spc_tell_known [OF assms(3)] by (simp add: spc_exceeded_def spc_tell_def rd_def whenA_def tryA_def)
next
  case (Cons y zs)
  with assms show ?thesis
    using spc_tell_known [OF assms(3)]
    by (auto simp: spc_exceeded_def spc_tell_def rd_def whenA_def tryA_def forA_append bnd_def forA.simps raise_def upd_def ret_def)
qed

theorem unregistered_actor_ends_quota_monitor_witness:
  "\<exists>t. spc_exceeded 1001 \<lparr> sm_uid2Name = [(1001, [''A.x'', ''A.y''])], sm_name2Uid = [(''A.x'', 1001), (''A.y'', 1001)],
      sm_devices = [(''A.x'', ''A.x-7'')], sm_sent = [], sm_over = False \<rparr> = (Inr (), t) \<and> sm_sent t = [''A.x-7''] \<and> sm_over t"
  using unregistered_actor_ends_quota_monitor [of "\<lparr> sm_uid2Name = [(1001, [''A.x'', ''A.y''])],
      sm_name2Uid = [(''A.x'', 1001), (''A.y'', 1001)], sm_devices = [(''A.x'', ''A.x-7'')], sm_sent = [], sm_over = False \<rparr>"
      1001 "[''A.x'']" "[''A.y'']"]
  by auto

section \<open>Stopping an actor that has not registered\<close>

text \<open>\<open>stopActor\<close> of an actor with a disk quota that has not registered.\<close>

lemma unregistered_stop:
  assumes "map_of (rm_apps s) app = Some a" "map_of (ap_actors a) actor = Some x" "ar_started x = Some True" "ar_space x \<noteq> None"
    "\<not> has_key (sm_devices (rm_spc s)) (fullName app actor)"
    "\<And>uid xs. map_of (sm_name2Uid (rm_spc s)) (fullName app actor) = Some uid \<Longrightarrow>
      map_of (sm_uid2Name (rm_spc s)) uid = Some xs \<Longrightarrow> fullName app actor \<in> set xs"
  shows "\<exists>t u. res_stopActor app actor pid s = (Inl KeyError, t) \<and> res_stopActor app actor pid' t = (Inl KeyError, u) \<and>
    (\<exists>b y. map_of (rm_apps t) app = Some b \<and> map_of (ap_actors b) actor = Some y \<and> ar_started y = Some True)"
proof -
  let ?halt = "\<lambda>x. x\<lparr>ar_cpuMon := map_option (exec rmon_stop) (ar_cpuMon x), ar_memMon := map_option (exec rmon_stop) (ar_memMon x)\<rparr>"
  have del: "\<exists>p. spc_delProc (fullName app actor) (rm_spc s) = (Inl KeyError, p) \<and> \<not> has_key (sm_devices p) (fullName app actor) \<and>
      map_of (sm_name2Uid p) (fullName app actor) = None \<or>
      spc_delProc (fullName app actor) (rm_spc s) = (Inl KeyError, rm_spc s)"
    using assms(5,6) by (auto simp: spc_delProc_def rd_def raise_def seqA.simps bnd_def upd_def split: option.split)
  have stop: "res_stopActor app actor p v = (Inl KeyError, v\<lparr>rm_apps := apps_upd app (actors_upd actor ?halt) (rm_apps v), rm_spc := q\<rparr>)"
    if "map_of (rm_apps v) app = Some b" "map_of (ap_actors b) actor = Some y" "ar_started y = Some True" "ar_space y \<noteq> None"
      "spc_delProc (fullName app actor) (rm_spc v) = (Inl KeyError, q)" for p b y q and v :: "'a resm"
    using that
    by (simp add: res_stopActor_def with_actor_def with_app_def rd_def actorRM_stop_def whenA_def seqA.simps bnd_def
        mod_actor_run on_spc_def)
  have found: "\<exists>b y. map_of (apps_upd app (actors_upd actor ?halt) (rm_apps s)) app = Some b \<and>
      map_of (ap_actors b) actor = Some y \<and> ar_started y = Some True \<and> ar_space y \<noteq> None"
    using assms(1-4) by (simp add: map_of_apps_upd map_of_actors_upd)
  from del obtain q where q: "spc_delProc (fullName app actor) (rm_spc s) = (Inl KeyError, q)"
    and again: "\<exists>q'. spc_delProc (fullName app actor) q = (Inl KeyError, q')"
    by (auto simp: spc_delProc_def rd_def raise_def)
  let ?t = "s\<lparr>rm_apps := apps_upd app (actors_upd actor ?halt) (rm_apps s), rm_spc := q\<rparr>"
  have t: "res_stopActor app actor pid s = (Inl KeyError, ?t)" by (rule stop [OF assms(1-4) q])
  from found again stop [of ?t] obtain u where "res_stopActor app actor pid' ?t = (Inl KeyError, u)" by fastforce
  with t found show ?thesis by auto
qed

text \<open>
  An actor with a disk quota that has not registered cannot be stopped. \<open>stopActor\<close> raises
  \<open>KeyError\<close> and leaves the actor started, and raises again when it is called again.
\<close>

theorem unregistered_actor_cannot_be_stopped:
  assumes "map_of (rm_apps s) app = Some a" "map_of (ap_actors a) actor = Some x" "ar_started x = Some True" "ar_space x \<noteq> None"
    "\<not> has_key (sm_devices (rm_spc s)) (fullName app actor)"
    "\<And>uid xs. map_of (sm_name2Uid (rm_spc s)) (fullName app actor) = Some uid \<Longrightarrow>
      map_of (sm_uid2Name (rm_spc s)) uid = Some xs \<Longrightarrow> fullName app actor \<in> set xs"
  shows "\<exists>t u. res_stopActor app actor pid s = (Inl KeyError, t) \<and> res_stopActor app actor pid' t = (Inl KeyError, u) \<and>
    (\<exists>b y. map_of (rm_apps t) app = Some b \<and> map_of (ap_actors b) actor = Some y \<and> ar_started y = Some True)"
  by (rule unregistered_stop [OF assms])

theorem unregistered_actor_cannot_be_stopped_witness:
  "\<exists>s t. run_steps res_step toy_resm [RSetup ''App'' ''/apps/App'' ''app1'', RAdd ''App'' ''a'' (Some (spc_settings 5)),
      RStart ''App'' ''a'' 7] = Some s \<and> res_stopActor ''App'' ''a'' 7 s = (Inl KeyError, t)"
proof -
  obtain s a x where s: "run_steps res_step toy_resm [RSetup ''App'' ''/apps/App'' ''app1'', RAdd ''App'' ''a'' (Some (spc_settings 5)),
      RStart ''App'' ''a'' 7] = Some s" "map_of (rm_apps s) ''App'' = Some a" "map_of (ap_actors a) ''a'' = Some x"
    "ar_started x = Some True" "ar_space x \<noteq> None" "\<not> has_key (sm_devices (rm_spc s)) (fullName ''App'' ''a'')"
    "map_of (sm_name2Uid (rm_spc s)) (fullName ''App'' ''a'') = Some 1001" "map_of (sm_uid2Name (rm_spc s)) 1001 = Some [fullName ''App'' ''a'']"
    by (simp add: res_ops res_run toy_res spc_settings_def Let_def res_startActor_def actorRM_start_def actorRM_start_cpu_def
        actorRM_start_mem_def spc_addProc_def net_addProc_def)
  from unregistered_actor_cannot_be_stopped [OF s(2-6)] s(1,7,8) show ?thesis by fastforce
qed

end
