(* ===== verification/Depm.thy ===== *)
theory Depm
  imports FaultMon AppDb ProcMon ResMan
begin

text \<open>
  The deployment manager of a node (\<open>riaps/deplo/depm.py\<close>, class \<open>DeploymentManager\<close>): it starts, stops
  and restarts the processes of actors and devices on behalf of the controller and of the actors,
  opens the firewall for them, and passes on what the fault manager says of their peers.

  \<^item> Its parts are the models of the other theories, run where they stand by \<open>on_fm\<close>, \<open>on_res\<close>, \<open>on_pm\<close>
    and \<open>on_db\<close>.
  \<^item> The operating system is a parameter, the record \<open>depos\<close>: files, processes, the name service; an
    access may raise. A process is its pid. \<open>riaps_sudo\<close> never raises, \<open>dm_fw\<close> lists its commands.
  \<^item> The sockets, the proxy and the monitor that a registration creates for an actor are one number,
    its channel. What is sent over it is in \<open>dm_sent\<close>: channel, addressee, command.
  \<^item> The socket of the clients is a zmq REP socket: between a request and the answer to it nothing
    can be received; \<open>dm_pending\<close> says that an answer is owed.
  \<^item> The maps are changed by one thread only, so the locks do not appear.
\<close>

section \<open>Data\<close>

record actorDef =
  af_realtime :: bool
  af_usage :: "settings option"
  af_instances :: "(string \<times> string) list option"

record appModel =
  am_actors :: "(string, actorDef) dict"
  am_devices :: "(string, actorDef) dict"
  am_components :: "string list"
  am_libraries :: "string list"

record appRecord =
  pr_hash :: string
  pr_model :: appModel
  pr_home :: string
  pr_hosts :: "string list option"
  pr_network :: "(string, string list) dict"

record actorRecord =
  al_app :: string
  al_model :: string
  al_actor :: string
  al_args :: "string list"
  al_chan :: "nat option"

record deviceRecord =
  dv_app :: string
  dv_model :: string
  dv_type :: string
  dv_inst :: string
  dv_args :: "string list"
  dv_chan :: "nat option"

text \<open>
  Commands to actors, the commands of the controller and the requests of clients, with their answers.
  The command \<open>install\<close> is not among them: it may not end and is modelled in \<open>Install\<close>.
\<close>

datatype dcmd = PeerInfo bool string | Reinstate | NicState bool

datatype dcommand = Launch string string string "string list" | Halt string string
  | SetupApp string string | CleanupApp string | CleanupApps | SetDisco string string
  | Query | Reclaim string | OtherCommand

datatype dreply = ROk | RApps "(string \<times> string list) list" | RExc pyexc

datatype drequest = ActorReg string string bool
  | DeviceGet string string string string "(string \<times> string) list"
  | DeviceRel string string string string | ReportEvent string string string | OtherRequest

datatype danswer = RegOk nat | RegErr | DevGetA bool | DevRelA bool | ReportA bool

datatype dtask = TermActor int string string | TermDevice int string string

datatype fwcmd = FwAdd string | FwDel string

definition fw_text :: "fwcmd \<Rightarrow> string" where
  "fw_text c = (case c of FwAdd r \<Rightarrow> ''iptables -A '' @ r @ '' -w 1'' | FwDel r \<Rightarrow> ''iptables -D '' @ r @ '' -w 1'')"

section \<open>State\<close>

record 'w depos =
  do_isdir :: "string \<Rightarrow> ('w, bool) act"
  do_isfile :: "string \<Rightarrow> ('w, bool) act"
  do_hash :: "string \<Rightarrow> ('w, string) act"
  do_model :: "string \<Rightarrow> ('w, appModel) act"
  do_desc :: "string \<Rightarrow> ('w, string \<times> string list option \<times> (string, string list) dict) act"
  do_log :: "string \<Rightarrow> ('w, unit) act"
  do_popen :: "string list \<Rightarrow> ('w, int) act"
  do_ended :: "int \<Rightarrow> ('w, bool) act"
  do_cmdlines :: "int \<Rightarrow> ('w, string list list) act"
  do_running :: "int \<Rightarrow> ('w, bool) act"
  do_signal :: "int \<Rightarrow> nat \<Rightarrow> ('w, bool) act"
  do_terminate :: "int \<Rightarrow> ('w, bool) act"
  do_resolve :: "string \<Rightarrow> ('w, string) act"
  do_nameservers :: "('w, string list) act"
  do_getpwnam :: "string \<Rightarrow> ('w, unit) act"

record depcfg =
  dc_security :: bool
  dc_target :: string
  dc_host :: string
  dc_suffix :: string
  dc_apps :: string
  dc_logs :: bool
  dc_actor_file :: string
  dc_device_file :: string
  dc_disco_file :: string

record ('w, 'r, 'l) depm =
  dm_cfg :: depcfg
  dm_os :: "'w depos"
  dm_w :: 'w
  dm_fm :: fman
  dm_res :: "'r resm"
  dm_pm :: procm
  dm_db :: "'l appdb"
  dm_launch :: "(string, int) dict"
  dm_actors :: "(string, actorRecord) dict"
  dm_devices :: "(string, deviceRecord) dict"
  dm_queue :: "(string, tell list) dict"
  dm_models :: "(string, appRecord) dict"
  dm_users :: "string list"
  dm_appUser :: "(string, string) dict"
  dm_monitors :: "(string \<times> string, nat) dict"
  dm_clients :: "(string, nat) dict"
  dm_disco :: "int option"
  dm_connected :: bool
  dm_dbase :: "(string \<times> string) option"
  dm_fw :: "fwcmd list"
  dm_sent :: "(nat \<times> string \<times> dcmd) list"
  dm_unreg :: "(string \<times> string \<times> int) list"
  dm_tasks :: "dtask list"
  dm_replies :: "dreply list"
  dm_answers :: "danswer list"
  dm_pending :: bool
  dm_next :: nat

type_synonym ('w, 'r, 'l, 'a) dmact = "(('w, 'r, 'l) depm, 'a) act"

definition dep_os :: "('w depos \<Rightarrow> ('w, 'a) act) \<Rightarrow> ('w, 'r, 'l, 'a) dmact" where
  "dep_os f = (\<lambda>s. case f (dm_os s) (dm_w s) of (r, w) \<Rightarrow> (r, s\<lparr>dm_w := w\<rparr>))"

definition on_fm :: "(fman, 'a) act \<Rightarrow> ('w, 'r, 'l, 'a) dmact" where
  "on_fm m = (\<lambda>s. case m (dm_fm s) of (r, x) \<Rightarrow> (r, s\<lparr>dm_fm := x\<rparr>))"

definition on_res :: "('r resm, 'a) act \<Rightarrow> ('w, 'r, 'l, 'a) dmact" where
  "on_res m = (\<lambda>s. case m (dm_res s) of (r, x) \<Rightarrow> (r, s\<lparr>dm_res := x\<rparr>))"

definition on_pm :: "(procm, 'a) act \<Rightarrow> ('w, 'r, 'l, 'a) dmact" where
  "on_pm m = (\<lambda>s. case m (dm_pm s) of (r, x) \<Rightarrow> (r, s\<lparr>dm_pm := x\<rparr>))"

definition on_db :: "('l appdb, 'a) act \<Rightarrow> ('w, 'r, 'l, 'a) dmact" where
  "on_db m = (\<lambda>s. case m (dm_db s) of (r, x) \<Rightarrow> (r, s\<lparr>dm_db := x\<rparr>))"

definition done_with :: "('w, 'r, 'l, 'a) dmact \<Rightarrow> ('w, 'r, 'l, unit) dmact" where
  "done_with m = bnd m (\<lambda>_. ret ())"

text \<open>\<open>d[k]\<close>.\<close>

definition item :: "('s \<Rightarrow> ('k, 'v) dict) \<Rightarrow> 'k \<Rightarrow> ('s, 'v) act" where
  "item d k = rd d (\<lambda>m. case map_of m k of None \<Rightarrow> raise KeyError | Some v \<Rightarrow> ret v)"

definition joinPath :: "string \<Rightarrow> string \<Rightarrow> string" where
  "joinPath a b = a @ ''/'' @ b"

definition ascii_lower :: "char \<Rightarrow> char" where
  "ascii_lower c = (if 65 \<le> (of_char c :: nat) \<and> (of_char c :: nat) \<le> 90 then char_of ((of_char c :: nat) + 32) else c)"

section \<open>Users and models\<close>

definition setupUser :: "string \<Rightarrow> ('w, 'r, 'l, unit) dmact" where
  "setupUser u = rd dm_users (\<lambda>us. whenA (u \<notin> set us) (seqA [
     dep_os (\<lambda>os. do_getpwnam os u), upd (\<lambda>s. s\<lparr>dm_users := dm_users s @ [u]\<rparr>)]))"

definition delUser :: "string \<Rightarrow> ('w, 'r, 'l, unit) dmact" where
  "delUser u = rd dm_cfg (\<lambda>c. whenA (u \<noteq> dc_target c) (upd (\<lambda>s. s\<lparr>dm_users := removeAll u (dm_users s)\<rparr>)))"

definition unknown_name :: "string \<Rightarrow> string \<Rightarrow> pyexc" where
  "unknown_name what x = BuildError (what @ '' '' @ CHR 0x22 # x @ CHR 0x22 # '' unknown'')"

definition getAppRecord :: "string \<Rightarrow> ('w, 'r, 'l, appRecord) dmact" where
  "getAppRecord app = rd dm_models (\<lambda>m. case map_of m app of None \<Rightarrow> raise (unknown_name ''App'' app) | Some r \<Rightarrow> ret r)"

definition loadModel :: "string \<Rightarrow> string \<Rightarrow> ('w, 'r, 'l, unit) dmact" where
  "loadModel app file = bnd (dep_os (\<lambda>os. do_hash os file)) (\<lambda>h. rd dm_models (\<lambda>m.
     whenA (map_option pr_hash (map_of m app) \<noteq> Some h) (
       bnd (dep_os (\<lambda>os. do_model os file)) (\<lambda>model.
       bnd (tryA (dep_os (\<lambda>os. do_desc os file)) (\<lambda>_. ret ('''', Some [], []))) (\<lambda>(home, hosts, network).
       upd (\<lambda>s. s\<lparr>dm_models := AList.update app \<lparr> pr_hash = h, pr_model = model, pr_home = home, pr_hosts = hosts,
         pr_network = network \<rparr> (dm_models s)\<rparr>))))))"

definition getActorModel :: "string \<Rightarrow> string \<Rightarrow> ('w, 'r, 'l, actorDef) dmact" where
  "getActorModel app actor = bnd (getAppRecord app) (\<lambda>r. case map_of (am_actors (pr_model r)) actor of Some d \<Rightarrow> ret d
     | None \<Rightarrow> (case map_of (am_devices (pr_model r)) actor of Some d \<Rightarrow> ret d
       | None \<Rightarrow> raise (unknown_name ''Actor'' actor)))"

definition getComponentTypes :: "string \<Rightarrow> string \<Rightarrow> ('w, 'r, 'l, string list) dmact" where
  "getComponentTypes app actor = bnd (getAppRecord app) (\<lambda>r. bnd (getActorModel app actor) (\<lambda>d.
     case af_instances d of None \<Rightarrow> raise KeyError
     | Some is \<Rightarrow> ret (filter (\<lambda>t. t \<in> set (am_components (pr_model r)) \<or> has_key (am_devices (pr_model r)) t) (map snd is))))"

section \<open>The firewall\<close>

definition accept_rule :: "string \<Rightarrow> string \<Rightarrow> string" where
  "accept_rule user host = ''OUTPUT -d '' @ host @ '' -m owner --uid-owner '' @ user @ '' -j ACCEPT''"

definition drop_rule :: "string \<Rightarrow> string \<Rightarrow> string" where
  "drop_rule user host = ''OUTPUT -d '' @ host @ '' -m owner --uid-owner '' @ user @ '' -j DROP''"

definition firewall_add :: "string \<Rightarrow> ('w, 'r, 'l, unit) dmact" where
  "firewall_add r = upd (\<lambda>s. s\<lparr>dm_fw := dm_fw s @ [FwAdd r]\<rparr>)"

text \<open>The set \<open>done\<close> of the code is never added to, so no site is ever skipped.\<close>

definition setupAppSite :: "string \<Rightarrow> string \<Rightarrow> ('w, 'r, 'l, string list) dmact" where
  "setupAppSite user site = tryA (bnd (dep_os (\<lambda>os. do_resolve os site)) (\<lambda>host.
       let cmd = accept_rule user host in bnd (firewall_add cmd) (\<lambda>_. ret [cmd])))
     (\<lambda>_. raise (BuildError (''Error in setting up access to '' @ site @ '' for '' @ user)))"

text \<open>A loop whose turns each add to the list of rules.\<close>

fun collect :: "'a list \<Rightarrow> ('a \<Rightarrow> ('s, 'b list) act) \<Rightarrow> ('s, 'b list) act" where
  "collect [] f = ret []"
| "collect (x # xs) f = bnd (f x) (\<lambda>r. bnd (collect xs f) (\<lambda>rs. ret (r @ rs)))"

definition setupAppDNS :: "string \<Rightarrow> ('w, 'r, 'l, string list) dmact" where
  "setupAppDNS user = bnd (dep_os do_nameservers) (\<lambda>ips. collect ips (setupAppSite user))"

text \<open>Whether any network may be accessed, and the rules.\<close>

definition setupAppNetworkSites :: "string \<Rightarrow> string list option \<Rightarrow> ('w, 'r, 'l, bool \<times> string list) dmact" where
  "setupAppNetworkSites user sites = (case sites of None \<Rightarrow> ret (False, [])
     | Some [] \<Rightarrow> ret (True, [])
     | Some xs \<Rightarrow> bnd (collect xs (\<lambda>site. if site = ''dns'' then setupAppDNS user else setupAppSite user site))
         (\<lambda>rs. ret (False, rs)))"

definition setupAppNetwork :: "string \<Rightarrow> string \<Rightarrow> ('w, 'r, 'l, string list) dmact" where
  "setupAppNetwork app user = rd dm_cfg (\<lambda>c. if \<not> dc_security c \<or> user = dc_target c then ret [] else
     bnd (setupAppSite user ''127.0.0.1'') (\<lambda>r0.
     bnd (getAppRecord app) (\<lambda>r.
     bnd (setupAppNetworkSites user (pr_hosts r)) (\<lambda>(_, r1).
     bnd (setupAppNetworkSites user (map_of (pr_network r) ''[]'')) (\<lambda>(any, r2).
     if any then ret (r0 @ r1 @ r2) else
     bnd (setupAppNetworkSites user (map_of (pr_network r) (dc_host c))) (\<lambda>(any, r3).
     if any then ret (r0 @ r1 @ r2 @ r3) else
     let cmd = drop_rule user ''0.0.0.0/0'' in
     bnd (firewall_add cmd) (\<lambda>_. ret (r0 @ r1 @ r2 @ r3 @ [cmd]))))))))"

definition undoAppNetwork :: "string list \<Rightarrow> ('w, 'r, 'l, unit) dmact" where
  "undoAppNetwork rules = rd dm_cfg (\<lambda>c. whenA (dc_security c)
     (forA rules (\<lambda>r. upd (\<lambda>s. s\<lparr>dm_fw := dm_fw s @ [FwDel r]\<rparr>))))"

text \<open>The constructor: the target user is known, and what comes in is restricted to tracked connections.\<close>

definition depm_init :: "depcfg \<Rightarrow> 'w depos \<Rightarrow> 'w \<Rightarrow> fman \<Rightarrow> 'r resm \<Rightarrow> 'l appdb \<Rightarrow> (pyexc + unit) \<times> ('w, 'r, 'l) depm" where
  "depm_init c os w f r d = seqA [
     setupUser (dc_target c),
     whenA (dc_security c) (seqA [
       firewall_add ''INPUT -m conntrack --ctstate RELATED,ESTABLISHED -j ACCEPT'',
       firewall_add ''INPUT -m conntrack --ctstate INVALID -j DROP'',
       firewall_add ''INPUT -i lo -j ACCEPT''])]
     \<lparr> dm_cfg = c, dm_os = os, dm_w = w, dm_fm = f, dm_res = r, dm_pm = procm_new, dm_db = d, dm_launch = [], dm_actors = [],
       dm_devices = [], dm_queue = [], dm_models = [], dm_users = [], dm_appUser = [], dm_monitors = [], dm_clients = [],
       dm_disco = None, dm_connected = False, dm_dbase = None, dm_fw = [], dm_sent = [], dm_unreg = [], dm_tasks = [],
       dm_replies = [], dm_answers = [], dm_pending = False, dm_next = 1 \<rparr>"

section \<open>Starting and stopping actors\<close>

definition needs_component :: "string \<Rightarrow> string \<Rightarrow> ('w, 'r, 'l, unit) dmact" where
  "needs_component folder t = bnd (dep_os (\<lambda>os. do_isfile os (joinPath folder (t @ ''.py'')))) (\<lambda>b. if b then ret () else
     bnd (dep_os (\<lambda>os. do_isfile os (joinPath folder (''lib'' @ map ascii_lower t @ ''.so'')))) (\<lambda>b.
     whenA (\<not> b) (raise (BuildError (''Implementation of component '' @ t @ '' is missing'')))))"

definition needs_folder :: "string \<Rightarrow> string \<Rightarrow> ('w, 'r, 'l, unit) dmact" where
  "needs_folder what folder = bnd (dep_os (\<lambda>os. do_isdir os folder)) (\<lambda>b.
     whenA (\<not> b) (raise (BuildError (what @ '' folder is missing: '' @ folder))))"

text \<open>Try the program, and for some exceptions the python module; \<open>e'\<close> is raised when that fails too.\<close>

definition popen_or :: "(pyexc \<Rightarrow> bool) \<Rightarrow> string list \<Rightarrow> string \<Rightarrow> (pyexc \<Rightarrow> pyexc) \<Rightarrow> ('w, 'r, 'l, int) dmact" where
  "popen_or retry command pymod e' = tryA (dep_os (\<lambda>os. do_popen os command)) (\<lambda>e. if retry e
     then tryA (dep_os (\<lambda>os. do_popen os (''python3'' # pymod # tl command))) (\<lambda>e. raise (e' e)) else raise e)"

definition cmdline_of :: "int \<Rightarrow> ('w, 'r, 'l, string list) dmact" where
  "cmdline_of pid = bnd (dep_os (\<lambda>os. do_cmdlines os pid)) (\<lambda>ls. case ls of [] \<Rightarrow> raise IndexError | l # _ \<Rightarrow> ret l)"

definition actor_failed :: "string \<Rightarrow> string \<Rightarrow> pyexc" where
  "actor_failed app actor = BuildError (''Actor failed to start: '' @ fullName app actor @ '' '')"

definition startActor :: "string \<Rightarrow> string \<Rightarrow> string \<Rightarrow> string list \<Rightarrow> ('w, 'r, 'l, unit) dmact" where
  "startActor app model actor args = rd dm_cfg (\<lambda>c.
     let folder = joinPath (dc_apps c) app; q = fullName app actor in
     bnd (getAppRecord app) (\<lambda>_.
     bnd (needs_folder ''App'' folder) (\<lambda>_.
     bnd (getActorModel app actor) (\<lambda>d.
     bnd (getComponentTypes app actor) (\<lambda>types.
     bnd (forA types (needs_component folder)) (\<lambda>_.
     bnd (on_res (res_addActor app actor (af_usage d))) (\<lambda>_.
     bnd (on_fm (fa_addActor app actor)) (\<lambda>_.
     bnd (item dm_appUser app) (\<lambda>user.
     bnd (rd dm_users (\<lambda>us. whenA (user \<notin> set us) (raise KeyError))) (\<lambda>_.
     bnd (setupAppNetwork app user) (\<lambda>firewall.
     bnd (whenA (dc_logs c) (dep_os (\<lambda>os. do_log os (joinPath (dc_apps c) (joinPath app (actor @ ''.log'')))))) (\<lambda>_.
     bnd (popen_or (\<lambda>e. e = FileNotFoundError \<or> e = PermissionError)
       (''riaps_actor'' # app # joinPath folder model # actor # args) (dc_actor_file c) (\<lambda>_. actor_failed app actor)) (\<lambda>pid.
     bnd (dep_os (\<lambda>os. do_ended os pid)) (\<lambda>ended.
     if ended then raise (actor_failed app actor) else
     bnd (cmdline_of pid) (\<lambda>cmd. seqA [
       on_res (res_startActor app actor pid),
       on_fm (fa_startActor app actor),
       upd (\<lambda>s. s\<lparr>dm_launch := AList.update q pid (dm_launch s),
         dm_actors := AList.update q \<lparr> al_app = app, al_model = model, al_actor = actor, al_args = args, al_chan = None \<rparr> (dm_actors s),
         dm_queue := AList.update q [] (dm_queue s)\<rparr>),
       done_with (on_db (addAppActor app \<lparr> ac_app = app, ac_model = model, ac_actor = actor, ac_args = args, ac_cmd = cmd,
         ac_pid = pid, ac_firewall = firewall, ac_isdevice = False \<rparr>)),
       on_pm (procm_monitor q pid)])))))))))))))))"

text \<open>The channel of an actor is closed, and its monitor socket taken out of the table and the poller.\<close>

definition delMonitor :: "string \<Rightarrow> string \<Rightarrow> ('w, 'r, 'l, unit) dmact" where
  "delMonitor app actor = bnd (item dm_monitors (app, actor)) (\<lambda>_.
     upd (\<lambda>s. s\<lparr>dm_monitors := AList.delete (app, actor) (dm_monitors s)\<rparr>))"

definition submit :: "dtask \<Rightarrow> ('w, 'r, 'l, unit) dmact" where
  "submit t = upd (\<lambda>s. s\<lparr>dm_tasks := dm_tasks s @ [t]\<rparr>)"

definition stopActor :: "string \<Rightarrow> string \<Rightarrow> ('w, 'r, 'l, unit) dmact" where
  "stopActor app actor = (let q = fullName app actor in rd dm_launch (\<lambda>m. case map_of m q of None \<Rightarrow> ret ()
   | Some pid \<Rightarrow> bnd (upd (\<lambda>s. s\<lparr>dm_launch := AList.delete q (dm_launch s)\<rparr>)) (\<lambda>_. rd dm_actors (\<lambda>as. case map_of as q of None \<Rightarrow> ret ()
   | Some r \<Rightarrow> seqA [
       on_res (res_stopActor app actor pid),
       on_fm (fa_stopActor app actor),
       on_pm (procm_release q),
       submit (TermActor pid app actor),
       whenA (al_chan r \<noteq> None) (delMonitor app actor),
       upd (\<lambda>s. s\<lparr>dm_actors := AList.delete q (dm_actors s)\<rparr>),
       bnd (on_db (getAppActor app actor)) (\<lambda>x. case x of None \<Rightarrow> raise AttributeError | Some y \<Rightarrow> undoAppNetwork (ac_firewall y)),
       done_with (on_db (delAppActor app actor))]))))"

text \<open>The handler of a \<open>BuildError\<close> reads a second argument that it does not have.\<close>

definition haltActor :: "string \<Rightarrow> string \<Rightarrow> ('w, 'r, 'l, unit) dmact" where
  "haltActor app actor = tryA (stopActor app actor) (\<lambda>e. case e of BuildError _ \<Rightarrow> raise IndexError | _ \<Rightarrow> raise e)"

text \<open>The request to the discovery service; its failure is only logged.\<close>

definition unRegisterActor :: "string \<Rightarrow> string \<Rightarrow> int \<Rightarrow> ('w, 'r, 'l, unit) dmact" where
  "unRegisterActor app actor pid = upd (\<lambda>s. s\<lparr>dm_unreg := dm_unreg s @ [(app, actor, pid)]\<rparr>)"

text \<open>What the background thread does; \<open>do_terminate\<close> is whether the process ends in time.\<close>

fun run_task :: "dtask \<Rightarrow> ('w, 'r, 'l, unit) dmact" where
  "run_task (TermActor pid app actor) = bnd (dep_os (\<lambda>os. do_running os pid)) (\<lambda>b. whenA b
     (tryA (bnd (dep_os (\<lambda>os. do_terminate os pid)) (\<lambda>ended. whenA (\<not> ended) (seqA [
        unRegisterActor app actor pid, done_with (dep_os (\<lambda>os. do_signal os pid 9))]))) (\<lambda>_. ret ())))"
| "run_task (TermDevice pid app inst) =
     tryA (bnd (dep_os (\<lambda>os. do_terminate os pid)) (\<lambda>ended. whenA (\<not> ended) (seqA [
        unRegisterActor app inst pid, done_with (dep_os (\<lambda>os. do_signal os pid 9))]))) (\<lambda>_. ret ())"

section \<open>Applications\<close>

definition setupApp :: "string \<Rightarrow> string \<Rightarrow> ('w, 'r, 'l, unit) dmact" where
  "setupApp app model = rd dm_cfg (\<lambda>c. let folder = joinPath (dc_apps c) app in seqA [
     needs_folder ''app'' folder,
     loadModel app (joinPath folder model),
     on_fm (fa_setupApp app),
     on_res (res_setupApp app folder (map ascii_lower app @ drop (length (dc_suffix c) - 4) (dc_suffix c))),
     bnd (on_res (getUserName app)) (\<lambda>user. seqA [
       upd (\<lambda>s. s\<lparr>dm_appUser := AList.update app user (dm_appUser s)\<rparr>),
       setupUser user]),
     done_with (on_db (addApp app))])"

definition cleanupApp :: "string \<Rightarrow> ('w, 'r, 'l, unit) dmact" where
  "cleanupApp app = rd dm_models (\<lambda>m. whenA (has_key m app) (seqA [
     upd (\<lambda>s. s\<lparr>dm_models := AList.delete app (dm_models s)\<rparr>),
     on_res (res_cleanupApp app),
     on_fm (fa_cleanupApp app),
     done_with (on_db (delApp app)),
     rd dm_appUser (\<lambda>us. case map_of us app of None \<Rightarrow> ret () | Some user \<Rightarrow> seqA [
       upd (\<lambda>s. s\<lparr>dm_appUser := AList.delete app (dm_appUser s)\<rparr>), delUser user])]))"

text \<open>The loop deletes from the dictionary it iterates over, so its second turn raises.\<close>

definition cleanupApps :: "('w, 'r, 'l, unit) dmact" where
  "cleanupApps = rd dm_models (\<lambda>m. case m of
     [] \<Rightarrow> seqA [on_res res_cleanupApps, on_fm fa_cleanupApps]
   | (k, _) # _ \<Rightarrow> seqA [
       upd (\<lambda>s. s\<lparr>dm_models := AList.delete k (dm_models s)\<rparr>),
       done_with (on_db (delApp k)),
       raise RuntimeError])"

text \<open>\<open>key.split('.', 1)\<close> of a name that has a dot.\<close>

definition split_name :: "string \<Rightarrow> string \<times> string" where
  "split_name q = (takeWhile (\<lambda>c. c \<noteq> CHR ''.'') q, tl (dropWhile (\<lambda>c. c \<noteq> CHR ''.'') q))"

definition queryApps :: "('w, 'r, 'l) depm \<Rightarrow> (string \<times> string list) list" where
  "queryApps s = foldl (\<lambda>reply q. let (app, actor) = split_name q in
     if has_key (dm_devices s) q then reply
     else (case map_of reply app of Some as \<Rightarrow> AList.update app (as @ [actor]) reply | None \<Rightarrow> AList.update app [actor] reply))
     [] (dkeys (dm_launch s))"

section \<open>The discovery service\<close>

definition startDisco :: "('w, 'r, 'l, unit) dmact" where
  "startDisco = rd dm_cfg (\<lambda>c. rd dm_dbase (\<lambda>d.
     let args = (case d of None \<Rightarrow> ''None:None'' | Some (h, p) \<Rightarrow> h @ '':'' @ p) in
     bnd (rd dm_users (\<lambda>us. whenA (dc_target c \<notin> set us) (raise KeyError))) (\<lambda>_.
     bnd (popen_or (\<lambda>e. e = FileNotFoundError) [''riaps_disco'', ''--database'', args] (dc_disco_file c) (\<lambda>e. e)) (\<lambda>pid. seqA [
       upd (\<lambda>s. s\<lparr>dm_disco := Some pid\<rparr>),
       on_pm (procm_monitor ''riaps.disco'' pid),
       upd (\<lambda>s. s\<lparr>dm_connected := True\<rparr>),
       bnd (cmdline_of pid) (\<lambda>cmd. done_with (on_db (setDiscoCommand \<lparr> xc_cmd = cmd, xc_pid = pid, xc_args = args \<rparr>)))]))))"

definition setupDisco :: "string \<Rightarrow> string \<Rightarrow> ('w, 'r, 'l, unit) dmact" where
  "setupDisco host port = seqA [
     upd (\<lambda>s. s\<lparr>dm_dbase := Some (host, port)\<rparr>),
     rd dm_disco (\<lambda>d. if d = None then seqA [done_with (on_db (setDisco host port)), startDisco]
       else upd (\<lambda>s. s\<lparr>dm_connected := True\<rparr>))]"

section \<open>Devices\<close>

text \<open>The text of the second \<open>BuildError\<close> also shows the command.\<close>

definition startDevice :: "string \<Rightarrow> string \<Rightarrow> string \<Rightarrow> string \<Rightarrow> string list \<Rightarrow> ('w, 'r, 'l, unit) dmact" where
  "startDevice app model type inst args = rd dm_cfg (\<lambda>c.
     let folder = joinPath (dc_apps c) app; q = fullName app inst;
       command = ''riaps_device'' # app # joinPath folder model # type # inst # args in
     bnd (getAppRecord app) (\<lambda>_.
     bnd (needs_folder ''App'' folder) (\<lambda>_.
     bnd (needs_component folder type) (\<lambda>_.
     bnd (getActorModel app type) (\<lambda>d.
     bnd (on_res (res_addActor app inst (af_usage d))) (\<lambda>_.
     bnd (on_fm (fa_addActor app inst)) (\<lambda>_.
     bnd (whenA (dc_logs c) (dep_os (\<lambda>os. do_log os (joinPath (dc_apps c) (joinPath app (inst @ ''.log'')))))) (\<lambda>_.
     bnd (popen_or (\<lambda>e. e = FileNotFoundError) command (dc_device_file c) (\<lambda>_. TypeError)) (\<lambda>pid.
     bnd (tryA (dep_os (\<lambda>os. do_ended os pid)) (\<lambda>_. ret False)) (\<lambda>ended.
     if ended then raise (BuildError (''Device failed to start: '')) else
     bnd (cmdline_of pid) (\<lambda>cmd. seqA [
       on_res (res_startActor app inst pid),
       on_fm (fa_startActor app inst),
       upd (\<lambda>s. s\<lparr>dm_launch := AList.update q pid (dm_launch s),
         dm_devices := AList.update q \<lparr> dv_app = app, dv_model = model, dv_type = type, dv_inst = inst, dv_args = args, dv_chan = None \<rparr>
           (dm_devices s)\<rparr>),
       done_with (on_db (addAppActor app \<lparr> ac_app = app, ac_model = model, ac_actor = inst, ac_args = args, ac_cmd = cmd,
         ac_pid = pid, ac_firewall = [], ac_isdevice = True \<rparr>)),
       on_pm (procm_monitor q pid)])))))))))))"

definition stopDevice :: "string \<Rightarrow> string \<Rightarrow> ('w, 'r, 'l, unit) dmact" where
  "stopDevice app inst = (let q = fullName app inst in rd dm_launch (\<lambda>m. case map_of m q of None \<Rightarrow> ret ()
   | Some pid \<Rightarrow> bnd (dep_os (\<lambda>os. do_running os pid)) (\<lambda>running. seqA [
       upd (\<lambda>s. s\<lparr>dm_launch := AList.delete q (dm_launch s)\<rparr>),
       rd dm_devices (\<lambda>ds. assertA (has_key ds q)),
       on_res (res_stopActor app inst pid),
       on_fm (fa_stopActor app inst),
       on_pm (procm_release q),
       whenA running (submit (TermDevice pid app inst))])))"

section \<open>Requests of clients\<close>

definition answer :: "danswer \<Rightarrow> ('w, 'r, 'l, unit) dmact" where
  "answer a = upd (\<lambda>s. s\<lparr>dm_answers := dm_answers s @ [a], dm_pending := False\<rparr>)"

definition send_to :: "nat \<Rightarrow> string \<Rightarrow> dcmd \<Rightarrow> ('w, 'r, 'l, unit) dmact" where
  "send_to ch identity c = upd (\<lambda>s. s\<lparr>dm_sent := dm_sent s @ [(ch, identity, c)]\<rparr>)"

definition peer_cmd :: "tell \<Rightarrow> dcmd" where
  "peer_cmd = (\<lambda>(cmd, app, actor, peer). PeerInfo (cmd = ''peer+'') peer)"

definition handlePeerQueue :: "string \<Rightarrow> ('w, 'r, 'l, unit) dmact" where
  "handlePeerQueue q = bnd (item dm_actors q) (\<lambda>r. case al_chan r of None \<Rightarrow> raise AssertionError
   | Some ch \<Rightarrow> bnd (item dm_queue q) (\<lambda>msgs. seqA [
       forA msgs (\<lambda>msg. case msg of (cmd, app, actor, peer) \<Rightarrow> seqA [
         assertA (cmd = ''peer+'' \<or> cmd = ''peer-''),
         assertA (fullName app actor = q),
         bnd (item dm_launch q) (\<lambda>pid. send_to ch (actorIdentity app actor pid) (peer_cmd msg))]),
       upd (\<lambda>s. s\<lparr>dm_queue := AList.update q [] (dm_queue s)\<rparr>)]))"

definition setupClient :: "string \<Rightarrow> string \<Rightarrow> ('w, 'r, 'l, nat) dmact" where
  "setupClient app actor = rd (\<lambda>s. s) (\<lambda>s. let n = dm_next s; base = ''/'' @ app @ ''/'' @ actor @ ''/'' in
     bnd (upd (\<lambda>s. s\<lparr>dm_next := Suc n, dm_clients := AList.update (base @ dc_host (dm_cfg s)) n
       (AList.update (base @ dc_suffix (dm_cfg s)) n (AList.update base n (dm_clients s)))\<rparr>)) (\<lambda>_. ret n))"

definition known_client :: "('w, 'r, 'l) depm \<Rightarrow> string \<Rightarrow> bool \<Rightarrow> bool" where
  "known_client s q isDevice \<longleftrightarrow> has_key (dm_launch s) q \<and>
     (if isDevice then has_key (dm_devices s) q else has_key (dm_actors s) q)"

definition handleActorReg :: "string \<Rightarrow> string \<Rightarrow> bool \<Rightarrow> ('w, 'r, 'l, unit) dmact" where
  "handleActorReg app actor isDevice = (let q = fullName app actor in rd (\<lambda>s. known_client s q isDevice) (\<lambda>known.
     if \<not> known then answer RegErr else
     bnd (setupClient app actor) (\<lambda>ch. seqA [
       on_res (res_addClientDevice app actor),
       upd (\<lambda>s. s\<lparr>dm_monitors := AList.update (app, actor) ch (dm_monitors s)\<rparr>),
       on_fm (fa_addClientDevice app actor),
       (if isDevice then bnd (item dm_devices q) (\<lambda>r. upd (\<lambda>s. s\<lparr>dm_devices := AList.update q (r\<lparr>dv_chan := Some ch\<rparr>) (dm_devices s)\<rparr>))
        else bnd (item dm_actors q) (\<lambda>r. upd (\<lambda>s. s\<lparr>dm_actors := AList.update q (r\<lparr>al_chan := Some ch\<rparr>) (dm_actors s)\<rparr>))),
       answer (RegOk ch),
       whenA (\<not> isDevice) (handlePeerQueue q)])))"

definition device_args :: "(string \<times> string) list \<Rightarrow> string list" where
  "device_args args = concat (map (\<lambda>(name, v). [''--'' @ name, v]) args)"

definition handleDeviceReq :: "string \<Rightarrow> string \<Rightarrow> string \<Rightarrow> string \<Rightarrow> (string \<times> string) list \<Rightarrow> ('w, 'r, 'l, unit) dmact" where
  "handleDeviceReq app model type inst args =
     bnd (tryA (bnd (startDevice app model type inst (device_args args)) (\<lambda>_. ret True))
       (\<lambda>e. case e of BuildError _ \<Rightarrow> ret False | _ \<Rightarrow> raise e)) (\<lambda>ok. answer (DevGetA ok))"

definition handleDeviceRel :: "string \<Rightarrow> string \<Rightarrow> ('w, 'r, 'l, unit) dmact" where
  "handleDeviceRel app inst =
     bnd (tryA (bnd (stopDevice app inst) (\<lambda>_. ret True))
       (\<lambda>e. case e of BuildError _ \<Rightarrow> raise IndexError | _ \<Rightarrow> raise e)) (\<lambda>ok. answer (DevRelA ok))"

definition handleReportEvent :: "('w, 'r, 'l, unit) dmact" where
  "handleReportEvent = answer (ReportA True)"

fun client_body :: "drequest \<Rightarrow> ('w, 'r, 'l, unit) dmact" where
  "client_body (ActorReg app actor isDevice) = handleActorReg app actor isDevice"
| "client_body (DeviceGet app model type inst args) = handleDeviceReq app model type inst args"
| "client_body (DeviceRel app model type inst) = handleDeviceRel app inst"
| "client_body (ReportEvent app actor msg) = handleReportEvent"
| "client_body OtherRequest = ret ()"

definition handleClient :: "drequest \<Rightarrow> ('w, 'r, 'l, unit) dmact" where
  "handleClient r = tryA (client_body r) (\<lambda>_. ret ())"

section \<open>Commands of the controller\<close>

fun command_body :: "dcommand \<Rightarrow> ('w, 'r, 'l, dreply) dmact" where
  "command_body (Launch app model actor args) = bnd (startActor app model actor args) (\<lambda>_. ret ROk)"
| "command_body (Halt app actor) = bnd (haltActor app actor) (\<lambda>_. ret ROk)"
| "command_body (SetupApp app model) = bnd (setupApp app model) (\<lambda>_. ret ROk)"
| "command_body (CleanupApp app) = bnd (cleanupApp app) (\<lambda>_. ret ROk)"
| "command_body CleanupApps = bnd cleanupApps (\<lambda>_. ret ROk)"
| "command_body (SetDisco host port) = bnd (setupDisco host port) (\<lambda>_. ret ROk)"
| "command_body Query = rd queryApps (\<lambda>r. ret (RApps r))"
| "command_body (Reclaim app) = bnd (on_res (res_reclaimApp app)) (\<lambda>_. ret ROk)"
| "command_body OtherCommand = ret ROk"

text \<open>
  The reply to a failed command is a text with the mark \<open>Exc:\<close> and the exception, which
  \<open>callCommand\<close> raises again in the caller's thread.
\<close>

definition handleCommand :: "dcommand \<Rightarrow> ('w, 'r, 'l, unit) dmact" where
  "handleCommand c = bnd (tryA (command_body c) (\<lambda>e. ret (RExc e)))
     (\<lambda>r. upd (\<lambda>s. s\<lparr>dm_replies := dm_replies s @ [r]\<rparr>))"

definition call_result :: "dreply \<Rightarrow> pyexc + dreply" where
  "call_result r = (case r of RExc e \<Rightarrow> Inl (BuildError ''command failed'') | _ \<Rightarrow> Inr r)"

section \<open>Restarts and peers\<close>

text \<open>
  For an entry of the launch map that is in neither table, which the invariant of \<open>DepmProps\<close>
  excludes, the variable \<open>record\<close> is not set.
\<close>

definition reinstate :: "('w, 'r, 'l, unit) dmact" where
  "reinstate = rd dm_launch (\<lambda>m. forA m (\<lambda>(q, pid). bnd (dep_os (\<lambda>os. do_running os pid)) (\<lambda>running. whenA running
     (rd (\<lambda>s. (map_of (dm_actors s) q, map_of (dm_devices s) q)) (\<lambda>(a, d). case a of
        Some r \<Rightarrow> (case al_chan r of None \<Rightarrow> ret () | Some ch \<Rightarrow> send_to ch (actorIdentity (al_app r) (al_actor r) pid) Reinstate)
      | None \<Rightarrow> (case d of None \<Rightarrow> raise NameError
        | Some r \<Rightarrow> (case dv_chan r of None \<Rightarrow> ret () | Some ch \<Rightarrow> send_to ch (actorIdentity (dv_app r) (dv_inst r) pid) Reinstate)))))))"

definition restartActor :: "string \<Rightarrow> actorRecord \<Rightarrow> ('w, 'r, 'l, unit) dmact" where
  "restartActor q r = seqA [
     assertA (split_name q = (al_app r, al_actor r)),
     rd dm_launch (\<lambda>m. case map_of m q of None \<Rightarrow> raise AssertionError
       | Some pid \<Rightarrow> seqA [
           stopActor (al_app r) (al_actor r),
           unRegisterActor (al_app r) (al_actor r) pid,
           startActor (al_app r) (al_model r) (al_actor r) (al_args r)])]"

definition handleProcmon :: "string \<Rightarrow> ('w, 'r, 'l, unit) dmact" where
  "handleProcmon q = seqA [
     (if q = ''riaps.disco'' then seqA [startDisco, reinstate]
      else rd (\<lambda>s. (map_of (dm_actors s) q, map_of (dm_devices s) q)) (\<lambda>(a, d). case (a, d) of
          (Some r, _) \<Rightarrow> restartActor q r
        | (None, Some r) \<Rightarrow> seqA [
            stopDevice (fst (split_name q)) (snd (split_name q)),
            startDevice (fst (split_name q)) (dv_model r) (dv_type r) (dv_inst r) (dv_args r)]
        | _ \<Rightarrow> ret ())),
     on_pm (procm_answer q)]"

definition handleFMMon :: "tell \<Rightarrow> ('w, 'r, 'l, unit) dmact" where
  "handleFMMon msg = (case msg of (cmd, app, actor, peer) \<Rightarrow> let q = fullName app actor in seqA [
     assertA (cmd = ''peer+'' \<or> cmd = ''peer-''),
     rd (\<lambda>s. (map_of (dm_actors s) q, map_of (dm_launch s) q)) (\<lambda>(a, l). case (a, l) of
       (Some r, Some pid) \<Rightarrow> (case al_chan r of
           Some ch \<Rightarrow> send_to ch (actorIdentity app actor pid) (peer_cmd msg)
         | None \<Rightarrow> bnd (item dm_queue q) (\<lambda>msgs. upd (\<lambda>s. s\<lparr>dm_queue := AList.update q (msgs @ [msg]) (dm_queue s)\<rparr>)))
     | _ \<Rightarrow> ret ())])"

definition handleNICMon :: "string \<Rightarrow> ('w, 'r, 'l, unit) dmact" where
  "handleNICMon flag = seqA [
     assertA (flag = ''nic+'' \<or> flag = ''nic-''),
     rd dm_actors (\<lambda>as. forA as (\<lambda>(q, r). case al_chan r of None \<Rightarrow> ret ()
       | Some ch \<Rightarrow> bnd (item dm_launch q) (\<lambda>pid.
           send_to ch (actorIdentity (al_app r) (al_actor r) pid) (NicState (flag = ''nic+'')))))]"

section \<open>Recovery\<close>

text \<open>
  \<open>kill\<close>: \<open>do_signal\<close> answers whether there still is such a process (\<open>ESRCH\<close> otherwise); signal 0 only
  asks. Up to three times the thread waits a second for the process to end, before it kills it.
\<close>

fun gone_within :: "nat \<Rightarrow> int \<Rightarrow> ('w, 'r, 'l, bool) dmact" where
  "gone_within 0 pid = ret False"
| "gone_within (Suc n) pid = bnd (dep_os (\<lambda>os. do_signal os pid 0)) (\<lambda>there. if there then gone_within n pid else ret True)"

definition dep_kill :: "int \<Rightarrow> ('w, 'r, 'l, unit) dmact" where
  "dep_kill pid = bnd (dep_os (\<lambda>os. do_signal os pid 15)) (\<lambda>there. whenA there (bnd (gone_within 3 pid) (\<lambda>gone. whenA (\<not> gone)
     (bnd (dep_os (\<lambda>os. do_signal os pid 9)) (\<lambda>there. whenA there (done_with (dep_os (\<lambda>os. do_signal os pid 0))))))))"

definition kill_orphans :: "int \<Rightarrow> string list \<Rightarrow> ('w, 'r, 'l, unit) dmact \<Rightarrow> ('w, 'r, 'l, unit) dmact" where
  "kill_orphans pid cmd k = bnd (dep_os (\<lambda>os. do_cmdlines os pid)) (\<lambda>ls.
     forA ls (\<lambda>l. whenA (l = cmd) (seqA [dep_kill pid, k])))"

text \<open>\<open>tuple(args.split(':'))\<close>, which \<open>setupDisco\<close> takes for a host and a port.\<close>

definition split_colon :: "string \<Rightarrow> pyexc + (string \<times> string)" where
  "split_colon a = (case split_on CHR '':'' a of [h, p] \<Rightarrow> Inr (h, p) | _ \<Rightarrow> Inl AssertionError)"

definition stopOrphanDisco :: "('w, 'r, 'l, (string \<times> string) option) dmact" where
  "stopOrphanDisco = bnd (on_db getDiscoCommand) (\<lambda>v. case v of
     Some (VDiscoCmd x) \<Rightarrow> bnd (lift (split_colon (xc_args x))) (\<lambda>hp.
       bnd (kill_orphans (xc_pid x) (xc_cmd x) (done_with (on_db delDiscoCommand))) (\<lambda>_. ret (Some hp)))
   | Some _ \<Rightarrow> raise AttributeError
   | None \<Rightarrow> rd dm_dbase ret)"

definition stopOrphanActor :: "actorCommand \<Rightarrow> ('w, 'r, 'l, unit) dmact" where
  "stopOrphanActor r = seqA [
     kill_orphans (ac_pid r) (ac_cmd r) (ret ()),
     done_with (on_db (delAppActor (ac_app r) (ac_actor r)))]"

text \<open>The actors recorded for an application; \<open>getAppActors\<close> answers \<open>False\<close> when it fails.\<close>

definition recorded :: "string \<Rightarrow> ('w, 'r, 'l, actorCommand list) dmact" where
  "recorded app = bnd (on_db (getAppActors app)) (\<lambda>v. bnd (lift (as_list TypeError v)) (\<lambda>xs. lift (actors_where (\<lambda>_. True) xs)))"

fun orphans :: "dbitem list \<Rightarrow> ('w, 'r, 'l, (string \<times> actorCommand list) list) dmact" where
  "orphans [] = ret []"
| "orphans (IActor r # is) = raise TypeError"
| "orphans (IName app # is) = bnd (recorded app) (\<lambda>rs. bnd (forA rs stopOrphanActor) (\<lambda>_.
     bnd (orphans is) (\<lambda>ms. ret ((app, rs) # ms))))"

text \<open>
  \<open>appSet\<close> says that the application has been set up; a failure is logged and the actor's record
  removed. \<open>recoverActor\<close> gives the new value of the flag.
\<close>

definition recoverActor :: "bool \<Rightarrow> actorCommand \<Rightarrow> ('w, 'r, 'l, bool) dmact" where
  "recoverActor appSet r = (let give_up = (\<lambda>b. bnd (done_with (on_db (delAppActor (ac_app r) (ac_actor r)))) (\<lambda>_. ret b)) in
     bnd (tryA (bnd (whenA (\<not> appSet) (setupApp (ac_app r) (ac_model r))) (\<lambda>_. ret True)) (\<lambda>_. ret False)) (\<lambda>set_up.
     if \<not> set_up then give_up False else
     tryA (bnd (whenA (\<not> ac_isdevice r) (startActor (ac_app r) (ac_model r) (ac_actor r) (ac_args r))) (\<lambda>_. ret True))
       (\<lambda>_. give_up True)))"

fun recoverActors :: "bool \<Rightarrow> actorCommand list \<Rightarrow> ('w, 'r, 'l, unit) dmact" where
  "recoverActors appSet [] = ret ()"
| "recoverActors appSet (r # rs) = bnd (recoverActor appSet r) (\<lambda>b. recoverActors b rs)"

definition recover :: "('w, 'r, 'l, unit) dmact" where
  "recover = bnd (on_db getDisco) (\<lambda>disco. bnd (on_db getApps) (\<lambda>apps. bnd (orphans apps) (\<lambda>cmds. seqA [
     whenA (disco \<noteq> None) (bnd stopOrphanDisco (\<lambda>args. case args of
       None \<Rightarrow> setupDisco ''None'' ''None'' | Some (h, p) \<Rightarrow> setupDisco h p)),
     forA (concat (map snd cmds)) (\<lambda>r. unRegisterActor (ac_app r) (ac_actor r) (ac_pid r)),
     forA cmds (\<lambda>(_, rs). recoverActors False rs)])))"

section \<open>The main loop\<close>

definition dep_stop :: "('w, 'r, 'l, unit) dmact" where
  "dep_stop = rd dm_launch (\<lambda>m. seqA [
     forA m (\<lambda>(q, _). haltActor (fst (split_name q)) (snd (split_name q))),
     rd dm_tasks (\<lambda>ts. seqA [forA ts run_task, upd (\<lambda>s. s\<lparr>dm_tasks := []\<rparr>)]),
     on_res res_cleanupApps,
     on_fm fa_cleanupApps,
     rd dm_disco (\<lambda>d. case d of None \<Rightarrow> ret () | Some pid \<Rightarrow> seqA [
       on_pm (procm_release ''riaps.disco''),
       bnd (dep_os (\<lambda>os. do_signal os pid 15)) (\<lambda>there. whenA (\<not> there) (raise OSError)),
       upd (\<lambda>s. s\<lparr>dm_disco := None\<rparr>)]),
     on_db closeDbase])"

text \<open>
  One message of the loop. A client's request is received only when none waits for an answer. What
  the handlers of the monitors raise ends the thread, what those of requests raise does not. The
  background threads take the next task at any time.
\<close>

datatype depm_event = EvCommand dcommand | EvClient drequest | EvProcmon string | EvFM tell | EvNIC string | EvTask

fun depm_turn :: "depm_event \<Rightarrow> ('w, 'r, 'l, unit) dmact" where
  "depm_turn (EvCommand c) = handleCommand c"
| "depm_turn (EvClient r) = rd dm_pending (\<lambda>b. whenA (\<not> b) (seqA [
     upd (\<lambda>s. s\<lparr>dm_pending := True\<rparr>), handleClient r]))"
| "depm_turn (EvProcmon q) = handleProcmon q"
| "depm_turn (EvFM msg) = handleFMMon msg"
| "depm_turn (EvNIC flag) = handleNICMon flag"
| "depm_turn EvTask = rd dm_tasks (\<lambda>ts. case ts of [] \<Rightarrow> ret ()
     | t # ts \<Rightarrow> seqA [upd (\<lambda>s. s\<lparr>dm_tasks := ts\<rparr>), run_task t])"

end
