(* ===== verification/DepmProps.thy ===== *)
theory DepmProps
  imports Depm ResProps AppDbProps "HOL-Library.Multiset"
begin

text \<open>
  Properties of the deployment manager. The locales \<open>dep_side\<close> and \<open>dep_tables\<close> collect what the
  operations do not touch; the rest is about requests and their answers, the tables, the firewall,
  the order of messages about peers, and the runs in which processes are lost.
\<close>

section \<open>What operations leave alone\<close>

lemma dep_os_keeps: "(\<And>s w. I s \<Longrightarrow> I (s\<lparr>dm_w := w\<rparr>)) \<Longrightarrow> preserves I (dep_os f)"
  by (simp add: preserves_def dep_os_def split: prod.split)

lemma on_fm_keeps: "(\<And>s x. I s \<Longrightarrow> I (s\<lparr>dm_fm := x\<rparr>)) \<Longrightarrow> preserves I (on_fm m)"
  by (simp add: preserves_def on_fm_def split: prod.split)

lemma on_res_keeps: "(\<And>s x. I s \<Longrightarrow> I (s\<lparr>dm_res := x\<rparr>)) \<Longrightarrow> preserves I (on_res m)"
  by (simp add: preserves_def on_res_def split: prod.split)

lemma on_pm_keeps: "(\<And>s x. I s \<Longrightarrow> I (s\<lparr>dm_pm := x\<rparr>)) \<Longrightarrow> preserves I (on_pm m)"
  by (simp add: preserves_def on_pm_def split: prod.split)

lemma on_db_keeps: "(\<And>s x. I s \<Longrightarrow> I (s\<lparr>dm_db := x\<rparr>)) \<Longrightarrow> preserves I (on_db m)"
  by (simp add: preserves_def on_db_def split: prod.split)

text \<open>
  A predicate of the state that does not depend on the parts an operation uses on its way, and
  \<open>dep_side\<close>, one that depends on none of the parts and of the manager's bookkeeping.
\<close>

locale dep_core =
  fixes I :: "('w, 'r, 'l) depm \<Rightarrow> bool"
  assumes w: "I s \<Longrightarrow> I (s\<lparr>dm_w := x\<rparr>)" and fm: "I s \<Longrightarrow> I (s\<lparr>dm_fm := x1\<rparr>)"
    and res: "I s \<Longrightarrow> I (s\<lparr>dm_res := x2\<rparr>)" and models: "I s \<Longrightarrow> I (s\<lparr>dm_models := x5\<rparr>)"
    and users: "I s \<Longrightarrow> I (s\<lparr>dm_users := x6\<rparr>)" and monitors: "I s \<Longrightarrow> I (s\<lparr>dm_monitors := x8\<rparr>)"
    and clients: "I s \<Longrightarrow> I (s\<lparr>dm_next := n, dm_clients := x9\<rparr>)"
    and unreg: "I s \<Longrightarrow> I (s\<lparr>dm_unreg := x14\<rparr>)" and tasks: "I s \<Longrightarrow> I (s\<lparr>dm_tasks := x15\<rparr>)"
begin

lemma os: "preserves I (dep_os f)" and onfm: "preserves I (on_fm a)" and onres: "preserves I (on_res b)"
  by (simp_all add: dep_os_keeps on_fm_keeps on_res_keeps w fm res)

lemmas core_calls = os onfm onres
lemmas core_fields = models users monitors clients unreg tasks

lemma models_ok: "preserves I (loadModel app file)" "preserves I (getAppRecord app)" "preserves I (getActorModel app actor)"
  "preserves I (getComponentTypes app actor)" "preserves I (setupUser u)" "preserves I (delUser u)"
  unfolding loadModel_def getAppRecord_def getActorModel_def getComponentTypes_def setupUser_def delUser_def
  by (intro preserve core_calls preserves_upd core_fields; assumption)+

lemma needs_ok: "preserves I (needs_component folder t)" "preserves I (needs_folder what folder)"
  "preserves I (popen_or r c m e)" "preserves I (cmdline_of pid)" "preserves I (delMonitor app actor)" "preserves I (submit tk)"
  "preserves I (unRegisterActor app actor pid)" "preserves I (setupClient app actor)" "preserves I (item dd kk)"
  unfolding needs_component_def needs_folder_def popen_or_def cmdline_of_def delMonitor_def submit_def unRegisterActor_def
    setupClient_def item_def Let_def
  by (intro preserve core_calls preserves_upd core_fields; assumption)+

lemma task_ok: "preserves I (run_task t)"
  by (cases t) (simp_all, (intro preserve core_calls preserves_upd core_fields needs_ok | simp add: done_with_def)+)

end

locale dep_net = dep_core +
  assumes fw: "I s \<Longrightarrow> I (s\<lparr>dm_fw := x13\<rparr>)"
begin

lemma sites_ok: "preserves I (setupAppSite user site)"
  unfolding setupAppSite_def firewall_add_def Let_def by (intro preserve core_calls preserves_upd core_fields fw)

lemma collect_ok: "(\<And>x. preserves I (f x)) \<Longrightarrow> preserves I (collect xs f)"
  by (induction xs) (simp_all add: preserve)

lemma network_ok: "preserves I (setupAppNetwork app user)" "preserves I (undoAppNetwork rules)"
  unfolding setupAppNetwork_def undoAppNetwork_def setupAppNetworkSites_def setupAppDNS_def getAppRecord_def firewall_add_def Let_def
  by (intro preserve core_calls preserves_upd core_fields fw sites_ok collect_ok; assumption)+

end

locale dep_side = dep_net +
  assumes pm: "I s \<Longrightarrow> I (s\<lparr>dm_pm := x3\<rparr>)" and db: "I s \<Longrightarrow> I (s\<lparr>dm_db := x4\<rparr>)"
    and appUser: "I s \<Longrightarrow> I (s\<lparr>dm_appUser := x7\<rparr>)" and disco: "I s \<Longrightarrow> I (s\<lparr>dm_disco := x10\<rparr>)"
    and connected: "I s \<Longrightarrow> I (s\<lparr>dm_connected := x11\<rparr>)" and dbase: "I s \<Longrightarrow> I (s\<lparr>dm_dbase := x12\<rparr>)"
begin

lemma onpm: "preserves I (on_pm c)" and ondb: "preserves I (on_db d)"
  by (simp_all add: on_pm_keeps on_db_keeps pm db)

lemmas calls = core_calls onpm ondb
lemmas fields = core_fields fw appUser disco connected dbase

lemma apps_ok: "preserves I (setupApp app model)" "preserves I (cleanupApp app)" "preserves I cleanupApps"
  unfolding setupApp_def cleanupApp_def cleanupApps_def done_with_def Let_def
  by (intro preserve calls preserves_upd fields needs_ok models_ok; assumption)+

lemma disco_ok: "preserves I startDisco" "preserves I (setupDisco h p)"
  unfolding setupDisco_def startDisco_def done_with_def Let_def
  by (intro preserve calls preserves_upd fields needs_ok; assumption)+

end

text \<open>In addition it does not depend on the tables of processes, nor on what is sent to actors.\<close>

locale dep_tables = dep_side +
  assumes launch: "I s \<Longrightarrow> I (s\<lparr>dm_launch := y1\<rparr>)" and actors: "I s \<Longrightarrow> I (s\<lparr>dm_actors := y2\<rparr>)"
    and devices: "I s \<Longrightarrow> I (s\<lparr>dm_devices := y3\<rparr>)" and queue: "I s \<Longrightarrow> I (s\<lparr>dm_queue := y4\<rparr>)"
    and sent: "I s \<Longrightarrow> I (s\<lparr>dm_sent := y5\<rparr>)"
begin

lemmas table_fields = launch actors devices queue sent

lemma start_ok: "preserves I (startActor app model actor args)" "preserves I (startDevice app model type inst args)"
  unfolding startActor_def startDevice_def done_with_def Let_def
  by (intro preserve calls preserves_upd needs_ok models_ok network_ok; (assumption | simp add: table_fields))+

lemma stop_ok: "preserves I (stopActor app actor)" "preserves I (stopDevice app actor)" "preserves I (haltActor app actor)"
proof -
  show stop: "preserves I (stopActor app actor)" "preserves I (stopDevice app actor)"
    unfolding stopActor_def stopDevice_def done_with_def Let_def
    by (intro preserve calls preserves_upd needs_ok network_ok; (assumption | simp add: table_fields))+
  show "preserves I (haltActor app actor)"
    unfolding haltActor_def by (intro preserves_tryA stop) (simp split: pyexc.split add: preserve)
qed

lemma command_ok: "preserves I (command_body c)"
  by (cases c) (auto intro!: preserve calls start_ok stop_ok apps_ok disco_ok)

lemma send_ok: "preserves I (send_to ch i c)"
  unfolding send_to_def by (intro preserves_upd sent)

lemma monitor_ok: "preserves I (handleProcmon q)" "preserves I (handleFMMon msg)" "preserves I (handleNICMon flag)"
  unfolding handleProcmon_def handleFMMon_def handleNICMon_def restartActor_def reinstate_def item_def Let_def
  by (intro preserve calls preserves_upd needs_ok start_ok stop_ok disco_ok send_ok; (assumption | simp add: table_fields))+

lemma queue_ok: "preserves I (handlePeerQueue q)"
  unfolding handlePeerQueue_def item_def
  by (intro preserve preserves_upd send_ok; simp add: table_fields)

end

section \<open>Requests and answers\<close>

text \<open>What the clients have been answered, whether one waits, and the replies to commands.\<close>

interpretation answers: dep_tables "\<lambda>s. dm_answers s = a \<and> dm_pending s = p"
  by unfold_locales simp_all

interpretation replies: dep_tables "\<lambda>s. dm_replies s = rs"
  by unfold_locales simp_all

lemma replies_answer: "preserves (\<lambda>s. dm_replies s = rs) (answer x)"
  unfolding answer_def by (intro preserves_upd) simp

lemma replies_client: "preserves (\<lambda>s. dm_replies s = rs) (client_body r)"
  by (cases r) (auto simp: handleActorReg_def handleDeviceReq_def handleDeviceRel_def handleReportEvent_def Let_def
      intro!: preserve replies.calls preserves_upd replies.needs_ok replies.start_ok replies.stop_ok replies.queue_ok replies_answer
      split: pyexc.split)

definition request_event :: "depm_event \<Rightarrow> bool" where
  "request_event ev = (case ev of EvCommand _ \<Rightarrow> True | EvClient _ \<Rightarrow> True | _ \<Rightarrow> False)"

lemma command_reply: "\<exists>r t. depm_turn (EvCommand c) s = (Inr (), t) \<and> dm_replies t = dm_replies s @ [r]"
proof -
  obtain x u where x: "command_body c s = (x, u)" by force
  have "dm_replies u = dm_replies s" using preservesD [OF replies.command_ok refl x] by simp
  then show ?thesis
    using x by (cases x) (simp_all add: handleCommand_def bnd_def tryA_def ret_def upd_def)
qed

lemma turn_client: "depm_turn (EvClient r) s = (if dm_pending s then (Inr (), s) else handleClient r (s\<lparr>dm_pending := True\<rparr>))"
proof -
  obtain x t where "handleClient r (s\<lparr>dm_pending := True\<rparr>) = (x, t)" by force
  then show ?thesis
    by (cases x) (simp_all add: rd_def whenA_def ret_def upd_def seqA.simps bnd_def)
qed

lemma client_reply: "\<exists>t. depm_turn (EvClient r) s = (Inr (), t) \<and> dm_replies t = dm_replies s"
proof -
  let ?u = "s\<lparr>dm_pending := True\<rparr>"
  obtain x v where x: "client_body r ?u = (x, v)" by force
  have v: "dm_replies v = dm_replies s" using preservesD [OF replies_client refl x] by simp
  have "handleClient r ?u = (Inr (), v)" using x by (cases x) (simp_all add: handleClient_def tryA_def ret_def)
  then have "depm_turn (EvClient r) s = (Inr (), if dm_pending s then s else v)"
    by (simp add: turn_client del: depm_turn.simps)
  with v show ?thesis by simp
qed

text \<open>A command or a request, as an event of the loop.\<close>

definition request :: "dcommand + drequest \<Rightarrow> depm_event" where
  "request x = (case x of Inl c \<Rightarrow> EvCommand c | Inr r \<Rightarrow> EvClient r)"


lemma pending_stays:
  assumes "dm_pending s" "depm_turn ev s = (Inr (), t)"
  shows "dm_pending t \<and> dm_answers t = dm_answers s"
proof -
  let ?I = "\<lambda>u. dm_answers u = dm_answers s \<and> dm_pending u = True"
  have keep: "dm_pending t \<and> dm_answers t = dm_answers s" if "preserves ?I m" "m s = (Inr (), t)" for m
    using preservesD [OF that(1) _ that(2)] assms(1) by simp
  show ?thesis
  proof (cases ev)
    case (EvCommand c)
    have "preserves ?I (handleCommand c)"
      unfolding handleCommand_def by (intro preserve answers.command_ok preserves_upd) simp
    from keep [OF this] assms(2) EvCommand show ?thesis by simp
  next
    case (EvClient r)
    with assms show ?thesis by (simp add: turn_client del: depm_turn.simps)
  next
    case (EvProcmon q)
    from keep [OF answers.monitor_ok(1)] assms(2) EvProcmon show ?thesis by simp
  next
    case (EvFM msg)
    from keep [OF answers.monitor_ok(2)] assms(2) EvFM show ?thesis by simp
  next
    case (EvNIC flag)
    from keep [OF answers.monitor_ok(3)] assms(2) EvNIC show ?thesis by simp
  next
    case EvTask
    have "preserves ?I (depm_turn EvTask)"
      unfolding depm_turn.simps by (intro preserve answers.task_ok preserves_upd) simp
    from keep [OF this] assms(2) EvTask show ?thesis by simp
  qed
qed

text \<open>
  A device that cannot be started for any other reason than a \<open>BuildError\<close> silences the manager:
  the request is not answered, and the socket of the clients never receives one again, so that no
  actor on the node is registered or answered any more, whatever happens.
\<close>

theorem unanswered_request_silences:
  assumes "\<not> dm_pending s" "startDevice app model type inst (device_args args) (s\<lparr>dm_pending := True\<rparr>) = (Inl e, u)"
    "\<And>m. e \<noteq> BuildError m" "run_steps (\<lambda>s ev. depm_turn ev s) s (EvClient (DeviceGet app model type inst args) # evs) = Some t"
  shows "dm_answers t = dm_answers s \<and> dm_pending t"
proof -
  have later: "dm_answers t = dm_answers v \<and> dm_pending t" if "run_steps (\<lambda>s ev. depm_turn ev s) v es = Some t" "dm_pending v" for v es
    using that
  proof (induction es arbitrary: v)
    case (Cons e es)
    then obtain v' where "depm_turn e v = (Inr (), v')" "run_steps (\<lambda>s ev. depm_turn ev s) v' es = Some t"
      by (auto split: prod.splits sum.splits)
    with Cons pending_stays [of v e v'] show ?case by simp
  qed simp
  have u: "dm_answers u = dm_answers s \<and> dm_pending u = True"
    by (rule preservesD [OF answers.start_ok(2) _ assms(2)]) simp
  have "handleDeviceReq app model type inst args (s\<lparr>dm_pending := True\<rparr>) = (Inl e, u)"
    using assms(2,3) by (auto simp: handleDeviceReq_def bnd_def tryA_def raise_def split: pyexc.split)
  then have "depm_turn (EvClient (DeviceGet app model type inst args)) s = (Inr (), u)"
    using assms(1) by (simp add: turn_client handleClient_def tryA_def ret_def del: depm_turn.simps)
  with assms(4) later u show ?thesis by simp
qed

section \<open>Launching an actor\<close>

lemma wp_pre: "preserves I m \<Longrightarrow> I s \<Longrightarrow> (\<And>x t. I t \<Longrightarrow> wp (k x) Q E t) \<Longrightarrow> (\<And>e t. I t \<Longrightarrow> E e t) \<Longrightarrow> wp (bnd m k) Q E s"
  unfolding wp_bnd using preserves_wp [of I m s] by (blast intro: wp_mono)

text \<open>What a launch changes at its end only, and the rules of the firewall, which it adds to before.\<close>

type_synonym 'l tables = "(string, int) dict \<times> (string, actorRecord) dict \<times> (string, deviceRecord) dict \<times> (string, tell list) dict \<times>
  procm \<times> 'l appdb"

definition tables_of :: "('w, 'r, 'l) depm \<Rightarrow> 'l tables" where
  "tables_of s = (dm_launch s, dm_actors s, dm_devices s, dm_queue s, dm_pm s, dm_db s)"

interpretation untouched: dep_net "\<lambda>s. tables_of s = c"
  by unfold_locales (simp_all add: tables_of_def)

interpretation parts: dep_core "\<lambda>s. tables_of s = c \<and> dm_fw s = f"
  by unfold_locales (simp_all add: tables_of_def)

interpretation host_os: dep_tables "\<lambda>s. dm_os s = c \<and> dm_cfg s = f"
  by unfold_locales simp_all

definition added :: "fwcmd list \<Rightarrow> string list \<Rightarrow> ('w, 'r, 'l) depm \<Rightarrow> bool" where
  "added f rs t \<longleftrightarrow> dm_fw t = f @ map FwAdd rs"

lemma wp_site:
  assumes "added f rs s"
  shows "wp (setupAppSite user site) (\<lambda>r. added f (rs @ r)) (\<lambda>_ t. \<exists>rs. added f rs t) s"
proof -
  have "wp (bnd (dep_os (\<lambda>os. do_resolve os site)) (\<lambda>host. let cmd = accept_rule user host in bnd (firewall_add cmd) (\<lambda>_. ret [cmd])))
      (\<lambda>r. added f (rs @ r)) (\<lambda>_. added f rs) s"
    by (rule wp_pre [OF dep_os_keeps, of "added f rs"])
      (use assms in \<open>simp_all add: added_def firewall_add_def Let_def wp_bnd wp_upd wp_ret\<close>)
  then show ?thesis
    unfolding setupAppSite_def wp_tryA wp_raise by (rule wp_mono) blast+
qed

lemma wp_collect:
  assumes "\<And>x rs t. added f rs t \<Longrightarrow> wp (h x) (\<lambda>r. added f (rs @ r)) (\<lambda>_ t. \<exists>rs. added f rs t) t" "added f rs s"
  shows "wp (collect xs h) (\<lambda>r. added f (rs @ r)) (\<lambda>_ t. \<exists>rs. added f rs t) s"
  using assms(2)
proof (induction xs arbitrary: rs s)
  case Nil
  then show ?case by (simp add: wp_ret)
next
  case (Cons x xs)
  have "wp (collect xs h) (\<lambda>r'. wp (ret (r @ r')) (\<lambda>r. added f (rs @ r)) (\<lambda>_ t. \<exists>rs. added f rs t)) (\<lambda>_ t. \<exists>rs. added f rs t) t"
    if "added f (rs @ r) t" for r t
    using Cons.IH [OF that] by (simp add: wp_ret)
  then show ?case
    unfolding collect.simps wp_bnd by (intro wp_mono [OF assms(1) [OF Cons.prems]]) auto
qed

lemma added_keeps: "preserves (\<lambda>s. dm_fw s = c) m \<Longrightarrow> c = f @ map FwAdd rs \<Longrightarrow> preserves (added f rs) m"
  unfolding added_def by simp

lemma wp_dns: "added f rs s \<Longrightarrow> wp (setupAppDNS user) (\<lambda>r. added f (rs @ r)) (\<lambda>_ t. \<exists>rs. added f rs t) s"
  unfolding setupAppDNS_def
  by (rule wp_pre [OF dep_os_keeps, of "added f rs"]) (auto simp: added_def [symmetric] intro: wp_collect wp_site, auto simp: added_def)

lemma wp_sites: "added f rs s \<Longrightarrow> wp (setupAppNetworkSites user sites) (\<lambda>(_, r). added f (rs @ r)) (\<lambda>_ t. \<exists>rs. added f rs t) s"
proof -
  assume a: "added f rs s"
  have "wp (collect xs (\<lambda>site. if site = ''dns'' then setupAppDNS user else setupAppSite user site))
      (\<lambda>r. wp (ret (False, r)) (\<lambda>(_, r). added f (rs @ r)) (\<lambda>_ t. \<exists>rs. added f rs t)) (\<lambda>_ t. \<exists>rs. added f rs t) s" for xs
    by (rule wp_mono [OF wp_collect [OF _ a]]) (auto simp: wp_ret intro: wp_dns wp_site)
  moreover have "sites = None \<or> sites = Some [] \<or> (\<exists>x xs. sites = Some (x # xs))"
    by (cases sites) (auto simp: neq_Nil_conv, metis list.exhaust)
  ultimately show ?thesis
    using a unfolding setupAppNetworkSites_def by (auto simp: wp_ret wp_bnd simp del: collect.simps)
qed

text \<open>A step of a sequence that collects rules.\<close>

lemma wp_rules_bnd:
  assumes "wp m (\<lambda>x t. added f (g x) t) (\<lambda>_ t. \<exists>rs. added f rs t) s"
    "\<And>x t. added f (g x) t \<Longrightarrow> wp (k x) Q (\<lambda>_ t. \<exists>rs. added f rs t) t"
  shows "wp (bnd m k) Q (\<lambda>_ t. \<exists>rs. added f rs t) s"
  unfolding wp_bnd by (rule wp_mono [OF assms(1)]) (auto intro: assms(2))

lemma wp_setupAppNetwork:
  "wp (setupAppNetwork app user) (added (dm_fw s)) (\<lambda>_ t. \<exists>rs. added (dm_fw s) rs t) s"
proof -
  let ?E = "\<lambda>_ t. \<exists>rs. added (dm_fw s) rs t" and ?d = "drop_rule user ''0.0.0.0/0''"
  have a0: "added (dm_fw s) [] s" by (simp add: added_def)
  have app: "wp (getAppRecord app) (\<lambda>_. added (dm_fw s) rs) ?E t" if "added (dm_fw s) rs t" for rs t
    using that unfolding getAppRecord_def by (auto simp: wp_simps split: option.split)
  have sites: "wp (setupAppNetworkSites user sites) (\<lambda>x. added (dm_fw s) (rs @ snd x)) ?E t" if "added (dm_fw s) rs t" for rs t sites
    by (rule wp_mono [OF wp_sites [OF that]]) auto
  have last: "wp (bnd (setupAppNetworkSites user sites) (\<lambda>(any, r). if any then ret (rs @ r) else
      bnd (firewall_add ?d) (\<lambda>_. ret (rs @ r @ [?d])))) (added (dm_fw s)) ?E t" if "added (dm_fw s) rs t" for rs t sites
    by (rule wp_rules_bnd [OF sites [OF that]]) (auto simp: wp_simps firewall_add_def added_def)
  have more: "wp (bnd (setupAppNetworkSites user sites) (\<lambda>(any, r). if any then ret (rs @ r) else
      bnd (setupAppNetworkSites user sites') (\<lambda>(any, r'). if any then ret (rs @ r @ r') else
      bnd (firewall_add ?d) (\<lambda>_. ret (rs @ r @ r' @ [?d]))))) (added (dm_fw s)) ?E t"
    if "added (dm_fw s) rs t" for rs t sites sites'
  proof (rule wp_rules_bnd [OF sites [OF that]])
    fix x :: "bool \<times> string list" and u assume "added (dm_fw s) (rs @ snd x) u"
    then show "wp (case x of (any, r) \<Rightarrow> if any then ret (rs @ r) else
      bnd (setupAppNetworkSites user sites') (\<lambda>(any, r'). if any then ret (rs @ r @ r') else
      bnd (firewall_add ?d) (\<lambda>_. ret (rs @ r @ r' @ [?d])))) (added (dm_fw s)) ?E u"
      using last [of "rs @ snd x" u sites'] by (simp add: split_def wp_if wp_ret cong: if_cong)
  qed
  have hosts: "wp (bnd (setupAppNetworkSites user sites0) (\<lambda>(_, r1). bnd (setupAppNetworkSites user sites) (\<lambda>(any, r).
      if any then ret (rs @ r1 @ r) else
      bnd (setupAppNetworkSites user sites') (\<lambda>(any, r'). if any then ret (rs @ r1 @ r @ r') else
      bnd (firewall_add ?d) (\<lambda>_. ret (rs @ r1 @ r @ r' @ [?d])))))) (added (dm_fw s)) ?E t"
    if "added (dm_fw s) rs t" for rs t sites0 sites sites'
  proof (rule wp_rules_bnd [OF sites [OF that]])
    fix x :: "bool \<times> string list" and u assume "added (dm_fw s) (rs @ snd x) u"
    from more [OF this, of sites sites'] show "wp (case x of (_, r1) \<Rightarrow> bnd (setupAppNetworkSites user sites) (\<lambda>(any, r).
      if any then ret (rs @ r1 @ r) else
      bnd (setupAppNetworkSites user sites') (\<lambda>(any, r'). if any then ret (rs @ r1 @ r @ r') else
      bnd (firewall_add ?d) (\<lambda>_. ret (rs @ r1 @ r @ r' @ [?d]))))) (added (dm_fw s)) ?E u"
      by (simp add: split_def cong: if_cong)
  qed
  have site: "wp (setupAppSite user ''127.0.0.1'') (\<lambda>r. added (dm_fw s) r) ?E s" using wp_site [OF a0] by simp
  have start: "wp (bnd (setupAppSite user ''127.0.0.1'') (\<lambda>r0. bnd (getAppRecord app) (k r0))) (added (dm_fw s)) ?E s"
    if "\<And>r0 r t. added (dm_fw s) r0 t \<Longrightarrow> wp (k r0 r) (added (dm_fw s)) ?E t" for k
    by (rule wp_rules_bnd [OF site], rule wp_rules_bnd [OF app], assumption) (rule that)
  show ?thesis
    unfolding setupAppNetwork_def wp_rd wp_if Let_def
    using a0 start [OF hosts] by (simp add: wp_ret)
qed

text \<open>
  The state \<open>t\<close> after a launch in \<open>s\<close>: the process \<open>pid\<close> runs, is watched and recorded with the rules
  that were opened for it, and its messages are queued until it registers.
\<close>

definition launched :: "string \<Rightarrow> string \<Rightarrow> string \<Rightarrow> string list \<Rightarrow> ('w, 'r, 'l) depm \<Rightarrow> ('w, 'r, 'l) depm \<Rightarrow> int \<Rightarrow> string list \<Rightarrow> string list \<Rightarrow> bool" where
  "launched app model actor args s t pid cmd rules \<longleftrightarrow> (let q = fullName app actor in
     dm_launch t = AList.update q pid (dm_launch s) \<and>
     dm_actors t = AList.update q \<lparr> al_app = app, al_model = model, al_actor = actor, al_args = args, al_chan = None \<rparr> (dm_actors s) \<and>
     dm_devices t = dm_devices s \<and>
     dm_queue t = AList.update q [] (dm_queue s) \<and>
     dm_pm t = snd (procm_monitor q pid (dm_pm s)) \<and>
     dm_db t = snd (addAppActor app \<lparr> ac_app = app, ac_model = model, ac_actor = actor, ac_args = args, ac_cmd = cmd,
       ac_pid = pid, ac_firewall = rules, ac_isdevice = False \<rparr> (dm_db s)) \<and>
     dm_fw t = dm_fw s @ map FwAdd rules)"

lemma addAppActor_returns: "\<exists>b. fst (addAppActor app r d) = Inr b"
  by (auto simp: addAppActor_def try_ok_def tryA_def ret_def split: prod.split sum.split)

lemma procm_monitor_returns: "fst (procm_monitor q pid p) = Inr ()"
  by (auto simp: procm_monitor_def rd_def seqA.simps bnd_def upd_def ret_def on_pthread_def pm_put_def split: option.split)

lemma wp_on_db_total: "(\<And>x. Q x (s\<lparr>dm_db := snd (m (dm_db s))\<rparr>)) \<Longrightarrow> (\<exists>x. fst (m (dm_db s)) = Inr x) \<Longrightarrow> wp (on_db m) Q E s"
  by (auto simp: wp_def on_db_def split: prod.split)

lemma wp_on_pm_total: "(\<And>x. Q x (s\<lparr>dm_pm := snd (m (dm_pm s))\<rparr>)) \<Longrightarrow> (\<exists>x. fst (m (dm_pm s)) = Inr x) \<Longrightarrow> wp (on_pm m) Q E s"
  by (auto simp: wp_def on_pm_def split: prod.split)

lemma wp_pre_seqA: "preserves I m \<Longrightarrow> I s \<Longrightarrow> (\<And>t. I t \<Longrightarrow> wp (seqA ms) Q E t) \<Longrightarrow> (\<And>e t. I t \<Longrightarrow> E e t) \<Longrightarrow> wp (seqA (m # ms)) Q E s"
  by (simp add: seqA.simps wp_pre)

lemma wp_launch_end:
  assumes "tables_of u = tables_of s \<and> dm_fw u = dm_fw s @ map FwAdd rules"
  shows "wp (seqA [
       on_res (res_startActor app actor pid),
       on_fm (fa_startActor app actor),
       upd (\<lambda>s. s\<lparr>dm_launch := AList.update (fullName app actor) pid (dm_launch s),
         dm_actors := AList.update (fullName app actor) \<lparr> al_app = app, al_model = model, al_actor = actor, al_args = args, al_chan = None \<rparr> (dm_actors s),
         dm_queue := AList.update (fullName app actor) [] (dm_queue s)\<rparr>),
       done_with (on_db (addAppActor app \<lparr> ac_app = app, ac_model = model, ac_actor = actor, ac_args = args, ac_cmd = cmd,
         ac_pid = pid, ac_firewall = rules, ac_isdevice = False \<rparr>)),
       on_pm (procm_monitor (fullName app actor) pid)])
     (\<lambda>_ t. launched app model actor args s t pid cmd rules) (\<lambda>_ t. tables_of t = tables_of s \<and> (\<exists>rs. dm_fw t = dm_fw s @ map FwAdd rs)) u"
  (is "wp (seqA [?a, ?b, ?c, ?d, ?e]) ?Q ?E u")
proof -
  let ?I = "\<lambda>u. tables_of u = tables_of s \<and> dm_fw u = dm_fw s @ map FwAdd rules"
  have "wp (seqA [?c, ?d, ?e]) ?Q ?E t" if "?I t" for t
    unfolding wp_seqA_Cons wp_upd done_with_def wp_bnd
    using that procm_monitor_returns
    by (intro wp_on_db_total addAppActor_returns)
      (auto simp: wp_ret wp_seqA_Nil launched_def tables_of_def Let_def intro!: wp_on_pm_total)
  then show ?thesis
    by (intro wp_pre_seqA [where I = ?I, OF parts.onres assms] wp_pre_seqA [where I = ?I, OF parts.onfm]) auto
qed

lemma wp_startActor:
  "wp (startActor app model actor args) (\<lambda>_ t. \<exists>pid cmd rules. launched app model actor args s t pid cmd rules)
     (\<lambda>_ t. tables_of t = tables_of s \<and> (\<exists>rules. dm_fw t = dm_fw s @ map FwAdd rules)) s"
proof -
  let ?I = "\<lambda>rs u. tables_of u = tables_of s \<and> dm_fw u = dm_fw s @ map FwAdd rs"
  let ?E = "\<lambda>_ t. tables_of t = tables_of s \<and> (\<exists>rs. dm_fw t = dm_fw s @ map FwAdd rs)"
  let ?Q = "\<lambda>_ t. \<exists>pid cmd rules. launched app model actor args s t pid cmd rules"
  have step: "wp (bnd m k) ?Q ?E u" if "preserves (?I rs) m" "?I rs u" "\<And>x t. ?I rs t \<Longrightarrow> wp (k x) ?Q ?E t" for rs m k u
    by (rule wp_pre [OF that(1,2)]) (use that(3) in auto)
  have start: "?I [] u" if "tables_of u = tables_of s \<and> dm_fw u = dm_fw s" for u using that by simp
  have net: "wp (bnd (setupAppNetwork app user) k) ?Q ?E u" if "?I [] u" "\<And>rs t. ?I rs t \<Longrightarrow> wp (k rs) ?Q ?E t" for user k u
  proof -
    have "wp (setupAppNetwork app user) (\<lambda>rs t. ?I rs t) ?E u"
      by (rule wp_mono [OF wp_conj [OF wp_setupAppNetwork [of app user u] preserves_wp [OF untouched.network_ok(1), of u "tables_of s"]]])
        (use that(1) in \<open>auto simp: added_def\<close>)
    then show ?thesis unfolding wp_bnd by (rule wp_mono) (auto intro: that(2))
  qed
  have finish: "wp (if ended then raise (actor_failed app actor) else bnd (cmdline_of pid) (\<lambda>cmd. seqA (ms cmd))) ?Q ?E u"
    if "?I rs u" "\<And>cmd t. ?I rs t \<Longrightarrow> wp (seqA (ms cmd)) ?Q ?E t" for ended pid ms rs u
    using that by (auto simp: wp_if wp_raise intro: step [OF parts.needs_ok(4)])
  show ?thesis
    unfolding startActor_def wp_rd Let_def
    by (intro step [OF parts.models_ok(2)] step [OF parts.needs_ok(2)] step [OF parts.models_ok(3)] step [OF parts.models_ok(4)]
        step [OF preserves_forA [OF parts.needs_ok(1)]] step [OF parts.onres] step [OF parts.onfm] step [OF parts.needs_ok(9)] net
        step [OF preserves_rd [OF preserves_whenA [OF preserves_raise]]] step [OF preserves_whenA [OF parts.os]]
        step [OF parts.needs_ok(3)] step [OF parts.os] finish wp_mono [OF wp_launch_end]) auto
qed


section \<open>The firewall\<close>

text \<open>
  What the commands leave in the chain: \<open>-A\<close> appends a rule, \<open>-D\<close> removes the first such rule; and how
  a chain decides on a packet of a user, the first rule that matches.
\<close>

fun fw_chain :: "fwcmd list \<Rightarrow> string list \<Rightarrow> string list" where
  "fw_chain [] rs = rs"
| "fw_chain (FwAdd r # cs) rs = fw_chain cs (rs @ [r])"
| "fw_chain (FwDel r # cs) rs = fw_chain cs (remove1 r rs)"

fun passes :: "string list \<Rightarrow> string \<Rightarrow> string \<Rightarrow> bool" where
  "passes [] user dest = True"
| "passes (r # rs) user dest = (if r = accept_rule user dest then True
     else if r = drop_rule user ''0.0.0.0/0'' then False else passes rs user dest)"

text \<open>The sites an application may access, and whether it may access any.\<close>

definition site_list :: "string list \<Rightarrow> string list option \<Rightarrow> string list" where
  "site_list ns sites = concat (map (\<lambda>x. if x = ''dns'' then ns else [x]) (case sites of None \<Rightarrow> [] | Some xs \<Rightarrow> xs))"

definition open_net :: "string \<Rightarrow> appRecord \<Rightarrow> bool" where
  "open_net host r \<longleftrightarrow> map_of (pr_network r) ''[]'' = Some [] \<or> map_of (pr_network r) host = Some []"

definition may_access :: "string list \<Rightarrow> string \<Rightarrow> appRecord \<Rightarrow> string list" where
  "may_access ns host r = [''127.0.0.1''] @ site_list ns (pr_hosts r) @ site_list ns (map_of (pr_network r) ''[]'') @
     (if map_of (pr_network r) ''[]'' = Some [] then [] else site_list ns (map_of (pr_network r) host))"

text \<open>A name service that answers every time.\<close>

definition resolves :: "('w, 'r, 'l) depm \<Rightarrow> (string \<Rightarrow> string) \<Rightarrow> string list \<Rightarrow> bool" where
  "resolves s h ns \<longleftrightarrow> (\<forall>x w. do_resolve (dm_os s) x w = (Inr (h x), w)) \<and> (\<forall>w. do_nameservers (dm_os s) w = (Inr ns, w))"

definition opened :: "('w, 'r, 'l) depm \<Rightarrow> string list \<Rightarrow> ('w, 'r, 'l) depm" where
  "opened s rs = s\<lparr>dm_fw := dm_fw s @ map FwAdd rs\<rparr>"

lemma opened_opened [simp]: "opened (opened s a) b = opened s (a @ b)" and opened_Nil [simp]: "opened s [] = s"
  by (simp_all add: opened_def)

lemma resolves_opened [simp]: "resolves (opened s rs) h ns = resolves s h ns"
  by (simp add: resolves_def opened_def)

lemma opened_same [simp]: "dm_cfg (opened s rs) = dm_cfg s" "dm_models (opened s rs) = dm_models s"
  by (simp_all add: opened_def)

lemma site_run: "resolves s h ns \<Longrightarrow> setupAppSite user x s = (Inr [accept_rule user (h x)], opened s [accept_rule user (h x)])"
  by (simp add: setupAppSite_def tryA_def bnd_def dep_os_def resolves_def firewall_add_def upd_def ret_def opened_def Let_def)

lemma collect_run:
  assumes "\<And>x t. resolves t h ns \<Longrightarrow> f x t = (Inr (g x), opened t (g x))"
  shows "resolves s h ns \<Longrightarrow> collect xs f s = (Inr (concat (map g xs)), opened s (concat (map g xs)))"
  by (induction xs arbitrary: s) (simp_all add: ret_def bnd_def assms)

lemma dns_run:
  assumes "resolves s h ns"
  shows "setupAppDNS user s = (Inr (map (\<lambda>x. accept_rule user (h x)) ns), opened s (map (\<lambda>x. accept_rule user (h x)) ns))"
proof -
  have "collect ns (setupAppSite user) s = (Inr (concat (map (\<lambda>x. [accept_rule user (h x)]) ns)), opened s (concat (map (\<lambda>x. [accept_rule user (h x)]) ns)))"
    by (rule collect_run [OF _ assms]) (rule site_run)
  with assms show ?thesis by (simp add: setupAppDNS_def bnd_def dep_os_def resolves_def)
qed

lemma sites_run:
  fixes user :: string and sites :: "string list option"
  assumes "resolves s h ns"
  defines "rs \<equiv> map (\<lambda>x. accept_rule user (h x)) (site_list ns sites)"
  shows "setupAppNetworkSites user sites s = (Inr (sites = Some [], rs), opened s rs)"
proof -
  let ?g = "\<lambda>x. map (\<lambda>x. accept_rule user (h x)) (if x = ''dns'' then ns else [x])"
  have one: "(if x = ''dns'' then setupAppDNS user else setupAppSite user x) t = (Inr (?g x), opened t (?g x))" if "resolves t h ns" for x t
    using dns_run [OF that] site_run [OF that] by simp
  have many: "collect xs (\<lambda>x. if x = ''dns'' then setupAppDNS user else setupAppSite user x) s =
      (Inr (concat (map ?g xs)), opened s (concat (map ?g xs)))" for xs
    by (rule collect_run [OF _ assms(1)]) (rule one)
  have g: "map (\<lambda>x. accept_rule user (h x)) (site_list ns (Some xs)) = concat (map ?g xs)" for xs
    by (simp add: site_list_def map_concat o_def)
  show ?thesis
  proof (cases sites)
    case None
    then show ?thesis by (simp add: setupAppNetworkSites_def rs_def site_list_def ret_def)
  next
    case (Some xs)
    show ?thesis
    proof (cases xs)
      case Nil
      with Some show ?thesis by (simp add: setupAppNetworkSites_def rs_def site_list_def ret_def)
    next
      case (Cons x ys)
      with Some have "setupAppNetworkSites user sites s = bnd (collect xs (\<lambda>x. if x = ''dns'' then setupAppDNS user else setupAppSite user x))
          (\<lambda>rs. ret (False, rs)) s"
        by (simp add: setupAppNetworkSites_def del: collect.simps)
      then show ?thesis using many [of xs] Cons Some unfolding rs_def g [symmetric] by (simp add: bnd_def ret_def del: collect.simps)
    qed
  qed
qed

lemma site_list_Nil: "site_list ns (Some []) = []"
  by (simp add: site_list_def)

lemma network_run:
  fixes user :: string
  assumes "resolves s h ns" "dc_security (dm_cfg s)" "user \<noteq> dc_target (dm_cfg s)" "map_of (dm_models s) app = Some r"
  defines "rs \<equiv> map (\<lambda>x. accept_rule user (h x)) (may_access ns (dc_host (dm_cfg s)) r) @
    (if open_net (dc_host (dm_cfg s)) r then [] else [drop_rule user ''0.0.0.0/0''])"
  shows "setupAppNetwork app user s = (Inr rs, opened s rs)"
proof -
  have d: "firewall_add c t = (Inr (), opened t [c])" for c t by (simp add: firewall_add_def upd_def opened_def)
  show ?thesis
    using assms(1-4) unfolding rs_def may_access_def open_net_def
    by (auto simp: setupAppNetwork_def rd_def bnd_def site_run sites_run getAppRecord_def ret_def d Let_def site_list_Nil split del: if_split)
      (auto simp: ret_def bnd_def d sites_run Let_def)
qed

lemma accept_inj: "accept_rule user a = accept_rule user b \<longleftrightarrow> a = b"
  by (simp add: accept_rule_def)

lemma accept_not_drop: "accept_rule user a \<noteq> drop_rule user b"
proof
  assume "accept_rule user a = drop_rule user b"
  then have "last (butlast (butlast (accept_rule user a))) = last (butlast (butlast (drop_rule user b)))" by simp
  then show False by (simp add: accept_rule_def drop_rule_def butlast_append)
qed

lemma passes_accepts: "passes (map (accept_rule user) xs @ rs) user dest \<longleftrightarrow> dest \<in> set xs \<or> passes rs user dest"
  by (induction xs) (auto simp: accept_inj accept_not_drop)

lemma fw_chain_append: "fw_chain (as @ bs) rs = fw_chain bs (fw_chain as rs)"
proof (induction as arbitrary: rs)
  case (Cons c as)
  then show ?case by (cases c) simp_all
qed simp

lemma fw_chain_adds: "fw_chain (map FwAdd xs) rs = rs @ xs"
  by (induction xs arbitrary: rs) simp_all

lemma fw_chain_dels: "mset (fw_chain (map FwDel xs) rs) = mset rs - mset xs"
  by (induction xs arbitrary: rs) simp_all

lemma passes_end: "passes (if b then [] else [drop_rule user ''0.0.0.0/0'']) user dest \<longleftrightarrow> b"
  by (simp add: accept_not_drop [symmetric])

text \<open>
  C12: the rules that are opened for an application let its user reach exactly the sites its descriptor
  lists, for the peers, for all nodes and for this one, as their addresses resolve, and any site when
  one of the last two lists is empty. The rules returned are the ones that were added to the chain.
\<close>

theorem firewall_policy:
  assumes "resolves s h ns" "dc_security (dm_cfg s)" "user \<noteq> dc_target (dm_cfg s)" "map_of (dm_models s) app = Some r"
  shows "\<exists>rules t. setupAppNetwork app user s = (Inr rules, t) \<and> fw_chain (dm_fw t) chain = fw_chain (dm_fw s) chain @ rules \<and>
    (\<forall>dest. passes rules user dest \<longleftrightarrow> open_net (dc_host (dm_cfg s)) r \<or> dest \<in> h ` set (may_access ns (dc_host (dm_cfg s)) r))"
proof -
  let ?as = "map (accept_rule user) (map h (may_access ns (dc_host (dm_cfg s)) r))"
  let ?rs = "?as @ (if open_net (dc_host (dm_cfg s)) r then [] else [drop_rule user ''0.0.0.0/0''])"
  have chain: "fw_chain (cs @ map FwAdd rs) chain = fw_chain cs chain @ rs" for cs rs chain
    by (simp add: fw_chain_append fw_chain_adds)
  have "setupAppNetwork app user s = (Inr ?rs, opened s ?rs)"
    using network_run [OF assms] by (simp add: comp_def)
  moreover have "fw_chain (dm_fw (opened s ?rs)) chain = fw_chain (dm_fw s) chain @ ?rs"
    unfolding opened_def by (simp add: chain del: map_append)
  ultimately show ?thesis
    using passes_accepts [of user "map h (may_access ns (dc_host (dm_cfg s)) r)"] by (auto simp: passes_end)
qed

text \<open>A node on which everything works, with one application.\<close>

definition toy_os :: "unit depos" where
  "toy_os = \<lparr> do_isdir = (\<lambda>_. ret True), do_isfile = (\<lambda>_. ret True), do_hash = (\<lambda>_. ret ''h''),
     do_model = (\<lambda>_. ret \<lparr> am_actors = [(''a'', \<lparr> af_realtime = False, af_usage = None, af_instances = Some [(''c'', ''C'')] \<rparr>)],
       am_devices = [], am_components = [''C''], am_libraries = [] \<rparr>),
     do_desc = (\<lambda>_. ret (''home'', Some [''10.0.0.2''], [(''[]'', [''dns''])])), do_log = (\<lambda>_. ret ()), do_popen = (\<lambda>_. ret 7),
     do_ended = (\<lambda>_. ret False), do_cmdlines = (\<lambda>_. ret [[''riaps_actor'']]), do_running = (\<lambda>_. ret True),
     do_signal = (\<lambda>_ _. ret True), do_terminate = (\<lambda>_. ret True), do_resolve = ret, do_nameservers = ret [''8.8.8.8''],
     do_getpwnam = (\<lambda>_. ret ()) \<rparr>"

definition toy_cfg :: depcfg where
  "toy_cfg = \<lparr> dc_security = True, dc_target = ''riaps'', dc_host = ''10.0.0.1'', dc_suffix = ''aabbccdd'', dc_apps = ''/apps'', dc_logs = False,
     dc_actor_file = ''actor.py'', dc_device_file = ''device.py'', dc_disco_file = ''disco.py'' \<rparr>"

definition toy_depm :: "(unit, unit, (string, dbval) dict) depm" where
  "toy_depm = \<lparr> dm_cfg = toy_cfg, dm_os = toy_os, dm_w = (), dm_fm = fman_new, dm_res = toy_resm, dm_pm = procm_new, dm_db = empty_db,
     dm_launch = [], dm_actors = [], dm_devices = [], dm_queue = [], dm_models = [], dm_users = [''riaps''], dm_appUser = [], dm_monitors = [],
     dm_clients = [], dm_disco = None, dm_connected = False, dm_dbase = None, dm_fw = [], dm_sent = [], dm_unreg = [], dm_tasks = [],
     dm_replies = [], dm_answers = [], dm_pending = False, dm_next = 1 \<rparr>"

definition toy_ready :: "(unit, unit, (string, dbval) dict) depm" where
  "toy_ready = exec (setupApp ''App'' ''App.json'') toy_depm"

lemma toy_setup: "setupApp ''App'' ''App.json'' toy_depm = (Inr (), toy_ready)"
proof -
  have "fst (setupApp ''App'' ''App.json'' toy_depm) = Inr ()" by code_simp
  then show ?thesis by (metis exec_def prod.collapse toy_ready_def)
qed

lemma toy_ready_host: "dm_os toy_ready = toy_os" "dm_cfg toy_ready = toy_cfg"
proof -
  have "wp (setupApp ''App'' ''App.json'') (\<lambda>_ t. dm_os t = toy_os \<and> dm_cfg t = toy_cfg) (\<lambda>_ _. True) toy_depm"
    by (rule wp_mono [OF preserves_wp [OF host_os.apps_ok(1)]]) (simp_all add: toy_depm_def)
  from wp_returns [OF this toy_setup] show "dm_os toy_ready = toy_os" "dm_cfg toy_ready = toy_cfg" by simp_all
qed

theorem firewall_policy_witness:
  "\<exists>rules t. setupAppNetwork ''App'' ''app1'' toy_ready = (Inr rules, t) \<and> passes rules ''app1'' ''8.8.8.8'' \<and> \<not> passes rules ''app1'' ''10.0.0.9''"
proof -
  have a: "resolves toy_ready (\<lambda>x. x) [''8.8.8.8'']" "dc_security (dm_cfg toy_ready)" "''app1'' \<noteq> dc_target (dm_cfg toy_ready)"
    unfolding toy_ready_host by (simp_all add: resolves_def toy_os_def toy_cfg_def ret_def toy_ready_host)
  have "map_option pr_hosts (map_of (dm_models toy_ready) ''App'') = Some (Some [''10.0.0.2''])"
    "map_option pr_network (map_of (dm_models toy_ready) ''App'') = Some [(''[]'', [''dns''])]" by code_simp+
  then obtain r where r: "map_of (dm_models toy_ready) ''App'' = Some r" "pr_hosts r = Some [''10.0.0.2'']" "pr_network r = [(''[]'', [''dns''])]"
    by auto
  from firewall_policy [OF a r(1), of "[]"] r(2,3) show ?thesis
    by (fastforce simp: open_net_def may_access_def site_list_def toy_ready_host toy_cfg_def)
qed

definition toy_broken :: "(unit, unit, (string, dbval) dict) depm" where
  "toy_broken = toy_ready\<lparr>dm_os := toy_os\<lparr>do_popen := \<lambda>_. raise FileNotFoundError\<rparr>\<rparr>"

theorem unanswered_request_silences_witness:
  "\<exists>t. run_steps (\<lambda>s ev. depm_turn ev s) toy_broken [EvClient (DeviceGet ''App'' ''App.json'' ''a'' ''d'' []), EvClient OtherRequest] = Some t \<and>
     dm_pending t \<and> dm_answers t = dm_answers toy_broken"
proof -
  let ?r = "DeviceGet ''App'' ''App.json'' ''a'' ''d'' []"
  have "preserves (\<lambda>s. dm_answers s = [] \<and> dm_pending s = False) (setupApp ''App'' ''App.json'')" by (rule answers.apps_ok(1))
  from preservesD [OF this _ toy_setup] have p: "\<not> dm_pending toy_broken" by (simp add: toy_depm_def toy_broken_def)
  have "fst (startDevice ''App'' ''App.json'' ''a'' ''d'' (device_args []) (toy_broken\<lparr>dm_pending := True\<rparr>)) = Inl TypeError" by code_simp
  then obtain u where u: "startDevice ''App'' ''App.json'' ''a'' ''d'' (device_args []) (toy_broken\<lparr>dm_pending := True\<rparr>) = (Inl TypeError, u)"
    by (metis prod.collapse)
  obtain t1 where t1: "depm_turn (EvClient ?r) toy_broken = (Inr (), t1)" using client_reply by blast
  obtain t2 where t2: "depm_turn (EvClient OtherRequest) t1 = (Inr (), t2)" using client_reply by blast
  have t: "run_steps (\<lambda>s ev. depm_turn ev s) toy_broken [EvClient ?r, EvClient OtherRequest] = Some t2"
    using t1 t2 by (simp del: depm_turn.simps)
  from unanswered_request_silences [OF p u _ t] t show ?thesis by simp
qed

section \<open>Halting an actor\<close>

text \<open>The record that \<open>getAppActor\<close> finds is one of the actor's, and nothing is changed by it.\<close>

lemma wp_getAppActor:
  assumes "wt d" "proper_app app"
  shows "wp (getAppActor app actor) (\<lambda>x d'. same_db d d' \<and> db_view d' = db_view d \<and>
    (\<forall>y. x = Some y \<longrightarrow> y \<in> set (records_of (db_view d app)) \<and> ac_actor y = actor)) (\<lambda>_ _. False) d"
  unfolding getAppActor_def wp_tryA wp_bnd wp_ret
proof (rule wp_getKeyValue [OF wt_lawful [OF assms(1)]], unfold is_records_or [OF wt_at(2) [OF assms]])
  fix d' assume d: "same_db d d'" "db_view d' = db_view d"
  show "wp (lift (as_list TypeError (Some (VList (map IActor (records_of (db_view d app)))))))
     (\<lambda>x. wp (lift (actors_where (\<lambda>r. ac_actor r = actor) x))
       (\<lambda>x. wp (case x of [] \<Rightarrow> raise IndexError | r # _ \<Rightarrow> ret (Some r))
          (\<lambda>x d'. same_db d d' \<and> db_view d' = db_view d \<and> (\<forall>y. x = Some y \<longrightarrow> y \<in> set (records_of (db_view d app)) \<and> ac_actor y = actor))
          (\<lambda>e d'. same_db d d' \<and> db_view d' = db_view d \<and> (\<forall>y. None = Some y \<longrightarrow> y \<in> set (records_of (db_view d app)) \<and> ac_actor y = actor)))
       (\<lambda>e d'. same_db d d' \<and> db_view d' = db_view d \<and> (\<forall>y. None = Some y \<longrightarrow> y \<in> set (records_of (db_view d app)) \<and> ac_actor y = actor)))
     (\<lambda>e d'. same_db d d' \<and> db_view d' = db_view d \<and> (\<forall>y. None = Some y \<longrightarrow> y \<in> set (records_of (db_view d app)) \<and> ac_actor y = actor)) d'"
    unfolding list_of wp_lift sum.case actors_where_records
    using d by (auto simp: wp_raise wp_ret filter_eq_Cons_iff split: list.split)
qed simp

end
