(* ===== verification/DepmRuns.thy ===== *)
theory DepmRuns
  imports DepmProps
begin

text \<open>
  Runs of the deployment manager: a launch that is undone by a halt, and the order in which an actor
  hears of its peers.
\<close>

section \<open>Halting an actor\<close>

lemma wp_on_db: "wp (on_db m) Q E s = wp m (\<lambda>x d. Q x (s\<lparr>dm_db := d\<rparr>)) (\<lambda>e d. E e (s\<lparr>dm_db := d\<rparr>)) (dm_db s)"
  by (simp add: wp_def on_db_def split: prod.split sum.split)

lemma undo_run: "undoAppNetwork rs s = (Inr (), s\<lparr>dm_fw := dm_fw s @ (if dc_security (dm_cfg s) then map FwDel rs else [])\<rparr>)"
proof -
  have "forA rs (\<lambda>r. upd (\<lambda>s. s\<lparr>dm_fw := dm_fw s @ [FwDel r]\<rparr>)) t = (Inr (), t\<lparr>dm_fw := dm_fw t @ map FwDel rs\<rparr>)" for t :: "('a, 'b, 'c) depm"
    by (induction rs arbitrary: t) (simp_all add: forA.simps ret_def bnd_def upd_def)
  then show ?thesis by (simp add: undoAppNetwork_def rd_def whenA_def ret_def)
qed

text \<open>The state after a halt, whose record \<open>y\<close> was found in the database.\<close>

definition halted :: "string \<Rightarrow> string \<Rightarrow> int \<Rightarrow> actorCommand \<Rightarrow> ('w, 'r, 'l) depm \<Rightarrow> ('w, 'r, 'l) depm \<Rightarrow> bool" where
  "halted app actor pid y s t \<longleftrightarrow> (let q = fullName app actor in
     dm_launch t = AList.delete q (dm_launch s) \<and> dm_actors t = AList.delete q (dm_actors s) \<and>
     dm_tasks t = dm_tasks s @ [TermActor pid app actor] \<and> ac_actor y = actor \<and>
     dm_fw t = dm_fw s @ (if dc_security (dm_cfg s) then map FwDel (ac_firewall y) else []))"

lemma wp_stopActor:
  assumes "map_of (dm_launch s) (fullName app actor) = Some pid" "map_of (dm_actors s) (fullName app actor) = Some r"
    "wt (dm_db s)" "proper_app app"
  shows "wp (stopActor app actor) (\<lambda>_ t. \<exists>y \<in> set (records_of (db_view (dm_db s) app)). halted app actor pid y s t) (\<lambda>_ _. True) s"
proof -
  let ?q = "fullName app actor"
  let ?I = "\<lambda>ts t. dm_launch t = AList.delete ?q (dm_launch s) \<and> dm_actors t = dm_actors s \<and> dm_fw t = dm_fw s \<and> dm_db t = dm_db s \<and>
    dm_cfg t = dm_cfg s \<and> dm_tasks t = dm_tasks s @ ts"
  let ?Q = "\<lambda>_ t. \<exists>y \<in> set (records_of (db_view (dm_db s) app)). halted app actor pid y s t"
  have step: "wp (seqA (m # ms)) ?Q (\<lambda>_ _. True) t" if "preserves (?I k) m" "?I k t" "\<And>t. ?I k t \<Longrightarrow> wp (seqA ms) ?Q (\<lambda>_ _. True) t" for m :: "('a, 'b, 'c, unit) dmact" and ms k t
    by (rule wp_pre_seqA [OF that(1,2)]) (use that(3) in auto)
  have mon: "preserves (?I ts) (whenA b (delMonitor app actor))" for ts b
    unfolding delMonitor_def item_def by (intro preserve preserves_upd) auto
  have last: "wp (seqA [bnd (on_db (getAppActor app actor)) (\<lambda>x. case x of None \<Rightarrow> raise AttributeError | Some y \<Rightarrow> undoAppNetwork (ac_firewall y)),
       done_with (on_db (delAppActor app actor))]) ?Q (\<lambda>_ _. True) t"
    if t: "dm_launch t = AList.delete ?q (dm_launch s) \<and> dm_actors t = AList.delete ?q (dm_actors s) \<and> dm_fw t = dm_fw s \<and> dm_db t = dm_db s \<and>
      dm_cfg t = dm_cfg s \<and> dm_tasks t = dm_tasks s @ [TermActor pid app actor]" for t
    unfolding wp_seqA_Cons wp_bnd wp_on_db done_with_def
  proof (rule wp_mono [OF wp_getAppActor [of "dm_db t" app actor]])
    show "wt (dm_db t)" "proper_app app" using t assms(3,4) by simp_all
  next
    fix x d
    assume d: "same_db (dm_db t) d \<and> db_view d = db_view (dm_db t) \<and>
      (\<forall>y. x = Some y \<longrightarrow> y \<in> set (records_of (db_view (dm_db t) app)) \<and> ac_actor y = actor)"
    show "wp (case x of None \<Rightarrow> raise AttributeError | Some y \<Rightarrow> undoAppNetwork (ac_firewall y))
      (\<lambda>_ s. wp (delAppActor app actor) (\<lambda>x d. wp (ret ()) (\<lambda>_. wp (seqA []) ?Q (\<lambda>_ _. True)) (\<lambda>_ _. True) (s\<lparr>dm_db := d\<rparr>)) (\<lambda>_ _. True) (dm_db s))
      (\<lambda>_ _. True) (t\<lparr>dm_db := d\<rparr>)"
    proof (cases x)
      case None
      then show ?thesis by (simp add: wp_raise)
    next
      case (Some y)
      with d t have y: "y \<in> set (records_of (db_view (dm_db s) app))" "ac_actor y = actor" by auto
      have "halted app actor pid y s (t\<lparr>dm_fw := dm_fw t @ (if dc_security (dm_cfg t) then map FwDel (ac_firewall y) else []), dm_db := d'\<rparr>)" for d'
        using y t by (simp add: halted_def Let_def)
      with y(1) Some show ?thesis
        by (auto simp: wp_def undo_run ret_def seqA.simps split: prod.split sum.split split del: if_split)
    qed
  qed simp_all
  have rest: "wp (seqA [submit (TermActor pid app actor), whenA (al_chan r \<noteq> None) (delMonitor app actor),
       upd (\<lambda>s. s\<lparr>dm_actors := AList.delete ?q (dm_actors s)\<rparr>),
       bnd (on_db (getAppActor app actor)) (\<lambda>x. case x of None \<Rightarrow> raise AttributeError | Some y \<Rightarrow> undoAppNetwork (ac_firewall y)),
       done_with (on_db (delAppActor app actor))]) ?Q (\<lambda>_ _. True) t" if "?I [] t" for t
    unfolding submit_def wp_seqA_Cons [of "upd _" "[whenA _ _, _, _, _]"] wp_upd
    by (rule step [OF mon [of "[TermActor pid app actor]"]], use that in simp)
      (unfold wp_seqA_Cons [of "upd _" "[_, _]"] wp_upd, rule last, simp)
  have start: "wp (seqA (on_res (res_stopActor app actor pid) # on_fm (fa_stopActor app actor) # on_pm (procm_release ?q) # ms)) ?Q (\<lambda>_ _. True) t"
    if "?I [] t" "\<And>t. ?I [] t \<Longrightarrow> wp (seqA ms) ?Q (\<lambda>_ _. True) t" for ms t
    by (intro step [of "[]"] on_res_keeps on_fm_keeps on_pm_keeps that) auto
  have same: "dm_actors (s\<lparr>dm_launch := l\<rparr>) = dm_actors s" for l by simp
  show ?thesis
    unfolding stopActor_def Let_def wp_rd assms(1) option.case wp_bnd wp_upd same assms(2)
    by (rule start, simp, rule rest)
qed

lemma records_after_add:
  assumes "wt d" "proper_app app"
  shows "set (records_of (db_view (snd (addAppActor app r d)) app)) \<subseteq> insert r (set (records_of (db_view d app)))"
    "wt (snd (addAppActor app r d))"
proof -
  obtain ok t where t: "addAppActor app r d = (Inr ok, t)" "op_post (AddActor app r) d ok t"
    using wp_total [OF wp_addAppActor [OF assms, of r]] by auto
  then have "snd (app_table t) app = (if ok then snd (app_table d) app @ [r] else snd (app_table d) app)"
    by (simp add: op_post_def table_spec_actor)
  with t assms show "set (records_of (db_view (snd (addAppActor app r d)) app)) \<subseteq> insert r (set (records_of (db_view d app)))"
    by (auto simp: snd_table split: if_splits)
  show "wt (snd (addAppActor app r d))" using t by (simp add: op_post_def)
qed


text \<open>The node with an empty database, on which the application has been set up.\<close>

definition toy_start :: "(unit, unit, (string, dbval) dict) depm" where
  "toy_start = toy_ready\<lparr>dm_db := empty_db\<rparr>"

definition toy_launched :: "(unit, unit, (string, dbval) dict) depm" where
  "toy_launched = exec (startActor ''App'' ''App.json'' ''a'' []) toy_start"

lemma toy_launch: "startActor ''App'' ''App.json'' ''a'' [] toy_start = (Inr (), toy_launched)"
proof -
  have "fst (startActor ''App'' ''App.json'' ''a'' [] toy_start) = Inr ()" by code_simp
  then show ?thesis by (metis exec_def prod.collapse toy_launched_def)
qed


section \<open>Messages about peers\<close>

text \<open>A message about a peer, for the actor with the qualified name \<open>q\<close>, and how it is sent on.\<close>

definition tell_for :: "string \<Rightarrow> tell \<Rightarrow> bool" where
  "tell_for q = (\<lambda>(cmd, app, actor, peer). (cmd = ''peer+'' \<or> cmd = ''peer-'') \<and> fullName app actor = q)"

definition to_actor :: "nat \<Rightarrow> string \<Rightarrow> int \<Rightarrow> tell \<Rightarrow> nat \<times> string \<times> dcmd" where
  "to_actor ch q pid msg = (ch, q @ ''-'' @ int_str pid, peer_cmd msg)"

lemma actorIdentity_full: "actorIdentity app actor pid = fullName app actor @ ''-'' @ int_str pid"
  by (simp add: actorIdentity_def fullName_def)

lemma flush_loop:
  assumes "list_all (tell_for q) msgs" "map_of (dm_launch s) q = Some pid"
  shows "forA msgs (\<lambda>msg. case msg of (cmd, app, actor, peer) \<Rightarrow> seqA [
      assertA (cmd = ''peer+'' \<or> cmd = ''peer-''), assertA (fullName app actor = q),
      bnd (item dm_launch q) (\<lambda>pid. send_to ch (actorIdentity app actor pid) (peer_cmd msg))]) s =
    (Inr (), s\<lparr>dm_sent := dm_sent s @ map (to_actor ch q pid) msgs\<rparr>)"
  using assms
proof (induction msgs arbitrary: s)
  case Nil
  then show ?case by (simp add: forA.simps ret_def)
next
  case (Cons m ms)
  obtain cmd app actor peer where m: "m = (cmd, app, actor, peer)" "cmd = ''peer+'' \<or> cmd = ''peer-''" "fullName app actor = q"
    using Cons.prems(1) by (cases m) (auto simp: tell_for_def)
  show ?case
    using Cons.IH [of "s\<lparr>dm_sent := dm_sent s @ [to_actor ch q pid m]\<rparr>"] Cons.prems m
    by (simp add: forA.simps bnd_def seqA.simps assertA_def ret_def item_def rd_def send_to_def upd_def to_actor_def actorIdentity_full)
qed

lemma flush_run:
  assumes "map_of (dm_actors s) q = Some r" "al_chan r = Some ch" "map_of (dm_queue s) q = Some msgs"
    "list_all (tell_for q) msgs" "map_of (dm_launch s) q = Some pid"
  shows "handlePeerQueue q s = (Inr (), s\<lparr>dm_sent := dm_sent s @ map (to_actor ch q pid) msgs, dm_queue := AList.update q [] (dm_queue s)\<rparr>)"
  using flush_loop [OF assms(4,5), of ch] assms(1-3)
  by (simp add: handlePeerQueue_def item_def rd_def bnd_def ret_def seqA.simps upd_def)

lemma tell_run:
  assumes "tell_for q msg" "map_of (dm_launch s) q = Some pid" "map_of (dm_actors s) q = Some r" "map_of (dm_queue s) q = Some msgs"
  shows "handleFMMon msg s = (Inr (), case al_chan r of Some ch \<Rightarrow> s\<lparr>dm_sent := dm_sent s @ [to_actor ch q pid msg]\<rparr>
    | None \<Rightarrow> s\<lparr>dm_queue := AList.update q (msgs @ [msg]) (dm_queue s)\<rparr>)"
proof -
  obtain cmd app actor peer where m: "msg = (cmd, app, actor, peer)" "cmd = ''peer+'' \<or> cmd = ''peer-''" "fullName app actor = q"
    using assms(1) by (cases msg) (auto simp: tell_for_def)
  then show ?thesis using assms(2-4)
    by (simp add: handleFMMon_def Let_def seqA.simps bnd_def assertA_def ret_def rd_def item_def send_to_def upd_def to_actor_def
        actorIdentity_full split: option.split)
qed

text \<open>The actor runs, and messages wait for it until it registers.\<close>

definition waiting :: "string \<Rightarrow> int \<Rightarrow> actorRecord \<Rightarrow> tell list \<Rightarrow> ('w, 'r, 'l) depm \<Rightarrow> bool" where
  "waiting q pid r msgs s \<longleftrightarrow> map_of (dm_launch s) q = Some pid \<and>
     map_of (dm_actors s) q = Some r \<and> map_of (dm_queue s) q = Some msgs"

lemma tells_queued:
  assumes "list_all (tell_for q) ms" "waiting q pid r msgs s" "al_chan r = None"
  shows "\<exists>t. run_steps (\<lambda>s ev. depm_turn ev s) s (map EvFM ms) = Some t \<and> waiting q pid r (msgs @ ms) t \<and>
    dm_sent t = dm_sent s \<and> dm_answers t = dm_answers s \<and> dm_pending t = dm_pending s"
  using assms(1,2)
proof (induction ms arbitrary: s msgs)
  case (Cons m ms)
  let ?s = "s\<lparr>dm_queue := AList.update q (msgs @ [m]) (dm_queue s)\<rparr>"
  have "handleFMMon m s = (Inr (), ?s)"
    using tell_run [of q m s pid r msgs] Cons.prems assms(3) by (simp add: waiting_def)
  moreover have "waiting q pid r (msgs @ [m]) ?s" using Cons.prems(2) by (simp add: waiting_def update_conv')
  ultimately show ?case using Cons.IH [of "msgs @ [m]" ?s] Cons.prems(1) by auto
qed simp

lemma tells_sent:
  assumes "list_all (tell_for q) ms" "waiting q pid r msgs s" "al_chan r = Some ch"
  shows "run_steps (\<lambda>s ev. depm_turn ev s) s (map EvFM ms) = Some (s\<lparr>dm_sent := dm_sent s @ map (to_actor ch q pid) ms\<rparr>)"
  using assms(1,2)
proof (induction ms arbitrary: s)
  case (Cons m ms)
  let ?s = "s\<lparr>dm_sent := dm_sent s @ [to_actor ch q pid m]\<rparr>"
  have "handleFMMon m s = (Inr (), ?s)"
    using tell_run [of q m s pid r msgs] Cons.prems assms(3) by (simp add: waiting_def)
  moreover have "waiting q pid r msgs ?s" using Cons.prems(2) by (simp add: waiting_def)
  ultimately show ?case using Cons.IH [of ?s] Cons.prems(1) by auto
qed simp

lemma register_run:
  fixes s :: "('a, 'b, 'c) depm"
  assumes "list_all (tell_for (fullName app actor)) msgs" "waiting (fullName app actor) pid r msgs s"
  shows "wp (handleActorReg app actor False) (\<lambda>_ t. \<exists>ch. waiting (fullName app actor) pid (r\<lparr>al_chan := Some ch\<rparr>) [] t \<and>
      dm_answers t = dm_answers s @ [RegOk ch] \<and> dm_sent t = dm_sent s @ map (to_actor ch (fullName app actor) pid) msgs)
    (\<lambda>_ t. dm_answers t = dm_answers s) s" (is "wp _ ?Q ?E s")
proof -
  let ?q = "fullName app actor"
  let ?I = "\<lambda>t. waiting (fullName app actor) pid r msgs t \<and> dm_answers t = dm_answers s \<and> dm_sent t = dm_sent s"
  have known: "known_client s ?q False" using assms(2) by (auto simp: known_client_def waiting_def)
  have step: "wp (seqA (m # ms)) ?Q ?E t" if "preserves ?I m" "?I t" "\<And>t. ?I t \<Longrightarrow> wp (seqA ms) ?Q ?E t" for m ms t
    by (rule wp_pre_seqA [OF that]) auto
  have last: "wp (seqA [bnd (item dm_actors ?q) (\<lambda>r. upd (\<lambda>s. s\<lparr>dm_actors := AList.update ?q (r\<lparr>al_chan := Some ch\<rparr>) (dm_actors s)\<rparr>)),
      answer (RegOk ch), whenA (\<not> False) (handlePeerQueue ?q)]) ?Q ?E t" if "?I t" for ch t
  proof -
    let ?t = "t\<lparr>dm_actors := AList.update ?q (r\<lparr>al_chan := Some ch\<rparr>) (dm_actors t), dm_answers := dm_answers t @ [RegOk ch], dm_pending := False\<rparr>"
    have "handlePeerQueue ?q ?t = (Inr (), ?t\<lparr>dm_sent := dm_sent ?t @ map (to_actor ch (fullName app actor) pid) msgs,
        dm_queue := AList.update ?q [] (dm_queue ?t)\<rparr>)"
      by (rule flush_run [where r = "r\<lparr>al_chan := Some ch\<rparr>"]) (use that assms(1) in \<open>simp_all add: waiting_def update_conv'\<close>)
    then show ?thesis
      using that by (auto simp: wp_def seqA.simps bnd_def item_def rd_def ret_def upd_def answer_def whenA_def waiting_def update_conv')
  qed
  have "wp (bnd (setupClient app actor) (\<lambda>ch. seqA [
       on_res (res_addClientDevice app actor),
       upd (\<lambda>s. s\<lparr>dm_monitors := AList.update (app, actor) ch (dm_monitors s)\<rparr>),
       on_fm (fa_addClientDevice app actor),
       bnd (item dm_actors ?q) (\<lambda>r. upd (\<lambda>s. s\<lparr>dm_actors := AList.update ?q (r\<lparr>al_chan := Some ch\<rparr>) (dm_actors s)\<rparr>)),
       answer (RegOk ch), whenA (\<not> False) (handlePeerQueue ?q)])) ?Q ?E s"
  proof (rule wp_pre [where I = ?I])
    show "preserves ?I (setupClient app actor)"
      unfolding setupClient_def Let_def waiting_def by (intro preserve preserves_upd) auto
  next
    fix ch :: nat and t :: "('a, 'b, 'c) depm" assume t: "?I t"
    show "wp (seqA [on_res (res_addClientDevice app actor),
       upd (\<lambda>s. s\<lparr>dm_monitors := AList.update (app, actor) ch (dm_monitors s)\<rparr>),
       on_fm (fa_addClientDevice app actor),
       bnd (item dm_actors ?q) (\<lambda>r. upd (\<lambda>s. s\<lparr>dm_actors := AList.update ?q (r\<lparr>al_chan := Some ch\<rparr>) (dm_actors s)\<rparr>)),
       answer (RegOk ch), whenA (\<not> False) (handlePeerQueue ?q)]) ?Q ?E t"
      by (intro step on_res_keeps on_fm_keeps preserves_upd last) (use t in \<open>simp_all add: waiting_def\<close>)
  qed (use assms(2) in auto)
  then show ?thesis
    unfolding handleActorReg_def Let_def wp_rd using known by simp
qed

lemma tells_keep_answers: "run_steps (\<lambda>s ev. depm_turn ev s) s (map EvFM ms) = Some t \<Longrightarrow> dm_answers t = dm_answers s"
proof (induction ms arbitrary: s)
  case (Cons m ms)
  then obtain u where u: "handleFMMon m s = (Inr (), u)" "run_steps (\<lambda>s ev. depm_turn ev s) u (map EvFM ms) = Some t"
    by (auto split: prod.splits sum.splits)
  have "dm_answers u = dm_answers s \<and> dm_pending u = dm_pending s"
    by (rule preservesD [OF answers.monitor_ok(2) _ u(1)]) simp
  with Cons.IH [OF u(2)] show ?case by simp
qed simp

text \<open>
  What the fault monitor says while an actor starts is queued; when the actor registers it is sent what
  has been queued, and from then on each message as it comes, over its own channel and to its own
  process.
\<close>

lemma peers_reach_actor_in_order:
  assumes "waiting (fullName app actor) pid r msgs s" "al_chan r = None" "list_all (tell_for (fullName app actor)) (msgs @ ms @ ms')" "\<not> dm_pending s"
    "run_steps (\<lambda>s ev. depm_turn ev s) s (map EvFM ms @ EvClient (ActorReg app actor False) # map EvFM ms') = Some t"
    "dm_answers t = dm_answers s @ [RegOk ch]"
  shows "dm_sent t = dm_sent s @ map (to_actor ch (fullName app actor) pid) (msgs @ ms @ ms')"
proof -
  let ?turn = "\<lambda>s ev. depm_turn ev s"
  obtain u where u: "run_steps ?turn s (map EvFM ms) = Some u" "waiting (fullName app actor) pid r (msgs @ ms) u" "dm_sent u = dm_sent s"
    "dm_answers u = dm_answers s" "\<not> dm_pending u"
    using tells_queued [of "fullName app actor" ms pid r msgs s] assms by auto
  let ?u = "u\<lparr>dm_pending := True\<rparr>"
  have w: "waiting (fullName app actor) pid r (msgs @ ms) ?u" using u(2) by (simp add: waiting_def)
  have reg: "wp (handleClient (ActorReg app actor False)) (\<lambda>_ v. dm_answers v = dm_answers s \<or>
      (\<exists>ch. waiting (fullName app actor) pid (r\<lparr>al_chan := Some ch\<rparr>) [] v \<and> dm_answers v = dm_answers s @ [RegOk ch] \<and>
        dm_sent v = dm_sent s @ map (to_actor ch (fullName app actor) pid) (msgs @ ms))) (\<lambda>_ _. False) ?u"
    unfolding handleClient_def wp_tryA client_body.simps
    by (rule wp_mono [OF register_run [OF _ w]]) (use assms(3) u in \<open>auto simp: wp_ret\<close>)
  have "run_steps ?turn u (EvClient (ActorReg app actor False) # map EvFM ms') = Some t"
    using assms(5) u(1) by (simp add: run_steps_append del: depm_turn.simps)
  then obtain v where v: "handleClient (ActorReg app actor False) ?u = (Inr (), v)" "run_steps ?turn v (map EvFM ms') = Some t"
    using u(5) by (auto simp: turn_client simp del: depm_turn.simps split: prod.splits sum.splits)
  have later: "dm_answers t = dm_answers v" by (rule tells_keep_answers [OF v(2)])
  obtain ch' where c: "waiting (fullName app actor) pid (r\<lparr>al_chan := Some ch'\<rparr>) [] v" "dm_answers v = dm_answers s @ [RegOk ch']"
    "dm_sent v = dm_sent s @ map (to_actor ch' (fullName app actor) pid) (msgs @ ms)"
    using wp_returns [OF reg v(1)] later assms(6) by auto
  have "ch' = ch" using c(2) later assms(6) by simp
  moreover have "t = v\<lparr>dm_sent := dm_sent v @ map (to_actor ch' (fullName app actor) pid) ms'\<rparr>"
    using tells_sent [OF _ c(1), of ms' ch'] assms(3) v(2) by simp
  ultimately show ?thesis using c(3) by simp
qed

lemma toy_peers:
  "\<exists>r t. waiting (fullName ''App'' ''a'') 7 r [] toy_launched \<and> al_chan r = None \<and> \<not> dm_pending toy_launched \<and>
    run_steps (\<lambda>s ev. depm_turn ev s) toy_launched (map EvFM [(''peer+'', ''App'', ''a'', ''n1'')] @
      EvClient (ActorReg ''App'' ''a'' False) # map EvFM [(''peer-'', ''App'', ''a'', ''n1'')]) = Some t \<and>
    dm_answers t = dm_answers toy_launched @ [RegOk 1]"
proof -
  let ?evs = "map EvFM [(''peer+'', ''App'', ''a'', ''n1'')] @ EvClient (ActorReg ''App'' ''a'' False) # map EvFM [(''peer-'', ''App'', ''a'', ''n1'')]"
  have "dm_launch toy_launched = [(''App.a'', 7)]" by code_simp
  moreover obtain pid cmd rules where "launched ''App'' ''App.json'' ''a'' [] toy_start toy_launched pid cmd rules"
    using wp_returns [OF wp_startActor toy_launch] by blast
  ultimately obtain r where w: "waiting (fullName ''App'' ''a'') 7 r [] toy_launched" "al_chan r = None"
    by (auto simp: waiting_def launched_def fullName_def Let_def update_conv')
  have facts: "dm_answers toy_launched = []" "dm_pending toy_launched = False"
    using preservesD [OF answers.start_ok(1) _ toy_launch, of "[]" False] preservesD [OF answers.apps_ok(1) _ toy_setup, of "[]" False]
    by (auto simp: toy_start_def toy_depm_def)
  have "map_option dm_answers (run_steps (\<lambda>s ev. depm_turn ev s) toy_launched ?evs) = Some [RegOk 1]" by code_simp
  with w facts show ?thesis by fastforce
qed

end
