(* ===== verification/DepmTables.thy ===== *)
theory DepmTables
  imports DepmRuns
begin

text \<open>
  The tables of the deployment manager agree in every run, and what an actor that cannot be stopped
  does to the manager. Each operation of \<open>Depm\<close> has a lemma that it preserves \<open>tables_agree\<close>; the
  locale \<open>dep_side\<close>, interpreted on it, covers the steps that do not touch the tables.
\<close>

section \<open>The tables agree\<close>

text \<open>
  What is launched is an actor or a device; an actor has its name and a queue of messages that are for
  it, empty once it has a channel.
\<close>

definition actor_agrees :: "(string, tell list) dict \<Rightarrow> string \<Rightarrow> actorRecord \<Rightarrow> bool" where
  "actor_agrees queue q r \<longleftrightarrow> q = fullName (al_app r) (al_actor r) \<and>
     (\<exists>msgs. map_of queue q = Some msgs \<and> list_all (tell_for q) msgs \<and> (al_chan r \<noteq> None \<longrightarrow> msgs = []))"

definition tables_agree :: "('w, 'r, 'l) depm \<Rightarrow> bool" where
  "tables_agree s \<longleftrightarrow> (\<forall>q. map_of (dm_launch s) q \<noteq> None \<longrightarrow> map_of (dm_actors s) q \<noteq> None \<or> map_of (dm_devices s) q \<noteq> None) \<and>
     (\<forall>q r. map_of (dm_actors s) q = Some r \<longrightarrow> actor_agrees (dm_queue s) q r)"

interpretation agree_side: dep_side tables_agree
  by unfold_locales (simp_all add: tables_agree_def)

lemma agree_starts: "preserves tables_agree (startActor app model actor args)" "preserves tables_agree (startDevice app model type inst args)"
proof -
  show "preserves tables_agree (startActor app model actor args)"
    unfolding startActor_def done_with_def Let_def
    by (intro preserve agree_side.calls preserves_upd agree_side.needs_ok agree_side.models_ok agree_side.network_ok)
      (auto simp: tables_agree_def actor_agrees_def update_conv' split: if_splits)
  show "preserves tables_agree (startDevice app model type inst args)"
    unfolding startDevice_def done_with_def Let_def
    by (intro preserve agree_side.calls preserves_upd agree_side.needs_ok agree_side.models_ok agree_side.network_ok)
      (auto simp: tables_agree_def actor_agrees_def update_conv' split: if_splits)
qed

text \<open>While an actor is stopped it is not in the launch map.\<close>

interpretation agree_without: dep_side "\<lambda>s. tables_agree s \<and> map_of (dm_launch s) q = None"
  by unfold_locales (simp_all add: tables_agree_def)

lemma agree_launch_delete: "tables_agree s \<Longrightarrow> tables_agree (s\<lparr>dm_launch := AList.delete q (dm_launch s)\<rparr>)"
  by (auto simp: tables_agree_def delete_conv' split: if_splits)

lemma agree_actor_delete: "tables_agree s \<and> map_of (dm_launch s) q = None \<Longrightarrow>
    tables_agree (s\<lparr>dm_actors := AList.delete q (dm_actors s)\<rparr>) \<and> map_of (dm_launch (s\<lparr>dm_actors := AList.delete q (dm_actors s)\<rparr>)) q = None"
  by (auto simp: tables_agree_def delete_conv' split: if_splits)

lemma upd_then: "bnd (upd f) k s = k () (f s)"
  by (simp add: bnd_def upd_def)

lemma agree_stop_actor:
  fixes app actor :: string
  shows "preserves (tables_agree :: ('w, 'r, 'l) depm \<Rightarrow> bool) (stopActor app actor)"
proof -
  let ?q = "fullName app actor"
  let ?J = "\<lambda>s :: ('w, 'r, 'l) depm. tables_agree s \<and> map_of (dm_launch s) ?q = None"
  let ?rest = "\<lambda>pid r. seqA [on_res (res_stopActor app actor pid), on_fm (fa_stopActor app actor), on_pm (procm_release ?q),
       submit (TermActor pid app actor), whenA (al_chan r \<noteq> None) (delMonitor app actor),
       upd (\<lambda>s. s\<lparr>dm_actors := AList.delete ?q (dm_actors s)\<rparr>),
       bnd (on_db (getAppActor app actor)) (\<lambda>x. case x of None \<Rightarrow> raise AttributeError | Some y \<Rightarrow> undoAppNetwork (ac_firewall y)),
       done_with (on_db (delAppActor app actor))]"
  have rest: "preserves ?J (?rest pid r)" for pid r
    unfolding done_with_def
    by (intro preserve agree_without.calls preserves_upd agree_without.needs_ok agree_without.network_ok agree_actor_delete)
  show ?thesis
  proof (rule preservesI)
    fix s :: "('w, 'r, 'l) depm" assume s: "tables_agree s"
    show "tables_agree (snd (stopActor app actor s))"
    proof (cases "map_of (dm_launch s) ?q")
      case None
      with s show ?thesis by (simp add: stopActor_def Let_def rd_def ret_def)
    next
      case (Some pid)
      let ?s = "s\<lparr>dm_launch := AList.delete ?q (dm_launch s)\<rparr>"
      have "?J ?s" using agree_launch_delete [OF s] by (simp add: delete_conv')
      then have "tables_agree (snd (?rest pid r ?s))" for r using preserves_snd [OF rest] by blast
      with Some agree_launch_delete [OF s] show ?thesis
        by (auto simp: stopActor_def Let_def rd_def upd_then ret_def split: option.split)
    qed
  qed
qed

lemma agree_stop_device: "preserves tables_agree (stopDevice app inst)"
  unfolding stopDevice_def Let_def
  by (intro preserve agree_side.calls preserves_upd agree_side.needs_ok agree_launch_delete)

lemma agree_halt: "preserves tables_agree (haltActor app actor)"
  unfolding haltActor_def by (intro preserves_tryA agree_stop_actor) (simp split: pyexc.split add: preserve)

lemma agree_send: "preserves tables_agree (send_to ch i c)"
  unfolding send_to_def by (intro preserves_upd) (simp add: tables_agree_def)

lemma agree_answer: "preserves tables_agree (answer a)"
  unfolding answer_def by (intro preserves_upd) (simp add: tables_agree_def)

lemma agree_found:
  assumes "tables_agree s" "map_of (dm_actors s) q = Some r"
  obtains msgs where "map_of (dm_queue s) q = Some msgs" "list_all (tell_for q) msgs" "al_chan r \<noteq> None \<longrightarrow> msgs = []"
    "q = fullName (al_app r) (al_actor r)"
proof -
  from assms have "actor_agrees (dm_queue s) q r" unfolding tables_agree_def by blast
  with that show ?thesis unfolding actor_agrees_def by blast
qed

lemma agree_queue:
  assumes "tables_agree s" "\<And>r. map_of (dm_actors s) q = Some r \<Longrightarrow> list_all (tell_for q) ms \<and> (al_chan r \<noteq> None \<longrightarrow> ms = [])"
  shows "tables_agree (s\<lparr>dm_queue := AList.update q ms (dm_queue s)\<rparr>)"
proof -
  have "actor_agrees (AList.update q ms (dm_queue s)) k r" if "map_of (dm_actors s) k = Some r" for k r
  proof -
    have a: "actor_agrees (dm_queue s) k r" using assms(1) that unfolding tables_agree_def by blast
    show ?thesis
    proof (cases "k = q")
      case True
      with a assms(2) [of r] that show ?thesis unfolding actor_agrees_def update_conv' by auto
    next
      case False
      with a show ?thesis unfolding actor_agrees_def update_conv' by auto
    qed
  qed
  with assms(1) show ?thesis unfolding tables_agree_def by simp
qed

lemma agree_tell: "preserves tables_agree (handleFMMon msg)"
proof (rule preservesI)
  fix s :: "('a, 'b, 'c) depm" assume s: "tables_agree s"
  obtain cmd app actor peer where m: "msg = (cmd, app, actor, peer)" by (cases msg)
  let ?q = "fullName app actor"
  note run = handleFMMon_def m Let_def seqA.simps bnd_def assertA_def rd_def ret_def raise_def
  show "tables_agree (snd (handleFMMon msg s))"
  proof (cases "cmd = ''peer+'' \<or> cmd = ''peer-''")
    case False
    then show ?thesis using s by (simp add: run)
  next
    case cmd: True
    show ?thesis
    proof (cases "map_of (dm_actors s) ?q")
      case None
      then show ?thesis using s cmd by (simp add: run)
    next
      case actor: (Some r)
      show ?thesis
      proof (cases "map_of (dm_launch s) ?q")
        case None
        then show ?thesis using s cmd actor by (simp add: run)
      next
        case (Some pid)
        from agree_found [OF s actor] obtain msgs where q: "map_of (dm_queue s) ?q = Some msgs" "list_all (tell_for ?q) msgs"
          "al_chan r \<noteq> None \<longrightarrow> msgs = []" "?q = fullName (al_app r) (al_actor r)" .
        have t: "tell_for ?q msg" using cmd m by (simp add: tell_for_def)
        have "tables_agree (s\<lparr>dm_queue := AList.update ?q (msgs @ [msg]) (dm_queue s)\<rparr>)" if "al_chan r = None"
          by (rule agree_queue [OF s]) (use q(2) t that actor in simp)
        moreover have "tables_agree (s\<lparr>dm_sent := x\<rparr>)" for x using s by (simp add: tables_agree_def)
        ultimately show ?thesis
          using tell_run [OF t Some actor q(1)] by (simp split: option.split)
      qed
    qed
  qed
qed

text \<open>The registration of an actor gives it a channel and empties its queue.\<close>

lemma agree_register_actor: "preserves (tables_agree :: ('w, 'r, 'l) depm \<Rightarrow> bool) (handleActorReg app actor False)"
proof (rule preservesI)
  fix s :: "('w, 'r, 'l) depm" assume s: "tables_agree s"
  let ?q = "fullName app actor"
  show "tables_agree (snd (handleActorReg app actor False s))"
  proof (cases "known_client s ?q False")
    case False
    then show ?thesis using preserves_snd [OF agree_answer s] by (simp add: handleActorReg_def Let_def rd_def)
  next
    case True
    then obtain r pid where r: "map_of (dm_actors s) ?q = Some r" "map_of (dm_launch s) ?q = Some pid"
      by (auto simp: known_client_def)
    from agree_found [OF s r(1)] obtain msgs where q: "map_of (dm_queue s) ?q = Some msgs" "list_all (tell_for ?q) msgs"
      "?q = fullName (al_app r) (al_actor r)" by blast
    let ?I = "\<lambda>t. tables_agree t \<and> waiting ?q pid r msgs t" and ?A = "\<lambda>_. tables_agree"
    have step: "wp (seqA (m # ms)) ?A ?A t" if "preserves ?I m" "?I t" "\<And>t. ?I t \<Longrightarrow> wp (seqA ms) ?A ?A t" for m :: "('w, 'r, 'l, unit) dmact" and ms t
      by (rule wp_pre_seqA [OF that]) auto
    have last: "wp (seqA [bnd (item dm_actors ?q) (\<lambda>r. upd (\<lambda>s. s\<lparr>dm_actors := AList.update ?q (r\<lparr>al_chan := Some ch\<rparr>) (dm_actors s)\<rparr>)),
        answer (RegOk ch), whenA (\<not> False) (handlePeerQueue ?q)]) ?A ?A t" if t: "?I t" for ch and t :: "('w, 'r, 'l) depm"
    proof -
      let ?t = "t\<lparr>dm_actors := AList.update ?q (r\<lparr>al_chan := Some ch\<rparr>) (dm_actors t), dm_answers := dm_answers t @ [RegOk ch], dm_pending := False\<rparr>"
      have "handlePeerQueue ?q ?t = (Inr (), ?t\<lparr>dm_sent := dm_sent ?t @ map (to_actor ch ?q pid) msgs,
          dm_queue := AList.update ?q [] (dm_queue ?t)\<rparr>)"
        by (rule flush_run [where r = "r\<lparr>al_chan := Some ch\<rparr>"]) (use t q(2) in \<open>simp_all add: waiting_def update_conv'\<close>)
      moreover have "tables_agree (?t\<lparr>dm_sent := x, dm_queue := AList.update ?q [] (dm_queue ?t)\<rparr>)" for x
        using t q(3) by (simp add: tables_agree_def actor_agrees_def waiting_def update_conv')
      ultimately show ?thesis
        using t by (simp add: wp_def seqA.simps bnd_def item_def rd_def ret_def upd_def answer_def whenA_def waiting_def)
    qed
    have "wp (bnd (setupClient app actor) (\<lambda>ch. seqA [
       on_res (res_addClientDevice app actor),
       upd (\<lambda>s. s\<lparr>dm_monitors := AList.update (app, actor) ch (dm_monitors s)\<rparr>),
       on_fm (fa_addClientDevice app actor),
       bnd (item dm_actors ?q) (\<lambda>r. upd (\<lambda>s. s\<lparr>dm_actors := AList.update ?q (r\<lparr>al_chan := Some ch\<rparr>) (dm_actors s)\<rparr>)),
       answer (RegOk ch), whenA (\<not> False) (handlePeerQueue ?q)])) ?A ?A s"
    proof (rule wp_pre [where I = ?I])
      show "preserves ?I (setupClient app actor)"
        unfolding setupClient_def Let_def waiting_def by (intro preserve preserves_upd) (simp add: tables_agree_def)
    next
      fix ch :: nat and t :: "('w, 'r, 'l) depm" assume t: "?I t"
      show "wp (seqA [on_res (res_addClientDevice app actor),
         upd (\<lambda>s. s\<lparr>dm_monitors := AList.update (app, actor) ch (dm_monitors s)\<rparr>),
         on_fm (fa_addClientDevice app actor),
         bnd (item dm_actors ?q) (\<lambda>r. upd (\<lambda>s. s\<lparr>dm_actors := AList.update ?q (r\<lparr>al_chan := Some ch\<rparr>) (dm_actors s)\<rparr>)),
         answer (RegOk ch), whenA (\<not> False) (handlePeerQueue ?q)]) ?A ?A t"
        by (intro step on_res_keeps on_fm_keeps preserves_upd last) (use t in \<open>simp_all add: waiting_def tables_agree_def\<close>)
    qed (use s r q in \<open>simp_all add: waiting_def\<close>)
    then show ?thesis
      using True by (auto simp: wp_def handleActorReg_def Let_def rd_def split: prod.splits sum.splits)
  qed
qed

lemma agree_register_device: "preserves tables_agree (handleActorReg app actor True)"
  unfolding handleActorReg_def Let_def item_def whenA_def not_True_eq_False if_True if_False
  by (intro preserve agree_side.calls preserves_upd agree_side.needs_ok agree_answer; simp add: tables_agree_def update_conv')

lemma agree_client: "preserves tables_agree (handleClient r)"
proof -
  have "preserves tables_agree (client_body r)"
  proof (cases r)
    case (ActorReg app actor isDevice)
    then show ?thesis using agree_register_actor agree_register_device by (cases isDevice) auto
  next
    case (DeviceGet app model type inst args)
    have "preserves tables_agree (handleDeviceReq app model type inst args)"
      unfolding handleDeviceReq_def by (intro preserve agree_starts agree_answer) (simp split: pyexc.split add: preserve)
    with DeviceGet show ?thesis by simp
  next
    case (DeviceRel app model type inst)
    have "preserves tables_agree (handleDeviceRel app inst)"
      unfolding handleDeviceRel_def by (intro preserve agree_stop_device agree_answer) (simp split: pyexc.split add: preserve)
    with DeviceRel show ?thesis by simp
  next
    case (ReportEvent app actor msg)
    then show ?thesis using agree_answer by (simp add: handleReportEvent_def)
  next
    case OtherRequest
    then show ?thesis by (simp add: preserve)
  qed
  then show ?thesis unfolding handleClient_def by (intro preserve)
qed

lemma agree_command: "preserves tables_agree (handleCommand c)"
proof -
  have "preserves tables_agree (command_body c)"
    by (cases c) (auto intro!: preserve agree_side.calls agree_starts agree_halt agree_side.apps_ok agree_side.disco_ok)
  then show ?thesis unfolding handleCommand_def by (intro preserve preserves_upd) (simp_all add: tables_agree_def)
qed

lemma agree_monitors: "preserves tables_agree (handleProcmon q)" "preserves tables_agree (handleNICMon flag)"
  unfolding handleProcmon_def handleNICMon_def restartActor_def reinstate_def item_def
  by (intro preserve agree_side.calls agree_side.needs_ok agree_starts agree_stop_actor agree_stop_device agree_side.disco_ok agree_send)+

lemma agree_turn: "preserves tables_agree (depm_turn ev)"
proof (cases ev)
  case (EvClient r)
  show ?thesis unfolding EvClient depm_turn.simps by (intro preserve preserves_upd agree_client) (simp add: tables_agree_def)
next
  case EvTask
  show ?thesis unfolding EvTask depm_turn.simps by (intro preserve preserves_upd agree_side.task_ok) (simp add: tables_agree_def)
qed (simp_all add: agree_command agree_monitors agree_tell)

lemma agree_recover: "preserves tables_agree recover"
proof -
  have kill: "preserves tables_agree (dep_kill pid)" for pid
  proof -
    have "preserves tables_agree (gone_within n pid)" for n
      by (induction n) (simp_all, intro preserve, intro preserve agree_side.calls)
    then show ?thesis unfolding dep_kill_def done_with_def by (intro preserve agree_side.calls)
  qed
  have orphans: "preserves tables_agree (orphans apps)" for apps
    by (induction apps rule: orphans.induct)
      (simp_all add: preserve, auto intro!: preserve agree_side.calls kill simp: recorded_def stopOrphanActor_def kill_orphans_def done_with_def)
  have actors: "preserves tables_agree (recoverActors b rs)" for b rs
    by (induction rs arbitrary: b)
      (auto intro!: preserve agree_side.calls agree_side.apps_ok agree_starts simp: recoverActor_def done_with_def Let_def)
  show ?thesis
    unfolding recover_def stopOrphanDisco_def kill_orphans_def done_with_def
    by (intro preserve agree_side.calls agree_side.disco_ok agree_side.needs_ok orphans actors kill)
      (auto intro!: preserve agree_side.calls kill split: dbval.split)
qed

interpretation manager: stepped_object "\<lambda>s ev. depm_turn ev s" "\<lambda>_. True" tables_agree
  by unfold_locales (rule preservesD [OF agree_turn])

text \<open>
  C5: the tables of the manager agree. From the start, through the recovery and any turns of the loop,
  with whatever failing in them, what is launched is an actor or a device, and the queue of an actor
  holds messages for it only, and none once it has a channel. So an actor that registers is always sent
  the messages that wait for it.
\<close>

theorem manager_tables_agree:
  assumes "depm_init c os w f r d = (Inr (), s0)" "recover s0 = (Inr (), s)" "run_steps (\<lambda>s ev. depm_turn ev s) s evs = Some t"
  shows "tables_agree t \<and> (\<forall>q pid x ch. map_of (dm_launch t) q = Some pid \<longrightarrow> map_of (dm_actors t) q = Some x \<longrightarrow>
    (\<exists>u msgs. handlePeerQueue q (t\<lparr>dm_actors := AList.update q (x\<lparr>al_chan := Some ch\<rparr>) (dm_actors t)\<rparr>) = (Inr (), u) \<and>
      map_of (dm_queue t) q = Some msgs \<and> dm_sent u = dm_sent t @ map (to_actor ch q pid) msgs))"
proof -
  have "preserves tables_agree (seqA [setupUser (dc_target c), whenA (dc_security c) (seqA [
       firewall_add ''INPUT -m conntrack --ctstate RELATED,ESTABLISHED -j ACCEPT'',
       firewall_add ''INPUT -m conntrack --ctstate INVALID -j DROP'', firewall_add ''INPUT -i lo -j ACCEPT''])])"
    unfolding firewall_add_def by (intro preserve preserves_upd agree_side.models_ok) (simp_all add: tables_agree_def)
  from preservesD [OF this _ assms(1) [unfolded depm_init_def]] have "tables_agree s0" by (simp add: tables_agree_def)
  then have "tables_agree s" by (rule preservesD [OF agree_recover _ assms(2)])
  then have t: "tables_agree t" by (rule manager.run_keeps [OF _ _ assms(3)]) (simp add: list_all_iff)
  have "\<exists>u msgs. handlePeerQueue q (t\<lparr>dm_actors := AList.update q (x\<lparr>al_chan := Some ch\<rparr>) (dm_actors t)\<rparr>) = (Inr (), u) \<and>
      map_of (dm_queue t) q = Some msgs \<and> dm_sent u = dm_sent t @ map (to_actor ch q pid) msgs"
    if "map_of (dm_launch t) q = Some pid" "map_of (dm_actors t) q = Some x" for q pid x ch
  proof -
    let ?x = "x\<lparr>al_chan := Some ch\<rparr>"
    from agree_found [OF t that(2)] obtain msgs where q: "map_of (dm_queue t) q = Some msgs" "list_all (tell_for q) msgs" by blast
    have "handlePeerQueue q (t\<lparr>dm_actors := AList.update q ?x (dm_actors t)\<rparr>) = (Inr (), t\<lparr>dm_actors := AList.update q ?x (dm_actors t),
        dm_sent := dm_sent t @ map (to_actor ch q pid) msgs, dm_queue := AList.update q [] (dm_queue t)\<rparr>)"
      using flush_run [where r = ?x and s = "t\<lparr>dm_actors := AList.update q ?x (dm_actors t)\<rparr>", of q ch msgs pid] q that(1)
      by (simp add: update_conv')
    with q(1) show ?thesis by simp
  qed
  with t show ?thesis by blast
qed

theorem manager_tables_agree_witness:
  "\<exists>s0 s t. depm_init toy_cfg toy_os () fman_new toy_resm empty_db = (Inr (), s0) \<and> recover s0 = (Inr (), s) \<and>
     run_steps (\<lambda>s ev. depm_turn ev s) s [EvCommand (SetupApp ''App'' ''App.json''), EvCommand (Launch ''App'' ''App.json'' ''a'' [])] = Some t \<and>
     tables_agree t"
proof -
  have "fst (depm_init toy_cfg toy_os () fman_new toy_resm empty_db) = Inr ()" by code_simp
  then obtain s0 where s0: "depm_init toy_cfg toy_os () fman_new toy_resm empty_db = (Inr (), s0)" by (metis prod.collapse)
  have "fst (recover (snd (depm_init toy_cfg toy_os () fman_new toy_resm empty_db))) = Inr ()" by code_simp
  then obtain s where s: "recover s0 = (Inr (), s)" using s0 by (metis prod.collapse snd_conv)
  obtain t1 where t1: "depm_turn (EvCommand (SetupApp ''App'' ''App.json'')) s = (Inr (), t1)" using command_reply by blast
  obtain t2 where t2: "depm_turn (EvCommand (Launch ''App'' ''App.json'' ''a'' [])) t1 = (Inr (), t2)" using command_reply by blast
  have t: "run_steps (\<lambda>s ev. depm_turn ev s) s [EvCommand (SetupApp ''App'' ''App.json''), EvCommand (Launch ''App'' ''App.json'' ''a'' [])] = Some t2"
    using t1 t2 by (simp del: depm_turn.simps)
  from manager_tables_agree [OF s0 s t] s0 s t show ?thesis by blast
qed

section \<open>An actor that has not registered\<close>

lemma split_full: "CHR ''.'' \<notin> set app \<Longrightarrow> split_name (fullName app actor) = (app, actor)"
  by (induction app) (auto simp: split_name_def fullName_def)

lemma run_seqA_raise: "m s = (Inl e, t) \<Longrightarrow> seqA (m # ms) s = (Inl e, t)"
  by (simp add: seqA.simps bnd_def)



end
