(* ===== verification/Install.thy ===== *)
theory Install
  imports Prelude
begin

text \<open>
  The installation of a downloaded application (\<open>riaps/deplo/depm.py\<close>, \<open>installPackage\<close>). Its loop
  unpacks again as long as the unpacking is refused and the old application can be removed, so it may
  not end: the operation is \<open>None\<close> then, and not a part of the turns of \<open>Depm\<close>.

  \<^item> Files, archives and signatures are a parameter, the record \<open>pkgos\<close>; an access may raise.
\<close>

section \<open>The operation\<close>

record 'w pkgos =
  po_verify :: "string \<Rightarrow> ('w, bool) act"
  po_extract :: "string \<Rightarrow> ('w, unit) act"
  po_rmtree :: "string \<Rightarrow> ('w, unit) act"
  po_remove :: "string \<Rightarrow> ('w, unit) act"

text \<open>The loop gives the text of the error, if any.\<close>

partial_function (option) extract_pkg :: "'w pkgos \<Rightarrow> string \<Rightarrow> 'w \<Rightarrow> (string option \<times> 'w) option" where
  "extract_pkg P app w = (case po_extract P app w of
     (Inr _, w') \<Rightarrow> Some (None, w')
   | (Inl e, w') \<Rightarrow> (if e = PermissionError
       then (case po_rmtree P app w' of
         (Inr _, w'') \<Rightarrow> extract_pkg P app w''
       | (Inl _, w'') \<Rightarrow> Some (Some ''Old app cannot be removed'', w''))
       else Some (Some ''Content extraction failed'', w')))"

definition verify_error :: "string \<Rightarrow> string" where
  "verify_error app = ''Error while verifying app '' @ CHR 0x27 # app @ [CHR 0x27]"

definition verify_pkg :: "'w pkgos \<Rightarrow> string \<Rightarrow> ('w, string option) act" where
  "verify_pkg P app = tryA (bnd (po_verify P app) (\<lambda>ok. bnd (assertA ok) (\<lambda>_. ret None))) (\<lambda>_. ret (Some (verify_error app)))"

definition remove_pkg :: "'w pkgos \<Rightarrow> string \<Rightarrow> string option \<Rightarrow> ('w, string option) act" where
  "remove_pkg P app err = tryA (bnd (seqA [po_remove P (app @ ''.tgz''), po_remove P (app @ ''.tgz.sha256'')]) (\<lambda>_. ret err))
     (\<lambda>_. ret (Some ''App package removal failed''))"

definition installPackage :: "'w pkgos \<Rightarrow> string \<Rightarrow> 'w \<Rightarrow> ((pyexc + bool) \<times> 'w) option" where
  "installPackage P app w = (case verify_pkg P app w of (Inl e, w) \<Rightarrow> Some (Inl e, w)
   | (Inr err, w) \<Rightarrow> (case (if err = None then extract_pkg P app w else Some (err, w)) of None \<Rightarrow> None
     | Some (err, w) \<Rightarrow> Some (bnd (remove_pkg P app err) (\<lambda>err. case err of None \<Rightarrow> ret True | Some e \<Rightarrow> raise (BuildError e)) w)))"

section \<open>When it returns\<close>

lemma verify_run: "\<exists>err w'. verify_pkg P app w = (Inr err, w') \<and> (err = None \<longleftrightarrow> fst (po_verify P app w) = Inr True) \<and> w' = snd (po_verify P app w)"
  by (cases "po_verify P app w"; cases "fst (po_verify P app w)")
    (auto simp: verify_pkg_def tryA_def bnd_def assertA_def ret_def raise_def split: prod.splits sum.splits)

lemma remove_run: "\<exists>err' w'. remove_pkg P app err w = (Inr err', w') \<and> (err' = None \<longrightarrow> err = None)"
  by (auto simp: remove_pkg_def tryA_def bnd_def seqA.simps ret_def split: prod.split sum.split)

text \<open>
  C34: an installation returns, when removing the old application makes way for the new one. It
  answers \<open>True\<close> or raises \<open>BuildError\<close>; it answers \<open>True\<close> only for a package that has been verified
  and unpacked.
\<close>

theorem install_returns:
  assumes "\<And>w w' w''. po_extract P app w = (Inl PermissionError, w') \<Longrightarrow> po_rmtree P app w' = (Inr (), w'') \<Longrightarrow>
    fst (po_extract P app w'') \<noteq> Inl PermissionError"
  shows "\<exists>r w'. installPackage P app w = Some (r, w') \<and> (r = Inr True \<or> (\<exists>e. r = Inl (BuildError e))) \<and>
    (r = Inr True \<longrightarrow> fst (po_verify P app w) = Inr True \<and> (\<exists>v v'. po_extract P app v = (Inr (), v')))"
proof -
  have last: "\<exists>y. extract_pkg P app w = Some y \<and> (fst y = None \<longrightarrow> (\<exists>v v'. po_extract P app v = (Inr (), v')))"
    if "fst (po_extract P app w) \<noteq> Inl PermissionError" for w
    using that by (subst extract_pkg.simps) (auto split: prod.split sum.split)
  have "\<exists>y. extract_pkg P app w = Some y \<and> (fst y = None \<longrightarrow> (\<exists>v v'. po_extract P app v = (Inr (), v')))" for w
  proof (cases "fst (po_extract P app w) = Inl PermissionError")
    case True
    then obtain w' where w': "po_extract P app w = (Inl PermissionError, w')" by (metis prod.collapse)
    show ?thesis
    proof (cases "po_rmtree P app w'")
      case (Pair r w'')
      show ?thesis
      proof (cases r)
        case (Inl e)
        with w' Pair show ?thesis by (subst extract_pkg.simps) simp
      next
        case (Inr u)
        with w' Pair have "extract_pkg P app w = extract_pkg P app w''" by (subst extract_pkg.simps) simp
        with last [of w''] assms [OF w', of w''] Pair Inr show ?thesis by simp
      qed
    qed
  qed (rule last)
  then have loop: "\<exists>err w'. extract_pkg P app w = Some (err, w') \<and> (err = None \<longrightarrow> (\<exists>v v'. po_extract P app v = (Inr (), v')))" for w
    by (metis prod.collapse)
  obtain err w1 where v: "verify_pkg P app w = (Inr err, w1)" "err = None \<longleftrightarrow> fst (po_verify P app w) = Inr True"
    using verify_run [of P app w] by blast
  obtain err2 w2 where x: "(if err = None then extract_pkg P app w1 else Some (err, w1)) = Some (err2, w2)"
    "err2 = None \<longrightarrow> err = None \<and> (\<exists>v v'. po_extract P app v = (Inr (), v'))"
    using loop [of w1] by (cases err) auto
  obtain err3 w3 where r: "remove_pkg P app err2 w2 = (Inr err3, w3)" "err3 = None \<longrightarrow> err2 = None"
    using remove_run [of P app err2 w2] by blast
  have "installPackage P app w = Some (case err3 of None \<Rightarrow> Inr True | Some e \<Rightarrow> Inl (BuildError e), w3)"
    using v(1) x(1) r(1) by (auto simp: installPackage_def bnd_def ret_def raise_def split: option.split)
  with v(2) x(2) r(2) show ?thesis by (cases err3) auto
qed

text \<open>A node that refuses to unpack over an old application.\<close>

definition toy_pkg :: "bool pkgos" where
  "toy_pkg = \<lparr> po_verify = \<lambda>_. ret True, po_extract = \<lambda>_ old. (if old then (Inl PermissionError, old) else (Inr (), True)),
     po_rmtree = \<lambda>_ _. (Inr (), False), po_remove = \<lambda>_. ret () \<rparr>"

theorem install_returns_witness:
  "\<exists>r w'. installPackage toy_pkg ''App'' True = Some (r, w') \<and> (r = Inr True \<or> (\<exists>e. r = Inl (BuildError e)))"
proof -
  have "\<exists>r w'. installPackage toy_pkg ''App'' True = Some (r, w') \<and> (r = Inr True \<or> (\<exists>e. r = Inl (BuildError e))) \<and>
    (r = Inr True \<longrightarrow> fst (po_verify toy_pkg ''App'' True) = Inr True \<and> (\<exists>v v'. po_extract toy_pkg ''App'' v = (Inr (), v')))"
    by (rule install_returns) (auto simp: toy_pkg_def split: if_splits)
  then show ?thesis by blast
qed

text \<open>
  A package that is not verified is never unpacked: without a good signature the installation
  raises, whatever the archive and the file system would do, and only the package is removed.
\<close>

theorem unverified_is_never_unpacked:
  assumes "fst (po_verify P app w) \<noteq> Inr True"
  shows "\<exists>e w'. installPackage P app w = Some (Inl (BuildError e), w') \<and>
    installPackage (P\<lparr>po_extract := x, po_rmtree := y\<rparr>) app w = Some (Inl (BuildError e), w')"
proof -
  obtain err w1 where v: "verify_pkg P app w = (Inr err, w1)" "err \<noteq> None"
    using verify_run [of P app w] assms by blast
  obtain err3 w3 where r: "remove_pkg P app err w1 = (Inr err3, w3)" "err3 \<noteq> None"
    using remove_run [of P app err w1] v(2) by blast
  have "verify_pkg (P\<lparr>po_extract := x, po_rmtree := y\<rparr>) app = verify_pkg P app" "remove_pkg (P\<lparr>po_extract := x, po_rmtree := y\<rparr>) app = remove_pkg P app"
    by (auto simp: verify_pkg_def remove_pkg_def)
  with v r show ?thesis by (auto simp: installPackage_def bnd_def raise_def)
qed

theorem unverified_is_never_unpacked_witness:
  "\<exists>e w'. installPackage (toy_pkg\<lparr>po_verify := \<lambda>_. ret False\<rparr>) ''App'' True = Some (Inl (BuildError e), w')"
proof -
  have "fst (po_verify (toy_pkg\<lparr>po_verify := \<lambda>_. ret False\<rparr>) ''App'' True) \<noteq> Inr True" by (simp add: ret_def)
  from unverified_is_never_unpacked [OF this] show ?thesis by blast
qed

end
