(* ===== verification/DiscoStore.thy ===== *)
theory DiscoStore
  imports Prelude
begin

text \<open>
  What the discovery service relies on in its database (\<open>riaps/discd/dbase.py\<close>, class
  \<open>DiscoDbase\<close>): the operations of the interface, the do-nothing bodies of the base class, and the
  contract as a locale. A key holds a set of values and a set of clients; \<open>insert\<close> adds a value
  and reports the clients of the key, \<open>fetch\<close> reports the values and adds a client, \<open>remove\<close> and
  \<open>detach\<close> take a value and a client out. Under the contract a \<open>fetch\<close> after any operations
  returns the values inserted and not removed since.
\<close>

section \<open>The interface\<close>

text \<open>
  A database on states \<open>'d\<close>. Starting it clears leftovers and checking for updates drains a queue
  somebody else fills: both may not return, which is \<open>None\<close>.
\<close>

type_synonym update = "string \<times> string \<times> string list"

record 'd dbase =
  db_start :: "'d \<Rightarrow> ((pyexc + unit) \<times> 'd) option"
  db_fetchUpdates :: "'d \<Rightarrow> ((pyexc + update list) \<times> 'd) option"
  db_insert :: "string \<Rightarrow> string \<Rightarrow> ('d, string list) act"
  db_fetch :: "string \<Rightarrow> string \<Rightarrow> ('d, string list) act"
  db_remove :: "string \<Rightarrow> string \<Rightarrow> ('d, string list) act"
  db_detach :: "string \<Rightarrow> string \<Rightarrow> ('d, unit) act"

definition DiscoDbase :: "'d dbase" where
  "DiscoDbase = \<lparr> db_start = (\<lambda>s. Some (Inr (), s)), db_fetchUpdates = (\<lambda>s. Some (Inr [], s)),
     db_insert = (\<lambda>_ _. ret []), db_fetch = (\<lambda>_ _. ret []), db_remove = (\<lambda>_ _. ret []),
     db_detach = (\<lambda>_ _. ret ()) \<rparr>"

section \<open>The contract\<close>

datatype db_op = OpInsert string string | OpFetch string string
  | OpRemove string string | OpDetach string string

definition db_do :: "'d dbase \<Rightarrow> 'd \<Rightarrow> db_op \<Rightarrow> (pyexc + string list) \<times> 'd" where
  "db_do db s opn = (case opn of
     OpInsert k v \<Rightarrow> db_insert db k v s
   | OpFetch k c \<Rightarrow> db_fetch db k c s
   | OpRemove k v \<Rightarrow> db_remove db k v s
   | OpDetach k c \<Rightarrow> bnd (db_detach db k c) (\<lambda>_. ret []) s)"

fun spec_vals :: "db_op \<Rightarrow> (string \<Rightarrow> string set) \<Rightarrow> string \<Rightarrow> string set" where
  "spec_vals (OpInsert k v) V = V(k := insert v (V k))"
| "spec_vals (OpRemove k v) V = V(k := V k - {v})"
| "spec_vals (OpFetch k c) V = V"
| "spec_vals (OpDetach k c) V = V"

fun spec_clis :: "db_op \<Rightarrow> (string \<Rightarrow> string set) \<Rightarrow> string \<Rightarrow> string set" where
  "spec_clis (OpFetch k c) C = C(k := insert c (C k))"
| "spec_clis (OpDetach k c) C = C(k := C k - {c})"
| "spec_clis (OpInsert k v) C = C"
| "spec_clis (OpRemove k v) C = C"

lemma spec_vals_other: "opn \<noteq> OpRemove k v \<Longrightarrow> v \<in> V k \<Longrightarrow> v \<in> spec_vals opn V k"
  by (cases opn) auto

lemma fold_spec_vals_keeps: "OpRemove k v \<notin> set ops \<Longrightarrow> v \<in> V k \<Longrightarrow> v \<in> fold spec_vals ops V k"
proof (induction ops arbitrary: V)
  case (Cons opn ops)
  have "v \<in> spec_vals opn V k" by (rule spec_vals_other) (use Cons.prems in auto)
  then show ?case using Cons by simp
qed simp

locale disco_store =
  fixes db :: "'d dbase" and inv :: "'d \<Rightarrow> bool" and good :: "string \<Rightarrow> bool"
    and vals :: "'d \<Rightarrow> string \<Rightarrow> string set" and clis :: "'d \<Rightarrow> string \<Rightarrow> string set"
  assumes insert_law: "inv s \<Longrightarrow> good k \<Longrightarrow> db_insert db k v s = (Inr cs, t) \<Longrightarrow>
      inv t \<and> (\<forall>k'. good k' \<longrightarrow> vals t k' = spec_vals (OpInsert k v) (vals s) k' \<and> clis t k' = clis s k') \<and>
      set cs = (if v \<in> vals s k then {} else clis s k)"
    and fetch_law: "inv s \<Longrightarrow> good k \<Longrightarrow> db_fetch db k c s = (Inr vs, t) \<Longrightarrow>
      inv t \<and> (\<forall>k'. good k' \<longrightarrow> vals t k' = vals s k' \<and> clis t k' = spec_clis (OpFetch k c) (clis s) k') \<and>
      set vs = vals s k"
    and remove_law: "inv s \<Longrightarrow> good k \<Longrightarrow> db_remove db k v s = (Inr vs, t) \<Longrightarrow>
      inv t \<and> (\<forall>k'. good k' \<longrightarrow> vals t k' = spec_vals (OpRemove k v) (vals s) k' \<and> clis t k' = clis s k') \<and>
      set vs = vals s k - {v}"
    and detach_law: "inv s \<Longrightarrow> good k \<Longrightarrow> db_detach db k c s = (Inr (), t) \<Longrightarrow>
      inv t \<and> (\<forall>k'. good k' \<longrightarrow> vals t k' = vals s k' \<and> clis t k' \<supseteq> clis s k' - (if k' = k then {c} else {})
        \<and> clis t k' \<subseteq> clis s k')"
begin

fun good_op :: "db_op \<Rightarrow> bool" where
  "good_op (OpInsert k v) = good k"
| "good_op (OpFetch k c) = good k"
| "good_op (OpRemove k v) = good k"
| "good_op (OpDetach k c) = good k"

lemma step_refines:
  assumes "inv s" "good_op opn" "db_do db s opn = (Inr r, t)" "good k"
  shows "inv t \<and> vals t k = spec_vals opn (vals s) k"
proof (cases opn)
  case (OpInsert k' v)
  then show ?thesis using assms insert_law [of s k' v r t] by (auto simp: db_do_def)
next
  case (OpFetch k' c)
  then show ?thesis using assms fetch_law [of s k' c r t] by (auto simp: db_do_def)
next
  case (OpRemove k' v)
  then show ?thesis using assms remove_law [of s k' v r t] by (auto simp: db_do_def)
next
  case (OpDetach k' c)
  then have "db_detach db k' c s = (Inr (), t)"
    using assms(3) by (auto simp: db_do_def bnd_def ret_def split: prod.splits sum.splits)
  then show ?thesis using OpDetach assms(1,2,4) detach_law [of s k' c t] by auto
qed

lemma spec_vals_cong: "V k = V' k \<Longrightarrow> spec_vals opn V k = spec_vals opn V' k"
  by (cases opn) auto

lemma fold_spec_vals_cong: "V k = V' k \<Longrightarrow> fold spec_vals ops V k = fold spec_vals ops V' k"
proof (induction ops arbitrary: V V')
  case (Cons opn ops)
  show ?case
    using Cons.IH [of "spec_vals opn V" "spec_vals opn V'"] spec_vals_cong [of V k V' opn] Cons.prems
    by simp
qed simp

lemma run_refines:
  assumes "inv s" "list_all good_op ops" "run_steps (db_do db) s ops = Some t" "good k"
  shows "inv t \<and> vals t k = fold spec_vals ops (vals s) k"
  using assms
proof (induction ops arbitrary: s)
  case (Cons opn ops)
  then obtain r u where u: "db_do db s opn = (Inr r, u)" "run_steps (db_do db) u ops = Some t"
    by (auto split: prod.splits sum.splits)
  have s: "inv u \<and> vals u k = spec_vals opn (vals s) k"
    using step_refines u(1) Cons.prems by auto
  have "inv t \<and> vals t k = fold spec_vals ops (vals u) k"
    using Cons.IH [of u] s u(2) Cons.prems(2,4) by simp
  then show ?case
    using fold_spec_vals_cong [of "vals u" k "spec_vals opn (vals s)" ops] s by simp
qed simp

lemma fetch_returns:
  assumes "inv s" "list_all good_op ops" "run_steps (db_do db) s ops = Some t" "good k"
    and "db_fetch db k c t = (Inr vs, u)"
  shows "set vs = fold spec_vals ops (vals s) k"
  using run_refines [OF assms(1-4)] fetch_law [OF _ assms(4,5)] by auto

lemma registered_found:
  assumes "inv s" "good k" "db_insert db k v s = (Inr cs, t)" "list_all good_op ops"
    "OpRemove k v \<notin> set ops" "run_steps (db_do db) t ops = Some u" "db_fetch db k c u = (Inr vs, w)"
  shows "v \<in> set vs"
proof -
  have "inv t" "v \<in> vals t k" using insert_law [OF assms(1-3)] assms(2) by auto
  then show ?thesis
    using fetch_returns [OF _ assms(4,6,2,7)] fold_spec_vals_keeps [OF assms(5)] by metis
qed

end

end
