(* ===== verification/DiscoRedis.thy ===== *)
theory DiscoRedis
  imports DiscoStore DiscoText "HOL-Library.Sublist"
begin

text \<open>
  The redis database of the discovery service (\<open>riaps/discd/dbase_redis.py\<close>, class
  \<open>RedisDbase\<close>). The redis server and its client library are a parameter, the record \<open>redis\<close> of
  the commands the class calls; \<open>redis_laws\<close> states what the redis documentation says of them. A
  command may raise \<open>ConnectionError\<close> or \<open>OSError\<close> at any time. Strings and their UTF-8 encodings
  are the same lists of characters.
\<close>

section \<open>The server\<close>

text \<open>
  The commands, and for the laws what the server holds: the set under each key and the
  notifications waiting for this client as pairs of channel and data.
\<close>

record 'r redis =
  rd_connect :: "string \<Rightarrow> int \<Rightarrow> bool \<Rightarrow> ('r, unit) act"
  rd_exists :: "string \<Rightarrow> ('r, bool) act"
  rd_smembers :: "string \<Rightarrow> ('r, string list) act"
  rd_sadd :: "string \<Rightarrow> string \<Rightarrow> ('r, unit) act"
  rd_srem :: "string \<Rightarrow> string \<Rightarrow> ('r, unit) act"
  rd_subscribe :: "string \<Rightarrow> ('r, unit) act"
  rd_unsubscribe :: "string \<Rightarrow> ('r, unit) act"
  rd_get_message :: "('r, (string \<times> string) option) act"
  rd_view :: "'r \<Rightarrow> string \<Rightarrow> string set"
  rd_inbox :: "'r \<Rightarrow> (string \<times> string) list"

definition redis_laws :: "'r redis \<Rightarrow> bool" where
  "redis_laws R \<longleftrightarrow>
     (\<forall>k s b t. rd_exists R k s = (Inr b, t) \<longrightarrow> rd_view R t = rd_view R s \<and> b = (rd_view R s k \<noteq> {})) \<and>
     (\<forall>k s xs t. rd_smembers R k s = (Inr xs, t) \<longrightarrow> rd_view R t = rd_view R s \<and> set xs = rd_view R s k) \<and>
     (\<forall>k v s t. rd_sadd R k v s = (Inr (), t) \<longrightarrow>
        rd_view R t = (rd_view R s)(k := insert v (rd_view R s k))) \<and>
     (\<forall>k v s t. rd_srem R k v s = (Inr (), t) \<longrightarrow>
        rd_view R t = (rd_view R s)(k := rd_view R s k - {v})) \<and>
     (\<forall>k v s e t. rd_srem R k v s = (Inl e, t) \<longrightarrow>
        rd_view R t = rd_view R s \<or> rd_view R t = (rd_view R s)(k := rd_view R s k - {v})) \<and>
     (\<forall>c s t. rd_subscribe R c s = (Inr (), t) \<longrightarrow> rd_view R t = rd_view R s) \<and>
     (\<forall>c s t. rd_unsubscribe R c s = (Inr (), t) \<longrightarrow> rd_view R t = rd_view R s) \<and>
     (\<forall>s m t. rd_get_message R s = (Inr m, t) \<longrightarrow> rd_view R t = rd_view R s \<and>
        (case rd_inbox R s of [] \<Rightarrow> m = None | n # ns \<Rightarrow> m = Some n \<and> rd_inbox R t = ns))"

section \<open>The object\<close>

text \<open>\<open>subKeys\<close> is the set of the keys this instance has subscribed to.\<close>

record 'r rdb =
  rb_r :: "'r redis"
  rb_server :: 'r
  rb_rHostPort :: "string option"
  rb_security :: bool
  rb_subKeys :: "string set"

definition srv :: "('r redis \<Rightarrow> ('r, 'a) act) \<Rightarrow> ('r rdb, 'a) act" where
  "srv f = (\<lambda>s. case f (rb_r s) (rb_server s) of (r, t) \<Rightarrow> (r, s\<lparr>rb_server := t\<rparr>))"

definition discoRedisHost :: string where "discoRedisHost = ''localhost''"
definition discoRedisPort :: int where "discoRedisPort = 6379"

text \<open>The two \<open>except\<close> clauses every operation ends with.\<close>

definition redis_try :: "('r rdb, 'a) act \<Rightarrow> ('r rdb, 'a) act" where
  "redis_try m = tryA m (\<lambda>e.
     if e = ConnectionError then raise (DatabaseError ''db connection lost'')
     else if e = OSError then raise (DatabaseError ''OS error'')
     else raise e)"

text \<open>\<open>host:port\<close>, as \<open>start\<close> reads it.\<close>

definition host_port :: "string option \<Rightarrow> string \<Rightarrow> int \<Rightarrow> pyexc + string \<times> int" where
  "host_port hp h p = (case hp of None \<Rightarrow> Inr (h, p)
     | Some s \<Rightarrow> (case split_on CHR '':'' s of
         a # b # _ \<Rightarrow> (case parse_int b of Inl e \<Rightarrow> Inl e | Inr n \<Rightarrow> Inr (a, n))
       | _ \<Rightarrow> Inl IndexError))"

definition redis_start :: "('r rdb, unit) act" where
  "redis_start = rd rb_rHostPort (\<lambda>hp. rd rb_security (\<lambda>sec.
     bnd (lift (host_port hp discoRedisHost discoRedisPort)) (\<lambda>(host, port).
       seqA [redis_try (srv (\<lambda>R. rd_connect R host port sec)),
             upd (\<lambda>s. s\<lparr>rb_subKeys := {}\<rparr>)])))"

definition keyspace :: string where "keyspace = ''__keyspace@0__:''"

definition addSub :: "string \<Rightarrow> ('r rdb, unit) act" where
  "addSub newKey = rd rb_subKeys (\<lambda>ks. if newKey \<in> ks then ret () else seqA [
     upd (\<lambda>s. s\<lparr>rb_subKeys := insert newKey (rb_subKeys s)\<rparr>),
     srv (\<lambda>R. rd_subscribe R (keyspace @ newKey))])"

definition delSub :: "string \<Rightarrow> ('r rdb, unit) act" where
  "delSub key = rd rb_subKeys (\<lambda>ks. if key \<notin> ks then ret () else seqA [
     upd (\<lambda>s. s\<lparr>rb_subKeys := rb_subKeys s - {key}\<rparr>),
     srv (\<lambda>R. rd_unsubscribe R (keyspace @ key))])"

definition clients_key :: "string \<Rightarrow> string" where
  "clients_key key = key @ ''_clients''"

definition redis_insert :: "string \<Rightarrow> string \<Rightarrow> ('r rdb, string list) act" where
  "redis_insert key value = redis_try (
     bnd (srv (\<lambda>R. rd_exists R key)) (\<lambda>ex.
     bnd (if ex then bnd (srv (\<lambda>R. rd_smembers R key)) (\<lambda>vs. ret (value \<in> set vs)) else ret False) (\<lambda>known.
       if known then ret []
       else bnd (srv (\<lambda>R. rd_sadd R key value)) (\<lambda>_.
         srv (\<lambda>R. rd_smembers R (clients_key key))))))"

definition redis_fetch :: "string \<Rightarrow> string \<Rightarrow> ('r rdb, string list) act" where
  "redis_fetch key client = bnd (addSub key) (\<lambda>_. redis_try (
     bnd (srv (\<lambda>R. rd_exists R key)) (\<lambda>ex.
     bnd (if ex then srv (\<lambda>R. rd_smembers R key) else ret []) (\<lambda>values.
     bnd (srv (\<lambda>R. rd_sadd R (clients_key key) client)) (\<lambda>_. ret values)))))"

definition redis_remove :: "string \<Rightarrow> string \<Rightarrow> ('r rdb, string list) act" where
  "redis_remove key value = redis_try (
     bnd (srv (\<lambda>R. rd_srem R key value)) (\<lambda>_.
     bnd (srv (\<lambda>R. rd_smembers R key)) (\<lambda>values.
     bnd (whenA (values = []) (delSub key)) (\<lambda>_. ret values))))"

text \<open>A failing \<open>srem\<close> is ignored here.\<close>

definition redis_detach :: "string \<Rightarrow> string \<Rightarrow> ('r rdb, unit) act" where
  "redis_detach key target = redis_try (
     tryA (srv (\<lambda>R. rd_srem R (clients_key key) target)) (\<lambda>_. ret ()))"

section \<open>Updates\<close>

text \<open>\<open>re.split(sep, s)\<close> at a string.\<close>

function split_str :: "string \<Rightarrow> string \<Rightarrow> string list" where
  "split_str sep [] = [[]]"
| "split_str sep (x # xs) = (if sep \<noteq> [] \<and> prefix sep (x # xs)
     then [] # split_str sep (drop (length sep) (x # xs))
     else (case split_str sep xs of [] \<Rightarrow> [[x]] | w # ws \<Rightarrow> (x # w) # ws))"
  by pat_completeness auto
termination
  by (relation "measure (\<lambda>(sep, s). length s)") (auto simp: neq_Nil_conv)

text \<open>
  Reading the notifications that wait: the key of each, until there is none. A message stops the
  loop when the read raises or its channel has no key.
\<close>

definition msg_key :: "pyexc + (string \<times> string) option \<Rightarrow> string option" where
  "msg_key r = (case r of Inr (Some (ch, _)) \<Rightarrow>
       (case split_str keyspace ch of _ # k # _ \<Rightarrow> Some k | _ \<Rightarrow> None)
     | _ \<Rightarrow> None)"

definition msg_stop :: "pyexc + (string \<times> string) option \<Rightarrow> pyexc + string list" where
  "msg_stop r = (case r of Inl e \<Rightarrow> Inl e | Inr None \<Rightarrow> Inr [] | Inr (Some _) \<Rightarrow> Inl IndexError)"

definition cons_key :: "string \<Rightarrow> pyexc + string list \<Rightarrow> pyexc + string list" where
  "cons_key k r = (case r of Inl e \<Rightarrow> Inl e | Inr ks \<Rightarrow> Inr (k # ks))"

partial_function (option) read_keys :: "'r rdb \<Rightarrow> ((pyexc + string list) \<times> 'r rdb) option" where
  [code]: "read_keys s = (case srv rd_get_message s of (r, t) \<Rightarrow>
     (case msg_key r of
        None \<Rightarrow> Some (msg_stop r, t)
      | Some k \<Rightarrow> Option.bind (read_keys t) (\<lambda>(ks, u). Some (cons_key k ks, u))))"

fun key_updates :: "string list \<Rightarrow> ('r rdb, update list) act" where
  "key_updates [] = ret []"
| "key_updates (key # keys) =
     bnd (srv (\<lambda>R. rd_smembers R key)) (\<lambda>values.
     bnd (srv (\<lambda>R. rd_smembers R (clients_key key))) (\<lambda>cs.
     bnd (key_updates keys) (\<lambda>res. ret (map (\<lambda>v. (key, v, cs)) values @ res))))"

definition redis_fetchUpdates :: "'r rdb \<Rightarrow> ((pyexc + update list) \<times> 'r rdb) option" where
  "redis_fetchUpdates s = (if rb_subKeys s = {} then Some (Inr [], s)
     else map_option (\<lambda>(r, t). redis_try (bnd (lift r) key_updates) t) (read_keys s))"

definition RedisDbase :: "'r rdb dbase" where
  "RedisDbase = \<lparr> db_start = (\<lambda>s. Some (redis_start s)), db_fetchUpdates = redis_fetchUpdates,
     db_insert = redis_insert, db_fetch = redis_fetch, db_remove = redis_remove,
     db_detach = redis_detach \<rparr>"

section \<open>The contract\<close>

definition plain_key :: "string \<Rightarrow> bool" where
  "plain_key k \<longleftrightarrow> \<not> suffix ''_clients'' k"

definition redis_ok :: "'r rdb \<Rightarrow> bool" where
  "redis_ok s \<longleftrightarrow> redis_laws (rb_r s)"

definition redis_view :: "'r rdb \<Rightarrow> string \<Rightarrow> string set" where
  "redis_view s = rd_view (rb_r s) (rb_server s)"

lemma clients_key_other: "plain_key k \<Longrightarrow> clients_key k' \<noteq> k"
  unfolding plain_key_def clients_key_def by (metis suffixI)

lemma plain_not_clients_key: "plain_key k \<Longrightarrow> k \<noteq> clients_key k'"
  using clients_key_other by blast

lemma clients_key_not_plain [simp]: "\<not> plain_key (clients_key k)"
  using clients_key_other by blast

lemma clients_key_inj [simp]: "clients_key k = clients_key k' \<longleftrightarrow> k = k'"
  by (simp add: clients_key_def)

text \<open>A command keeps the laws and reads or changes what the server holds.\<close>

lemma srv_ok:
  assumes "srv f s = (r, t)"
  shows "redis_ok t = redis_ok s" "rb_subKeys t = rb_subKeys s" "rb_r t = rb_r s"
  using assms by (auto simp: srv_def redis_ok_def split: prod.splits)

lemma srv_server: "srv f s = (r, t) \<Longrightarrow> f (rb_r s) (rb_server s) = (r, rb_server t)"
  by (auto simp: srv_def split: prod.splits)

lemma srv_exists: "redis_ok s \<Longrightarrow> srv (\<lambda>R. rd_exists R k) s = (Inr b, t) \<Longrightarrow>
    redis_view t = redis_view s \<and> b = (redis_view s k \<noteq> {})"
  using srv_ok(3) unfolding redis_ok_def redis_laws_def redis_view_def
  by (metis srv_server)

lemma srv_smembers: "redis_ok s \<Longrightarrow> srv (\<lambda>R. rd_smembers R k) s = (Inr xs, t) \<Longrightarrow>
    redis_view t = redis_view s \<and> set xs = redis_view s k"
  using srv_ok(3) unfolding redis_ok_def redis_laws_def redis_view_def
  by (metis srv_server)

lemma srv_sadd: "redis_ok s \<Longrightarrow> srv (\<lambda>R. rd_sadd R k v) s = (Inr (), t) \<Longrightarrow>
    redis_view t = (redis_view s)(k := insert v (redis_view s k))"
  using srv_ok(3) unfolding redis_ok_def redis_laws_def redis_view_def
  by (metis srv_server)

lemma srv_srem: "redis_ok s \<Longrightarrow> srv (\<lambda>R. rd_srem R k v) s = (Inr (), t) \<Longrightarrow>
    redis_view t = (redis_view s)(k := redis_view s k - {v})"
  using srv_ok(3) unfolding redis_ok_def redis_laws_def redis_view_def
  by (metis srv_server)

lemma srv_srem_failed: "redis_ok s \<Longrightarrow> srv (\<lambda>R. rd_srem R k v) s = (Inl e, t) \<Longrightarrow>
    redis_view t = redis_view s \<or> redis_view t = (redis_view s)(k := redis_view s k - {v})"
  using srv_ok(3) unfolding redis_ok_def redis_laws_def redis_view_def
  by (metis srv_server)

lemma srv_subscribe: "redis_ok s \<Longrightarrow> srv (\<lambda>R. rd_subscribe R c) s = (Inr (), t) \<Longrightarrow> redis_view t = redis_view s"
  using srv_ok(3) unfolding redis_ok_def redis_laws_def redis_view_def
  by (metis srv_server)

lemma srv_unsubscribe: "redis_ok s \<Longrightarrow> srv (\<lambda>R. rd_unsubscribe R c) s = (Inr (), t) \<Longrightarrow> redis_view t = redis_view s"
  using srv_ok(3) unfolding redis_ok_def redis_laws_def redis_view_def
  by (metis srv_server)

lemma srv_get_message: "redis_ok s \<Longrightarrow> srv rd_get_message s = (Inr m, t) \<Longrightarrow> redis_view t = redis_view s \<and>
    (case rd_inbox (rb_r s) (rb_server s) of [] \<Rightarrow> m = None
     | n # ns \<Rightarrow> m = Some n \<and> rd_inbox (rb_r t) (rb_server t) = ns)"
proof -
  assume a: "redis_ok s" "srv rd_get_message s = (Inr m, t)"
  note r = srv_ok(3) [OF a(2)]
  have l: "\<forall>s m t. rd_get_message (rb_r t') s = (Inr m, t) \<longrightarrow> rd_view (rb_r t') t = rd_view (rb_r t') s \<and>
      (case rd_inbox (rb_r t') s of [] \<Rightarrow> m = None | n # ns \<Rightarrow> m = Some n \<and> rd_inbox (rb_r t') t = ns)"
    if "redis_ok t'" for t' :: "'a rdb"
    using that unfolding redis_ok_def redis_laws_def by (elim conjE)
  from l [OF a(1), rule_format, OF srv_server [OF a(2)]] show ?thesis
    unfolding redis_view_def r .
qed

text \<open>The same as rules for running an operation symbolically; an exception may end it anywhere.\<close>

lemma wp_srv:
  assumes "redis_ok s" "\<And>e t. E e t"
    "\<And>x t. srv f s = (Inr x, t) \<Longrightarrow> redis_ok t \<Longrightarrow> rb_subKeys t = rb_subKeys s \<Longrightarrow> Q x t"
  shows "wp (srv f) Q E s"
  unfolding wp_def using assms srv_ok(1,2) by (fastforce split: prod.splits sum.splits)

lemma wp_redis_try: "(\<And>e t. E e t) \<Longrightarrow> wp m Q (\<lambda>_ _. True) s \<Longrightarrow> wp (redis_try m) Q E s"
  unfolding redis_try_def wp_tryA by (erule wp_mono) (simp_all add: wp_simps)

lemma wp_addSub: "redis_ok s \<Longrightarrow> (\<And>e t. E e t) \<Longrightarrow>
    (\<And>t. redis_ok t \<Longrightarrow> redis_view t = redis_view s \<Longrightarrow> Q () t) \<Longrightarrow> wp (addSub k) Q E s"
proof -
  assume a: "redis_ok s" "\<And>e t. E e t" "\<And>t. redis_ok t \<Longrightarrow> redis_view t = redis_view s \<Longrightarrow> Q () t"
  let ?s = "s\<lparr>rb_subKeys := insert k (rb_subKeys s)\<rparr>"
  have s: "redis_ok ?s" "redis_view ?s = redis_view s"
    using a(1) by (simp_all add: redis_ok_def redis_view_def)
  have "wp (srv (\<lambda>R. rd_subscribe R (keyspace @ k))) Q E ?s"
    by (rule wp_srv [OF s(1) a(2)]) (use a(3) s srv_subscribe [OF s(1)] in auto)
  then show ?thesis
    unfolding addSub_def using a(1,3) by (simp add: wp_simps)
qed

lemma wp_delSub: "redis_ok s \<Longrightarrow> (\<And>e t. E e t) \<Longrightarrow>
    (\<And>t. redis_ok t \<Longrightarrow> redis_view t = redis_view s \<Longrightarrow> Q () t) \<Longrightarrow> wp (delSub k) Q E s"
proof -
  assume a: "redis_ok s" "\<And>e t. E e t" "\<And>t. redis_ok t \<Longrightarrow> redis_view t = redis_view s \<Longrightarrow> Q () t"
  let ?s = "s\<lparr>rb_subKeys := rb_subKeys s - {k}\<rparr>"
  have s: "redis_ok ?s" "redis_view ?s = redis_view s"
    using a(1) by (simp_all add: redis_ok_def redis_view_def)
  have "wp (srv (\<lambda>R. rd_unsubscribe R (keyspace @ k))) Q E ?s"
    by (rule wp_srv [OF s(1) a(2)]) (use a(3) s srv_unsubscribe [OF s(1)] in auto)
  then show ?thesis
    unfolding delSub_def using a(1,3) by (simp add: wp_simps)
qed

lemma redis_insert_wp:
  assumes "redis_ok s"
  shows "wp (redis_insert k v) (\<lambda>cs t. redis_ok t \<and>
      redis_view t = (redis_view s)(k := insert v (redis_view s k)) \<and>
      set cs = (if v \<in> redis_view s k then {}
        else ((redis_view s)(k := insert v (redis_view s k))) (clients_key k))) (\<lambda>_ _. True) s"
  unfolding redis_insert_def
proof (rule wp_redis_try, simp, unfold wp_bnd, rule wp_srv [OF assms], simp)
  fix ex t
  assume ex: "srv (\<lambda>R. rd_exists R k) s = (Inr ex, t)" and t: "redis_ok t"
  then have v: "redis_view t = redis_view s" "ex = (redis_view s k \<noteq> {})"
    using srv_exists [OF assms] by auto
  let ?Q = "\<lambda>cs u. redis_ok u \<and> redis_view u = (redis_view s)(k := insert v (redis_view s k)) \<and>
      set cs = (if v \<in> redis_view s k then {}
        else ((redis_view s)(k := insert v (redis_view s k))) (clients_key k))"
  let ?rest = "\<lambda>known. if known then ret []
       else bnd (srv (\<lambda>R. rd_sadd R k v)) (\<lambda>_. srv (\<lambda>R. rd_smembers R (clients_key k)))"
  have rest: "wp (?rest (v \<in> redis_view s k)) ?Q (\<lambda>_ _. True) u"
    if u: "redis_ok u" "redis_view u = redis_view s" for u
  proof (cases "v \<in> redis_view s k")
    case True
    then show ?thesis using u by (simp add: wp_simps insert_absorb)
  next
    case False
    have "wp (bnd (srv (\<lambda>R. rd_sadd R k v)) (\<lambda>_. srv (\<lambda>R. rd_smembers R (clients_key k)))) ?Q (\<lambda>_ _. True) u"
      unfolding wp_bnd
    proof (rule wp_srv [OF u(1)], simp, rule wp_srv, assumption, simp)
      fix x w cs w'
      assume w: "srv (\<lambda>R. rd_sadd R k v) u = (Inr x, w)" "redis_ok w"
        and w': "srv (\<lambda>R. rd_smembers R (clients_key k)) w = (Inr cs, w')" "redis_ok w'"
      show "?Q cs w'"
        using srv_sadd [OF u(1)] w u(2) srv_smembers [OF w(2) w'(1)] w'(2) False by simp
    qed
    then show ?thesis using False by simp
  qed
  show "wp (if ex then bnd (srv (\<lambda>R. rd_smembers R k)) (\<lambda>vs. ret (v \<in> set vs)) else ret False)
      (\<lambda>known. wp (?rest known) ?Q (\<lambda>_ _. True)) (\<lambda>_ _. True) t"
  proof (cases ex)
    case True
    have "wp (srv (\<lambda>R. rd_smembers R k)) (\<lambda>vs. wp (?rest (v \<in> set vs)) ?Q (\<lambda>_ _. True)) (\<lambda>_ _. True) t"
    proof (rule wp_srv [OF t], simp)
      fix vs w assume w: "srv (\<lambda>R. rd_smembers R k) t = (Inr vs, w)" "redis_ok w"
      then have "set vs = redis_view s k" "redis_view w = redis_view s"
        using srv_smembers [OF t w(1)] v(1) by auto
      then show "wp (?rest (v \<in> set vs)) ?Q (\<lambda>_ _. True) w" using rest [OF w(2)] by simp
    qed
    with True show ?thesis by (simp add: wp_bnd wp_ret)
  next
    case False
    then show ?thesis using rest [OF t v(1)] v(2) by (simp add: wp_ret)
  qed
qed

lemma redis_fetch_wp:
  assumes "redis_ok s"
  shows "wp (redis_fetch k c) (\<lambda>vs t. redis_ok t \<and>
      redis_view t = (redis_view s)(clients_key k := insert c (redis_view s (clients_key k))) \<and>
      set vs = redis_view s k) (\<lambda>_ _. True) s"
  unfolding redis_fetch_def wp_bnd
proof (rule wp_addSub [OF assms], simp, rule wp_redis_try, simp, unfold wp_bnd, rule wp_srv, assumption, simp)
  fix t ex u
  assume t: "redis_ok t" "redis_view t = redis_view s"
    and u: "srv (\<lambda>R. rd_exists R k) t = (Inr ex, u)" "redis_ok u"
  then have v: "redis_view u = redis_view s" "ex = (redis_view s k \<noteq> {})"
    using srv_exists [OF t(1)] by auto
  let ?Q = "\<lambda>vs t. redis_ok t \<and>
      redis_view t = (redis_view s)(clients_key k := insert c (redis_view s (clients_key k))) \<and>
      set vs = redis_view s k"
  let ?add = "\<lambda>vs. wp (srv (\<lambda>R. rd_sadd R (clients_key k) c)) (\<lambda>_. wp (ret vs) ?Q (\<lambda>_ _. True)) (\<lambda>_ _. True)"
  have add: "?add vs w" if "redis_ok w" "redis_view w = redis_view s" "set vs = redis_view s k" for vs w
    by (rule wp_srv [OF that(1)], simp) (use srv_sadd [OF that(1)] that in \<open>auto simp: wp_ret\<close>)
  show "wp (if ex then srv (\<lambda>R. rd_smembers R k) else ret []) ?add (\<lambda>_ _. True) u"
  proof (cases ex)
    case True
    have "wp (srv (\<lambda>R. rd_smembers R k)) ?add (\<lambda>_ _. True) u"
    proof (rule wp_srv [OF u(2)], simp)
      fix vs w assume w: "srv (\<lambda>R. rd_smembers R k) u = (Inr vs, w)" "redis_ok w"
      then show "?add vs w"
        using add [OF w(2)] srv_smembers [OF u(2) w(1)] v(1) by simp
    qed
    with True show ?thesis by simp
  next
    case False
    then show ?thesis using add [OF u(2) v(1)] v(2) by (simp add: wp_ret)
  qed
qed

lemma redis_remove_wp:
  assumes "redis_ok s"
  shows "wp (redis_remove k v) (\<lambda>vs t. redis_ok t \<and>
      redis_view t = (redis_view s)(k := redis_view s k - {v}) \<and>
      set vs = redis_view s k - {v}) (\<lambda>_ _. True) s"
  unfolding redis_remove_def
proof (rule wp_redis_try, simp, unfold wp_bnd, rule wp_srv [OF assms], simp, rule wp_srv, assumption, simp)
  fix x t vs u
  assume t: "srv (\<lambda>R. rd_srem R k v) s = (Inr x, t)" "redis_ok t"
    and u: "srv (\<lambda>R. rd_smembers R k) t = (Inr vs, u)" "redis_ok u"
  have v: "redis_view u = (redis_view s)(k := redis_view s k - {v})" "set vs = redis_view s k - {v}"
    using srv_srem [OF assms] t srv_smembers [OF t(2) u(1)] by auto
  let ?Q = "\<lambda>t. redis_ok t \<and> redis_view t = (redis_view s)(k := redis_view s k - {v})"
  have "wp (whenA (vs = []) (delSub k)) (\<lambda>_. ?Q) (\<lambda>_ _. True) u"
    using u(2) v(1) by (auto simp: wp_simps intro!: wp_delSub)
  then show "wp (whenA (vs = []) (delSub k)) (\<lambda>_. wp (ret vs) (\<lambda>vs t. redis_ok t \<and>
      redis_view t = (redis_view s)(k := redis_view s k - {v}) \<and> set vs = redis_view s k - {v})
      (\<lambda>_ _. True)) (\<lambda>_ _. True) u"
    by (rule wp_mono) (simp_all add: wp_ret v(2))
qed

lemma redis_detach_wp:
  assumes "redis_ok s"
  shows "wp (redis_detach k c) (\<lambda>_ t. redis_ok t \<and> (redis_view t = redis_view s \<or>
      redis_view t = (redis_view s)(clients_key k := redis_view s (clients_key k) - {c}))) (\<lambda>_ _. True) s"
proof (cases "srv (\<lambda>R. rd_srem R (clients_key k) c) s")
  case (Pair r t)
  then have "redis_ok t \<and> (redis_view t = redis_view s \<or>
      redis_view t = (redis_view s)(clients_key k := redis_view s (clients_key k) - {c}))"
    using srv_ok(1) [OF Pair] assms srv_srem [OF assms] srv_srem_failed [OF assms] by (cases r) auto
  with Pair show ?thesis
    unfolding redis_detach_def
    by (intro wp_redis_try) (simp_all add: wp_def tryA_def ret_def split: sum.split)
qed

interpretation redis: disco_store RedisDbase redis_ok plain_key redis_view
  "\<lambda>s k. redis_view s (clients_key k)"
proof unfold_locales
  fix s t :: "'a rdb" and k v cs assume "redis_ok s" "plain_key k" "db_insert RedisDbase k v s = (Inr cs, t)"
  then show "redis_ok t \<and> (\<forall>k'. plain_key k' \<longrightarrow> redis_view t k' = spec_vals (OpInsert k v) (redis_view s) k' \<and>
      redis_view t (clients_key k') = redis_view s (clients_key k')) \<and>
      set cs = (if v \<in> redis_view s k then {} else redis_view s (clients_key k))"
    using wp_returns [OF redis_insert_wp, of s k v cs t] by (auto simp: RedisDbase_def clients_key_other)
next
  fix s t :: "'a rdb" and k c vs assume "redis_ok s" "plain_key k" "db_fetch RedisDbase k c s = (Inr vs, t)"
  then show "redis_ok t \<and> (\<forall>k'. plain_key k' \<longrightarrow> redis_view t k' = redis_view s k' \<and>
      redis_view t (clients_key k') = spec_clis (OpFetch k c) (\<lambda>k. redis_view s (clients_key k)) k') \<and>
      set vs = redis_view s k"
    using wp_returns [OF redis_fetch_wp, of s k c vs t] by (auto simp: RedisDbase_def clients_key_other)
next
  fix s t :: "'a rdb" and k v vs assume "redis_ok s" "plain_key k" "db_remove RedisDbase k v s = (Inr vs, t)"
  then show "redis_ok t \<and> (\<forall>k'. plain_key k' \<longrightarrow> redis_view t k' = spec_vals (OpRemove k v) (redis_view s) k' \<and>
      redis_view t (clients_key k') = redis_view s (clients_key k')) \<and>
      set vs = redis_view s k - {v}"
    using wp_returns [OF redis_remove_wp, of s k v vs t] by (auto simp: RedisDbase_def clients_key_other)
next
  fix s t :: "'a rdb" and k c assume "redis_ok s" "plain_key k" "db_detach RedisDbase k c s = (Inr (), t)"
  then show "redis_ok t \<and> (\<forall>k'. plain_key k' \<longrightarrow> redis_view t k' = redis_view s k' \<and>
      redis_view s (clients_key k') - (if k' = k then {c} else {}) \<subseteq> redis_view t (clients_key k') \<and>
      redis_view t (clients_key k') \<subseteq> redis_view s (clients_key k'))"
    using wp_returns [OF redis_detach_wp, of s k c "()" t]
    by (auto simp: RedisDbase_def clients_key_other plain_not_clients_key)
qed

section \<open>Properties\<close>

text \<open>A redis server for the witnesses: the members of each key as a list, and an inbox.\<close>

type_synonym toy_redis = "(string \<Rightarrow> string list) \<times> (string \<times> string) list"

definition toy :: "toy_redis redis" where
  "toy = \<lparr> rd_connect = (\<lambda>_ _ _. ret ()),
     rd_exists = (\<lambda>k (m, i). (Inr (m k \<noteq> []), (m, i))),
     rd_smembers = (\<lambda>k (m, i). (Inr (m k), (m, i))),
     rd_sadd = (\<lambda>k v (m, i). (Inr (), (m(k := List.insert v (m k)), i))),
     rd_srem = (\<lambda>k v (m, i). (Inr (), (m(k := removeAll v (m k)), i))),
     rd_subscribe = (\<lambda>_. ret ()), rd_unsubscribe = (\<lambda>_. ret ()),
     rd_get_message = (\<lambda>(m, i). case i of [] \<Rightarrow> (Inr None, (m, [])) | n # ns \<Rightarrow> (Inr (Some n), (m, ns))),
     rd_view = (\<lambda>(m, i) k. set (m k)), rd_inbox = snd \<rparr>"

lemma toy_laws: "redis_laws toy"
  by (auto simp: redis_laws_def toy_def ret_def intro!: ext split: list.splits)

definition toy_db :: "(string \<Rightarrow> string list) \<Rightarrow> (string \<times> string) list \<Rightarrow> string set \<Rightarrow> toy_redis rdb" where
  "toy_db m i ks = \<lparr> rb_r = toy, rb_server = (m, i), rb_rHostPort = None, rb_security = False, rb_subKeys = ks \<rparr>"

lemma toy_db_ok: "redis_ok (toy_db m i ks)"
  by (simp add: redis_ok_def toy_db_def toy_laws)

lemmas redis_exec = db_do_def RedisDbase_def redis_insert_def redis_fetch_def redis_remove_def
  redis_try_def srv_def tryA_def bnd_def ret_def rd_def upd_def whenA_def addSub_def delSub_def
  seqA.simps toy_db_def toy_def clients_key_def

text \<open>
  C11: what was registered in redis is found. After a successful insert, and any further
  operations on keys that do not end in \<open>_clients\<close> among which nobody removes the value, a
  fetch of the key returns the value; and a fetch returns nothing that was not inserted.
\<close>

theorem redis_lookup_finds:
  assumes "redis_laws (rb_r s)" "plain_key k" "redis_insert k v s = (Inr cs, t)"
    and "\<And>opn. opn \<in> set ops \<Longrightarrow> redis.good_op opn" "OpRemove k v \<notin> set ops"
    and "run_steps (db_do RedisDbase) t ops = Some u" "redis_fetch k c u = (Inr vs, w)"
  shows "v \<in> set vs \<and> set vs = fold spec_vals ops ((redis_view s)(k := insert v (redis_view s k))) k"
proof -
  have s: "redis_ok s" and ops: "list_all redis.good_op ops"
    using assms(1,4) by (simp_all add: redis_ok_def list_all_iff)
  have t: "redis_ok t" "redis_view t = (redis_view s)(k := insert v (redis_view s k))"
    using wp_returns [OF redis_insert_wp [OF s] assms(3)] by auto
  have f: "db_fetch RedisDbase k c u = (Inr vs, w)" and i: "db_insert RedisDbase k v s = (Inr cs, t)"
    using assms(3,7) by (simp_all add: RedisDbase_def)
  show ?thesis
    using redis.registered_found [OF s assms(2) i ops assms(5,6) f]
      redis.fetch_returns [OF t(1) ops assms(6,2) f] t(2) by simp
qed

theorem redis_lookup_finds_witness:
  "\<exists>vs w. redis_fetch ''k'' ''c'' (exec (\<lambda>s. db_do RedisDbase s (OpRemove ''k'' ''x''))
     (exec (redis_insert ''k'' ''v'') (toy_db (\<lambda>_. [''x'']) [] {}))) = (Inr vs, w) \<and> ''v'' \<in> set vs"
proof -
  let ?s = "toy_db (\<lambda>_. [''x'']) [] {}" and ?o = "OpRemove ''k'' ''x''"
  let ?t = "exec (redis_insert ''k'' ''v'') ?s"
  let ?u = "exec (\<lambda>s. db_do RedisDbase s ?o) ?t"
  have i: "redis_insert ''k'' ''v'' ?s = (Inr [''x''], ?t)" by (simp add: redis_exec exec_def)
  have r: "run_steps (db_do RedisDbase) ?t [?o] = Some ?u" by (simp add: redis_exec exec_def)
  have f: "\<exists>vs w. redis_fetch ''k'' ''c'' ?u = (Inr vs, w)" by (simp add: redis_exec exec_def)
  have p: "plain_key ''k''" by (simp add: plain_key_def suffix_to_prefix)
  from f obtain vs w where f: "redis_fetch ''k'' ''c'' ?u = (Inr vs, w)" by blast
  have "''v'' \<in> set vs"
    using redis_lookup_finds [OF _ p i _ _ r f] p by (simp add: toy_db_def toy_laws)
  with f show ?thesis by blast
qed

lemma read_keys_returns:
  assumes "redis_ok s"
  shows "\<exists>r t. read_keys s = Some (r, t) \<and> redis_ok t"
  using assms
proof (induction "rd_inbox (rb_r s) (rb_server s)" arbitrary: s)
  case Nil
  obtain r t where g: "srv rd_get_message s = (r, t)" by (cases "srv rd_get_message s")
  have "msg_key r = None"
    using srv_get_message [OF Nil.prems, of "projr r" t] g Nil.hyps
    by (cases r) (auto simp: msg_key_def)
  then show ?case using g srv_ok(1) [OF g] Nil.prems by (subst read_keys.simps) simp
next
  case (Cons n ns)
  obtain r t where g: "srv rd_get_message s = (r, t)" by (cases "srv rd_get_message s")
  have t: "redis_ok t" using srv_ok(1) [OF g] Cons.prems by simp
  show ?case
  proof (cases "msg_key r")
    case None
    then show ?thesis using g t by (subst read_keys.simps) simp
  next
    case (Some k)
    then obtain m where r: "r = Inr m" by (cases r) (auto simp: msg_key_def)
    have "rd_inbox (rb_r t) (rb_server t) = ns"
      using srv_get_message [OF Cons.prems, of m t] g r Cons.hyps(2) [symmetric] by simp
    then obtain r' u where "read_keys t = Some (r', u)" "redis_ok u"
      using Cons.hyps(1) [OF _ t] by blast
    then show ?thesis using g Some by (subst read_keys.simps) simp
  qed
qed

text \<open>
  The check for updates terminates. The loop that reads notifications until there is none
  ends for every finite inbox of the server, whatever the notifications are, and with it
  \<open>fetchUpdates\<close> returns a result or an exception.
\<close>

theorem redis_updates_return:
  assumes "redis_laws (rb_r s)"
  shows "\<exists>r t. redis_fetchUpdates s = Some (r, t)"
proof -
  obtain r t where "read_keys s = Some (r, t)"
    using read_keys_returns [unfolded redis_ok_def, OF assms] by blast
  then show ?thesis
    by (cases "redis_try (bnd (lift r) key_updates) t") (simp add: redis_fetchUpdates_def)
qed

theorem redis_updates_return_witness:
  "\<exists>r t. redis_fetchUpdates (toy_db (\<lambda>_. [''v'']) [(''__keyspace@0__:k'', ''sadd''), (''bad'', '''')] {''k''}) = Some (r, t)"
  by (rule redis_updates_return) (simp add: toy_db_def toy_laws)

text \<open>
  Removing the last value of a key also ends this instance's subscription to it, while the
  clients that looked the key up stay in the database: they are not told about the next
  provider another host registers, unless somebody looks the key up again.
\<close>

theorem last_remove_unsubscribes:
  assumes "redis_laws (rb_r s)" "redis_view s k \<subseteq> {v}" "redis_remove k v s = (Inr vs, t)"
  shows "vs = [] \<and> k \<notin> rb_subKeys t \<and> redis_view t (clients_key k) = redis_view s (clients_key k)"
proof -
  have s: "redis_ok s" using assms(1) by (simp add: redis_ok_def)
  have t: "redis_view t = (redis_view s)(k := redis_view s k - {v})" "set vs = redis_view s k - {v}"
    using wp_returns [OF redis_remove_wp [OF s] assms(3)] by auto
  then have vs: "vs = []" using assms(2) by (metis Diff_eq_empty_iff set_empty)
  have sub: "wp (delSub k) (\<lambda>_ u. k \<notin> rb_subKeys u) (\<lambda>_ _. True) u" for u :: "'a rdb"
    unfolding delSub_def wp_rd wp_if wp_seqA_Cons wp_upd wp_ret
    by (auto simp: wp_seqA_Nil wp_def srv_def split: prod.splits sum.splits)
  have "wp (redis_remove k v) (\<lambda>vs u. vs = [] \<longrightarrow> k \<notin> rb_subKeys u) (\<lambda>_ _. True) s"
    unfolding redis_remove_def
  proof (rule wp_redis_try, simp, unfold wp_bnd, rule wp_srv [OF s], simp, rule wp_srv, assumption, simp)
    fix vs and u :: "'a rdb"
    show "wp (whenA (vs = []) (delSub k)) (\<lambda>_. wp (ret vs) (\<lambda>vs u. vs = [] \<longrightarrow> k \<notin> rb_subKeys u)
        (\<lambda>_ _. True)) (\<lambda>_ _. True) u"
      using sub [of u] by (simp add: wp_simps)
  qed
  from wp_returns [OF this assms(3)] vs t show ?thesis
    by (simp add: clients_key_def)
qed

theorem last_remove_unsubscribes_witness:
  "\<exists>vs t. redis_remove ''k'' ''v'' (toy_db (\<lambda>k. if k = ''k'' then [''v''] else [''c'']) [] {''k''}) = (Inr vs, t) \<and>
     ''k'' \<notin> rb_subKeys t \<and> redis_view t (clients_key ''k'') = {''c''}"
proof -
  let ?s = "toy_db (\<lambda>k. if k = ''k'' then [''v''] else [''c'']) [] {''k''}"
  obtain vs t where r: "redis_remove ''k'' ''v'' ?s = (Inr vs, t)"
    by (simp add: redis_exec)
  have v: "redis_view ?s ''k'' \<subseteq> {''v''}" "redis_laws (rb_r ?s)"
    "redis_view ?s (clients_key ''k'') = {''c''}"
    by (simp_all add: redis_view_def toy_db_def toy_laws clients_key_def) (simp_all add: toy_def)
  from last_remove_unsubscribes [OF v(2,1) r] v(3) r show ?thesis by blast
qed

text \<open>
  Reconnecting forgets every subscription. After \<open>start\<close> no key is subscribed, and a check
  for updates reports nothing, whatever notifications arrive, until the next lookup.
\<close>

lemma reconnect_forgets:
  assumes "redis_start s = (Inr (), t)"
  shows "rb_subKeys t = {} \<and> redis_fetchUpdates t = Some (Inr [], t)"
proof -
  have c: "wp m (\<lambda>_. wp (seqA [upd (rb_subKeys_update (\<lambda>_. {}))]) (\<lambda>_ u. rb_subKeys u = {}) (\<lambda>_ _. True))
      (\<lambda>_ _. True) s" for m :: "('a rdb, unit) act" and s
    by (rule wp_mono [OF wp_TrueI]) (simp_all add: wp_seqA_Cons wp_seqA_Nil wp_upd)
  have "wp redis_start (\<lambda>_ u. rb_subKeys u = {}) (\<lambda>_ _. True) s"
    unfolding redis_start_def wp_rd wp_bnd wp_lift
    using c by (auto simp: wp_seqA_Cons split: sum.splits prod.splits)
  from wp_returns [OF this assms] show ?thesis by (simp add: redis_fetchUpdates_def)
qed

end
