(* ===== verification/DiscoDht.thy ===== *)
theory DiscoDht
  imports DiscoStore DiscoText Zyre
begin

text \<open>
  The distributed-hash-table database of the discovery service (\<open>riaps/discd/dbase_dht.py\<close>):
  \<open>DhtBackup\<close>, \<open>DhtDbase\<close> and \<open>DhtPeerMon\<close>. What the classes only call is a parameter, the record
  \<open>ext\<close> of operations on the outside world: opendht, the RSA cipher, lmdb. A pickled value is
  kept as the Python value it loads to, a list of strings or \<open>None\<close>. The field \<open>dh_view\<close> is what
  the table holds under each hash, for the laws only; no operation reads it. \<open>list(set(xs))\<close>, whose order
  Python does not fix, is \<open>remdups xs\<close>.
\<close>

section \<open>The outside world\<close>

type_synonym pickled = "string list option"

record 'h ext =
  dh_run :: "('h, unit) act"
  dh_bootstrap :: "string \<Rightarrow> string \<Rightarrow> ('h, unit) act"
  dh_peerMon :: "('h, unit) act"
  dh_hash :: "string \<Rightarrow> nat"
  dh_get :: "nat \<Rightarrow> ('h, bytes list) act"
  dh_put :: "nat \<Rightarrow> bytes \<Rightarrow> ('h, bool) act"
  dh_listen :: "nat \<Rightarrow> ('h, nat) act"
  dh_cancelListen :: "nat \<Rightarrow> ('h, unit) act"
  cr_encrypt :: "bytes \<Rightarrow> ('h, bytes) act"
  cr_decrypt :: "bytes \<Rightarrow> pyexc + bytes"
  lm_get :: "string \<Rightarrow> ('h, pickled option) act"
  lm_put :: "string \<Rightarrow> pickled \<Rightarrow> ('h, bool) act"
  lm_delete :: "string \<Rightarrow> ('h, bool) act"
  lm_items :: "('h, (string \<times> pickled) list) act"
  lm_cursor_delete :: "('h, bool) act"
  dh_view :: "'h \<Rightarrow> nat \<Rightarrow> bytes set"

text \<open>
  The object. The republisher is a \<open>sched.scheduler\<close>: a queue of events in the order they are due
  (all are entered with the same delay), each an identity with the arguments of the call.
\<close>

record 'h dhtdb =
  dd_ext :: "'h ext"
  dd_world :: 'h
  dd_security :: bool
  dd_root :: "string option"
  dd_dht :: bool
  dd_updates :: "(string \<times> string) list"
  dd_clients :: "(string, string list) dict"
  dd_listeners :: "(string, nat) dict"
  dd_queue :: "(nat \<times> string \<times> string) list"
  dd_nextEvent :: nat
  dd_republishMap :: "(string \<times> string, nat) dict"
  dd_threadStarted :: bool
  dd_republisherStart :: bool
  dd_republisherStop :: bool
  dd_deletedMap :: "(string, string) dict"

type_synonym ('h, 'a) dact = "('h dhtdb, 'a) act"

definition world :: "('h ext \<Rightarrow> ('h, 'a) act) \<Rightarrow> ('h, 'a) dact" where
  "world f = (\<lambda>s. case f (dd_ext s) (dd_world s) of (r, w) \<Rightarrow> (r, s\<lparr>dd_world := w\<rparr>))"

text \<open>A call on \<open>self.dht\<close>, which is \<open>None\<close> before \<open>start\<close>.\<close>

definition on_dht :: "('h ext \<Rightarrow> ('h, 'a) act) \<Rightarrow> ('h, 'a) dact" where
  "on_dht f = rd dd_dht (\<lambda>up. if up then world f else raise AttributeError)"

fun exc_class :: "pyexc \<Rightarrow> string" where
  "exc_class AssertionError = ''AssertionError''"
| "exc_class KeyError = ''KeyError''"
| "exc_class IndexError = ''IndexError''"
| "exc_class ValueError = ''ValueError''"
| "exc_class TypeError = ''TypeError''"
| "exc_class AttributeError = ''AttributeError''"
| "exc_class OSError = ''OSError''"
| "exc_class RuntimeError = ''RuntimeError''"
| "exc_class _ = ''Exception''"

definition db_try :: "string \<Rightarrow> ('h, 'a) dact \<Rightarrow> ('h, 'a) dact" where
  "db_try loc m = tryA m (\<lambda>e. raise (DatabaseError (loc @ '': '' @ exc_class e)))"

section \<open>The backup of the registrations\<close>

definition unpickle :: "pickled \<Rightarrow> string list" where
  "unpickle v = (case v of None \<Rightarrow> [] | Some vs \<Rightarrow> vs)"

definition getAllKeyValues :: "('h, (string \<times> string list) list) dact" where
  "getAllKeyValues = bnd (world lm_items) (\<lambda>raw. ret (map (\<lambda>(k, vl). (k, unpickle vl)) raw))"

definition getKeyValues :: "string \<Rightarrow> string list option \<Rightarrow> ('h, string list option) dact" where
  "getKeyValues key dflt = bnd (world (\<lambda>E. lm_get E key)) (\<lambda>v.
     ret (case v of None \<Rightarrow> dflt | Some p \<Rightarrow> Some (unpickle p)))"

definition stored_values :: "string \<Rightarrow> ('h, string list) dact" where
  "stored_values key = bnd (world (\<lambda>E. lm_get E key)) (\<lambda>v.
     ret (case v of None \<Rightarrow> [] | Some p \<Rightarrow> unpickle p))"

definition addKeyValue :: "string \<Rightarrow> string \<Rightarrow> ('h, bool) dact" where
  "addKeyValue key value = bnd (stored_values key) (\<lambda>values.
     world (\<lambda>E. lm_put E key (Some (values @ [value]))))"

definition delKey :: "string \<Rightarrow> ('h, bool) dact" where
  "delKey key = world (\<lambda>E. lm_delete E key)"

text \<open>\<open>values.remove(value)\<close> returns \<open>None\<close>, and that is what is stored.\<close>

definition delKeyValue :: "string \<Rightarrow> string \<Rightarrow> ('h, bool) dact" where
  "delKeyValue key value = bnd (stored_values key) (\<lambda>values.
     world (\<lambda>E. lm_put E key (if value \<in> set values then None else Some values)))"

partial_function (option) clearDbase :: "'h dhtdb \<Rightarrow> ((pyexc + unit) \<times> 'h dhtdb) option" where
  [code]: "clearDbase s = (case world lm_cursor_delete s of (r, t) \<Rightarrow>
     (if r = Inr True then clearDbase t else Some (map_sum id (\<lambda>_. ()) r, t)))"

section \<open>Values\<close>

definition encryptData :: "bytes \<Rightarrow> ('h, bytes) dact" where
  "encryptData b = rd dd_security (\<lambda>sec. if sec then world (\<lambda>E. cr_encrypt E b) else ret b)"

definition strValue :: "'h dhtdb \<Rightarrow> bytes \<Rightarrow> pyexc + string" where
  "strValue s b = (if dd_security s then cr_decrypt (dd_ext s) b else Inr b)"

definition delValue :: "string \<Rightarrow> string" where
  "delValue v = CHR ''-'' # v"

definition orgValue :: "string \<Rightarrow> pyexc + string" where
  "orgValue v = (case v of [] \<Rightarrow> Inl IndexError
     | c # cs \<Rightarrow> Inr (if c = CHR ''-'' then cs else v))"

definition isDelValue :: "string \<Rightarrow> pyexc + bool" where
  "isDelValue v = (case v of [] \<Rightarrow> Inl IndexError | c # _ \<Rightarrow> Inr (c = CHR ''-''))"

definition filterDelValues :: "string list \<Rightarrow> pyexc + string list" where
  "filterDelValues values = (if [] \<in> set values then Inl IndexError else
     let out = map tl (filter (\<lambda>v. hd v = CHR ''-'') values)
     in Inr (filter (\<lambda>v. hd v \<noteq> CHR ''-'' \<and> v \<notin> set out) values))"

section \<open>Operations on the table\<close>

text \<open>Values that do not decrypt are skipped.\<close>

fun decode_values :: "(bytes \<Rightarrow> pyexc + string) \<Rightarrow> bytes list \<Rightarrow> pyexc + string list" where
  "decode_values str [] = Inr []"
| "decode_values str (b # bs) = (case str b of
     Inl e \<Rightarrow> (if e = ValueError then decode_values str bs else Inl e)
   | Inr v \<Rightarrow> (case decode_values str bs of Inl e \<Rightarrow> Inl e | Inr vs \<Rightarrow> Inr (v # vs)))"

definition dhtGet :: "string \<Rightarrow> ('h, string list) dact" where
  "dhtGet key = bnd (on_dht (\<lambda>E. dh_get E (dh_hash E key))) (\<lambda>bs.
     rd strValue (\<lambda>str. lift (decode_values str bs)))"

definition dhtPut :: "string \<Rightarrow> string \<Rightarrow> ('h, bool) dact" where
  "dhtPut key value = rd dd_dht (\<lambda>up. if up
     then bnd (encryptData value) (\<lambda>b. world (\<lambda>E. dh_put E (dh_hash E key) b))
     else raise AttributeError)"

definition set_deleted :: "string \<Rightarrow> string \<Rightarrow> ('h, unit) dact" where
  "set_deleted key value = upd (\<lambda>s. s\<lparr>dd_deletedMap := AList.update key value (dd_deletedMap s)\<rparr>)"

text \<open>The value callback of a listener; it reports that it wants to be called again.\<close>

definition is_silent :: "string \<Rightarrow> string \<Rightarrow> bool \<Rightarrow> 'h dhtdb \<Rightarrow> pyexc + bool" where
  "is_silent key v expired s = (if expired then Inr True else
     case isDelValue v of Inl e \<Rightarrow> Inl e
     | Inr d \<Rightarrow> Inr (d \<or> has_key (dd_republishMap s) (key, v) \<or> map_of (dd_deletedMap s) key = Some v))"

definition dhtValueCallback :: "string \<Rightarrow> bytes \<Rightarrow> bool \<Rightarrow> ('h, bool) dact" where
  "dhtValueCallback key value expired = rd (\<lambda>s. strValue s value) (\<lambda>r. case r of
     Inl e \<Rightarrow> (if e = ValueError then ret True else raise e)
   | Inr v \<Rightarrow> bnd (rd (is_silent key v expired) lift) (\<lambda>silent. bnd (seqA [
       whenA (\<not> silent) (upd (\<lambda>s. s\<lparr>dd_updates := dd_updates s @ [(key, v)]\<rparr>)),
       bnd (if expired then ret True else lift (isDelValue v)) (\<lambda>gone. whenA gone (
         bnd (lift (orgValue v)) (\<lambda>org. seqA [
           set_deleted key org,
           upd (\<lambda>s. s\<lparr>dd_updates := filter (\<lambda>(k, w). k \<noteq> key \<and> w \<noteq> org) (dd_updates s)\<rparr>)])))])
       (\<lambda>_. ret True)))"

definition dhtListen :: "string \<Rightarrow> ('h, nat) dact" where
  "dhtListen key = on_dht (\<lambda>E. dh_listen E (dh_hash E key))"

definition dhtRemove :: "string \<Rightarrow> string \<Rightarrow> ('h, string list) dact" where
  "dhtRemove key value = bnd (dhtGet key) (\<lambda>values.
     bnd (whenA (value \<in> set values) (bnd (dhtPut key (delValue value)) (\<lambda>_. set_deleted key value)))
       (\<lambda>_. ret (filter (\<lambda>v. v \<noteq> value) (remdups values))))"

definition clients_of :: "'h dhtdb \<Rightarrow> string \<Rightarrow> string list" where
  "clients_of s key = (case map_of (dd_clients s) key of None \<Rightarrow> [] | Some cs \<Rightarrow> cs)"

definition dhtAddClient :: "string \<Rightarrow> string \<Rightarrow> ('h, unit) dact" where
  "dhtAddClient key client = seqA [
     upd (\<lambda>s. s\<lparr>dd_clients := AList.update key (remdups (clients_of s key @ [client])) (dd_clients s)\<rparr>),
     rd dd_listeners (\<lambda>ls. if has_key ls key then ret ()
       else bnd (dhtListen key) (\<lambda>tok. upd (\<lambda>s. s\<lparr>dd_listeners := AList.update key tok (dd_listeners s)\<rparr>)))]"

definition cancel_listener :: "string \<Rightarrow> ('h, unit) dact" where
  "cancel_listener key = rd (\<lambda>s. map_of (dd_listeners s) key) (\<lambda>l. case l of
     None \<Rightarrow> ret ()
   | Some tok \<Rightarrow> seqA [
       on_dht (\<lambda>E. dh_cancelListen E tok),
       upd (\<lambda>s. s\<lparr>dd_listeners := AList.delete key (dd_listeners s)\<rparr>)])"

definition dhtDelClient :: "string \<Rightarrow> string \<Rightarrow> ('h, unit) dact" where
  "dhtDelClient key client = seqA [
     cancel_listener key,
     rd clients_of (\<lambda>cs. whenA (client \<in> set (cs key))
       (upd (\<lambda>s. s\<lparr>dd_clients := AList.update key (remove1 client (clients_of s key)) (dd_clients s)\<rparr>)))]"

fun mark_deleted :: "string \<Rightarrow> string list \<Rightarrow> ('h, unit) dact" where
  "mark_deleted key [] = ret ()"
| "mark_deleted key (v # vs) = seqA [
     bnd (dhtPut key (delValue v)) (\<lambda>_. set_deleted key v),
     mark_deleted key vs]"

definition dhtDelete :: "string \<Rightarrow> ('h, string list) dact" where
  "dhtDelete key = bnd (seqA [
     cancel_listener key,
     rd clients_of (\<lambda>cs. whenA (cs key \<noteq> [])
       (upd (\<lambda>s. s\<lparr>dd_clients := AList.delete key (dd_clients s)\<rparr>)))])
   (\<lambda>_. bnd (dhtGet key) (\<lambda>values. bnd (mark_deleted key values) (\<lambda>_. ret values)))"

section \<open>The republisher\<close>

text \<open>\<open>scheduler.enter\<close> and \<open>scheduler.cancel\<close>, which raises when the event is not queued.\<close>

definition sched_enter :: "string \<Rightarrow> string \<Rightarrow> ('h, nat) dact" where
  "sched_enter key value = rd dd_nextEvent (\<lambda>n. bnd
     (upd (\<lambda>s. s\<lparr>dd_queue := dd_queue s @ [(n, key, value)], dd_nextEvent := n + 1\<rparr>)) (\<lambda>_. ret n))"

definition sched_cancel :: "nat \<Rightarrow> ('h, unit) dact" where
  "sched_cancel n = rd dd_queue (\<lambda>q. if n \<in> fst ` set q
     then upd (\<lambda>s. s\<lparr>dd_queue := filter (\<lambda>ev. fst ev \<noteq> n) (dd_queue s)\<rparr>) else raise ValueError)"

definition set_event :: "string \<Rightarrow> string \<Rightarrow> nat \<Rightarrow> ('h, unit) dact" where
  "set_event key value n =
     upd (\<lambda>s. s\<lparr>dd_republishMap := AList.update (key, value) n (dd_republishMap s)\<rparr>)"

text \<open>The scheduler takes an event out of its queue, then calls \<open>dhtRepublish\<close>.\<close>

definition sched_take :: "('h, (string \<times> string) option) dact" where
  "sched_take = rd dd_queue (\<lambda>q. case q of [] \<Rightarrow> ret None
     | (_, key, value) # q' \<Rightarrow> bnd (upd (\<lambda>s. s\<lparr>dd_queue := q'\<rparr>)) (\<lambda>_. ret (Some (key, value))))"

definition dhtRepublish :: "string \<Rightarrow> string \<Rightarrow> ('h, unit) dact" where
  "dhtRepublish key value = rd dd_republisherStop (\<lambda>stop. if stop then ret () else
     rd dd_republishMap (\<lambda>m. case map_of m (key, value) of None \<Rightarrow> ret ()
     | Some _ \<Rightarrow> bnd (dhtPut key value) (\<lambda>_.
         bnd (sched_enter key value) (set_event key value))))"

definition addToRepublish :: "string \<Rightarrow> string \<Rightarrow> ('h, unit) dact" where
  "addToRepublish key value = seqA [
     bnd (sched_enter key value) (set_event key value),
     upd (\<lambda>s. s\<lparr>dd_republisherStart := True\<rparr>)]"

definition delFromRepublish :: "string \<Rightarrow> string \<Rightarrow> ('h, unit) dact" where
  "delFromRepublish key value = rd dd_republishMap (\<lambda>m. case map_of m (key, value) of
     None \<Rightarrow> ret ()
   | Some n \<Rightarrow> seqA [
       sched_cancel n,
       upd (\<lambda>s. s\<lparr>dd_republishMap := AList.delete (key, value) (dd_republishMap s)\<rparr>)])"

fun delFromRepublishAll :: "string \<Rightarrow> string list \<Rightarrow> ('h, unit) dact" where
  "delFromRepublishAll key [] = ret ()"
| "delFromRepublishAll key (v # vs) = seqA [delFromRepublish key v, delFromRepublishAll key vs]"

section \<open>The interface\<close>

definition dht_fetchUpdates :: "('h, update list) dact" where
  "dht_fetchUpdates = rd (\<lambda>s. remdups (dd_updates s)) (\<lambda>us. rd clients_of (\<lambda>cs.
     if us = [] then ret [] else bnd (upd (\<lambda>s. s\<lparr>dd_updates := []\<rparr>)) (\<lambda>_.
       ret (map (\<lambda>(k, v). (k, v, cs k)) (filter (\<lambda>(k, v). cs k \<noteq> []) us)))))"

definition dht_insert :: "string \<Rightarrow> string \<Rightarrow> ('h, string list) dact" where
  "dht_insert key value = bnd (rd dd_dht assertA) (\<lambda>_. db_try ''dht.insert'' (
     bnd (dhtGet key) (\<lambda>values.
       if value \<in> set values then ret []
       else bnd (seqA [
           bnd (dhtPut key value) (\<lambda>_. ret ()),
           bnd (addKeyValue key value) (\<lambda>_. ret ()),
           addToRepublish key value])
         (\<lambda>_. rd clients_of (\<lambda>cs. ret (cs key))))))"

definition dht_fetch :: "string \<Rightarrow> string \<Rightarrow> ('h, string list) dact" where
  "dht_fetch key client = db_try ''dht.fetch'' (
     bnd (dhtAddClient key client) (\<lambda>_. bnd (dhtGet key) (\<lambda>vs. lift (filterDelValues vs))))"

definition dht_remove :: "string \<Rightarrow> string \<Rightarrow> ('h, string list) dact" where
  "dht_remove key value = db_try ''dht.remove'' (
     bnd (delFromRepublish key value) (\<lambda>_.
     bnd (delKeyValue key value) (\<lambda>_. dhtRemove key value)))"

definition dht_detach :: "string \<Rightarrow> string \<Rightarrow> ('h, unit) dact" where
  "dht_detach key target = dhtDelClient key target"

text \<open>Leftovers of an earlier run are withdrawn from the table.\<close>

definition dht_cleanup :: "(string \<times> string list) list \<Rightarrow> ('h, unit) dact" where
  "dht_cleanup kvs = forA kvs (\<lambda>(key, values).
     forA values (\<lambda>v. bnd (dhtRemove key v) (\<lambda>_. ret ())))"

definition cleanupRegDb :: "'h dhtdb \<Rightarrow> ((pyexc + unit) \<times> 'h dhtdb) option" where
  "cleanupRegDb s = (case bnd getAllKeyValues (\<lambda>kvs. bnd (dht_cleanup kvs) (\<lambda>_. ret (kvs \<noteq> []))) s of
     (Inr True, t) \<Rightarrow> clearDbase t
   | (r, t) \<Rightarrow> Some (map_sum id (\<lambda>_. ()) r, t))"

text \<open>\<open>const.discoDhtBoot\<close> is \<open>False\<close>; a thread can be started once.\<close>

definition discoDhtBoot :: bool where "discoDhtBoot = False"

definition root_address :: "string option \<Rightarrow> pyexc + string \<times> string" where
  "root_address hp = (case hp of None \<Rightarrow> Inr (''localhost'', int_str 4222)
     | Some r \<Rightarrow> (case split_on CHR '':'' r of
         h # p # _ \<Rightarrow> (case parse_int p of Inl e \<Rightarrow> Inl e | Inr n \<Rightarrow> Inr (h, int_str n))
       | _ \<Rightarrow> Inl IndexError))"

definition launch :: "('h, unit) dact" where
  "launch = rd dd_root (\<lambda>hp. bnd (lift (root_address hp)) (\<lambda>(h, p). seqA [
     db_try ''dht.start'' (bnd (world dh_run) (\<lambda>_. upd (\<lambda>s. s\<lparr>dd_dht := True\<rparr>))),
     whenA (discoDhtBoot \<and> h \<noteq> [] \<and> p \<noteq> ''0'')
       (db_try ''dht.bootstrap'' (on_dht (\<lambda>E. dh_bootstrap E h p))),
     world dh_peerMon]))"

definition start_republisher :: "('h, unit) dact" where
  "start_republisher = rd dd_threadStarted (\<lambda>started. if started then raise RuntimeError
     else upd (\<lambda>s. s\<lparr>dd_threadStarted := True\<rparr>))"

definition dht_start :: "'h dhtdb \<Rightarrow> ((pyexc + unit) \<times> 'h dhtdb) option" where
  "dht_start s = (case launch s of (Inl e, t) \<Rightarrow> Some (Inl e, t)
   | (Inr _, t) \<Rightarrow> (case cleanupRegDb t of None \<Rightarrow> None
     | Some (Inl e, u) \<Rightarrow> Some (Inl e, u)
     | Some (Inr _, u) \<Rightarrow> Some (start_republisher u)))"

definition DhtDbase :: "'h dhtdb dbase" where
  "DhtDbase = \<lparr> db_start = dht_start, db_fetchUpdates = (\<lambda>s. Some (dht_fetchUpdates s)),
     db_insert = dht_insert, db_fetch = dht_fetch, db_remove = dht_remove, db_detach = dht_detach \<rparr>"

section \<open>The peer monitor\<close>

text \<open>
  \<open>DhtPeerMon\<close>: the events of the Zyre network, and what the monitor does about them. The header
  of an \<open>ENTER\<close> event is the dictionary of the peer; \<open>parse\<close> is a library whose two patterns are
  parameters. Whispers and bootstraps are recorded in the order they are made; a bootstrap that
  raises is only logged, so its outcome does not matter.
\<close>

record peerMon =
  pm_dhtPort :: int
  pm_peers :: "(string, string \<times> string) dict"
  pm_peerGroup :: "string set"
  pm_whispers :: "(string \<times> bytes) list"
  pm_bootstraps :: "(string \<times> string) list"

definition PEERMARK :: bytes where "PEERMARK = ''CAFE''"
definition PEERGROUP :: bytes where "PEERGROUP = ''riaps_disco''"

definition peerHeaderKey :: "string \<Rightarrow> bytes" where
  "peerHeaderKey ip = ''riaps_disco@'' @ ip"

type_synonym parsers = "(string \<Rightarrow> (string \<times> string) option) \<times> (string \<Rightarrow> string option)"

definition peer_enter :: "parsers \<Rightarrow> string \<Rightarrow> string \<Rightarrow> (string, bytes) dict \<Rightarrow> (peerMon, unit) act" where
  "peer_enter ps uuid addr headers = (case fst ps addr of None \<Rightarrow> ret ()
     | Some (ip, port) \<Rightarrow> (if map_of headers (peerHeaderKey ip) = Some PEERMARK
         then upd (\<lambda>m. m\<lparr>pm_peers := AList.update uuid (ip, port) (pm_peers m)\<rparr>) else ret ()))"

definition peer_join :: "string \<Rightarrow> bytes \<Rightarrow> (peerMon, unit) act" where
  "peer_join uuid grp = whenA (grp = PEERGROUP) (upd (\<lambda>m. m\<lparr>
     pm_peerGroup := insert uuid (pm_peerGroup m),
     pm_whispers := pm_whispers m @ [(uuid, PEERGROUP @ ''://'' @ int_str (pm_dhtPort m))]\<rparr>))"

definition peer_told :: "parsers \<Rightarrow> string \<Rightarrow> string \<Rightarrow> (peerMon, unit) act" where
  "peer_told ps uuid arg = rd pm_peers (\<lambda>peers. case (map_of peers uuid, snd ps arg) of
     (Some (ip, _), Some port) \<Rightarrow> whenA (port \<noteq> [])
       (upd (\<lambda>m. m\<lparr>pm_bootstraps := pm_bootstraps m @ [(ip, port)]\<rparr>))
   | _ \<Rightarrow> ret ())"

definition peer_exit :: "string \<Rightarrow> (peerMon, unit) act" where
  "peer_exit uuid = rd pm_peers (\<lambda>peers. whenA (has_key peers uuid) (upd (\<lambda>m. m\<lparr>
     pm_peers := AList.delete uuid (pm_peers m), pm_peerGroup := pm_peerGroup m - {uuid}\<rparr>)))"

text \<open>Every event but \<open>ENTER\<close> is dropped when it does not come from a known peer.\<close>

definition peer_event :: "parsers \<Rightarrow> peerMon \<Rightarrow> zyre_event \<Rightarrow> (pyexc + unit) \<times> peerMon" where
  "peer_event ps m ev = (case ev of
     Enter uuid addr headers \<Rightarrow> peer_enter ps uuid addr headers m
   | _ \<Rightarrow> (if \<not> has_key (pm_peers m) (event_peer ev) then (Inr (), m) else case ev of
       Join uuid grp \<Rightarrow> peer_join uuid grp m
     | Shout uuid arg \<Rightarrow> peer_told ps uuid arg m
     | Whisper uuid arg \<Rightarrow> peer_told ps uuid arg m
     | Leave uuid grp \<Rightarrow> whenA (grp = PEERGROUP)
         (upd (\<lambda>m. m\<lparr>pm_peerGroup := pm_peerGroup m - {uuid}\<rparr>)) m
     | Exit uuid \<Rightarrow> peer_exit uuid m
     | _ \<Rightarrow> (Inr (), m)))"

definition peerMon_new :: "int \<Rightarrow> peerMon" where
  "peerMon_new dhtPort = \<lparr> pm_dhtPort = dhtPort, pm_peers = [], pm_peerGroup = {}, pm_whispers = [],
     pm_bootstraps = [] \<rparr>"

end
