(* ===== verification/DiscoDhtProps.thy ===== *)
theory DiscoDhtProps
  imports DiscoDht
begin

text \<open>
  Properties of the hash-table database: what a lookup finds, how a removed registration hides a
  later one, that every active registration stays scheduled for republishing, what a detached
  client does to the others of its key, and which peers the monitor bootstraps from.
  \<open>dht_laws\<close> states what the table does between two expirations: a value that was put is there.
\<close>

section \<open>The table\<close>

definition dht_laws :: "'h ext \<Rightarrow> bool" where
  "dht_laws E \<longleftrightarrow>
     (\<forall>h w bs t. dh_get E h w = (Inr bs, t) \<longrightarrow> dh_view E t = dh_view E w \<and> set bs = dh_view E w h) \<and>
     (\<forall>h b w r t. dh_put E h b w = (Inr r, t) \<longrightarrow>
        dh_view E t = (dh_view E w)(h := insert b (dh_view E w h))) \<and>
     (\<forall>h w r t. dh_listen E h w = (Inr r, t) \<longrightarrow> dh_view E t = dh_view E w) \<and>
     (\<forall>k w r t. lm_get E k w = (Inr r, t) \<longrightarrow> dh_view E t = dh_view E w) \<and>
     (\<forall>k v w r t. lm_put E k v w = (Inr r, t) \<longrightarrow> dh_view E t = dh_view E w)"

definition dht_ok :: "'h dhtdb \<Rightarrow> bool" where
  "dht_ok s \<longleftrightarrow> dht_laws (dd_ext s) \<and> \<not> dd_security s \<and> dd_dht s"

definition table :: "'h dhtdb \<Rightarrow> string \<Rightarrow> bytes set" where
  "table s k = dh_view (dd_ext s) (dd_world s) (dh_hash (dd_ext s) k)"

lemma dht_ok_frame [simp]:
  "dht_ok (s\<lparr>dd_updates := a\<rparr>) = dht_ok s" "dht_ok (s\<lparr>dd_clients := c\<rparr>) = dht_ok s"
  "dht_ok (s\<lparr>dd_listeners := l\<rparr>) = dht_ok s" "dht_ok (s\<lparr>dd_queue := q\<rparr>) = dht_ok s"
  "dht_ok (s\<lparr>dd_queue := q, dd_nextEvent := n\<rparr>) = dht_ok s"
  "dht_ok (s\<lparr>dd_republishMap := m\<rparr>) = dht_ok s" "dht_ok (s\<lparr>dd_deletedMap := d\<rparr>) = dht_ok s"
  "dht_ok (s\<lparr>dd_republisherStart := b\<rparr>) = dht_ok s" "dht_ok (s\<lparr>dd_world := w\<rparr>) = dht_ok s"
  by (simp_all add: dht_ok_def)

lemma table_frame [simp]:
  "table (s\<lparr>dd_updates := a\<rparr>) = table s" "table (s\<lparr>dd_clients := c\<rparr>) = table s"
  "table (s\<lparr>dd_listeners := l\<rparr>) = table s" "table (s\<lparr>dd_queue := q\<rparr>) = table s"
  "table (s\<lparr>dd_queue := q, dd_nextEvent := n\<rparr>) = table s"
  "table (s\<lparr>dd_republishMap := m\<rparr>) = table s" "table (s\<lparr>dd_deletedMap := d\<rparr>) = table s"
  "table (s\<lparr>dd_republisherStart := b\<rparr>) = table s"
  by (simp_all add: fun_eq_iff table_def)

text \<open>
  Rules for running an operation symbolically when it may raise at any point: the postcondition
  sees a state that differs in the world alone.
\<close>

lemma wp_world:
  assumes "\<And>e t. E e t"
    "\<And>x w. f (dd_ext s) (dd_world s) = (Inr x, w) \<Longrightarrow> Q x (s\<lparr>dd_world := w\<rparr>)"
  shows "wp (world f) Q E s"
  using assms by (auto simp: wp_def world_def split: prod.splits sum.splits)

lemma decode_values_plain [simp]: "decode_values Inr bs = Inr bs"
  by (induction bs) auto

lemma strValue_plain: "dht_ok s \<Longrightarrow> strValue s = Inr"
  by (auto simp: strValue_def dht_ok_def)

lemma wp_dhtGet:
  assumes "dht_ok s" "\<And>e t. E e t"
    "\<And>vs w. table (s\<lparr>dd_world := w\<rparr>) = table s \<Longrightarrow> set vs = table s k \<Longrightarrow> Q vs (s\<lparr>dd_world := w\<rparr>)"
  shows "wp (dhtGet k) Q E s"
proof -
  have "wp (world (\<lambda>E. dh_get E (dh_hash E k))) (\<lambda>bs. wp (rd strValue (\<lambda>str. lift (decode_values str bs))) Q E) E s"
  proof (rule wp_world [OF assms(2)])
    fix bs w assume g: "dh_get (dd_ext s) (dh_hash (dd_ext s) k) (dd_world s) = (Inr bs, w)"
    have l: "dht_laws (dd_ext s)" using assms(1) by (simp add: dht_ok_def)
    from g l have v: "dh_view (dd_ext s) w = dh_view (dd_ext s) (dd_world s)"
      "set bs = dh_view (dd_ext s) (dd_world s) (dh_hash (dd_ext s) k)"
      unfolding dht_laws_def by simp_all
    then have "table (s\<lparr>dd_world := w\<rparr>) = table s" "set bs = table s k"
      by (auto simp: table_def)
    then show "wp (rd strValue (\<lambda>str. lift (decode_values str bs))) Q E (s\<lparr>dd_world := w\<rparr>)"
      using assms(1,3) strValue_plain [of "s\<lparr>dd_world := w\<rparr>"] by (simp add: wp_rd wp_lift)
  qed
  then show ?thesis
    using assms(1) by (simp add: dhtGet_def on_dht_def wp_bnd wp_rd dht_ok_def)
qed

lemma wp_dhtPut:
  assumes "dht_ok s" "\<And>e t. E e t"
    "\<And>r w. v \<in> table (s\<lparr>dd_world := w\<rparr>) k \<Longrightarrow>
       (\<And>k'. table (s\<lparr>dd_world := w\<rparr>) k' \<subseteq> insert v (table s k')) \<Longrightarrow>
       (\<And>k'. table s k' \<subseteq> table (s\<lparr>dd_world := w\<rparr>) k') \<Longrightarrow> Q r (s\<lparr>dd_world := w\<rparr>)"
  shows "wp (dhtPut k v) Q E s"
proof -
  have "wp (world (\<lambda>E. dh_put E (dh_hash E k) v)) Q E s"
  proof (rule wp_world [OF assms(2)])
    fix r w assume p: "dh_put (dd_ext s) (dh_hash (dd_ext s) k) v (dd_world s) = (Inr r, w)"
    have "dht_laws (dd_ext s)" using assms(1) by (simp add: dht_ok_def)
    with p have "dh_view (dd_ext s) w = (dh_view (dd_ext s) (dd_world s))
        (dh_hash (dd_ext s) k := insert v (dh_view (dd_ext s) (dd_world s) (dh_hash (dd_ext s) k)))"
      unfolding dht_laws_def by blast
    then show "Q r (s\<lparr>dd_world := w\<rparr>)"
      by (intro assms(3)) (auto simp: table_def split: if_splits)
  qed
  then show ?thesis
    using assms(1) by (simp add: dhtPut_def encryptData_def wp_bnd wp_rd dht_ok_def wp_ret)
qed

lemma wp_lm:
  assumes "dht_ok s" "\<And>e t. E e t"
    "\<And>x w. table (s\<lparr>dd_world := w\<rparr>) = table s \<Longrightarrow> Q x (s\<lparr>dd_world := w\<rparr>)"
  shows "wp (addKeyValue k v) Q E s" "wp (delKeyValue k v) Q E s"
proof -
  have l: "dht_laws (dd_ext s)" using assms(1) by (simp add: dht_ok_def)
  have g: "wp (stored_values k) (\<lambda>vs. wp (world (\<lambda>E. lm_put E k (f vs))) Q E) E s" for f
    unfolding stored_values_def wp_bnd
  proof (rule wp_world [OF assms(2)], unfold wp_ret, rule wp_world [OF assms(2)])
    fix x w y u
    assume "lm_get (dd_ext s) k (dd_world s) = (Inr x, w)"
      "lm_put (dd_ext (s\<lparr>dd_world := w\<rparr>)) k (f (case x of None \<Rightarrow> [] | Some p \<Rightarrow> unpickle p))
         (dd_world (s\<lparr>dd_world := w\<rparr>)) = (Inr y, u)"
    with l have "dh_view (dd_ext s) w = dh_view (dd_ext s) (dd_world s)"
      "dh_view (dd_ext s) u = dh_view (dd_ext s) w"
      unfolding dht_laws_def by simp_all
    then show "Q y (s\<lparr>dd_world := w, dd_world := u\<rparr>)"
      using assms(3) [of u] by (simp add: table_def fun_eq_iff)
  qed
  show "wp (addKeyValue k v) Q E s" unfolding addKeyValue_def wp_bnd by (rule g)
  show "wp (delKeyValue k v) Q E s" unfolding delKeyValue_def wp_bnd by (rule g)
qed

lemma wp_db_try: "(\<And>e t. E e t) \<Longrightarrow> wp m Q (\<lambda>_ _. True) s \<Longrightarrow> wp (db_try loc m) Q E s"
  unfolding db_try_def wp_tryA by (erule wp_mono) (simp_all add: wp_simps)

section \<open>Registrations and lookups\<close>

lemma wp_addToRepublish:
  assumes "dht_ok s" "\<And>t. dht_ok t \<Longrightarrow> table t = table s \<Longrightarrow> Q () t"
  shows "wp (addToRepublish k v) Q E s"
  using assms by (simp add: addToRepublish_def sched_enter_def set_event_def wp_simps)

lemma dht_insert_wp:
  assumes "dht_ok s"
  shows "wp (dht_insert k v) (\<lambda>_ t. dht_ok t \<and> v \<in> table t k \<and> (\<forall>k'. table s k' \<subseteq> table t k') \<and>
      (\<forall>k'. table t k' \<subseteq> insert v (table s k'))) (\<lambda>_ _. True) s"
proof -
  let ?Q = "\<lambda>t. dht_ok t \<and> v \<in> table t k \<and> (\<forall>k'. table s k' \<subseteq> table t k') \<and> (\<forall>k'. table t k' \<subseteq> insert v (table s k'))"
  have store: "wp (seqA [bnd (dhtPut k v) (\<lambda>_. ret ()), bnd (addKeyValue k v) (\<lambda>_. ret ()), addToRepublish k v])
      (\<lambda>_. ?Q) (\<lambda>_ _. True) u" if u: "dht_ok u" "table u = table s" for u
  proof (rule wp_seqA_ConsI [where J = ?Q])
    show "wp (bnd (dhtPut k v) (\<lambda>_. ret ())) (\<lambda>_. ?Q) (\<lambda>_ _. True) u"
      unfolding wp_bnd wp_ret by (rule wp_dhtPut [OF u(1)]) (use u in auto)
    fix t assume t: "?Q t"
    show "wp (seqA [bnd (addKeyValue k v) (\<lambda>_. ret ()), addToRepublish k v]) (\<lambda>_. ?Q) (\<lambda>_ _. True) t"
    proof (rule wp_seqA_ConsI [where J = ?Q])
      show "wp (bnd (addKeyValue k v) (\<lambda>_. ret ())) (\<lambda>_. ?Q) (\<lambda>_ _. True) t"
        unfolding wp_bnd wp_ret by (rule wp_lm) (use t in auto)
    next
      fix t assume "?Q t"
      then show "wp (seqA [addToRepublish k v]) (\<lambda>_. ?Q) (\<lambda>_ _. True) t"
        unfolding wp_seqA_Cons wp_seqA_Nil by (intro wp_addToRepublish) auto
    qed
  qed
  have "wp (dhtGet k) (\<lambda>vs. wp (if v \<in> set vs then ret [] else bnd (seqA [bnd (dhtPut k v) (\<lambda>_. ret ()),
        bnd (addKeyValue k v) (\<lambda>_. ret ()), addToRepublish k v]) (\<lambda>_. rd clients_of (\<lambda>cs. ret (cs k))))
      (\<lambda>_. ?Q) (\<lambda>_ _. True)) (\<lambda>_ _. True) s"
  proof (rule wp_dhtGet [OF assms], simp)
    fix vs w assume g: "table (s\<lparr>dd_world := w\<rparr>) = table s" "set vs = table s k"
    have "wp (seqA [bnd (dhtPut k v) (\<lambda>_. ret ()), bnd (addKeyValue k v) (\<lambda>_. ret ()), addToRepublish k v])
        (\<lambda>_ t. wp (rd clients_of (\<lambda>cs. ret (cs k))) (\<lambda>_. ?Q) (\<lambda>_ _. True) t) (\<lambda>_ _. True) (s\<lparr>dd_world := w\<rparr>)"
      by (rule wp_mono [OF store]) (use assms g in \<open>simp_all add: wp_rd wp_ret\<close>)
    then show "wp (if v \<in> set vs then ret [] else bnd (seqA [bnd (dhtPut k v) (\<lambda>_. ret ()),
        bnd (addKeyValue k v) (\<lambda>_. ret ()), addToRepublish k v]) (\<lambda>_. rd clients_of (\<lambda>cs. ret (cs k))))
      (\<lambda>_. ?Q) (\<lambda>_ _. True) (s\<lparr>dd_world := w\<rparr>)"
      using assms g by (auto simp: wp_bnd wp_ret)
  qed
  then show ?thesis
    unfolding dht_insert_def wp_bnd using assms
    by (simp add: wp_rd wp_assertA dht_ok_def wp_db_try wp_bnd)
qed

lemma wp_delFromRepublish:
  assumes "dht_ok s" "\<And>e t. E e t" "\<And>t. dht_ok t \<Longrightarrow> table t = table s \<Longrightarrow> Q () t"
  shows "wp (delFromRepublish k v) Q E s"
  using assms by (auto simp: delFromRepublish_def sched_cancel_def wp_simps split: option.split)

lemma dht_remove_wp:
  assumes "dht_ok s" "v \<in> table s k"
  shows "wp (dht_remove k v) (\<lambda>_ t. dht_ok t \<and> delValue v \<in> table t k \<and> (\<forall>k'. table s k' \<subseteq> table t k'))
      (\<lambda>_ _. True) s"
  unfolding dht_remove_def dhtRemove_def
proof (rule wp_db_try, simp, unfold wp_bnd, rule wp_delFromRepublish [OF assms(1)], simp,
    rule wp_lm, assumption, simp, rule wp_dhtGet, simp, simp)
  fix t vs and x :: bool and w u
  assume t: "dht_ok t" "table t = table s" "table (t\<lparr>dd_world := w\<rparr>) = table t"
    and u: "table (t\<lparr>dd_world := w, dd_world := u\<rparr>) = table (t\<lparr>dd_world := w\<rparr>)" "set vs = table (t\<lparr>dd_world := w\<rparr>) k"
  let ?u = "t\<lparr>dd_world := w, dd_world := u\<rparr>"
  have tu: "dht_ok ?u" "table ?u = table s" using t u by simp_all
  have v: "v \<in> set vs" using u(2) t(2,3) assms(2) by simp
  have "wp (dhtPut k (delValue v)) (\<lambda>_. wp (set_deleted k v) (\<lambda>_. wp (ret (filter (\<lambda>x. x \<noteq> v) (remdups vs)))
      (\<lambda>_ t. dht_ok t \<and> delValue v \<in> table t k \<and> (\<forall>k'. table s k' \<subseteq> table t k')) (\<lambda>_ _. True)) (\<lambda>_ _. True))
      (\<lambda>_ _. True) ?u"
    by (rule wp_dhtPut [OF tu(1)]) (use tu in \<open>auto simp: set_deleted_def wp_upd wp_ret\<close>)
  then show "wp (whenA (v \<in> set vs) (bnd (dhtPut k (delValue v)) (\<lambda>_. set_deleted k v)))
      (\<lambda>_. wp (ret (filter (\<lambda>x. x \<noteq> v) (remdups vs)))
        (\<lambda>_ t. dht_ok t \<and> delValue v \<in> table t k \<and> (\<forall>k'. table s k' \<subseteq> table t k')) (\<lambda>_ _. True))
      (\<lambda>_ _. True) ?u"
    using v by (simp add: wp_whenA wp_bnd)
qed

lemma wp_dhtAddClient:
  assumes "dht_ok s" "\<And>e t. E e t" "\<And>t. dht_ok t \<Longrightarrow> table t = table s \<Longrightarrow> Q () t"
  shows "wp (dhtAddClient k c) Q E s"
proof -
  let ?s = "s\<lparr>dd_clients := AList.update k (remdups (clients_of s k @ [c])) (dd_clients s)\<rparr>"
  have "wp (world (\<lambda>E. dh_listen E (dh_hash E k)))
      (\<lambda>tok t. Q () (t\<lparr>dd_listeners := AList.update k tok (dd_listeners t)\<rparr>)) E ?s"
  proof (rule wp_world [OF assms(2)])
    fix tok w assume l: "dh_listen (dd_ext ?s) (dh_hash (dd_ext ?s) k) (dd_world ?s) = (Inr tok, w)"
    have "dht_laws (dd_ext s)" using assms(1) by (simp add: dht_ok_def)
    with l have "dh_view (dd_ext s) w = dh_view (dd_ext s) (dd_world s)"
      unfolding dht_laws_def by simp
    then have "table (?s\<lparr>dd_world := w\<rparr>) = table s" by (simp add: fun_eq_iff table_def)
    then show "Q () (?s\<lparr>dd_world := w, dd_listeners := AList.update k tok (dd_listeners (?s\<lparr>dd_world := w\<rparr>))\<rparr>)"
      using assms(1) by (intro assms(3)) simp_all
  qed
  moreover have "Q () ?s" by (rule assms(3)) (use assms(1) in simp_all)
  ultimately show ?thesis
    using assms(1) by (simp add: dhtAddClient_def dhtListen_def on_dht_def wp_simps wp_upd_fun dht_ok_def)
qed

definition visible :: "bytes set \<Rightarrow> string set" where
  "visible T = {v \<in> T. hd v \<noteq> CHR ''-'' \<and> delValue v \<notin> T}"

lemma filterDelValues_visible:
  assumes "filterDelValues vs = Inr xs"
  shows "set xs = visible (set vs)"
proof -
  have ne: "[] \<notin> set vs" and xs: "xs = filter (\<lambda>v. hd v \<noteq> CHR ''-'' \<and>
      v \<notin> set (map tl (filter (\<lambda>v. hd v = CHR ''-'') vs))) vs"
    using assms by (auto simp: filterDelValues_def Let_def split: if_splits)
  have "v \<in> set (map tl (filter (\<lambda>v. hd v = CHR ''-'') vs)) \<longleftrightarrow> delValue v \<in> set vs" for v
  proof
    assume "v \<in> set (map tl (filter (\<lambda>v. hd v = CHR ''-'') vs))"
    then obtain w where "w \<in> set vs" "hd w = CHR ''-''" "v = tl w" by auto
    moreover from this ne have "w \<noteq> []" by blast
    ultimately have "w = delValue v" unfolding delValue_def by (metis list.collapse)
    then show "delValue v \<in> set vs" using \<open>w \<in> set vs\<close> by simp
  qed (force simp: delValue_def)
  then show ?thesis by (auto simp: xs visible_def)
qed

lemma dht_fetch_wp:
  assumes "dht_ok s"
  shows "wp (dht_fetch k c) (\<lambda>vs t. dht_ok t \<and> table t = table s \<and> set vs = visible (table s k)) (\<lambda>_ _. True) s"
  unfolding dht_fetch_def
proof (rule wp_db_try, simp, unfold wp_bnd, rule wp_dhtAddClient [OF assms], simp, rule wp_dhtGet, assumption, simp)
  fix t vs w
  assume "dht_ok t" "table t = table s" "table (t\<lparr>dd_world := w\<rparr>) = table t" "set vs = table t k"
  then show "wp (lift (filterDelValues vs)) (\<lambda>vs t. dht_ok t \<and> table t = table s \<and> set vs = visible (table s k))
      (\<lambda>_ _. True) (t\<lparr>dd_world := w\<rparr>)"
    using filterDelValues_visible [of vs] by (simp add: wp_lift split: sum.split)
qed

text \<open>A table and a backup store for the witnesses.\<close>

type_synonym toy_world = "(nat \<Rightarrow> bytes list) \<times> (string \<Rightarrow> pickled option)"

definition toy_ext :: "toy_world ext" where
  "toy_ext = \<lparr> dh_run = ret (), dh_bootstrap = (\<lambda>_ _. ret ()), dh_peerMon = ret (),
     dh_hash = (\<lambda>k. fold (\<lambda>c n. n * 256 + of_char c) k 0),
     dh_get = (\<lambda>h (m, l). (Inr (m h), (m, l))),
     dh_put = (\<lambda>h b (m, l). (Inr True, (m(h := m h @ [b]), l))),
     dh_listen = (\<lambda>_. ret 7), dh_cancelListen = (\<lambda>_. ret ()),
     cr_encrypt = ret, cr_decrypt = Inr,
     lm_get = (\<lambda>k (m, l). (Inr (l k), (m, l))),
     lm_put = (\<lambda>k v (m, l). (Inr True, (m, l(k := Some v)))),
     lm_delete = (\<lambda>k (m, l). (Inr (l k \<noteq> None), (m, l(k := None)))),
     lm_items = ret [], lm_cursor_delete = ret False, dh_view = (\<lambda>(m, l) h. set (m h)) \<rparr>"

definition toy_dht :: "(nat \<Rightarrow> bytes list) \<Rightarrow> toy_world dhtdb" where
  "toy_dht m = \<lparr> dd_ext = toy_ext, dd_world = (m, \<lambda>_. None), dd_security = False, dd_root = None, dd_dht = True,
     dd_updates = [], dd_clients = [], dd_listeners = [], dd_queue = [], dd_nextEvent = 0,
     dd_republishMap = [], dd_threadStarted = True, dd_republisherStart = False,
     dd_republisherStop = False, dd_deletedMap = [] \<rparr>"

lemma toy_dht_ok: "dht_ok (toy_dht m)"
  by (auto simp: dht_ok_def dht_laws_def toy_dht_def toy_ext_def ret_def intro!: ext)

lemmas dht_exec = dht_insert_def dht_remove_def dht_fetch_def db_try_def dhtGet_def dhtPut_def dhtRemove_def
  on_dht_def world_def encryptData_def addKeyValue_def delKeyValue_def stored_values_def addToRepublish_def
  delFromRepublish_def sched_enter_def sched_cancel_def set_event_def set_deleted_def dhtAddClient_def
  dhtListen_def strValue_def delValue_def unpickle_def clients_of_def
  tryA_def bnd_def ret_def rd_def upd_def lift_def whenA_def assertA_def raise_def seqA.simps



text \<open>
  A service that is registered, withdrawn and registered again is not found. The withdrawal
  leaves a deletion mark beside the value; the second insert finds the value still in the table
  and does nothing, and every fetch filters it, as long as the table keeps the mark.
\<close>

theorem reregistration_lost:
  assumes "dht_ok s" "dht_insert k v s = (Inr cs, t)" "dht_remove k v t = (Inr ws, u)"
    "dht_insert k v u = (Inr cs', w)" "dht_fetch k c w = (Inr vs, x)"
  shows "v \<notin> set vs"
proof -
  have t: "dht_ok t" "v \<in> table t k"
    using wp_returns [OF dht_insert_wp [OF assms(1)] assms(2)] by auto
  have u: "dht_ok u" "delValue v \<in> table u k"
    using wp_returns [OF dht_remove_wp [OF t] assms(3)] by auto
  have w: "dht_ok w" "delValue v \<in> table w k"
    using wp_returns [OF dht_insert_wp [OF u(1)] assms(4)] u(2) by auto
  have "set vs = visible (table w k)"
    using wp_returns [OF dht_fetch_wp [OF w(1)] assms(5)] by simp
  with w(2) show ?thesis by (simp add: visible_def)
qed

theorem reregistration_lost_witness:
  "\<exists>x. dht_fetch ''k'' ''c'' (exec (dht_insert ''k'' ''v'') (exec (dht_remove ''k'' ''v'')
     (exec (dht_insert ''k'' ''v'') (toy_dht (\<lambda>_. []))))) = (Inr [], x)"
proof -
  let ?s = "toy_dht (\<lambda>_. [])"
  let ?t = "exec (dht_insert ''k'' ''v'') ?s"
  let ?u = "exec (dht_remove ''k'' ''v'') ?t"
  let ?w = "exec (dht_insert ''k'' ''v'') ?u"
  note e = dht_exec exec_def toy_dht_def toy_ext_def
  have t: "dht_insert ''k'' ''v'' ?s = (Inr [], ?t)" by (simp add: e)
  have u: "dht_remove ''k'' ''v'' ?t = (Inr [], ?u)" by (simp add: e)
  have w: "dht_insert ''k'' ''v'' ?u = (Inr [], ?w)" by (simp add: e)
  obtain vs x where f: "dht_fetch ''k'' ''c'' ?w = (Inr vs, x)" "set vs \<subseteq> {''v''}"
    by (simp add: e filterDelValues_def)
  have "vs = []"
    using reregistration_lost [OF toy_dht_ok t u w f(1)] f(2) by (cases vs) auto
  with f(1) show ?thesis by auto
qed

text \<open>
  Detaching one client of a key silences the others. The listener of the key is cancelled
  although the key still has clients, so a value callback is no longer called for them.
\<close>

theorem detach_silences_others:
  assumes "dht_detach k c s = (Inr (), t)"
  shows "map_of (dd_listeners t) k = None \<and> clients_of t k = remove1 c (clients_of s k)"
proof -
  have cancel: "wp (cancel_listener k) (\<lambda>_ u. map_of (dd_listeners u) k = None \<and> dd_clients u = dd_clients s)
      (\<lambda>_ _. True) s"
  proof (cases "map_of (dd_listeners s) k")
    case None
    then show ?thesis by (simp add: cancel_listener_def wp_simps)
  next
    case (Some tok)
    have "wp (world (\<lambda>E. dh_cancelListen E tok)) (\<lambda>_ u. dd_clients u = dd_clients s) (\<lambda>_ _. True) s"
      by (rule wp_world) simp_all
    then have "wp (on_dht (\<lambda>E. dh_cancelListen E tok)) (\<lambda>_ u. dd_clients u = dd_clients s) (\<lambda>_ _. True) s"
      by (simp add: on_dht_def wp_simps)
    then have "wp (on_dht (\<lambda>E. dh_cancelListen E tok)) (\<lambda>_. wp (seqA [upd (\<lambda>s. s\<lparr>dd_listeners :=
        AList.delete k (dd_listeners s)\<rparr>)]) (\<lambda>_ u. map_of (dd_listeners u) k = None \<and> dd_clients u = dd_clients s)
        (\<lambda>_ _. True)) (\<lambda>_ _. True) s"
      by (rule wp_mono) (simp_all add: wp_seqA_Cons wp_seqA_Nil wp_upd)
    with Some show ?thesis by (simp add: cancel_listener_def wp_rd wp_seqA_Cons)
  qed
  have "wp (dht_detach k c) (\<lambda>_ u. map_of (dd_listeners u) k = None \<and> clients_of u k = remove1 c (clients_of s k))
      (\<lambda>_ _. True) s"
    unfolding dht_detach_def dhtDelClient_def
  proof (rule wp_seqA_ConsI [OF cancel])
    fix u :: "'a dhtdb" assume u: "map_of (dd_listeners u) k = None \<and> dd_clients u = dd_clients s"
    then have "clients_of u = clients_of s" by (simp add: clients_of_def fun_eq_iff)
    with u show "wp (seqA [rd clients_of (\<lambda>cs. whenA (c \<in> set (cs k))
        (upd (\<lambda>s. s\<lparr>dd_clients := AList.update k (remove1 c (clients_of s k)) (dd_clients s)\<rparr>)))])
      (\<lambda>_ u. map_of (dd_listeners u) k = None \<and> clients_of u k = remove1 c (clients_of s k)) (\<lambda>_ _. True) u"
      by (auto simp: wp_seqA_Cons wp_seqA_Nil wp_rd wp_whenA wp_upd clients_of_def remove1_idem)
  qed
  from wp_returns [OF this assms] show ?thesis .
qed

theorem detach_silences_others_witness:
  "\<exists>t. dht_detach ''k'' ''a'' (exec (dht_fetch ''k'' ''b'') (exec (dht_fetch ''k'' ''a'') (toy_dht (\<lambda>_. [''v''])))) = (Inr (), t)
     \<and> map_of (dd_listeners t) ''k'' = None \<and> clients_of t ''k'' = [''b'']"
proof -
  let ?s = "exec (dht_fetch ''k'' ''b'') (exec (dht_fetch ''k'' ''a'') (toy_dht (\<lambda>_. [''v''])))"
  note e = dht_exec exec_def toy_dht_def toy_ext_def filterDelValues_def
  have s: "clients_of ?s ''k'' = [''a'', ''b'']"
    by (simp add: e)
  obtain t where t: "dht_detach ''k'' ''a'' ?s = (Inr (), t)"
    by (simp add: dht_detach_def dhtDelClient_def cancel_listener_def e)
  from detach_silences_others [OF t] s t show ?thesis by auto
qed

section \<open>The republisher\<close>

text \<open>Every active registration has its event in the queue, and no event identity is used twice.\<close>

definition rep_inv :: "'h dhtdb \<Rightarrow> bool" where
  "rep_inv s \<longleftrightarrow> \<not> dd_republisherStop s \<and> distinct (map fst (dd_queue s)) \<and>
     (\<forall>ev \<in> set (dd_queue s). fst ev < dd_nextEvent s) \<and>
     (\<forall>kv n. map_of (dd_republishMap s) kv = Some n \<longrightarrow> (n, kv) \<in> set (dd_queue s))"

definition keepsR :: "('h, 'a) dact \<Rightarrow> bool" where
  "keepsR m \<longleftrightarrow> (\<forall>s. rep_inv s \<longrightarrow> wp m (\<lambda>_. rep_inv) (\<lambda>_. rep_inv) s)"

named_theorems keepsR_intros "operations that keep the republisher consistent"

lemma keepsR_basic [keepsR_intros]: "keepsR (ret x)" "keepsR (raise e)" "keepsR (lift r)"
  "keepsR (assertA b)"
  by (auto simp: keepsR_def wp_simps split: sum.split)

lemma keepsR_world [keepsR_intros]: "keepsR (world f)"
proof -
  have "rep_inv (s\<lparr>dd_world := w\<rparr>) = rep_inv s" for s :: "'a dhtdb" and w
    by (simp add: rep_inv_def)
  then show ?thesis by (simp add: keepsR_def wp_def world_def split: sum.splits prod.splits)
qed

lemma keepsR_bnd [keepsR_intros]: "keepsR m \<Longrightarrow> (\<And>x. keepsR (k x)) \<Longrightarrow> keepsR (bnd m k)"
  unfolding keepsR_def wp_bnd by (blast intro: wp_mono)

lemma keepsR_rd [keepsR_intros]: "(\<And>x. keepsR (k x)) \<Longrightarrow> keepsR (rd f k)"
  by (simp add: keepsR_def wp_rd)

lemma keepsR_upd: "(\<And>s. rep_inv s \<Longrightarrow> rep_inv (f s)) \<Longrightarrow> keepsR (upd f)"
  by (simp add: keepsR_def wp_upd)

lemma keepsR_seqA [keepsR_intros]: "(\<And>m. m \<in> set ms \<Longrightarrow> keepsR m) \<Longrightarrow> keepsR (seqA ms)"
  unfolding keepsR_def by (auto intro: wp_seqA_inv [where I = rep_inv])

lemma keepsR_choice [keepsR_intros]: "keepsR m \<Longrightarrow> keepsR n \<Longrightarrow> keepsR (if b then m else n)"
  "keepsR a \<Longrightarrow> keepsR (whenA b a)"
  "keepsR m \<Longrightarrow> (\<And>y. keepsR (f y)) \<Longrightarrow> keepsR (case x of None \<Rightarrow> m | Some y \<Rightarrow> f y)"
  by (auto simp: keepsR_def whenA_def wp_ret split: option.split)

lemma keepsR_try [keepsR_intros]: "keepsR m \<Longrightarrow> keepsR (db_try loc m)"
  unfolding keepsR_def db_try_def wp_tryA wp_raise .

lemma keepsR_frame [keepsR_intros]:
  "keepsR (upd (\<lambda>s. s\<lparr>dd_updates := f1 s\<rparr>))" "keepsR (upd (\<lambda>s. s\<lparr>dd_clients := f2 s\<rparr>))"
  "keepsR (upd (\<lambda>s. s\<lparr>dd_listeners := f3 s\<rparr>))" "keepsR (upd (\<lambda>s. s\<lparr>dd_deletedMap := f4 s\<rparr>))"
  "keepsR (upd (\<lambda>s. s\<lparr>dd_republisherStart := f5 s\<rparr>))"
  by (auto intro!: keepsR_upd simp: rep_inv_def)

lemma keepsR_enter: "keepsR (bnd (sched_enter k v) (set_event k v))"
  unfolding keepsR_def by (force simp: sched_enter_def set_event_def wp_simps rep_inv_def)

lemma keepsR_delFrom [keepsR_intros]: "keepsR (delFromRepublish k v)"
  unfolding keepsR_def
proof (intro allI impI)
  fix s :: "'a dhtdb" assume s: "rep_inv s"
  show "wp (delFromRepublish k v) (\<lambda>_. rep_inv) (\<lambda>_. rep_inv) s"
  proof (cases "map_of (dd_republishMap s) (k, v)")
    case None
    with s show ?thesis by (simp add: delFromRepublish_def wp_simps)
  next
    case (Some n)
    then have n: "(n, k, v) \<in> set (dd_queue s)" using s by (simp add: rep_inv_def)
    let ?t = "s\<lparr>dd_queue := filter (\<lambda>ev. fst ev \<noteq> n) (dd_queue s),
      dd_republishMap := AList.delete (k, v) (dd_republishMap s)\<rparr>"
    have "rep_inv ?t"
      unfolding rep_inv_def
    proof (intro conjI allI impI)
      fix kv m assume "map_of (dd_republishMap ?t) kv = Some m"
      then have kv: "kv \<noteq> (k, v)" "map_of (dd_republishMap s) kv = Some m"
        by (auto split: if_splits)
      then have m: "(m, kv) \<in> set (dd_queue s)" "kv \<noteq> (k, v)"
        using s unfolding rep_inv_def by blast+
      have "m \<noteq> n"
      proof
        assume "m = n"
        with m(1) n have "kv = (k, v)"
          using s unfolding rep_inv_def by (meson eq_key_imp_eq_value)
        with m(2) show False ..
      qed
      with m(1) show "(m, kv) \<in> set (dd_queue ?t)" by simp
    qed (use s in \<open>auto simp: rep_inv_def distinct_map inj_on_def\<close>)
    then show ?thesis
      using Some n by (force simp: delFromRepublish_def sched_cancel_def wp_simps)
  qed
qed

lemma keepsR_addTo [keepsR_intros]: "keepsR (addToRepublish k v)"
  unfolding addToRepublish_def using keepsR_enter by (intro keepsR_intros) (auto intro: keepsR_intros)

lemma keepsR_low [keepsR_intros]: "keepsR (on_dht f)" "keepsR (dhtGet k)" "keepsR (dhtPut k v)"
  "keepsR (set_deleted k v)" "keepsR (addKeyValue k v)" "keepsR (delKeyValue k v)"
  unfolding on_dht_def dhtGet_def dhtPut_def encryptData_def set_deleted_def addKeyValue_def
    delKeyValue_def stored_values_def
  by (intro keepsR_intros)+

lemma keepsR_ops: "keepsR (dht_insert k v)" "keepsR (dht_remove k v)" "keepsR (dht_fetch k c)"
  "keepsR (dht_detach k c)" "keepsR dht_fetchUpdates" "keepsR (dhtValueCallback k b x)"
proof -
  have a: "keepsR (seqA [a, b, c])" if "keepsR a" "keepsR b" "keepsR c" for a b c :: "('h, unit) dact"
    using that by (auto intro: keepsR_seqA)
  have b: "keepsR (seqA [a, b])" if "keepsR a" "keepsR b" for a b :: "('h, unit) dact"
    using that by (auto intro: keepsR_seqA)
  have c: "keepsR (cancel_listener k)" for k
    unfolding cancel_listener_def by (intro keepsR_intros b)
  have add: "keepsR (dhtAddClient k c)"
    unfolding dhtAddClient_def dhtListen_def by (intro keepsR_intros b)
  show "keepsR (dht_insert k v)" unfolding dht_insert_def by (intro keepsR_intros a)
  show "keepsR (dht_remove k v)" unfolding dht_remove_def dhtRemove_def by (intro keepsR_intros)
  show "keepsR (dht_fetch k c)" unfolding dht_fetch_def by (intro keepsR_intros add)
  show "keepsR (dht_detach k c)" unfolding dht_detach_def dhtDelClient_def by (intro keepsR_intros b c)
  show "keepsR dht_fetchUpdates" unfolding dht_fetchUpdates_def by (intro keepsR_intros)
  show "keepsR (dhtValueCallback k b x)"
    unfolding dhtValueCallback_def keepsR_def wp_rd wp_case_sum
    by (auto simp: wp_ret wp_raise split: sum.split
        intro!: keepsR_bnd [unfolded keepsR_def, rule_format] b [unfolded keepsR_def, rule_format]
          keepsR_intros [unfolded keepsR_def, rule_format])
qed

text \<open>One turn of the republisher: take the event that is due and run its call.\<close>

definition republish_turn :: "('h, unit) dact" where
  "republish_turn = bnd sched_take (\<lambda>ev. case ev of None \<Rightarrow> ret () | Some (k, v) \<Rightarrow> dhtRepublish k v)"

lemma rep_invD: "rep_inv s \<Longrightarrow> map_of (dd_republishMap s) kv = Some n \<Longrightarrow> (n, kv) \<in> set (dd_queue s)"
  unfolding rep_inv_def by blast

lemma republish_turn_keeps: "rep_inv s \<Longrightarrow> wp republish_turn (\<lambda>_. rep_inv) (\<lambda>_ _. True) s"
proof (cases "dd_queue s")
  case Nil
  assume "rep_inv s"
  with Nil show ?thesis by (simp add: republish_turn_def sched_take_def wp_simps)
next
  case (Cons ev q)
  assume s: "rep_inv s"
  obtain n k v where ev: "ev = (n, k, v)" by (cases ev)
  let ?u = "s\<lparr>dd_queue := q\<rparr>"
  have q: "(m, kv) \<in> set q" if "map_of (dd_republishMap s) kv = Some m" "kv \<noteq> (k, v)" for m kv
    using rep_invD [OF s that(1)] that(2) Cons ev by auto
  have fresh: "distinct (map fst q)" "\<forall>e \<in> set q. fst e < dd_nextEvent s" "\<not> dd_republisherStop s"
    using s Cons by (auto simp: rep_inv_def)
  have "wp (dhtRepublish k v) (\<lambda>_. rep_inv) (\<lambda>_ _. True) ?u"
  proof (cases "map_of (dd_republishMap s) (k, v)")
    case None
    have "rep_inv ?u"
      unfolding rep_inv_def
    proof (intro conjI allI impI)
      fix kv m assume "map_of (dd_republishMap ?u) kv = Some m"
      then show "(m, kv) \<in> set (dd_queue ?u)" using q [of kv m] None by (cases "kv = (k, v)") auto
    qed (use fresh in auto)
    with None fresh show ?thesis by (simp add: dhtRepublish_def wp_simps)
  next
    case (Some m)
    have rest: "wp (bnd (sched_enter k v) (set_event k v)) (\<lambda>_. rep_inv) (\<lambda>_ _. True) (?u\<lparr>dd_world := w\<rparr>)" for w
    proof -
      let ?t = "?u\<lparr>dd_world := w, dd_queue := q @ [(dd_nextEvent s, k, v)], dd_nextEvent := Suc (dd_nextEvent s),
        dd_republishMap := AList.update (k, v) (dd_nextEvent s) (dd_republishMap s)\<rparr>"
      have "rep_inv ?t"
        unfolding rep_inv_def
      proof (intro conjI allI impI)
        fix kv m assume "map_of (dd_republishMap ?t) kv = Some m"
        then show "(m, kv) \<in> set (dd_queue ?t)"
          using q [of kv m] by (cases "kv = (k, v)") auto
      qed (use fresh in \<open>auto simp: less_Suc_eq\<close>)
      then show ?thesis by (simp add: sched_enter_def set_event_def wp_simps)
    qed
    have "wp (dhtPut k v) (\<lambda>_. wp (bnd (sched_enter k v) (set_event k v)) (\<lambda>_. rep_inv) (\<lambda>_ _. True)) (\<lambda>_ _. True) ?u"
    proof -
      have w: "wp (world f) (\<lambda>_. wp (bnd (sched_enter k v) (set_event k v)) (\<lambda>_. rep_inv) (\<lambda>_ _. True)) (\<lambda>_ _. True)
          (?u\<lparr>dd_world := w\<rparr>)" for f :: "'a ext \<Rightarrow> ('a, bool) act" and w
        by (rule wp_world) (use rest in simp_all)
      have "wp (encryptData v) (\<lambda>b. wp (world (\<lambda>E. dh_put E (dh_hash E k) b))
          (\<lambda>_. wp (bnd (sched_enter k v) (set_event k v)) (\<lambda>_. rep_inv) (\<lambda>_ _. True)) (\<lambda>_ _. True)) (\<lambda>_ _. True) ?u"
        unfolding encryptData_def using w [of _ "dd_world s"]
        by (auto simp: wp_rd wp_ret intro!: wp_world w)
      then show ?thesis by (simp add: dhtPut_def wp_rd wp_raise wp_bnd)
    qed
    with Some fresh show ?thesis by (simp add: dhtRepublish_def wp_rd wp_bnd)
  qed
  then show ?thesis
    using Cons ev by (simp add: republish_turn_def sched_take_def wp_simps)
qed

datatype dht_event = DInsert string string | DRemove string string | DFetch string string
  | DDetach string string | DUpdates | DCallback string bytes bool | DRepublish

text \<open>An event with its outcome; what a call returns does not matter here.\<close>

definition discard :: "('h, 'a) dact \<Rightarrow> ('h, unit) dact" where
  "discard m = bnd m (\<lambda>_. ret ())"

definition dht_step :: "'h dhtdb \<Rightarrow> dht_event \<Rightarrow> (pyexc + unit) \<times> 'h dhtdb" where
  "dht_step s ev = (case ev of
     DInsert k v \<Rightarrow> discard (dht_insert k v) s
   | DRemove k v \<Rightarrow> discard (dht_remove k v) s
   | DFetch k c \<Rightarrow> discard (dht_fetch k c) s
   | DDetach k c \<Rightarrow> dht_detach k c s
   | DUpdates \<Rightarrow> discard dht_fetchUpdates s
   | DCallback k b x \<Rightarrow> discard (dhtValueCallback k b x) s
   | DRepublish \<Rightarrow> republish_turn s)"

lemma keepsR_returns: "keepsR m \<Longrightarrow> rep_inv s \<Longrightarrow> m s = (r, t) \<Longrightarrow> rep_inv t"
  unfolding keepsR_def wp_def by (fastforce split: sum.splits)

lemma keepsR_discard: "keepsR m \<Longrightarrow> keepsR (discard m)"
  unfolding discard_def by (intro keepsR_intros)

interpretation republisher: stepped_object dht_step "\<lambda>_. True" rep_inv
proof unfold_locales
  fix s t :: "'a dhtdb" and e r assume s: "rep_inv s" and st: "dht_step s e = (Inr r, t)"
  show "rep_inv t"
  proof (cases e)
    case DRepublish
    with st show ?thesis
      using wp_returns [OF republish_turn_keeps [OF s]] by (simp add: dht_step_def)
  qed (use st s in \<open>auto simp: dht_step_def intro: keepsR_returns keepsR_discard keepsR_ops\<close>)
qed

text \<open>
  C20: every active registration stays scheduled for republishing. After any successful
  operations, callbacks and turns of the republisher, a pair that is active has an event in the
  scheduler's queue, so taking it out of the republisher never fails and leaves it inactive.
\<close>

theorem registration_stays_scheduled:
  assumes "rep_inv s" "run_steps dht_step s evs = Some t" "map_of (dd_republishMap t) (k, v) = Some n"
  shows "(n, k, v) \<in> set (dd_queue t) \<and> (\<exists>u. delFromRepublish k v t = (Inr (), u) \<and>
    map_of (dd_republishMap u) (k, v) = None \<and> (n, k, v) \<notin> set (dd_queue u))"
proof -
  have "rep_inv t" using republisher.run_keeps [OF assms(1) _ assms(2)] by (simp add: list.pred_True)
  then have "(n, k, v) \<in> set (dd_queue t)" using rep_invD assms(3) by blast
  then show ?thesis
    using assms(3) by (force simp: delFromRepublish_def sched_cancel_def rd_def seqA.simps bnd_def upd_def ret_def)
qed

theorem registration_stays_scheduled_witness:
  "\<exists>t. run_steps dht_step (toy_dht (\<lambda>_. [])) [DInsert ''k'' ''v'', DRepublish, DRepublish] = Some t \<and>
     (2, ''k'', ''v'') \<in> set (dd_queue t)"
proof -
  obtain t where t: "run_steps dht_step (toy_dht (\<lambda>_. [])) [DInsert ''k'' ''v'', DRepublish, DRepublish] = Some t"
    "map_of (dd_republishMap t) (''k'', ''v'') = Some 2"
    by (simp add: dht_step_def discard_def republish_turn_def sched_take_def dhtRepublish_def dht_exec
        toy_dht_def toy_ext_def)
  have "rep_inv (toy_dht (\<lambda>_. []))" by (simp add: rep_inv_def toy_dht_def)
  from registration_stays_scheduled [OF this t] t(1) show ?thesis by blast
qed

text \<open>
  Between the scheduler taking an event and the call it makes, another thread may withdraw the
  same registration: its event is not in the queue any more, \<open>cancel\<close> raises, and \<open>remove\<close> gives
  up before the backup and the table are changed.
\<close>

lemma removal_races_republisher:
  assumes "dd_queue s = (n, k, v) # q" "n \<notin> fst ` set q" "map_of (dd_republishMap s) (k, v) = Some n"
  shows "sched_take s = (Inr (Some (k, v)), s\<lparr>dd_queue := q\<rparr>) \<and>
    dht_remove k v (s\<lparr>dd_queue := q\<rparr>) = (Inl (DatabaseError ''dht.remove: ValueError''), s\<lparr>dd_queue := q\<rparr>)"
  using assms by (simp add: sched_take_def dht_remove_def db_try_def tryA_def delFromRepublish_def
      sched_cancel_def rd_def seqA.simps bnd_def upd_def ret_def raise_def)

text \<open>The backup of a key loses every value when one of them is deleted.\<close>

lemma backup_loses_all:
  assumes "lm_get (dd_ext s) k (dd_world s) = (Inr (Some (Some vs)), w)" "v \<in> set vs"
  shows "delKeyValue k v s = world (\<lambda>E. lm_put E k None) (s\<lparr>dd_world := w\<rparr>)"
  using assms by (simp add: delKeyValue_def stored_values_def world_def bnd_def ret_def unpickle_def)

text \<open>
  A deletion notice of \<open>v\<close> under one key drops from the waiting updates all that concern this key
  and all that carry this value under another key.
\<close>

lemma deletion_drops_updates:
  assumes "strValue s b = Inr v" "v \<noteq> []" "hd v \<noteq> CHR ''-''"
  shows "dd_updates (exec (dhtValueCallback k b True) s) = filter (\<lambda>(k', w). k' \<noteq> k \<and> w \<noteq> v) (dd_updates s)"
proof -
  obtain c cs where v: "v = c # cs" "c \<noteq> CHR ''-''" using assms(2,3) by (cases v) auto
  show ?thesis
    using assms(1) by (simp add: dhtValueCallback_def v is_silent_def orgValue_def set_deleted_def exec_def rd_def
        lift_def seqA.simps bnd_def upd_def ret_def whenA_def)
qed

section \<open>Peers\<close>

text \<open>Whether a peer announced itself with the mark, at the address its messages come from.\<close>

fun marked :: "parsers \<Rightarrow> zyre_event \<Rightarrow> string \<Rightarrow> string \<Rightarrow> bool" where
  "marked ps (Enter uuid addr headers) p ip \<longleftrightarrow> uuid = p \<and> (\<exists>port. fst ps addr = Some (ip, port)) \<and>
     map_of headers (peerHeaderKey ip) = Some PEERMARK"
| "marked ps _ p ip \<longleftrightarrow> False"

definition peers_ok :: "parsers \<Rightarrow> zyre_event list \<Rightarrow> peerMon \<Rightarrow> bool" where
  "peers_ok ps seen m \<longleftrightarrow> pm_peerGroup m \<subseteq> set (dkeys (pm_peers m)) \<and>
     (\<forall>e \<in> set (pm_peers m). \<exists>ev \<in> set seen. marked ps ev (fst e) (fst (snd e))) \<and>
     (\<forall>b \<in> set (pm_bootstraps m). \<exists>ev \<in> set seen. \<exists>p. marked ps ev p (fst b))"

lemma peers_ok_mono: "peers_ok ps seen m \<Longrightarrow> peers_ok ps (seen @ [ev]) m"
  unfolding peers_ok_def by auto

lemma peers_ok_other: "peers_ok ps seen m \<Longrightarrow> pm_peerGroup m' \<subseteq> set (dkeys (pm_peers m')) \<Longrightarrow>
    set (pm_peers m') \<subseteq> set (pm_peers m) \<Longrightarrow> pm_bootstraps m' = pm_bootstraps m \<Longrightarrow> peers_ok ps seen m'"
  unfolding peers_ok_def by auto

lemma peer_told_ok:
  assumes "peers_ok ps seen m"
  shows "peers_ok ps seen (exec (peer_told ps p arg) m)"
proof (cases "map_of (pm_peers m) p")
  case None
  with assms show ?thesis by (simp add: peer_told_def exec_def rd_def ret_def)
next
  case (Some a)
  obtain ip pt where a: "a = (ip, pt)" by (cases a)
  then have "\<exists>ev \<in> set seen. marked ps ev p ip"
    using map_of_SomeD [OF Some] assms unfolding peers_ok_def by fastforce
  then have "peers_ok ps seen (m\<lparr>pm_bootstraps := pm_bootstraps m @ [(ip, x)]\<rparr>)" for x
    using assms unfolding peers_ok_def by auto
  with Some a assms show ?thesis
    by (auto simp: peer_told_def exec_def rd_def ret_def whenA_def upd_def split: option.split)
qed

lemma peer_enter_ok:
  assumes "peers_ok ps seen m"
  shows "peers_ok ps (seen @ [Enter p addr hs]) (exec (peer_enter ps p addr hs) m)"
proof (cases "\<exists>ip port. fst ps addr = Some (ip, port) \<and> map_of hs (peerHeaderKey ip) = Some PEERMARK")
  case True
  then obtain ip port where a: "fst ps addr = Some (ip, port)" "map_of hs (peerHeaderKey ip) = Some PEERMARK"
    by blast
  let ?m = "m\<lparr>pm_peers := AList.update p (ip, port) (pm_peers m)\<rparr>"
  have "\<forall>e \<in> set (pm_peers ?m). \<exists>ev \<in> set (seen @ [Enter p addr hs]). marked ps ev (fst e) (fst (snd e))"
  proof
    fix e assume "e \<in> set (pm_peers ?m)"
    then have "e = (p, ip, port) \<or> e \<in> set (pm_peers m)" by (auto dest: set_update_subset)
    then show "\<exists>ev \<in> set (seen @ [Enter p addr hs]). marked ps ev (fst e) (fst (snd e))"
      using a assms by (auto simp: peers_ok_def)
  qed
  moreover have "pm_peerGroup ?m \<subseteq> set (dkeys (pm_peers ?m))"
    using assms by (auto simp: peers_ok_def dom_update simp flip: dom_map_of_conv_image_fst)
  ultimately have "peers_ok ps (seen @ [Enter p addr hs]) ?m"
    using assms unfolding peers_ok_def by auto
  with a show ?thesis by (simp add: peer_enter_def exec_def upd_def)
next
  case False
  then have "exec (peer_enter ps p addr hs) m = m"
    by (auto simp: peer_enter_def exec_def ret_def split: option.split)
  then show ?thesis using peers_ok_mono [OF assms] by simp
qed

lemma peer_event_ok:
  assumes "peers_ok ps seen m"
  shows "peers_ok ps (seen @ [ev]) (snd (peer_event ps m ev))"
proof (cases "has_key (pm_peers m) (event_peer ev) \<or> (\<exists>p a h. ev = Enter p a h)")
  case False
  then have "snd (peer_event ps m ev) = m" by (cases ev) (auto simp: peer_event_def)
  then show ?thesis using peers_ok_mono [OF assms] by simp
next
  case True
  note m = peers_ok_mono [OF assms, of ev]
  show ?thesis
  proof (cases ev)
    case (Enter p a h)
    then show ?thesis using peer_enter_ok [OF assms] by (simp add: peer_event_def exec_def)
  next
    case (Join p g)
    then have "has_key (pm_peers m) p" using True by simp
    then have "p \<in> set (dkeys (pm_peers m))" by (rule has_key_iff [THEN iffD1])
    then show ?thesis using m Join True
      by (auto simp: peer_event_def peer_join_def whenA_def upd_def ret_def peers_ok_def)
  next
    case (Exit p)
    have g: "pm_peerGroup m - {p} \<subseteq> set (dkeys (AList.delete p (pm_peers m)))"
      using m by (auto simp: peers_ok_def dkeys_delete)
    show ?thesis
      by (rule peers_ok_other [OF m]) (use g True Exit in
        \<open>auto simp: peer_event_def peer_exit_def rd_def whenA_def upd_def ret_def\<close>)
  next
    case (Leave p g)
    show ?thesis
      by (rule peers_ok_other [OF m]) (use True Leave m in
        \<open>auto simp: peer_event_def whenA_def upd_def ret_def peers_ok_def\<close>)
  qed (use True peer_told_ok [OF m] m in \<open>auto simp: peer_event_def exec_def\<close>)
qed

text \<open>The monitor with the history of the events it saw.\<close>

definition peer_step :: "parsers \<times> zyre_event list \<times> peerMon \<Rightarrow> zyre_event \<Rightarrow> (pyexc + unit) \<times> (parsers \<times> zyre_event list \<times> peerMon)" where
  "peer_step = (\<lambda>(ps, seen, m) ev. (fst (peer_event ps m ev), (ps, seen @ [ev], snd (peer_event ps m ev))))"

interpretation peers: stepped_object peer_step "\<lambda>_. True" "\<lambda>(ps, seen, m). peers_ok ps seen m"
  by unfold_locales (auto simp: peer_step_def dest: peer_event_ok)

lemma peer_steps_seen: "run_steps peer_step (ps, seen, m) evs = Some (ps', seen', m') \<Longrightarrow> ps' = ps \<and> seen' = seen @ evs"
proof (induction evs arbitrary: seen m)
  case (Cons ev evs)
  then have "run_steps peer_step (ps, seen @ [ev], snd (peer_event ps m ev)) evs = Some (ps', seen', m')"
    by (auto simp: peer_step_def split: sum.splits)
  from Cons.IH [OF this] show ?case by simp
qed simp

text \<open>
  C23: the table is only joined through marked peers. After any events, every member of the peer
  group is a known peer, and every bootstrap went to an address from which some peer had entered
  with a header that carries the mark for this very address.
\<close>

theorem bootstraps_are_marked:
  assumes "run_steps peer_step (ps, [], peerMon_new port) evs = Some (ps', seen, m)"
  shows "pm_peerGroup m \<subseteq> set (dkeys (pm_peers m)) \<and>
    (\<forall>b \<in> set (pm_bootstraps m). \<exists>ev \<in> set evs. \<exists>p. marked ps ev p (fst b))"
proof -
  have "peers_ok ps [] (peerMon_new port)" by (simp add: peers_ok_def peerMon_new_def)
  then have "peers_ok ps' seen m"
    using peers.run_keeps [OF _ _ assms] by (simp add: list.pred_True)
  with peer_steps_seen [OF assms] show ?thesis by (auto simp: peers_ok_def)
qed

theorem bootstraps_are_marked_witness:
  "\<exists>m. run_steps peer_step ((\<lambda>a. if a = ''tcp://h:1'' then Some (''h'', ''1'') else None, \<lambda>a. Some ''42''), [], peerMon_new 9)
     [Enter ''p'' ''tcp://h:1'' [(''riaps_disco@h'', ''CAFE'')], Join ''p'' PEERGROUP, Whisper ''p'' ''riaps_disco://42'',
      Whisper ''q'' ''riaps_disco://42''] = Some m \<and>
     pm_bootstraps (snd (snd m)) = [(''h'', ''42'')] \<and> pm_peerGroup (snd (snd m)) \<subseteq> {''p''}"
proof -
  let ?ps = "(\<lambda>a. if a = ''tcp://h:1'' then Some (''h'', ''1'') else None, \<lambda>a::string. Some ''42'')"
  let ?evs = "[Enter ''p'' ''tcp://h:1'' [(''riaps_disco@h'', ''CAFE'')], Join ''p'' PEERGROUP, Whisper ''p'' ''riaps_disco://42'',
      Whisper ''q'' ''riaps_disco://42'']"
  obtain m where m: "run_steps peer_step (?ps, [], peerMon_new 9) ?evs = Some (?ps, ?evs, m)"
    "pm_bootstraps m = [(''h'', ''42'')]" "dkeys (pm_peers m) = [''p'']"
    by (simp add: peer_step_def peer_event_def peer_enter_def peer_join_def peer_told_def peerMon_new_def
        rd_def whenA_def upd_def ret_def PEERMARK_def peerHeaderKey_def)
  from bootstraps_are_marked [OF m(1)] m show ?thesis by auto
qed

end
