(* ===== verification/DiscoService.thy ===== *)
theory DiscoService
  imports DiscoStore DiscoText
begin

text \<open>
  The discovery service (\<open>riaps/discd/discs.py\<close>, class \<open>DiscoService\<close>) over any database of the
  interface \<open>dbase\<close>. Messages are values: the Cap'n Proto encoding is a library. The union
  \<open>DiscoReq\<close> of \<open>riaps/proto/disco.capnp\<close> has six members, so the branch of \<open>handle\<close> for
  \<open>groupJoin\<close> is never taken. The main socket is a REP socket: one receive, then one send.
\<close>

section \<open>Messages\<close>

datatype kind = KNone | KPub | KSub | KClt | KSrv | KReq | KRep | KQry | KAns | KGpub | KGsub
datatype scope = SNone | SGlobal | SLocal | SInternal

fun kind_str :: "kind \<Rightarrow> string" where
  "kind_str KNone = ''none''" | "kind_str KPub = ''pub''" | "kind_str KSub = ''sub''"
| "kind_str KClt = ''clt''" | "kind_str KSrv = ''srv''" | "kind_str KReq = ''req''"
| "kind_str KRep = ''rep''" | "kind_str KQry = ''qry''" | "kind_str KAns = ''ans''"
| "kind_str KGpub = ''gpub''" | "kind_str KGsub = ''gsub''"

record path =
  p_appName :: string
  p_actorName :: string
  p_msgType :: string
  p_kind :: kind
  p_scope :: scope

record client =
  c_actorHost :: string
  c_actorName :: string
  c_instanceName :: string
  c_portName :: string

datatype disco_req =
    ActorReg string string string bool
  | ServiceReg path string int
  | ServiceLookup path client
  | ActorUnreg string string string
  | ServiceUnlookup path client
  | ServiceUnreg path string int

datatype disco_rep =
    RepActorReg int | RepServiceReg | RepServiceLookup "(string \<times> int) list"
  | RepActorUnreg int | RepServiceUnlookup | RepServiceUnreg

record disco_upd =
  u_client :: client
  u_scope :: scope
  u_host :: string
  u_port :: int

text \<open>A port number in a message is an \<open>Int32\<close>.\<close>

definition int32 :: "int \<Rightarrow> pyexc + int" where
  "int32 n = (if - (2 ^ 31) \<le> n \<and> n < 2 ^ 31 then Inr n else Inl CapnpError)"

section \<open>The object\<close>

text \<open>
  \<open>self.clients\<close> holds the socket of a client under its base key, its port under two more keys and
  an empty list under the actor key. Sockets are numbered as they are made; \<open>ds_portOf\<close> is the
  port the system gives to each, if any is left. Replies and notifications are kept in the order
  they are sent.
\<close>

datatype client_val = CSock nat | CPort int | CList

record 'd disco =
  ds_db :: "'d dbase"
  ds_dbase :: 'd
  ds_hostAddress :: string
  ds_macAddress :: string
  ds_registrations :: "(string, (string \<times> string) list) dict"
  ds_clients :: "(string, client_val) dict"
  ds_enrollments :: "(string, (string \<times> string) list) dict"
  ds_devices :: "string set"
  ds_clientUpdates :: "update list"
  ds_received :: bool
  ds_replies :: "disco_rep list"
  ds_notes :: "(nat \<times> disco_upd) list"
  ds_nextSock :: nat
  ds_portOf :: "nat \<Rightarrow> int option"
  ds_closed :: "nat list"

type_synonym ('d, 'a) sact = "('d disco, 'a) act"

definition dbase_op :: "('d dbase \<Rightarrow> ('d, 'a) act) \<Rightarrow> ('d, 'a) sact" where
  "dbase_op f = (\<lambda>s. case f (ds_db s) (ds_dbase s) of (r, d) \<Rightarrow> (r, s\<lparr>ds_dbase := d\<rparr>))"

text \<open>\<open>server.recv()\<close> and \<open>server.send(...)\<close>.\<close>

definition server_recv :: "('d, unit) sact" where
  "server_recv = rd ds_received (\<lambda>b. if b then raise (ZMQError EFSM)
     else upd (\<lambda>s. s\<lparr>ds_received := True\<rparr>))"

definition server_send :: "disco_rep \<Rightarrow> ('d, unit) sact" where
  "server_send m = rd ds_received (\<lambda>b. if b
     then upd (\<lambda>s. s\<lparr>ds_received := False, ds_replies := ds_replies s @ [m]\<rparr>)
     else raise (ZMQError EFSM))"

definition dict_get :: "('d disco \<Rightarrow> (string, 'v) dict) \<Rightarrow> string \<Rightarrow> ('d, 'v) sact" where
  "dict_get f k = rd f (\<lambda>d. case map_of d k of None \<Rightarrow> raise KeyError | Some v \<Rightarrow> ret v)"

section \<open>Clients\<close>

definition appActorName :: "string \<Rightarrow> string \<Rightarrow> string" where
  "appActorName app actor = app @ ''/'' @ actor"

definition clientKeyBase :: "string \<Rightarrow> string \<Rightarrow> string" where
  "clientKeyBase app actor = ''/'' @ app @ ''/'' @ actor @ ''/''"

definition isDeviceName :: "'d disco \<Rightarrow> string \<Rightarrow> string \<Rightarrow> bool" where
  "isDeviceName s app actor \<longleftrightarrow> clientKeyBase app actor \<in> ds_devices s"

definition set_client :: "string \<Rightarrow> client_val \<Rightarrow> ('d, unit) sact" where
  "set_client k v = upd (\<lambda>s. s\<lparr>ds_clients := AList.update k v (ds_clients s)\<rparr>)"

definition del_client :: "string \<Rightarrow> ('d, unit) sact" where
  "del_client k = rd ds_clients (\<lambda>d. if has_key d k
     then upd (\<lambda>s. s\<lparr>ds_clients := AList.delete k (ds_clients s)\<rparr>) else raise KeyError)"

definition new_socket :: "('d, nat \<times> int) sact" where
  "new_socket = rd ds_nextSock (\<lambda>n. bnd (upd (\<lambda>s. s\<lparr>ds_nextSock := n + 1\<rparr>)) (\<lambda>_.
     rd ds_portOf (\<lambda>f. case f n of None \<Rightarrow> raise (ZMQError 98) | Some p \<Rightarrow> ret (n, p))))"

definition setupClient :: "string \<Rightarrow> string \<Rightarrow> bool \<Rightarrow> ('d, int) sact" where
  "setupClient app actor isDevice = bnd new_socket (\<lambda>(sock, port).
     let base = clientKeyBase app actor; key = appActorName app actor in
     bnd (seqA [
       set_client base (CSock sock),
       whenA isDevice (upd (\<lambda>s. s\<lparr>ds_devices := insert base (ds_devices s)\<rparr>)),
       rd ds_macAddress (\<lambda>mac. set_client (base @ mac) (CPort port)),
       rd ds_hostAddress (\<lambda>host. set_client (base @ host) (CPort port)),
       upd (\<lambda>s. s\<lparr>ds_registrations := AList.update key [] (ds_registrations s)\<rparr>),
       set_client key CList,
       upd (\<lambda>s. s\<lparr>ds_enrollments := AList.update key [] (ds_enrollments s)\<rparr>)])
     (\<lambda>_. ret port))"

text \<open>Unbinding and closing the client's socket, whose port is stored under the local key.\<close>

definition close_socket :: "client_val \<Rightarrow> ('d, unit) sact" where
  "close_socket v = (case v of CSock n \<Rightarrow> upd (\<lambda>s. s\<lparr>ds_closed := ds_closed s @ [n]\<rparr>)
     | _ \<Rightarrow> raise AttributeError)"

definition port_value :: "client_val \<Rightarrow> pyexc + int" where
  "port_value v = (case v of CPort p \<Rightarrow> Inr p | _ \<Rightarrow> Inl CapnpError)"

definition entries :: "(string, (string \<times> string) list) dict \<Rightarrow> string \<Rightarrow> (string \<times> string) list" where
  "entries d k = (case map_of d k of None \<Rightarrow> [] | Some es \<Rightarrow> es)"

definition del_actor :: "string \<Rightarrow> ('d, unit) sact" where
  "del_actor key = seqA [
     rd ds_registrations (\<lambda>d. if has_key d key
       then upd (\<lambda>s. s\<lparr>ds_registrations := AList.delete key (ds_registrations s)\<rparr>) else raise KeyError),
     rd ds_enrollments (\<lambda>d. if has_key d key
       then upd (\<lambda>s. s\<lparr>ds_enrollments := AList.delete key (ds_enrollments s)\<rparr>) else raise KeyError)]"

definition withdraw_all :: "string \<Rightarrow> ('d, unit) sact" where
  "withdraw_all key = seqA [
     rd (\<lambda>s. entries (ds_registrations s) key) (\<lambda>es.
       forA es (\<lambda>(k, v). bnd (dbase_op (\<lambda>db. db_remove db k v)) (\<lambda>_. ret ()))),
     rd (\<lambda>s. entries (ds_enrollments s) key) (\<lambda>es.
       forA es (\<lambda>(k, target). dbase_op (\<lambda>db. db_detach db k target)))]"

definition unsetupClient :: "string \<Rightarrow> string \<Rightarrow> ('d, int) sact" where
  "unsetupClient app actor = rd (\<lambda>s. s) (\<lambda>s0.
     let base = clientKeyBase app actor; key = appActorName app actor;
         local = base @ ds_macAddress s0; glob = base @ ds_hostAddress s0 in
     (case map_of (ds_clients s0) base of None \<Rightarrow> ret (- 1)
      | Some sock \<Rightarrow> bnd (assertA (has_key (ds_clients s0) local)) (\<lambda>_.
        bnd (dict_get ds_clients local) (\<lambda>pv.
        bnd (seqA [
          assertA (has_key (ds_clients s0) glob),
          close_socket sock,
          del_client base, del_client local, del_client glob,
          upd (\<lambda>s. s\<lparr>ds_devices := ds_devices s - {base}\<rparr>),
          withdraw_all key,
          del_actor key])
        (\<lambda>_. lift (port_value pv))))))"

section \<open>Keys\<close>

definition actor_part :: "bool \<Rightarrow> string \<Rightarrow> pyexc + string" where
  "actor_part device actor = (if device
     then (case split_on CHR ''.'' actor of [a, _] \<Rightarrow> Inr a | _ \<Rightarrow> Inl ValueError) else Inr actor)"

text \<open>The suffix the scope adds to a key; the scope \<open>none\<close> adds nothing.\<close>

definition scope_key :: "'d disco \<Rightarrow> string \<Rightarrow> string \<Rightarrow> scope \<Rightarrow> string \<Rightarrow> pyexc + string" where
  "scope_key s app actor sc key = (case sc of
     SLocal \<Rightarrow> Inr (key @ '':'' @ ds_macAddress s)
   | SInternal \<Rightarrow> (case actor_part (isDeviceName s app actor) actor of
       Inl e \<Rightarrow> Inl e | Inr a \<Rightarrow> Inr (key @ '':'' @ ds_macAddress s @ '':'' @ a))
   | _ \<Rightarrow> Inr key)"

definition base_key :: "string \<Rightarrow> string \<Rightarrow> kind \<Rightarrow> string" where
  "base_key app msg k = ''/'' @ app @ ''/'' @ msg @ ''/'' @ kind_str k"

definition buildInsertKeyValuePair :: "'d disco \<Rightarrow> path \<Rightarrow> string \<Rightarrow> int \<Rightarrow> pyexc + string \<times> string" where
  "buildInsertKeyValuePair s p host port =
     (case scope_key s (p_appName p) (p_actorName p) (p_scope p)
         (base_key (p_appName p) (p_msgType p) (p_kind p)) of
        Inl e \<Rightarrow> Inl e | Inr key \<Rightarrow> Inr (key, host @ '':'' @ int_str port))"

fun kindMap :: "kind \<Rightarrow> kind option" where
  "kindMap KSub = Some KPub" | "kindMap KClt = Some KSrv" | "kindMap KReq = Some KRep"
| "kindMap KRep = Some KReq" | "kindMap KQry = Some KAns" | "kindMap KGsub = Some KGpub"
| "kindMap _ = None"

definition client_string :: "'d disco \<Rightarrow> string \<Rightarrow> scope \<Rightarrow> client \<Rightarrow> string" where
  "client_string s app sc c =
     ''/'' @ app @ ''/'' @ c_actorName c @ ''/'' @ c_actorHost c @ ''/'' @ c_instanceName c @ ''/'' @ c_portName c @
     (case sc of SLocal \<Rightarrow> '':'' @ ds_macAddress s
      | SInternal \<Rightarrow> '':'' @ ds_macAddress s @ '':'' @ c_actorName c
      | _ \<Rightarrow> [])"

definition buildLookupKey :: "'d disco \<Rightarrow> path \<Rightarrow> client \<Rightarrow> pyexc + string \<times> string" where
  "buildLookupKey s p c = (case kindMap (p_kind p) of None \<Rightarrow> Inl KeyError
     | Some k \<Rightarrow> (case scope_key s (p_appName p) (c_actorName c) (p_scope p) (base_key (p_appName p) (p_msgType p) k) of
         Inl e \<Rightarrow> Inl e | Inr key \<Rightarrow> Inr (key, client_string s (p_appName p) (p_scope p) c)))"

section \<open>Requests\<close>

definition handleActorReg :: "string \<Rightarrow> string \<Rightarrow> bool \<Rightarrow> ('d, unit) sact" where
  "handleActorReg app actor isDevice = bnd (setupClient app actor isDevice) (\<lambda>port.
     bnd (lift (int32 port)) (\<lambda>p. server_send (RepActorReg p)))"

definition handleActorUnreg :: "string \<Rightarrow> string \<Rightarrow> ('d, unit) sact" where
  "handleActorUnreg app actor = bnd (unsetupClient app actor) (\<lambda>port.
     bnd (lift (int32 port)) (\<lambda>p. server_send (RepActorUnreg p)))"

definition upd_registrations :: "string \<Rightarrow> ((string \<times> string) list \<Rightarrow> (string \<times> string) list) \<Rightarrow> ('d, unit) sact" where
  "upd_registrations key f = bnd (dict_get ds_registrations key) (\<lambda>es.
     upd (\<lambda>s. s\<lparr>ds_registrations := AList.update key (f es) (ds_registrations s)\<rparr>))"

definition upd_enrollments :: "string \<Rightarrow> ((string \<times> string) list \<Rightarrow> (string \<times> string) list) \<Rightarrow> ('d, unit) sact" where
  "upd_enrollments key f = bnd (dict_get ds_enrollments key) (\<lambda>es.
     upd (\<lambda>s. s\<lparr>ds_enrollments := AList.update key (f es) (ds_enrollments s)\<rparr>))"

definition handleServiceReg :: "path \<Rightarrow> string \<Rightarrow> int \<Rightarrow> ('d, unit) sact" where
  "handleServiceReg p host port =
     bnd (rd (\<lambda>s. buildInsertKeyValuePair s p host port) lift) (\<lambda>(key, value).
     bnd (dbase_op (\<lambda>db. db_insert db key value)) (\<lambda>cs. seqA [
       upd_registrations (appActorName (p_appName p) (p_actorName p)) (List.insert (key, value)),
       server_send RepServiceReg,
       whenA (cs \<noteq> []) (upd (\<lambda>s. s\<lparr>ds_clientUpdates := ds_clientUpdates s @ [(key, value, cs)]\<rparr>))]))"

text \<open>A value \<open>host:port\<close> of the database.\<close>

definition parse_value :: "string \<Rightarrow> pyexc + string \<times> string" where
  "parse_value v = (case split_on CHR '':'' v of h # p # _ \<Rightarrow> Inr (h, p) | _ \<Rightarrow> Inl IndexError)"

definition parse_socket :: "string \<Rightarrow> pyexc + string \<times> int" where
  "parse_socket v = (case parse_value v of Inl e \<Rightarrow> Inl e
     | Inr (h, p) \<Rightarrow> (case parse_int p of Inl e \<Rightarrow> Inl e
       | Inr n \<Rightarrow> (case int32 n of Inl e \<Rightarrow> Inl e | Inr m \<Rightarrow> Inr (h, m))))"

fun parse_sockets :: "string list \<Rightarrow> pyexc + (string \<times> int) list" where
  "parse_sockets [] = Inr []"
| "parse_sockets (v # vs) = (case parse_socket v of Inl e \<Rightarrow> Inl e
     | Inr x \<Rightarrow> (case parse_sockets vs of Inl e \<Rightarrow> Inl e | Inr xs \<Rightarrow> Inr (x # xs)))"

definition handleServiceLookup :: "path \<Rightarrow> client \<Rightarrow> ('d, unit) sact" where
  "handleServiceLookup p c =
     bnd (rd (\<lambda>s. buildLookupKey s p c) lift) (\<lambda>(key, cl).
     bnd (dbase_op (\<lambda>db. db_fetch db key cl)) (\<lambda>result.
     bnd (upd_enrollments (appActorName (p_appName p) (c_actorName c)) (List.insert (key, cl))) (\<lambda>_.
     bnd (lift (parse_sockets result)) (\<lambda>socks. server_send (RepServiceLookup socks)))))"

definition handleServiceUnreg :: "path \<Rightarrow> string \<Rightarrow> int \<Rightarrow> ('d, unit) sact" where
  "handleServiceUnreg p host port =
     bnd (rd (\<lambda>s. buildInsertKeyValuePair s p host port) lift) (\<lambda>(key, value).
     bnd (dbase_op (\<lambda>db. db_remove db key value)) (\<lambda>_. seqA [
       upd_registrations (appActorName (p_appName p) (p_actorName p)) (removeAll (key, value)),
       server_send RepServiceUnreg]))"

definition handleServiceUnlookup :: "path \<Rightarrow> client \<Rightarrow> ('d, unit) sact" where
  "handleServiceUnlookup p c =
     bnd (rd (\<lambda>s. buildLookupKey s p c) lift) (\<lambda>(key, cl).
     bnd (dbase_op (\<lambda>db. db_detach db key cl)) (\<lambda>_. seqA [
       upd_enrollments (appActorName (p_appName p) (c_actorName c)) (removeAll (key, cl)),
       server_send RepServiceUnlookup]))"

definition disco_handle :: "disco_req \<Rightarrow> ('d, unit) sact" where
  "disco_handle m = (case m of
     ActorReg app ver actor isDevice \<Rightarrow> handleActorReg app actor isDevice
   | ServiceReg p host port \<Rightarrow> handleServiceReg p host port
   | ServiceLookup p c \<Rightarrow> handleServiceLookup p c
   | ActorUnreg app ver actor \<Rightarrow> handleActorUnreg app actor
   | ServiceUnlookup p c \<Rightarrow> handleServiceUnlookup p c
   | ServiceUnreg p host port \<Rightarrow> handleServiceUnreg p host port)"

section \<open>Notifications\<close>

text \<open>The client string of a notification, taken apart again.\<close>

record client_path =
  cp_app :: string
  cp_client :: client
  cp_scope :: scope

definition scope_of_parts :: "string list \<Rightarrow> scope" where
  "scope_of_parts ps = (case ps of [_, _] \<Rightarrow> SLocal | [_, _, _] \<Rightarrow> SInternal | _ \<Rightarrow> SGlobal)"

definition parse_client :: "string \<Rightarrow> pyexc + client_path" where
  "parse_client s = (case split_on CHR ''/'' s of
     _ # app # actor # host # inst # rest # _ \<Rightarrow>
       (let ps = split_on CHR '':'' rest in
        Inr \<lparr> cp_app = app, cp_client = \<lparr> c_actorHost = host, c_actorName = actor,
          c_instanceName = inst, c_portName = hd ps \<rparr>, cp_scope = scope_of_parts ps \<rparr>)
   | _ \<Rightarrow> Inl IndexError)"

text \<open>\<open>clientSocket.send(...)\<close> on what \<open>self.clients\<close> holds.\<close>

definition send_note :: "client_val \<Rightarrow> disco_upd \<Rightarrow> ('d, unit) sact" where
  "send_note v m = (case v of CSock n \<Rightarrow> upd (\<lambda>s. s\<lparr>ds_notes := ds_notes s @ [(n, m)]\<rparr>)
     | _ \<Rightarrow> raise AttributeError)"

definition update_client :: "string \<Rightarrow> string \<Rightarrow> string \<Rightarrow> ('d, unit) sact" where
  "update_client host port cl = bnd (lift (parse_client cl)) (\<lambda>p.
     rd (\<lambda>s. s) (\<lambda>s. case map_of (ds_clients s) (clientKeyBase (cp_app p) (c_actorName (cp_client p))) of
       None \<Rightarrow> ret ()
     | Some v \<Rightarrow> (if ds_hostAddress s \<noteq> c_actorHost (cp_client p) then ret ()
         else bnd (lift (parse_int port)) (\<lambda>n. bnd (lift (int32 n)) (\<lambda>m.
           send_note v \<lparr> u_client = cp_client p, u_scope = cp_scope p, u_host = host, u_port = m \<rparr>)))))"

definition handleUpdate :: "update \<Rightarrow> ('d, unit) sact" where
  "handleUpdate note = (case note of (_, value, cls) \<Rightarrow>
     bnd (lift (parse_value value)) (\<lambda>(host, port). forA cls (update_client host port)))"

section \<open>The main loop\<close>

text \<open>
  One turn: the poll times out, finds a request, or reports other sockets only. A database error
  of the check for updates makes the service start the database again; every other exception,
  and one of this \<open>start\<close>, ends the loop.
\<close>

datatype disco_event = Timeout | Request disco_req | Nothing

definition set_updates :: "update list \<Rightarrow> ('d, unit) sact" where
  "set_updates us = upd (\<lambda>s. s\<lparr>ds_clientUpdates := us\<rparr>)"

definition with_db :: "'d disco \<Rightarrow> ((pyexc + 'a) \<times> 'd) option \<Rightarrow> ((pyexc + 'a) \<times> 'd disco) option" where
  "with_db s r = map_option (\<lambda>(x, d). (x, s\<lparr>ds_dbase := d\<rparr>)) r"

fun is_db_error :: "pyexc \<Rightarrow> bool" where
  "is_db_error (DatabaseError _) = True" | "is_db_error _ = False"

definition poll_updates :: "'d disco \<Rightarrow> ((pyexc + unit) \<times> 'd disco) option" where
  "poll_updates s = (case with_db s (db_fetchUpdates (ds_db s) (ds_dbase s)) of
     None \<Rightarrow> None
   | Some (Inr us, t) \<Rightarrow> Some (set_updates us t)
   | Some (Inl e, t) \<Rightarrow> (if is_db_error e then with_db t (db_start (ds_db t) (ds_dbase t)) else Some (Inl e, t)))"

definition serve :: "disco_req \<Rightarrow> ('d, unit) sact" where
  "serve m = seqA [server_recv, disco_handle m]"

definition notify_all :: "('d, unit) sact" where
  "notify_all = rd ds_clientUpdates (\<lambda>us. forA us handleUpdate)"

definition disco_turn :: "'d disco \<Rightarrow> disco_event \<Rightarrow> ((pyexc + unit) \<times> 'd disco) option" where
  "disco_turn s ev = (let s1 = s\<lparr>ds_clientUpdates := []\<rparr> in
     case (case ev of Timeout \<Rightarrow> poll_updates s1 | Request m \<Rightarrow> Some (serve m s1) | Nothing \<Rightarrow> Some (Inr (), s1)) of
       None \<Rightarrow> None
     | Some (Inl e, t) \<Rightarrow> Some (Inl e, t)
     | Some (Inr _, t) \<Rightarrow> Some (notify_all t))"

definition disco_start :: "'d disco \<Rightarrow> ((pyexc + unit) \<times> 'd disco) option" where
  "disco_start s = (case with_db s (db_start (ds_db s) (ds_dbase s)) of
     None \<Rightarrow> None
   | Some (Inl e, t) \<Rightarrow> Some (Inl e, t)
   | Some (Inr _, t) \<Rightarrow> Some (set_updates [] t))"

end
