(* ===== verification/DiscoServiceProps.thy ===== *)
theory DiscoServiceProps
  imports DiscoService DiscoRedis
begin

text \<open>
  Properties of the discovery service: which lookups meet which registrations, where a
  notification goes, one answer per request, what a client's removal withdraws. The lemmas that
  need the database's contract are proved in the context of \<open>disco_store\<close> and instantiated with the
  redis database.
\<close>

section \<open>Keys\<close>

definition plain_name :: "string \<Rightarrow> bool" where
  "plain_name n \<longleftrightarrow> CHR ''/'' \<notin> set n \<and> CHR '':'' \<notin> set n"

lemma plain_kind [simp]: "CHR ''/'' \<notin> set (kind_str k)" "CHR '':'' \<notin> set (kind_str k)"
  by (cases k; simp)+

lemma kind_str_inj [simp]: "kind_str k = kind_str k' \<longleftrightarrow> k = k'"
  by (cases k; cases k') simp_all

text \<open>The parts that follow the base key; \<open>None\<close> when the device name has no single dot.\<close>

definition reach :: "'d disco \<Rightarrow> string \<Rightarrow> string \<Rightarrow> scope \<Rightarrow> string list option" where
  "reach s app actor sc = (case sc of
     SLocal \<Rightarrow> Some [ds_macAddress s]
   | SInternal \<Rightarrow> (case actor_part (isDeviceName s app actor) actor of
       Inl e \<Rightarrow> None | Inr a \<Rightarrow> Some [ds_macAddress s, a])
   | _ \<Rightarrow> Some [])"

lemma split_on_subset: "w \<in> set (split_on c s) \<Longrightarrow> set w \<subseteq> set s"
proof (induction s arbitrary: w)
  case (Cons x xs)
  then show ?case by (cases "split_on c xs") (fastforce split: if_splits)+
qed simp

lemma actor_part_plain: "actor_part d actor = Inr a \<Longrightarrow> plain_name actor \<Longrightarrow> plain_name a"
  using split_on_subset [of a "CHR ''.''" actor]
  by (auto simp: actor_part_def plain_name_def split: if_splits list.splits)

lemma reach_plain:
  assumes "reach s app actor sc = Some ts" "plain_name (ds_macAddress s)" "plain_name actor"
  shows "list_all plain_name ts"
  using assms actor_part_plain by (auto simp: reach_def split: scope.splits sum.splits)

lemma scope_key_reach:
  "scope_key s app actor sc key = Inr k \<longleftrightarrow>
    (\<exists>ts. reach s app actor sc = Some ts \<and> k = key @ concat (map (\<lambda>t. CHR '':'' # t) ts))"
  by (auto simp: scope_key_def reach_def split: scope.splits sum.splits)

lemma split_tail:
  assumes "CHR '':'' \<notin> set key" "list_all plain_name ts"
  shows "split_on CHR '':'' (key @ concat (map (\<lambda>t. CHR '':'' # t) ts)) = key # ts"
  using assms
proof (induction ts arbitrary: key)
  case (Cons t ts)
  then show ?case using Cons.IH [of t] by (simp add: plain_name_def)
qed simp

lemma base_key_parts:
  assumes "plain_name app" "plain_name msg"
  shows "split_on CHR ''/'' (base_key app msg k) = [[], app, msg, kind_str k]"
    and "CHR '':'' \<notin> set (base_key app msg k)"
  using assms by (simp_all add: base_key_def plain_name_def)

lemma full_key_eq:
  assumes "plain_name app" "plain_name msg" "plain_name app'" "plain_name msg'"
    "list_all plain_name ts" "list_all plain_name ts'"
  shows "base_key app msg k @ concat (map (\<lambda>t. CHR '':'' # t) ts) =
      base_key app' msg' k' @ concat (map (\<lambda>t. CHR '':'' # t) ts') \<longleftrightarrow>
    app = app' \<and> msg = msg' \<and> k = k' \<and> ts = ts'" (is "?l = ?r \<longleftrightarrow> _")
proof
  assume "?l = ?r"
  then have "split_on CHR '':'' ?l = split_on CHR '':'' ?r" by simp
  then have b: "base_key app msg k = base_key app' msg' k'" "ts = ts'"
    using assms by (simp_all add: split_tail base_key_parts)
  have "[[], app, msg, kind_str k] = [[], app', msg', kind_str k']"
    using base_key_parts(1) [OF assms(1,2), of k] base_key_parts(1) [OF assms(3,4), of k'] b(1)
    by (metis (no_types))
  then show "app = app' \<and> msg = msg' \<and> k = k' \<and> ts = ts'" using b(2) by simp
qed simp

text \<open>
  C14: a lookup meets a registration exactly when it should. The key a provider is stored under
  on one host and the key a client asks for on another are equal if and only if application and
  message type agree, the client's kind is the counterpart of the provider's, and both scopes
  reach equally far: everywhere, to the same host, or to the same actor of the same host.
\<close>

theorem lookup_key_meets_registration:
  assumes "buildInsertKeyValuePair s p host port = Inr (key, value)" "buildLookupKey s' q c = Inr (key', cl)"
    "\<forall>n \<in> {p_appName p, p_msgType p, p_actorName p, ds_macAddress s}. plain_name n"
    "\<forall>n \<in> {p_appName q, p_msgType q, c_actorName c, ds_macAddress s'}. plain_name n"
  shows "key = key' \<longleftrightarrow> p_appName p = p_appName q \<and> p_msgType p = p_msgType q \<and>
    kindMap (p_kind q) = Some (p_kind p) \<and>
    reach s (p_appName p) (p_actorName p) (p_scope p) = reach s' (p_appName q) (c_actorName c) (p_scope q)"
proof -
  obtain ts where ts: "reach s (p_appName p) (p_actorName p) (p_scope p) = Some ts"
    "key = base_key (p_appName p) (p_msgType p) (p_kind p) @ concat (map (\<lambda>t. CHR '':'' # t) ts)"
    using assms(1) unfolding buildInsertKeyValuePair_def
    by (auto simp: scope_key_reach split: sum.splits)
  obtain k ts' where k: "kindMap (p_kind q) = Some k"
    and ts': "reach s' (p_appName q) (c_actorName c) (p_scope q) = Some ts'"
    "key' = base_key (p_appName q) (p_msgType q) k @ concat (map (\<lambda>t. CHR '':'' # t) ts')"
    using assms(2) unfolding buildLookupKey_def
    by (auto simp: scope_key_reach split: sum.splits option.splits)
  have "list_all plain_name ts" "list_all plain_name ts'"
    using reach_plain [OF ts(1)] reach_plain [OF ts'(1)] assms(3,4) by auto
  then show ?thesis
    using full_key_eq assms(3,4) by (simp add: ts ts' k eq_commute [of k])
qed

text \<open>A service over the redis server of the witnesses.\<close>

definition toy_disco :: "(string \<Rightarrow> string list) \<Rightarrow> toy_redis rdb disco" where
  "toy_disco m = \<lparr> ds_db = RedisDbase, ds_dbase = toy_db m [] {}, ds_hostAddress = ''10.0.0.1'', ds_macAddress = ''0a1b'',
     ds_registrations = [], ds_clients = [], ds_enrollments = [], ds_devices = {}, ds_clientUpdates = [],
     ds_received = False, ds_replies = [], ds_notes = [], ds_nextSock = 0, ds_portOf = (\<lambda>n. Some (5000 + int n)),
     ds_closed = [] \<rparr>"

definition pub_path :: path where
  "pub_path = \<lparr> p_appName = ''app'', p_actorName = ''src'', p_msgType = ''Temp'', p_kind = KPub, p_scope = SInternal \<rparr>"

definition sub_path :: path where
  "sub_path = \<lparr> p_appName = ''app'', p_actorName = ''src'', p_msgType = ''Temp'', p_kind = KSub, p_scope = SInternal \<rparr>"

definition sub_client :: client where
  "sub_client = \<lparr> c_actorHost = ''10.0.0.1'', c_actorName = ''src'', c_instanceName = ''filter'', c_portName = ''in'' \<rparr>"

theorem lookup_key_meets_registration_witness:
  "\<exists>key v cl. buildInsertKeyValuePair (toy_disco (\<lambda>_. [])) pub_path ''h'' 7 = Inr (key, v) \<and>
     buildLookupKey (toy_disco (\<lambda>_. [])) sub_path sub_client = Inr (key, cl)"
proof -
  let ?s = "toy_disco (\<lambda>_. [])"
  obtain key v where i: "buildInsertKeyValuePair ?s pub_path ''h'' 7 = Inr (key, v)"
    by (simp add: buildInsertKeyValuePair_def pub_path_def scope_key_def actor_part_def isDeviceName_def toy_disco_def)
  obtain key' cl where l: "buildLookupKey ?s sub_path sub_client = Inr (key', cl)"
    by (simp add: buildLookupKey_def sub_path_def sub_client_def scope_key_def actor_part_def isDeviceName_def toy_disco_def)
  have "key = key'"
    by (subst lookup_key_meets_registration [OF i l])
      (simp_all add: pub_path_def sub_path_def sub_client_def plain_name_def toy_disco_def reach_def isDeviceName_def)
  with i l show ?thesis by blast
qed

section \<open>Notifications\<close>

definition plain_client :: "client \<Rightarrow> bool" where
  "plain_client c \<longleftrightarrow> plain_name (c_actorHost c) \<and> plain_name (c_actorName c) \<and>
     plain_name (c_instanceName c) \<and> plain_name (c_portName c)"

definition norm_scope :: "scope \<Rightarrow> scope" where
  "norm_scope sc = (if sc = SNone then SGlobal else sc)"

lemma parse_client_string:
  assumes "plain_name app" "plain_client c" "plain_name (ds_macAddress s)"
  shows "parse_client (client_string s app sc c) =
    Inr \<lparr> cp_app = app, cp_client = c, cp_scope = norm_scope sc \<rparr>"
proof -
  obtain tail where t: "client_string s app sc c = ''/'' @ app @ ''/'' @ c_actorName c @ ''/'' @ c_actorHost c @ ''/'' @
      c_instanceName c @ ''/'' @ c_portName c @ tail"
    "tail = concat (map (\<lambda>t. CHR '':'' # t) (case sc of SLocal \<Rightarrow> [ds_macAddress s]
      | SInternal \<Rightarrow> [ds_macAddress s, c_actorName c] | _ \<Rightarrow> []))"
    by (cases sc) (simp_all add: client_string_def)
  have slash: "CHR ''/'' \<notin> set (c_portName c @ tail)"
    using assms by (cases sc) (simp_all add: t(2) plain_name_def plain_client_def)
  have colon: "split_on CHR '':'' (c_portName c @ tail) = c_portName c # (case sc of SLocal \<Rightarrow> [ds_macAddress s]
      | SInternal \<Rightarrow> [ds_macAddress s, c_actorName c] | _ \<Rightarrow> [])"
    unfolding t(2) by (rule split_tail) (use assms in \<open>auto simp: plain_client_def plain_name_def split: scope.split\<close>)
  have "split_on CHR ''/'' (client_string s app sc c) =
      [[], app, c_actorName c, c_actorHost c, c_instanceName c, c_portName c @ tail]"
    using assms slash unfolding t(1) by (simp add: plain_name_def plain_client_def)
  with colon show ?thesis
    by (cases sc) (simp_all add: parse_client_def Let_def scope_of_parts_def norm_scope_def)
qed

definition entry_note :: "'d disco \<Rightarrow> string \<Rightarrow> int \<Rightarrow> string \<times> scope \<times> client \<Rightarrow> (nat \<times> disco_upd) list" where
  "entry_note s host port e = (case e of (app, sc, c) \<Rightarrow>
     (case map_of (ds_clients s) (clientKeyBase app (c_actorName c)) of
        Some (CSock n) \<Rightarrow> (if c_actorHost c = ds_hostAddress s
          then [(n, \<lparr> u_client = c, u_scope = norm_scope sc, u_host = host, u_port = port \<rparr>)] else [])
      | _ \<Rightarrow> []))"

definition socket_or_none :: "'d disco \<Rightarrow> string \<times> scope \<times> client \<Rightarrow> bool" where
  "socket_or_none s e = (case e of (app, sc, c) \<Rightarrow>
     (case map_of (ds_clients s) (clientKeyBase app (c_actorName c)) of
        None \<Rightarrow> True | Some (CSock n) \<Rightarrow> True | _ \<Rightarrow> False))"

lemma int32_ok: "- (2 ^ 31) \<le> n \<Longrightarrow> n < 2 ^ 31 \<Longrightarrow> int32 n = Inr n"
  by (simp add: int32_def)

lemma update_client_note:
  assumes "plain_name app" "plain_client c" "plain_name (ds_macAddress s')" "int32 port = Inr port"
    "socket_or_none s (app, sc, c)"
  shows "update_client host (int_str port) (client_string s' app sc c) s =
    (Inr (), s\<lparr>ds_notes := ds_notes s @ entry_note s host port (app, sc, c)\<rparr>)"
  using assms(4,5) parse_client_string [OF assms(1,2,3), of sc]
  by (auto simp: update_client_def entry_note_def socket_or_none_def send_note_def lift_def bnd_def rd_def ret_def
      raise_def upd_def split: option.splits client_val.splits)

lemma update_clients_notes:
  assumes "\<forall>(app, sc, c) \<in> set es. plain_name app \<and> plain_client c" "plain_name (ds_macAddress s')"
    "int32 port = Inr port" "\<forall>e \<in> set es. socket_or_none s e"
  shows "forA (map (\<lambda>(app, sc, c). client_string s' app sc c) es) (update_client host (int_str port)) s =
    (Inr (), s\<lparr>ds_notes := ds_notes s @ concat (map (entry_note s host port) es)\<rparr>)"
  using assms(1,4)
proof (induction es arbitrary: s)
  case Nil
  then show ?case by (simp add: forA.simps ret_def)
next
  case (Cons e es)
  obtain app sc c where e: "e = (app, sc, c)" by (cases e)
  let ?t = "s\<lparr>ds_notes := ds_notes s @ entry_note s host port e\<rparr>"
  have "entry_note ?t = entry_note s" "socket_or_none ?t = socket_or_none s"
    by (auto simp: fun_eq_iff entry_note_def socket_or_none_def split: option.split client_val.split)
  moreover have "update_client host (int_str port) (client_string s' app sc c) s = (Inr (), ?t)"
    unfolding e by (rule update_client_note) (use Cons.prems assms(2,3) e in auto)
  ultimately show ?case
    using Cons.IH [of ?t] Cons.prems by (simp add: forA.simps bnd_def e)
qed

text \<open>
  A notification reaches exactly the clients on this host. From the strings that lookups
  made of them, the service recovers every client, and sends one note to each that lives on this
  host and is registered here, on its own socket, with its names, its scope and the provider's
  address; the others get nothing.
\<close>

lemma notification_reaches_clients:
  assumes "\<forall>(app, sc, c) \<in> set es. plain_name app \<and> plain_client c" "plain_name (ds_macAddress s')"
    "- (2 ^ 31) \<le> port" "port < 2 ^ 31" "CHR '':'' \<notin> set host" "\<forall>e \<in> set es. socket_or_none s e"
  shows "handleUpdate (key, host @ '':'' @ int_str port, map (\<lambda>(app, sc, c). client_string s' app sc c) es) s =
    (Inr (), s\<lparr>ds_notes := ds_notes s @ concat (map (entry_note s host port) es)\<rparr>)"
proof -
  have "parse_value (host @ '':'' @ int_str port) = Inr (host, int_str port)"
    using assms(5) int_str_no_sep by (simp add: parse_value_def)
  then show ?thesis
    using update_clients_notes [OF assms(1,2) int32_ok [OF assms(3,4)] assms(6)]
    by (simp add: handleUpdate_def lift_def bnd_def)
qed

section \<open>Requests and replies\<close>

text \<open>Code that neither receives nor sends on the main socket, and code that sends one reply.\<close>

definition mute :: "('d, 'a) sact \<Rightarrow> bool" where
  "mute m \<longleftrightarrow> (\<forall>s. wp m (\<lambda>_ t. ds_received t = ds_received s \<and> ds_replies t = ds_replies s) (\<lambda>_ _. True) s)"

definition answers :: "(disco_rep \<Rightarrow> bool) \<Rightarrow> ('d, 'a) sact \<Rightarrow> bool" where
  "answers P m \<longleftrightarrow> (\<forall>s. ds_received s \<longrightarrow>
     wp m (\<lambda>_ t. \<not> ds_received t \<and> (\<exists>r. ds_replies t = ds_replies s @ [r] \<and> P r)) (\<lambda>_ _. True) s)"

named_theorems mute_intros "code that leaves the main socket alone"

lemma mute_basic [mute_intros]: "mute (ret x)" "mute (raise e)" "mute (lift r)" "mute (assertA b)"
  by (auto simp: mute_def wp_simps split: sum.split)

lemma mute_dbase_op [mute_intros]: "mute (dbase_op f)"
  by (simp add: mute_def wp_def dbase_op_def split: prod.splits sum.splits)

lemma mute_bnd [mute_intros]:
  fixes m :: "('d, 'a) sact"
  shows "mute m \<Longrightarrow> (\<And>x. mute (k x)) \<Longrightarrow> mute (bnd m k)"
proof -
  assume m: "mute m" and k: "\<And>x. mute (k x)"
  show "mute (bnd m k)"
    unfolding mute_def
  proof (rule allI, rule wp_chain)
    fix s t :: "'d disco" and x
    show "wp m (\<lambda>_ t. ds_received t = ds_received s \<and> ds_replies t = ds_replies s) (\<lambda>_ _. True) s"
      using m by (simp add: mute_def)
    assume t: "ds_received t = ds_received s \<and> ds_replies t = ds_replies s"
    have "wp (k x) (\<lambda>_ u. ds_received u = ds_received t \<and> ds_replies u = ds_replies t) (\<lambda>_ _. True) t"
      using k by (simp add: mute_def)
    then show "wp (k x) (\<lambda>_ t. ds_received t = ds_received s \<and> ds_replies t = ds_replies s) (\<lambda>_ _. True) t"
      by (rule wp_mono) (use t in auto)
  qed simp
qed

lemma mute_rd [mute_intros]: "(\<And>x. mute (k x)) \<Longrightarrow> mute (rd f k)"
  by (simp add: mute_def wp_rd)

lemma mute_upd: "(\<And>s. ds_received (f s) = ds_received s \<and> ds_replies (f s) = ds_replies s) \<Longrightarrow> mute (upd f)"
  by (simp add: mute_def wp_upd)

lemma mute_seqA: "(\<And>m. m \<in> set ms \<Longrightarrow> mute m) \<Longrightarrow> mute (seqA ms)"
  by (induction ms) (auto simp: seqA.simps intro: mute_basic mute_bnd)

lemma mute_forA [mute_intros]: "(\<And>x. mute (f x)) \<Longrightarrow> mute (forA xs f)"
  by (induction xs) (auto simp: forA.simps intro: mute_basic mute_bnd)

lemma mute_choice [mute_intros]: "mute m \<Longrightarrow> mute n \<Longrightarrow> mute (if b then m else n)"
  "mute a \<Longrightarrow> mute (whenA b a)"
  "mute m \<Longrightarrow> (\<And>y. mute (f y)) \<Longrightarrow> mute (case x of None \<Rightarrow> m | Some y \<Rightarrow> f y)"
  "(\<And>y z. mute (g y z)) \<Longrightarrow> mute (case p of (y, z) \<Rightarrow> g y z)"
  by (auto simp: whenA_def mute_def wp_ret split: option.split prod.split)

lemma mute_frame [mute_intros]:
  "mute (upd (\<lambda>s. s\<lparr>ds_clients := f1 s\<rparr>))" "mute (upd (\<lambda>s. s\<lparr>ds_registrations := f2 s\<rparr>))"
  "mute (upd (\<lambda>s. s\<lparr>ds_enrollments := f3 s\<rparr>))" "mute (upd (\<lambda>s. s\<lparr>ds_devices := f4 s\<rparr>))"
  "mute (upd (\<lambda>s. s\<lparr>ds_clientUpdates := f5 s\<rparr>))" "mute (upd (\<lambda>s. s\<lparr>ds_nextSock := f6 s\<rparr>))"
  "mute (upd (\<lambda>s. s\<lparr>ds_closed := f7 s\<rparr>))" "mute (upd (\<lambda>s. s\<lparr>ds_notes := f8 s\<rparr>))"
  by (auto intro: mute_upd)

lemma mute_ops [mute_intros]:
  "mute (dict_get g k)" "mute (set_client k v)" "mute (del_client k)"
  unfolding dict_get_def set_client_def del_client_def by (intro mute_intros)+

lemma mute_sockets [mute_intros]: "mute (close_socket v)" "mute (send_note v u)"
  by (cases v; simp add: close_socket_def send_note_def mute_intros)+

lemma mute_tables [mute_intros]:
  "mute (upd_registrations k f)" "mute (upd_enrollments k f)" "mute (del_actor k)" "mute (withdraw_all k)"
  unfolding upd_registrations_def upd_enrollments_def del_actor_def withdraw_all_def seqA.simps
  by (intro mute_intros)+

lemma mute_setupClient [mute_intros]: "mute (setupClient app actor d)"
  unfolding setupClient_def new_socket_def Let_def seqA.simps by (intro mute_intros)

lemma mute_unsetupClient [mute_intros]: "mute (unsetupClient app actor)"
  unfolding unsetupClient_def Let_def seqA.simps by (intro mute_intros)

lemma answers_bnd:
  fixes m :: "('d, 'a) sact"
  assumes "mute m" "\<And>x. answers P (k x)"
  shows "answers P (bnd m k)"
  unfolding answers_def
proof (intro allI impI, rule wp_chain)
  fix s t :: "'d disco" and x
  show "wp m (\<lambda>_ t. ds_received t = ds_received s \<and> ds_replies t = ds_replies s) (\<lambda>_ _. True) s"
    using assms(1) by (simp add: mute_def)
  assume t: "ds_received t = ds_received s \<and> ds_replies t = ds_replies s" "ds_received s"
  then have "wp (k x) (\<lambda>_ u. \<not> ds_received u \<and> (\<exists>r. ds_replies u = ds_replies t @ [r] \<and> P r)) (\<lambda>_ _. True) t"
    using assms(2) [of x] unfolding answers_def by blast
  then show "wp (k x) (\<lambda>_ t. \<not> ds_received t \<and> (\<exists>r. ds_replies t = ds_replies s @ [r] \<and> P r)) (\<lambda>_ _. True) t"
    by (rule wp_mono) (use t in auto)
qed simp

lemma answers_then:
  fixes m :: "('d, 'a) sact"
  assumes "answers P m" "\<And>x. mute (k x)"
  shows "answers P (bnd m k)"
  unfolding answers_def
proof (intro allI impI, rule wp_chain)
  fix s t :: "'d disco" and x
  assume s: "ds_received s"
  then show "wp m (\<lambda>_ t. \<not> ds_received t \<and> (\<exists>r. ds_replies t = ds_replies s @ [r] \<and> P r)) (\<lambda>_ _. True) s"
    using assms(1) by (simp add: answers_def)
  assume t: "\<not> ds_received t \<and> (\<exists>r. ds_replies t = ds_replies s @ [r] \<and> P r)"
  have "wp (k x) (\<lambda>_ u. ds_received u = ds_received t \<and> ds_replies u = ds_replies t) (\<lambda>_ _. True) t"
    using assms(2) by (simp add: mute_def)
  then show "wp (k x) (\<lambda>_ t. \<not> ds_received t \<and> (\<exists>r. ds_replies t = ds_replies s @ [r] \<and> P r)) (\<lambda>_ _. True) t"
    by (rule wp_mono) (use t in auto)
qed simp

lemma answers_send: "P r \<Longrightarrow> answers P (server_send r)"
  by (simp add: answers_def server_send_def wp_simps)

lemma answers_case_prod: "(\<And>y z. answers P (g y z)) \<Longrightarrow> answers P (case p of (y, z) \<Rightarrow> g y z)"
  by (cases p) simp

fun rep_for :: "disco_req \<Rightarrow> disco_rep \<Rightarrow> bool" where
  "rep_for (ActorReg _ _ _ _) (RepActorReg _) = True"
| "rep_for (ServiceReg _ _ _) RepServiceReg = True"
| "rep_for (ServiceLookup _ _) (RepServiceLookup _) = True"
| "rep_for (ActorUnreg _ _ _) (RepActorUnreg _) = True"
| "rep_for (ServiceUnlookup _ _) RepServiceUnlookup = True"
| "rep_for (ServiceUnreg _ _ _) RepServiceUnreg = True"
| "rep_for _ _ = False"

lemma answers_send_then: "P r \<Longrightarrow> (\<And>x. mute (k x)) \<Longrightarrow> answers P (bnd (server_send r) k)"
  by (intro answers_then answers_send)

lemma answers_handle: "answers (rep_for m) (disco_handle m)"
proof (cases m)
  case (ActorReg app ver actor d)
  then show ?thesis unfolding disco_handle_def handleActorReg_def
    by (simp, intro answers_bnd mute_intros answers_send) simp
next
  case (ServiceReg p host port)
  have "answers (rep_for m) (handleServiceReg p host port)"
    unfolding handleServiceReg_def seqA.simps
    by (rule answers_bnd, (intro mute_intros)[1], rule answers_case_prod, rule answers_bnd, (intro mute_intros)[1],
        rule answers_bnd, (intro mute_intros)[1], rule answers_send_then, simp add: ServiceReg, intro mute_intros)
  with ServiceReg show ?thesis by (simp add: disco_handle_def)
next
  case (ServiceLookup p c)
  have "answers (rep_for m) (handleServiceLookup p c)"
    unfolding handleServiceLookup_def
    by (intro answers_bnd mute_intros answers_case_prod answers_send) (simp add: ServiceLookup)
  with ServiceLookup show ?thesis by (simp add: disco_handle_def)
next
  case (ActorUnreg app ver actor)
  then show ?thesis unfolding disco_handle_def handleActorUnreg_def
    by (simp, intro answers_bnd mute_intros answers_send) simp
next
  case (ServiceUnlookup p c)
  have "answers (rep_for m) (handleServiceUnlookup p c)"
    unfolding handleServiceUnlookup_def seqA.simps
    by (intro answers_bnd mute_intros answers_case_prod answers_then answers_send) (simp add: ServiceUnlookup)
  with ServiceUnlookup show ?thesis by (simp add: disco_handle_def)
next
  case (ServiceUnreg p host port)
  have "answers (rep_for m) (handleServiceUnreg p host port)"
    unfolding handleServiceUnreg_def seqA.simps
    by (intro answers_bnd mute_intros answers_case_prod answers_then answers_send) (simp add: ServiceUnreg)
  with ServiceUnreg show ?thesis by (simp add: disco_handle_def)
qed

lemma serve_answers:
  assumes "serve m s = (Inr (), t)"
  shows "\<not> ds_received t \<and> (\<exists>r. ds_replies t = ds_replies s @ [r] \<and> rep_for m r)"
proof -
  let ?s = "s\<lparr>ds_received := True\<rparr>"
  have "\<not> ds_received s" using assms
    by (auto simp: serve_def seqA.simps server_recv_def rd_def raise_def bnd_def split: if_splits)
  then have h: "disco_handle m ?s = (Inr (), t)"
    using assms by (auto simp: serve_def seqA.simps server_recv_def rd_def upd_def bnd_def ret_def
        split: prod.splits sum.splits)
  have "wp (disco_handle m) (\<lambda>_ t. \<not> ds_received t \<and> (\<exists>r. ds_replies t = ds_replies ?s @ [r] \<and> rep_for m r))
      (\<lambda>_ _. True) ?s"
    using answers_handle [unfolded answers_def, rule_format, of ?s m] by simp
  from wp_returns [OF this h] show ?thesis by simp
qed

lemma mute_returns: "mute m \<Longrightarrow> m s = (Inr x, t) \<Longrightarrow> ds_received t = ds_received s \<and> ds_replies t = ds_replies s"
  unfolding mute_def by (drule spec [of _ s]) (drule wp_returns, assumption, assumption)

lemma mute_update_client [mute_intros]: "mute (update_client host port cl)"
  unfolding update_client_def by (intro mute_intros)

lemma mute_handleUpdate [mute_intros]: "mute (handleUpdate n)"
  unfolding handleUpdate_def by (intro mute_intros)

lemma mute_notify_all: "mute notify_all"
  unfolding notify_all_def by (intro mute_intros)

lemma poll_mute: "poll_updates s = Some (Inr (), t) \<Longrightarrow> ds_received t = ds_received s \<and> ds_replies t = ds_replies s"
  by (auto simp: poll_updates_def with_db_def set_updates_def upd_def
      split: option.splits prod.splits sum.splits if_splits)

fun requests :: "disco_event list \<Rightarrow> disco_req list" where
  "requests [] = []"
| "requests (Request m # evs) = m # requests evs"
| "requests (_ # evs) = requests evs"

lemma turn_replies:
  assumes "disco_turn s ev = Some (Inr (), t)"
  shows "(\<not> ds_received s \<longrightarrow> \<not> ds_received t) \<and>
    (\<exists>rs. ds_replies t = ds_replies s @ rs \<and> list_all2 rep_for (requests [ev]) rs)"
proof -
  let ?s = "s\<lparr>ds_clientUpdates := []\<rparr>"
  obtain u where u: "(case ev of Timeout \<Rightarrow> poll_updates ?s | Request m \<Rightarrow> Some (serve m ?s) | Nothing \<Rightarrow> Some (Inr (), ?s))
      = Some (Inr (), u)" and n: "notify_all u = (Inr (), t)"
    using assms by (auto simp: disco_turn_def Let_def split: option.splits prod.splits sum.splits)
  have q: "ds_received t = ds_received u" "ds_replies t = ds_replies u"
    using mute_returns [OF mute_notify_all n] by auto
  show ?thesis
  proof (cases ev)
    case (Request m)
    with u have "serve m ?s = (Inr (), u)" by simp
    from serve_answers [OF this] q Request show ?thesis by auto
  qed (use u q poll_mute [of ?s u] in auto)
qed

fun run_turns :: "'d disco \<Rightarrow> disco_event list \<Rightarrow> 'd disco option" where
  "run_turns s [] = Some s"
| "run_turns s (ev # evs) = (case disco_turn s ev of Some (Inr _, t) \<Rightarrow> run_turns t evs | _ \<Rightarrow> None)"

text \<open>
  C13: as long as the service runs, every request has exactly one answer, of its own kind and in
  the order of the requests, whatever else happens between them; polls and updates answer
  nothing, and after each turn the socket is ready for the next request.
\<close>

theorem one_answer_per_request:
  assumes "run_turns s evs = Some t" "\<not> ds_received s"
  shows "\<not> ds_received t \<and> (\<exists>rs. ds_replies t = ds_replies s @ rs \<and> list_all2 rep_for (requests evs) rs)"
  using assms
proof (induction evs arbitrary: s)
  case (Cons ev evs)
  then obtain u where u: "disco_turn s ev = Some (Inr (), u)" "run_turns u evs = Some t"
    by (auto split: option.splits prod.splits sum.splits)
  obtain rs where rs: "ds_replies u = ds_replies s @ rs" "list_all2 rep_for (requests [ev]) rs" "\<not> ds_received u"
    using turn_replies [OF u(1)] Cons.prems(2) by auto
  obtain rs' where rs': "ds_replies t = ds_replies u @ rs'" "list_all2 rep_for (requests evs) rs'" "\<not> ds_received t"
    using Cons.IH [OF u(2) rs(3)] by auto
  have "requests (ev # evs) = requests [ev] @ requests evs" by (cases ev) simp_all
  then have "list_all2 rep_for (requests (ev # evs)) (rs @ rs')"
    using rs(2) rs'(2) by (simp add: list_all2_appendI)
  with rs rs' show ?case by auto
qed simp

lemmas disco_exec = serve_def disco_handle_def server_recv_def server_send_def handleActorReg_def handleServiceReg_def
  handleServiceLookup_def setupClient_def new_socket_def set_client_def clientKeyBase_def appActorName_def
  buildInsertKeyValuePair_def buildLookupKey_def scope_key_def actor_part_def isDeviceName_def base_key_def
  client_string_def dbase_op_def upd_registrations_def upd_enrollments_def dict_get_def int32_def
  seqA.simps bnd_def ret_def raise_def rd_def upd_def lift_def whenA_def Let_def

theorem one_answer_per_request_witness:
  "\<exists>t. run_turns (toy_disco (\<lambda>_. [])) [Request (ActorReg ''app'' ''1'' ''src'' False), Nothing,
     Request (ServiceReg pub_path ''10.0.0.1'' 7)] = Some t \<and>
     (\<exists>r1 r2. ds_replies t = [r1, r2] \<and> rep_for (ActorReg ''app'' ''1'' ''src'' False) r1 \<and>
       rep_for (ServiceReg pub_path ''10.0.0.1'' 7) r2)"
proof -
  let ?s = "toy_disco (\<lambda>_. [])"
  let ?evs = "[Request (ActorReg ''app'' ''1'' ''src'' False), Nothing, Request (ServiceReg pub_path ''10.0.0.1'' 7)]"
  obtain t where t: "run_turns ?s ?evs = Some t"
    by (simp add: disco_turn_def disco_exec redis_exec toy_disco_def pub_path_def notify_all_def forA.simps)
  have s: "\<not> ds_received ?s" "ds_replies ?s = []" by (simp_all add: toy_disco_def)
  obtain rs where "ds_replies t = rs" "list_all2 rep_for (requests ?evs) rs"
    using one_answer_per_request [OF t s(1)] s(2) by auto
  with t show ?thesis by (auto simp: list_all2_Cons1)
qed

section \<open>Services over a database\<close>

lemma isDeviceName_frame [simp]: "isDeviceName (s\<lparr>ds_received := b\<rparr>) = isDeviceName s"
  by (simp add: fun_eq_iff isDeviceName_def)

lemma scope_key_frame [simp]: "scope_key (s\<lparr>ds_received := b\<rparr>) = scope_key s"
  by (intro ext) (auto simp: scope_key_def split: scope.split sum.split)

lemma client_string_frame [simp]: "client_string (s\<lparr>ds_received := b\<rparr>) = client_string s"
  by (intro ext) (auto simp: client_string_def split: scope.split)

lemma service_reg_effect:
  assumes "serve (ServiceReg p host port) s = (Inr (), t)"
  shows "\<exists>k v cs d. buildInsertKeyValuePair s p host port = Inr (k, v) \<and>
    db_insert (ds_db s) k v (ds_dbase s) = (Inr cs, d) \<and> ds_dbase t = d \<and> ds_db t = ds_db s \<and>
    ds_macAddress t = ds_macAddress s \<and> ds_devices t = ds_devices s"
proof -
  let ?s = "s\<lparr>ds_received := True\<rparr>"
  have b: "buildInsertKeyValuePair ?s p host port = buildInsertKeyValuePair s p host port"
    by (simp add: buildInsertKeyValuePair_def)
  have h: "handleServiceReg p host port ?s = (Inr (), t)"
    using assms by (auto simp: serve_def disco_handle_def seqA.simps server_recv_def rd_def upd_def bnd_def ret_def
        raise_def split: prod.splits sum.splits if_splits)
  obtain k v where k: "buildInsertKeyValuePair s p host port = Inr (k, v)"
    using h b by (cases "buildInsertKeyValuePair s p host port")
      (auto simp: handleServiceReg_def bnd_def rd_def lift_def)
  obtain r d where d: "db_insert (ds_db s) k v (ds_dbase s) = (r, d)" by fastforce
  obtain cs where r: "r = Inr cs"
    using h b k d by (cases r) (auto simp: handleServiceReg_def bnd_def rd_def lift_def dbase_op_def)
  have "ds_dbase t = d \<and> ds_db t = ds_db s \<and> ds_macAddress t = ds_macAddress s \<and> ds_devices t = ds_devices s"
    using h b k d r
    by (auto simp: handleServiceReg_def bnd_def rd_def lift_def dbase_op_def upd_registrations_def dict_get_def
        upd_def raise_def ret_def server_send_def seqA.simps whenA_def split: option.splits prod.splits sum.splits if_splits)
  with k d r show ?thesis by blast
qed

lemma service_lookup_effect:
  assumes "serve (ServiceLookup q c) s = (Inr (), t)"
  shows "\<exists>k cl vs d socks. buildLookupKey s q c = Inr (k, cl) \<and> db_fetch (ds_db s) k cl (ds_dbase s) = (Inr vs, d) \<and>
    parse_sockets vs = Inr socks \<and> ds_replies t = ds_replies s @ [RepServiceLookup socks]"
proof -
  let ?s = "s\<lparr>ds_received := True\<rparr>"
  have b: "buildLookupKey ?s q c = buildLookupKey s q c"
    by (simp add: buildLookupKey_def split: option.split sum.split)
  have h: "handleServiceLookup q c ?s = (Inr (), t)"
    using assms by (auto simp: serve_def disco_handle_def seqA.simps server_recv_def rd_def upd_def bnd_def ret_def
        raise_def split: prod.splits sum.splits if_splits)
  obtain k cl where k: "buildLookupKey s q c = Inr (k, cl)"
    using h b by (cases "buildLookupKey s q c") (auto simp: handleServiceLookup_def bnd_def rd_def lift_def)
  obtain r d where d: "db_fetch (ds_db s) k cl (ds_dbase s) = (r, d)" by fastforce
  obtain vs where r: "r = Inr vs"
    using h b k d by (cases r) (auto simp: handleServiceLookup_def bnd_def rd_def lift_def dbase_op_def)
  have "\<exists>socks. parse_sockets vs = Inr socks \<and> ds_replies t = ds_replies s @ [RepServiceLookup socks]"
    using h b k d r
    by (auto simp: handleServiceLookup_def bnd_def rd_def lift_def dbase_op_def upd_enrollments_def dict_get_def
        upd_def raise_def ret_def server_send_def split: option.splits prod.splits sum.splits if_splits)
  with k d r show ?thesis by blast
qed

lemma parse_sockets_mem:
  "parse_sockets vs = Inr socks \<Longrightarrow> host @ '':'' @ int_str port \<in> set vs \<Longrightarrow> CHR '':'' \<notin> set host \<Longrightarrow>
    (host, port) \<in> set socks"
proof (induction vs arbitrary: socks)
  case (Cons w vs)
  then obtain x xs where x: "parse_socket w = Inr x" "parse_sockets vs = Inr xs" "socks = x # xs"
    by (auto split: sum.splits)
  show ?case
  proof (cases "w = host @ '':'' @ int_str port")
    case True
    then have "x = (host, port)"
      using x(1) Cons.prems(3) int_str_no_sep
      by (auto simp: parse_socket_def parse_value_def int32_def split: if_splits)
    with x show ?thesis by simp
  next
    case False
    with Cons x show ?thesis by auto
  qed
qed simp

lemma removals_run:
  "forA es (\<lambda>(k, v). bnd (dbase_op (\<lambda>db. db_remove db k v)) (\<lambda>_. ret ())) s = (Inr (), t) \<Longrightarrow>
    run_steps (db_do (ds_db s)) (ds_dbase s) (map (\<lambda>(k, v). OpRemove k v) es) = Some (ds_dbase t) \<and>
    t = s\<lparr>ds_dbase := ds_dbase t\<rparr>"
proof (induction es arbitrary: s)
  case Nil
  then show ?case by (simp add: forA.simps ret_def)
next
  case (Cons e es)
  obtain k v where e: "e = (k, v)" by (cases e)
  obtain r d where d: "db_remove (ds_db s) k v (ds_dbase s) = (r, d)" by fastforce
  obtain vs where "r = Inr vs"
    using Cons.prems d by (cases r) (auto simp: forA.simps e bnd_def dbase_op_def)
  with Cons.prems d have f: "forA es (\<lambda>(k, v). bnd (dbase_op (\<lambda>db. db_remove db k v)) (\<lambda>_. ret ()))
      (s\<lparr>ds_dbase := d\<rparr>) = (Inr (), t)"
    by (simp add: forA.simps e bnd_def dbase_op_def ret_def)
  from Cons.IH [OF this] d \<open>r = Inr vs\<close> show ?case by (simp add: e db_do_def)
qed

lemma detachments_run:
  "forA es (\<lambda>(k, c). dbase_op (\<lambda>db. db_detach db k c)) s = (Inr (), t) \<Longrightarrow>
    run_steps (db_do (ds_db s)) (ds_dbase s) (map (\<lambda>(k, c). OpDetach k c) es) = Some (ds_dbase t) \<and>
    t = s\<lparr>ds_dbase := ds_dbase t\<rparr>"
proof (induction es arbitrary: s)
  case Nil
  then show ?case by (simp add: forA.simps ret_def)
next
  case (Cons e es)
  obtain k v where e: "e = (k, v)" by (cases e)
  obtain r d where d: "db_detach (ds_db s) k v (ds_dbase s) = (r, d)" by fastforce
  obtain u where "r = Inr u"
    using Cons.prems d by (cases r) (auto simp: forA.simps e bnd_def dbase_op_def)
  with Cons.prems d have f: "forA es (\<lambda>(k, c). dbase_op (\<lambda>db. db_detach db k c)) (s\<lparr>ds_dbase := d\<rparr>) = (Inr (), t)"
    by (simp add: forA.simps e bnd_def dbase_op_def)
  have "db_do (ds_db s) (ds_dbase s) (OpDetach k v) = (Inr [], d)"
    using d \<open>r = Inr u\<close> by (simp add: db_do_def bnd_def ret_def)
  with Cons.IH [OF f] show ?case by (simp add: e)
qed

lemma fold_removes: "fold spec_vals (map (\<lambda>(k, v). OpRemove k v) es) V k = V k - {v. (k, v) \<in> set es}"
  by (induction es arbitrary: V) (auto split: if_splits)

lemma fold_detaches: "fold spec_vals (map (\<lambda>(k, c). OpDetach k c) es) V k = V k"
  by (induction es arbitrary: V) auto

context disco_store
begin

lemma service_found:
  assumes "ds_db s = db" "inv (ds_dbase s)" "serve (ServiceReg p host port) s = (Inr (), t)"
    "serve (ServiceLookup q c) t' = (Inr (), u)" "buildInsertKeyValuePair s p host port = Inr (k, v)" "good k"
    "\<exists>cl. buildLookupKey t' q c = Inr (k, cl)" "CHR '':'' \<notin> set host" "ds_dbase t' = ds_dbase t" "ds_db t' = ds_db t"
  shows "\<exists>socks. ds_replies u = ds_replies t' @ [RepServiceLookup socks] \<and> (host, port) \<in> set socks"
proof -
  obtain cs d where i: "db_insert db k v (ds_dbase s) = (Inr cs, d)" "ds_dbase t = d" "ds_db t = db"
    using service_reg_effect [OF assms(3)] assms(1,5) by auto
  obtain cl vs d' socks where f: "db_fetch db k cl d = (Inr vs, d')" "parse_sockets vs = Inr socks"
    "ds_replies u = ds_replies t' @ [RepServiceLookup socks]"
    using service_lookup_effect [OF assms(4)] assms(7,9,10) i by auto
  have "v \<in> set vs"
    using registered_found [of "ds_dbase s" k v cs d "[]" d] assms(2,6) i f(1) by auto
  moreover have "v = host @ '':'' @ int_str port"
    using assms(5) by (auto simp: buildInsertKeyValuePair_def split: sum.splits)
  ultimately have "(host, port) \<in> set socks"
    using parse_sockets_mem [OF f(2)] assms(8) by simp
  with f(3) show ?thesis by blast
qed

lemma withdraw_refines:
  assumes "ds_db s = db" "inv (ds_dbase s)" "withdraw_all key s = (Inr (), t)" "good k"
    "\<forall>(k, v) \<in> set (entries (ds_registrations s) key). good k" "\<forall>(k, c) \<in> set (entries (ds_enrollments s) key). good k"
  shows "vals (ds_dbase t) k = vals (ds_dbase s) k - {v. (k, v) \<in> set (entries (ds_registrations s) key)}"
proof -
  let ?rs = "entries (ds_registrations s) key" and ?es = "entries (ds_enrollments s) key"
  obtain u where u: "forA ?rs (\<lambda>(k, v). bnd (dbase_op (\<lambda>db. db_remove db k v)) (\<lambda>_. ret ())) s = (Inr (), u)"
    and t: "forA (entries (ds_enrollments u) key) (\<lambda>(k, c). dbase_op (\<lambda>db. db_detach db k c)) u = (Inr (), t)"
    using assms(3) by (auto simp: withdraw_all_def seqA.simps bnd_def rd_def ret_def split: prod.splits sum.splits)
  have r: "run_steps (db_do db) (ds_dbase s) (map (\<lambda>(k, v). OpRemove k v) ?rs) = Some (ds_dbase u)"
    and us: "u = s\<lparr>ds_dbase := ds_dbase u\<rparr>"
    using removals_run [OF u] assms(1) by auto
  have e: "run_steps (db_do db) (ds_dbase u) (map (\<lambda>(k, c). OpDetach k c) ?es) = Some (ds_dbase t)"
  proof -
    have "ds_db u = db" "entries (ds_enrollments u) key = ?es"
      by (subst us, simp add: assms(1))+
    then show ?thesis using detachments_run [OF t] by simp
  qed
  have gr: "list_all good_op (map (\<lambda>(k, v). OpRemove k v) ?rs)" "list_all good_op (map (\<lambda>(k, c). OpDetach k c) ?es)"
    using assms(5,6) by (auto simp: list_all_iff)
  have "inv (ds_dbase u) \<and> vals (ds_dbase u) k = vals (ds_dbase s) k - {v. (k, v) \<in> set ?rs}"
    using run_refines [OF assms(2) gr(1) r assms(4)] by (simp add: fold_removes)
  then show ?thesis
    using run_refines [OF _ gr(2) e assms(4)] by (simp add: fold_detaches)
qed

end

text \<open>The key a lookup asks for is the key the counterpart is stored under, also in a later state.\<close>

lemma counterpart_key:
  assumes "buildInsertKeyValuePair s p host port = Inr (k, v)"
    "ds_macAddress t = ds_macAddress s" "ds_devices t = ds_devices s"
    "p_appName q = p_appName p" "p_msgType q = p_msgType p" "p_scope q = p_scope p"
    "kindMap (p_kind q) = Some (p_kind p)" "p_scope p = SInternal \<longrightarrow> c_actorName c = p_actorName p"
  shows "\<exists>cl. buildLookupKey t q c = Inr (k, cl)"
proof -
  have "scope_key s (p_appName p) (p_actorName p) (p_scope p) (base_key (p_appName p) (p_msgType p) (p_kind p)) = Inr k"
    using assms(1) by (auto simp: buildInsertKeyValuePair_def split: sum.splits)
  moreover have "scope_key t app actor sc = scope_key s app actor sc" for app actor sc
    by (rule ext) (simp add: scope_key_def isDeviceName_def assms(2,3) split: scope.split sum.split)
  ultimately have "scope_key t (p_appName q) (c_actorName c) (p_scope q)
      (base_key (p_appName q) (p_msgType q) (p_kind p)) = Inr k"
    using assms(4-8) by (cases "p_scope p") (auto simp: scope_key_def)
  then show ?thesis using assms(7) by (simp add: buildLookupKey_def)
qed

text \<open>
  C3: a registered service is found. With redis as the database, once an actor has registered
  a service and the service answered, a lookup of the counterpart kind for the same application,
  message type and scope (and actor, within an actor) is answered with a list of sockets that
  holds the address registered.
\<close>

theorem registered_service_is_found:
  assumes "ds_db s = RedisDbase" "redis_laws (rb_r (ds_dbase s))"
    "serve (ServiceReg p host port) s = (Inr (), t)" "serve (ServiceLookup q c) t = (Inr (), u)"
    "p_appName q = p_appName p" "p_msgType q = p_msgType p" "p_scope q = p_scope p"
    "kindMap (p_kind q) = Some (p_kind p)" "p_scope p = SInternal \<longrightarrow> c_actorName c = p_actorName p"
    "plain_key (fst (projr (buildInsertKeyValuePair s p host port)))" "CHR '':'' \<notin> set host"
  shows "\<exists>socks. ds_replies u = ds_replies t @ [RepServiceLookup socks] \<and> (host, port) \<in> set socks"
proof -
  obtain k v where k: "buildInsertKeyValuePair s p host port = Inr (k, v)"
    and t: "ds_macAddress t = ds_macAddress s" "ds_devices t = ds_devices s"
    using service_reg_effect [OF assms(3)] by blast
  have "\<exists>cl. buildLookupKey t q c = Inr (k, cl)"
    by (rule counterpart_key [OF k t assms(5-9)])
  then show ?thesis
    using redis.service_found [OF assms(1) _ assms(3,4) k _ _ assms(11) refl refl] assms(2,10) k
    by (simp add: redis_ok_def)
qed

definition toy_running :: "toy_redis rdb disco" where
  "toy_running = exec (serve (ActorReg ''app'' ''1'' ''src'' False)) (toy_disco (\<lambda>_. []))"

lemma plain_key_iff_rev: "plain_key k \<longleftrightarrow> \<not> prefix (rev ''_clients'') (rev k)"
  unfolding plain_key_def suffix_to_prefix ..

theorem registered_service_is_found_witness:
  "\<exists>u socks. serve (ServiceLookup sub_path sub_client) (exec (serve (ServiceReg pub_path ''10.0.0.1'' 7)) toy_running)
     = (Inr (), u) \<and> RepServiceLookup socks \<in> set (ds_replies u) \<and> (''10.0.0.1'', 7) \<in> set socks"
proof -
  let ?t = "exec (serve (ServiceReg pub_path ''10.0.0.1'' 7)) toy_running"
  note e = disco_exec redis_exec exec_def toy_running_def toy_disco_def pub_path_def sub_path_def sub_client_def
  have st: "int_str 7 = ''7''" by (simp add: int_str_def nat_str.simps char_of_eq_iff take_bit_eq_mod)
  have pi: "parse_int ''7'' = Inr 7" using parse_int_str [of 7] by (simp add: st)
  have r: "serve (ServiceReg pub_path ''10.0.0.1'' 7) toy_running = (Inr (), ?t)" by (simp add: e)
  obtain u where l: "serve (ServiceLookup sub_path sub_client) ?t = (Inr (), u)"
    by (simp add: e st pi parse_socket_def parse_value_def)
  have d: "ds_db toy_running = RedisDbase" "redis_laws (rb_r (ds_dbase toy_running))"
    using toy_laws by (simp_all add: e)
  have k: "plain_key (fst (projr (buildInsertKeyValuePair toy_running pub_path ''10.0.0.1'' 7)))"
    by (simp add: e plain_key_iff_rev)
  obtain socks where "ds_replies u = ds_replies ?t @ [RepServiceLookup socks]" "(''10.0.0.1'', 7) \<in> set socks"
    using registered_service_is_found [OF d r l _ _ _ _ _ k]
    by (auto simp: pub_path_def sub_path_def sub_client_def)
  with l show ?thesis by auto
qed

lemma unsetup_effect:
  assumes "unsetupClient app actor s = (Inr port, t)" "has_key (ds_clients s) (clientKeyBase app actor)"
  shows "\<exists>u v. ds_db u = ds_db s \<and> ds_dbase u = ds_dbase s \<and> ds_registrations u = ds_registrations s \<and>
    ds_enrollments u = ds_enrollments s \<and> withdraw_all (appActorName app actor) u = (Inr (), v) \<and> ds_dbase t = ds_dbase v \<and>
    map_of (ds_registrations t) (appActorName app actor) = None \<and> map_of (ds_enrollments t) (appActorName app actor) = None"
proof -
  let ?base = "clientKeyBase app actor" and ?key = "appActorName app actor"
  obtain sock where sock: "map_of (ds_clients s) ?base = Some sock" using assms(2) by auto
  let ?same = "\<lambda>u. ds_db u = ds_db s \<and> ds_dbase u = ds_dbase s \<and> ds_registrations u = ds_registrations s \<and>
    ds_enrollments u = ds_enrollments s"
  let ?fin = "\<lambda>v t. ds_dbase t = ds_dbase v \<and> map_of (ds_registrations t) ?key = None \<and> map_of (ds_enrollments t) ?key = None"
  have del: "wp (del_actor ?key) (\<lambda>_ t. ?fin v t) (\<lambda>_ _. True) v" for v :: "'a disco"
    by (simp add: del_actor_def wp_simps)
  have rest: "wp (bnd (withdraw_all ?key) (\<lambda>_. bnd (del_actor ?key) (\<lambda>_. ret ())))
      (\<lambda>_ t. \<exists>u v. ?same u \<and> withdraw_all ?key u = (Inr (), v) \<and> ?fin v t) (\<lambda>_ _. True) u" if "?same u" for u
  proof (cases "withdraw_all ?key u")
    case (Pair r v)
    have "wp (bnd (del_actor ?key) (\<lambda>_. ret ())) (\<lambda>_ t. \<exists>u v. ?same u \<and> withdraw_all ?key u = (Inr (), v) \<and> ?fin v t)
        (\<lambda>_ _. True) v" if "r = Inr ()"
      unfolding wp_bnd wp_ret by (rule wp_mono [OF del]) (use \<open>?same u\<close> Pair that in blast)+
    with Pair show ?thesis by (cases r) (simp_all add: wp_def bnd_def)
  qed
  have close: "wp (close_socket sock) (\<lambda>_. ?same) (\<lambda>_ _. True) u" if "?same u" for u
    using that by (cases sock) (simp_all add: close_socket_def wp_simps)
  have delc: "wp (del_client k) (\<lambda>_. ?same) (\<lambda>_ _. True) u" if "?same u" for u k
    using that by (simp add: del_client_def wp_simps)
  let ?goal = "\<lambda>t. \<exists>u v. ?same u \<and> withdraw_all ?key u = (Inr (), v) \<and> ?fin v t"
  have seq: "wp (seqA [assertA b, close_socket sock, del_client k1, del_client k2, del_client k3,
      upd (\<lambda>s. s\<lparr>ds_devices := ds_devices s - {?base}\<rparr>), withdraw_all ?key, del_actor ?key]) (\<lambda>_. ?goal) (\<lambda>_ _. True) u"
    if "?same u" for u b k1 k2 k3
  proof (rule wp_seqA_ConsI [where J = ?same])
    show "wp (assertA b) (\<lambda>_. ?same) (\<lambda>_ _. True) u" using that by (simp add: wp_assertA)
    fix u1 :: "'a disco" assume u1: "?same u1"
    show "wp (seqA [close_socket sock, del_client k1, del_client k2, del_client k3,
        upd (\<lambda>s. s\<lparr>ds_devices := ds_devices s - {?base}\<rparr>), withdraw_all ?key, del_actor ?key]) (\<lambda>_. ?goal) (\<lambda>_ _. True) u1"
      by (rule wp_seqA_ConsI [OF close [OF u1]], rule wp_seqA_ConsI [OF delc], assumption,
          rule wp_seqA_ConsI [OF delc], assumption, rule wp_seqA_ConsI [OF delc], assumption,
          rule wp_seqA_ConsI [where J = ?same], simp add: wp_upd, unfold seqA.simps, rule rest)
  qed
  have "wp (unsetupClient app actor) (\<lambda>_. ?goal) (\<lambda>_ _. True) s"
    unfolding unsetupClient_def Let_def wp_rd sock option.case
  proof (rule wp_chain [where Q = "\<lambda>_. ?same" and E = "\<lambda>_ _. True"])
    show "wp (assertA (has_key (ds_clients s) (?base @ ds_macAddress s))) (\<lambda>_. ?same) (\<lambda>_ _. True) s"
      by (simp add: wp_simps)
  next
    fix t :: "'a disco" assume t: "?same t"
    show "wp (bnd (dict_get ds_clients (?base @ ds_macAddress s)) (\<lambda>pv. bnd (seqA [
        assertA (has_key (ds_clients s) (?base @ ds_hostAddress s)), close_socket sock, del_client ?base,
        del_client (?base @ ds_macAddress s), del_client (?base @ ds_hostAddress s),
        upd (\<lambda>s. s\<lparr>ds_devices := ds_devices s - {?base}\<rparr>), withdraw_all ?key, del_actor ?key])
        (\<lambda>_. lift (port_value pv)))) (\<lambda>_. ?goal) (\<lambda>_ _. True) t"
    proof (rule wp_chain [where Q = "\<lambda>_. ?same" and E = "\<lambda>_ _. True"])
      show "wp (dict_get ds_clients (?base @ ds_macAddress s)) (\<lambda>_. ?same) (\<lambda>_ _. True) t"
        using t by (simp add: dict_get_def wp_rd wp_raise wp_ret split: option.split)
    next
      fix pv and v :: "'a disco" assume "?same v"
      show "wp (bnd (seqA [
          assertA (has_key (ds_clients s) (?base @ ds_hostAddress s)), close_socket sock, del_client ?base,
          del_client (?base @ ds_macAddress s), del_client (?base @ ds_hostAddress s),
          upd (\<lambda>s. s\<lparr>ds_devices := ds_devices s - {?base}\<rparr>), withdraw_all ?key, del_actor ?key])
          (\<lambda>_. lift (port_value pv))) (\<lambda>_. ?goal) (\<lambda>_ _. True) v"
        by (rule wp_chain [OF seq [OF \<open>?same v\<close>]]) (simp_all add: wp_lift split: sum.split)
    qed simp
  qed simp
  from wp_returns [OF this assms(1)] show ?thesis by blast
qed

text \<open>
  C26: removing a client withdraws exactly what it registered. With redis as the database, when
  the removal of a known client succeeds, every value it had registered is gone from its key,
  every other value of the key stays, and the client's tables are empty.
\<close>

theorem unsetup_withdraws:
  assumes "ds_db s = RedisDbase" "redis_laws (rb_r (ds_dbase s))"
    "unsetupClient app actor s = (Inr port, t)" "has_key (ds_clients s) (clientKeyBase app actor)"
    "\<forall>(k, v) \<in> set (entries (ds_registrations s) (appActorName app actor)). plain_key k"
    "\<forall>(k, c) \<in> set (entries (ds_enrollments s) (appActorName app actor)). plain_key k" "plain_key k"
  shows "redis_view (ds_dbase t) k = redis_view (ds_dbase s) k -
      {v. (k, v) \<in> set (entries (ds_registrations s) (appActorName app actor))} \<and>
    entries (ds_registrations t) (appActorName app actor) = [] \<and> entries (ds_enrollments t) (appActorName app actor) = []"
proof -
  obtain u v where u: "ds_db u = ds_db s" "ds_dbase u = ds_dbase s" "ds_registrations u = ds_registrations s"
    "ds_enrollments u = ds_enrollments s" "withdraw_all (appActorName app actor) u = (Inr (), v)" "ds_dbase t = ds_dbase v"
    "map_of (ds_registrations t) (appActorName app actor) = None" "map_of (ds_enrollments t) (appActorName app actor) = None"
    using unsetup_effect [OF assms(3,4)] by blast
  have "redis_view (ds_dbase v) k = redis_view (ds_dbase u) k -
      {x. (k, x) \<in> set (entries (ds_registrations u) (appActorName app actor))}"
    by (rule redis.withdraw_refines [OF _ _ u(5) assms(7)]) (use assms(1,2,5,6) u in \<open>auto simp: redis_ok_def\<close>)
  with u show ?thesis by (simp add: entries_def)
qed

definition toy_registered :: "toy_redis rdb disco" where
  "toy_registered = exec (serve (ServiceReg pub_path ''10.0.0.1'' 7)) toy_running"

theorem unsetup_withdraws_witness:
  "\<exists>port t. unsetupClient ''app'' ''src'' toy_registered = (Inr port, t) \<and>
     redis_view (ds_dbase toy_registered) ''/app/Temp/pub:0a1b:src'' = {''10.0.0.1:7''} \<and>
     redis_view (ds_dbase t) ''/app/Temp/pub:0a1b:src'' = {}"
proof -
  have st: "int_str 7 = ''7''" by (simp add: int_str_def nat_str.simps char_of_eq_iff take_bit_eq_mod)
  note e = disco_exec redis_exec exec_def toy_registered_def toy_running_def toy_disco_def pub_path_def
  obtain port t where t: "unsetupClient ''app'' ''src'' toy_registered = (Inr port, t)"
    by (simp add: e unsetupClient_def withdraw_all_def del_actor_def del_client_def close_socket_def port_value_def
        entries_def forA.simps assertA_def)
  have d: "ds_db toy_registered = RedisDbase" "redis_laws (rb_r (ds_dbase toy_registered))"
    using toy_laws by (simp_all add: e)
  have p: "has_key (ds_clients toy_registered) (clientKeyBase ''app'' ''src'')" by (simp add: e)
  have r: "entries (ds_registrations toy_registered) (appActorName ''app'' ''src'') =
      [(''/app/Temp/pub:0a1b:src'', ''10.0.0.1:7'')]" "entries (ds_enrollments toy_registered) (appActorName ''app'' ''src'') = []"
    by (simp_all add: e entries_def st)
  have k: "plain_key ''/app/Temp/pub:0a1b:src''" by (simp add: plain_key_iff_rev)
  have v: "redis_view (ds_dbase toy_registered) ''/app/Temp/pub:0a1b:src'' = {''10.0.0.1:7''}"
    by (simp add: e redis_view_def st)
  from unsetup_withdraws [OF d t p _ _ k] r k v t show ?thesis by auto
qed

text \<open>
  A registration by an actor the service does not know ends the service. The value is put
  into the database first; then the missing entry raises, nothing is answered, and no clause
  of the main loop catches it. The value stays, and no client's removal will ever withdraw it.
\<close>

theorem stray_registration_kills:
  assumes "ds_db s = RedisDbase" "redis_laws (rb_r (ds_dbase s))" "\<not> ds_received s"
    "buildInsertKeyValuePair s p host port = Inr (k, v)"
    "map_of (ds_registrations s) (appActorName (p_appName p) (p_actorName p)) = None"
    "redis_insert k v (ds_dbase s) = (Inr cs, d)"
  shows "\<exists>t. disco_turn s (Request (ServiceReg p host port)) = Some (Inl KeyError, t) \<and>
    ds_replies t = ds_replies s \<and> v \<in> redis_view (ds_dbase t) k"
proof -
  let ?s = "s\<lparr>ds_clientUpdates := [], ds_received := True\<rparr>"
  have "redis_ok (ds_dbase s)" using assms(2) by (simp add: redis_ok_def)
  then have v: "v \<in> redis_view d k"
    using wp_returns [OF redis_insert_wp assms(6)] by simp
  have "isDeviceName ?s = isDeviceName s" by (simp add: fun_eq_iff isDeviceName_def)
  then have "buildInsertKeyValuePair ?s p host port = Inr (k, v)"
    using assms(4) by (simp add: buildInsertKeyValuePair_def scope_key_def split: scope.splits sum.splits)
  then have "handleServiceReg p host port ?s = (Inl KeyError, ?s\<lparr>ds_dbase := d\<rparr>)"
    using assms(1,5,6) by (simp add: handleServiceReg_def rd_def bnd_def lift_def dbase_op_def RedisDbase_def
        seqA.simps upd_registrations_def dict_get_def raise_def)
  then have "disco_turn s (Request (ServiceReg p host port)) = Some (Inl KeyError, ?s\<lparr>ds_dbase := d\<rparr>)"
    using assms(3) by (simp add: disco_turn_def Let_def serve_def seqA.simps server_recv_def disco_handle_def rd_def
        bnd_def upd_def)
  with v show ?thesis by auto
qed

theorem stray_registration_kills_witness:
  "\<exists>t. disco_turn (toy_disco (\<lambda>_. [])) (Request (ServiceReg pub_path ''10.0.0.1'' 7)) = Some (Inl KeyError, t) \<and>
     ds_replies t = [] \<and> ''10.0.0.1:7'' \<in> redis_view (ds_dbase t) ''/app/Temp/pub:0a1b:src''"
proof -
  let ?s = "toy_disco (\<lambda>_. [])"
  have st: "int_str 7 = ''7''" by (simp add: int_str_def nat_str.simps char_of_eq_iff take_bit_eq_mod)
  have b: "buildInsertKeyValuePair ?s pub_path ''10.0.0.1'' 7 = Inr (''/app/Temp/pub:0a1b:src'', ''10.0.0.1:7'')"
    by (simp add: disco_exec toy_disco_def pub_path_def st)
  have d: "ds_db ?s = RedisDbase" "redis_laws (rb_r (ds_dbase ?s))" "\<not> ds_received ?s" "ds_replies ?s = []"
    "map_of (ds_registrations ?s) (appActorName (p_appName pub_path) (p_actorName pub_path)) = None"
    using toy_laws by (simp_all add: toy_disco_def toy_db_def)
  obtain cs u where i: "redis_insert ''/app/Temp/pub:0a1b:src'' ''10.0.0.1:7'' (ds_dbase ?s) = (Inr cs, u)"
    by (simp add: redis_exec toy_disco_def)
  from stray_registration_kills [OF d(1,2,3) b d(5) i] d(4) show ?thesis by simp
qed

end
