(* ===== verification/DiscoClient.thy ===== *)
theory DiscoClient
  imports DiscoService
begin

text \<open>
  The actor's side of discovery (\<open>riaps/run/disco.py\<close>, class \<open>DiscoClient\<close>): requests over a REQ
  socket to the service, and what the actor makes of the answers. The socket and the private
  channel are a parameter, the record \<open>link\<close> of their operations, so that the client runs
  over the model of the service as well as over one that fails.
\<close>

section \<open>The object\<close>

datatype status = Ok | Err

record 'x link =
  lk_send :: "disco_req \<Rightarrow> ('x, unit) act"
  lk_recv :: "('x, status \<times> disco_rep) act"
  lk_open :: "('x, unit) act"
  lk_reopen :: "('x, unit) act"
  lk_close :: "('x, unit) act"
  lk_connect :: "int \<Rightarrow> ('x, unit) act"
  lk_disconnect :: "int \<Rightarrow> ('x, unit) act"

text \<open>\<open>dc_socket\<close>: whether \<open>self.socket\<close> is open; it is \<open>None\<close> after it was shut.\<close>

record 'x dclient =
  dc_link :: "'x link"
  dc_world :: 'x
  dc_socket :: bool
  dc_pendingRpc :: bool
  dc_appName :: string
  dc_actorName :: string
  dc_isDevice :: bool
  dc_globalHost :: string
  dc_localHost :: string
  dc_globalIface :: string

type_synonym ('x, 'a) cact = "('x dclient, 'a) act"

text \<open>What a port tells about itself (\<open>riaps/run/port.py\<close>).\<close>

datatype pscope = PGlobal | PLocal | PInternal

record portInfo =
  pi_kind :: kind
  pi_scope :: pscope
  pi_name :: string
  pi_msgType :: string
  pi_host :: string
  pi_num :: int

fun PortScope_scope :: "pscope \<Rightarrow> scope" where
  "PortScope_scope PGlobal = SGlobal"
| "PortScope_scope PLocal = SLocal"
| "PortScope_scope PInternal = SInternal"

section \<open>Remote calls\<close>

definition link_op :: "('x link \<Rightarrow> ('x, 'a) act) \<Rightarrow> ('x, 'a) cact" where
  "link_op f = (\<lambda>s. case f (dc_link s) (dc_world s) of (r, w) \<Rightarrow> (r, s\<lparr>dc_world := w\<rparr>))"

text \<open>A call on \<open>self.socket\<close>, which may be \<open>None\<close>.\<close>

definition on_socket :: "('x link \<Rightarrow> ('x, 'a) act) \<Rightarrow> ('x, 'a) cact" where
  "on_socket f = rd dc_socket (\<lambda>up. if up then link_op f else raise AttributeError)"

definition shut_socket :: "bool \<Rightarrow> ('x, unit) cact" where
  "shut_socket shut = whenA shut (seqA [on_socket lk_close, upd (\<lambda>s. s\<lparr>dc_socket := False\<rparr>)])"

definition sendToDisco :: "disco_req \<Rightarrow> bool \<Rightarrow> ('x, bool) cact" where
  "sendToDisco m shut = tryA (bnd (on_socket (\<lambda>L. lk_send L m)) (\<lambda>_. ret True))
     (\<lambda>_. bnd (shut_socket shut) (\<lambda>_. ret False))"

definition recvFromDisco :: "bool \<Rightarrow> ('x, (status \<times> disco_rep) option) cact" where
  "recvFromDisco shut = tryA (bnd (on_socket lk_recv) (\<lambda>r. ret (Some r)))
     (\<lambda>_. bnd (shut_socket shut) (\<lambda>_. ret None))"

definition set_pending :: "bool \<Rightarrow> ('x, unit) cact" where
  "set_pending b = upd (\<lambda>s. s\<lparr>dc_pendingRpc := b\<rparr>)"

definition rpcDisco :: "disco_req \<Rightarrow> bool \<Rightarrow> ('x, status \<times> disco_rep) cact" where
  "rpcDisco m shut = bnd (sendToDisco m shut) (\<lambda>sent. if \<not> sent then raise SetupError else
     bnd (set_pending True) (\<lambda>_. bnd (recvFromDisco True) (\<lambda>r. bnd (set_pending False) (\<lambda>_.
       case r of None \<Rightarrow> raise SetupError | Some resp \<Rightarrow> ret resp))))"

section \<open>Actor registration\<close>

definition registerActor :: "('x, unit) cact" where
  "registerActor = rd (\<lambda>s. s) (\<lambda>s.
     bnd (rpcDisco (ActorReg (dc_appName s) ''0.0.0'' (dc_actorName s) (dc_isDevice s)) True) (\<lambda>r. case r of
       (Ok, RepActorReg port) \<Rightarrow> link_op (\<lambda>L. lk_connect L port)
     | _ \<Rightarrow> raise SetupError))"

text \<open>
  \<open>start\<close> makes and connects the socket; \<open>reconnect\<close> disconnects and connects it again, makes a
  new channel and registers once more.
\<close>

definition dclient_start :: "('x, unit) cact" where
  "dclient_start = bnd (link_op lk_open) (\<lambda>_. upd (\<lambda>s. s\<lparr>dc_socket := True\<rparr>))"

definition reconnect :: "('x, unit) cact" where
  "reconnect = bnd (on_socket lk_reopen) (\<lambda>_. registerActor)"

text \<open>Every error is ignored, the service may be gone.\<close>

definition dclient_terminate :: "('x, unit) cact" where
  "dclient_terminate = rd (\<lambda>s. s) (\<lambda>s. if \<not> dc_socket s then ret () else tryA (seqA [
       whenA (dc_pendingRpc s) (bnd (recvFromDisco True) (\<lambda>_. ret ())),
       bnd (rpcDisco (ActorUnreg (dc_appName s) ''0.0.0'' (dc_actorName s)) True) (\<lambda>r. case r of
         (Ok, RepActorUnreg port) \<Rightarrow> tryA (link_op (\<lambda>L. lk_disconnect L port)) (\<lambda>_. ret ())
       | _ \<Rightarrow> ret ())])
     (\<lambda>_. ret ()))"

section \<open>Endpoints\<close>

type_synonym endpoint = "(string \<times> string) \<times> portInfo"

definition endpoint_path :: "'x dclient \<Rightarrow> portInfo \<Rightarrow> path" where
  "endpoint_path s pinfo = \<lparr> p_appName = dc_appName s, p_actorName = dc_actorName s, p_msgType = pi_msgType pinfo,
     p_kind = pi_kind pinfo, p_scope = PortScope_scope (pi_scope pinfo) \<rparr>"

definition provider_host :: "'x dclient \<Rightarrow> portInfo \<Rightarrow> string" where
  "provider_host s pinfo = (if pi_scope pinfo = PGlobal then dc_globalHost s else dc_localHost s)"

definition endpoint_client :: "'x dclient \<Rightarrow> string \<Rightarrow> portInfo \<Rightarrow> client" where
  "endpoint_client s partName pinfo = \<lparr> c_actorHost = dc_globalIface s, c_actorName = dc_actorName s,
     c_instanceName = partName, c_portName = pi_name pinfo \<rparr>"

definition handleRegReq :: "endpoint \<Rightarrow> ('x, unit) cact" where
  "handleRegReq bundle = (case bundle of (_, pinfo) \<Rightarrow> rd (\<lambda>s. s) (\<lambda>s. if \<not> dc_socket s then ret () else
     bnd (rpcDisco (ServiceReg (endpoint_path s pinfo) (provider_host s pinfo) (pi_num pinfo)) True) (\<lambda>r. case r of
       (Ok, RepServiceReg) \<Rightarrow> ret ()
     | _ \<Rightarrow> raise SetupError)))"

definition handleLookupReq :: "endpoint \<Rightarrow> ('x, (string \<times> string \<times> string \<times> int) list) cact" where
  "handleLookupReq bundle = (case bundle of ((partName, _), pinfo) \<Rightarrow> rd (\<lambda>s. s) (\<lambda>s. if \<not> dc_socket s then ret [] else
     bnd (rpcDisco (ServiceLookup (endpoint_path s pinfo) (endpoint_client s partName pinfo)) True) (\<lambda>r. case r of
       (Ok, RepServiceLookup socks) \<Rightarrow> ret (map (\<lambda>(host, port). (partName, pi_name pinfo, host, port)) socks)
     | _ \<Rightarrow> raise SetupError)))"

definition handleUnregReq :: "endpoint \<Rightarrow> ('x, unit) cact" where
  "handleUnregReq bundle = (case bundle of (_, pinfo) \<Rightarrow> rd (\<lambda>s. s) (\<lambda>s. if \<not> dc_socket s then ret () else
     bnd (rpcDisco (ServiceUnreg (endpoint_path s pinfo) (provider_host s pinfo) (pi_num pinfo)) True) (\<lambda>r. case r of
       (Ok, RepServiceUnreg) \<Rightarrow> ret ()
     | _ \<Rightarrow> raise SetupError)))"

definition handleUnlookupReq :: "endpoint \<Rightarrow> ('x, (string \<times> string \<times> string \<times> int) list) cact" where
  "handleUnlookupReq bundle = (case bundle of ((partName, _), pinfo) \<Rightarrow> rd (\<lambda>s. s) (\<lambda>s. if \<not> dc_socket s then ret [] else
     bnd (rpcDisco (ServiceUnlookup (endpoint_path s pinfo) (endpoint_client s partName pinfo)) True) (\<lambda>r. case r of
       (Ok, RepServiceUnlookup) \<Rightarrow> ret []
     | _ \<Rightarrow> raise SetupError)))"

definition registerEndpoint :: "endpoint \<Rightarrow> ('x, (string \<times> string \<times> string \<times> int) list) cact" where
  "registerEndpoint bundle = (let k = pi_kind (snd bundle) in
     if k \<in> {KPub, KSrv, KRep, KAns} then bnd (handleRegReq bundle) (\<lambda>_. ret [])
     else if k \<in> {KSub, KClt, KReq, KQry} then handleLookupReq bundle
     else raise SetupError)"

record group_bundle =
  gb_groupType :: string
  gb_groupName :: string
  gb_messageType :: string
  gb_host :: string
  gb_pubPort :: int
  gb_part :: "string \<times> string"
  gb_portName :: string

definition group_msgType :: "group_bundle \<Rightarrow> string" where
  "group_msgType b = gb_messageType b @ ''@'' @ gb_groupType b @ ''.'' @ gb_groupName b"

definition gpub_bundle :: "group_bundle \<Rightarrow> endpoint" where
  "gpub_bundle b = (gb_part b, \<lparr> pi_kind = KGpub, pi_scope = PGlobal, pi_name = gb_portName b,
     pi_msgType = group_msgType b, pi_host = gb_host b, pi_num = gb_pubPort b \<rparr>)"

definition gsub_bundle :: "group_bundle \<Rightarrow> endpoint" where
  "gsub_bundle b = (gb_part b, \<lparr> pi_kind = KGsub, pi_scope = PGlobal, pi_name = gb_portName b,
     pi_msgType = group_msgType b, pi_host = [], pi_num = 0 \<rparr>)"

definition registerGroup :: "group_bundle \<Rightarrow> ('x, (string \<times> string \<times> string \<times> int) list) cact" where
  "registerGroup b = bnd (handleLookupReq (gsub_bundle b)) (\<lambda>result. bnd (handleRegReq (gpub_bundle b)) (\<lambda>_. ret result))"

definition unregisterGroup :: "group_bundle \<Rightarrow> ('x, (string \<times> string \<times> string \<times> int) list) cact" where
  "unregisterGroup b = bnd (handleUnlookupReq (gsub_bundle b)) (\<lambda>result. bnd (handleUnregReq (gpub_bundle b)) (\<lambda>_. ret result))"

section \<open>The service at the other end\<close>

text \<open>
  A link to the service of this host: a request is one turn of its main loop, the answer waits
  until it is received. When the turn ends in an exception there is no answer, and a receive
  has nothing to return.
\<close>

type_synonym 'd service_world = "'d disco \<times> disco_rep option"

definition service_send :: "disco_req \<Rightarrow> ('d service_world, unit) act" where
  "service_send m = (\<lambda>(d, p). if p \<noteq> None then (Inl (ZMQError EFSM), (d, p)) else
     (case disco_turn d (Request m) of
        Some (Inr _, e) \<Rightarrow> (Inr (), (e, Some (last (ds_replies e))))
      | Some (Inl _, e) \<Rightarrow> (Inr (), (e, None))
      | None \<Rightarrow> (Inr (), (d, None))))"

definition service_recv :: "('d service_world, status \<times> disco_rep) act" where
  "service_recv = (\<lambda>(d, p). case p of None \<Rightarrow> (Inl (ZMQError 11), (d, None)) | Some r \<Rightarrow> (Inr (Ok, r), (d, None)))"

definition service_link :: "'d service_world link" where
  "service_link = \<lparr> lk_send = service_send, lk_recv = service_recv, lk_open = ret (),
     lk_reopen = (\<lambda>(d, _). (Inr (), (d, None))), lk_close = ret (), lk_connect = (\<lambda>_. ret ()),
     lk_disconnect = (\<lambda>_. ret ()) \<rparr>"

end
