(* ===== verification/DiscoClientProps.thy ===== *)
theory DiscoClientProps
  imports DiscoClient DiscoServiceProps
begin

text \<open>
  Client and service together: an endpoint registered by one actor is what another actor's
  lookup returns.
\<close>

section \<open>A turn of the service\<close>

lemma update_client_keeps:
  assumes "\<And>s x. I s \<Longrightarrow> I (s\<lparr>ds_notes := x\<rparr>)" "I s"
  shows "wp (update_client host port cl) (\<lambda>_. I) (\<lambda>_ _. True) s"
  unfolding update_client_def send_note_def
  using assms by (auto simp: wp_simps wp_upd_fun split: option.split sum.split client_val.split)

lemma notify_all_keeps:
  assumes "\<And>s x. I s \<Longrightarrow> I (s\<lparr>ds_notes := x\<rparr>)" "I s"
  shows "wp notify_all (\<lambda>_. I) (\<lambda>_ _. True) s"
proof -
  have f: "wp (forA cls (update_client host port)) (\<lambda>_. I) (\<lambda>_ _. True) t" if "I t" for cls host port t
    using that by (intro wp_forA_inv update_client_keeps assms(1))
  have u: "wp (handleUpdate n) (\<lambda>_. I) (\<lambda>_ _. True) t" if "I t" for n t
    using f [OF that] by (auto simp: handleUpdate_def wp_bnd wp_lift split: prod.split sum.split)
  show ?thesis
    unfolding notify_all_def wp_rd using assms(2) by (intro wp_forA_inv u)
qed

lemma request_turn:
  assumes "disco_turn s (Request m) = Some (Inr (), t)"
  shows "\<exists>u. serve m (s\<lparr>ds_clientUpdates := []\<rparr>) = (Inr (), u) \<and> ds_db t = ds_db u \<and> ds_dbase t = ds_dbase u \<and>
    ds_macAddress t = ds_macAddress u \<and> ds_devices t = ds_devices u \<and> ds_replies t = ds_replies u"
proof -
  obtain u where u: "serve m (s\<lparr>ds_clientUpdates := []\<rparr>) = (Inr (), u)" "notify_all u = (Inr (), t)"
    using assms by (auto simp: disco_turn_def Let_def split: prod.splits sum.splits)
  let ?I = "\<lambda>t. ds_db t = ds_db u \<and> ds_dbase t = ds_dbase u \<and> ds_macAddress t = ds_macAddress u \<and>
    ds_devices t = ds_devices u \<and> ds_replies t = ds_replies u"
  have "wp notify_all (\<lambda>_. ?I) (\<lambda>_ _. True) u" by (rule notify_all_keeps) auto
  from wp_returns [OF this u(2)] u(1) show ?thesis by auto
qed

section \<open>Calls\<close>

lemma rpc_service:
  assumes "dc_link s = service_link" "dc_socket s" "dc_world s = (d, None)" "rpcDisco m True s = (Inr (st, r), t)"
  shows "\<exists>e. disco_turn d (Request m) = Some (Inr (), e) \<and> r = last (ds_replies e) \<and> st = Ok \<and>
    t = s\<lparr>dc_world := (e, None), dc_pendingRpc := False\<rparr>"
proof -
  note x = rpcDisco_def sendToDisco_def recvFromDisco_def on_socket_def link_op_def set_pending_def shut_socket_def
    service_link_def service_send_def service_recv_def tryA_def bnd_def rd_def ret_def upd_def raise_def whenA_def seqA.simps
  show ?thesis
  proof (cases "disco_turn d (Request m)")
    case None
    with assms show ?thesis by (simp add: x)
  next
    case (Some a)
    obtain q e where a: "a = (q, e)" by (cases a)
    show ?thesis
      using assms Some a by (cases q) (auto simp: x)
  qed
qed

lemma registerEndpoint_provider:
  assumes "dc_link s = service_link" "dc_socket s" "dc_world s = (d, None)" "pi_kind pinfo \<in> {KPub, KSrv, KRep, KAns}"
    "registerEndpoint (part, pinfo) s = (Inr res, t)"
  shows "\<exists>e. disco_turn d (Request (ServiceReg (endpoint_path s pinfo) (provider_host s pinfo) (pi_num pinfo))) = Some (Inr (), e) \<and>
    dc_world t = (e, None)"
proof -
  let ?m = "ServiceReg (endpoint_path s pinfo) (provider_host s pinfo) (pi_num pinfo)"
  have h: "handleRegReq (part, pinfo) s = (Inr (), t)"
    using assms(4,5) by (auto simp: registerEndpoint_def Let_def bnd_def ret_def split: prod.splits sum.splits)
  obtain st r where rpc: "rpcDisco ?m True s = (Inr (st, r), t)"
    using h assms(2) by (auto simp: handleRegReq_def rd_def bnd_def raise_def ret_def
        split: prod.splits sum.splits status.splits disco_rep.splits)
  from rpc_service [OF assms(1-3) rpc] show ?thesis by auto
qed

lemma registerEndpoint_client:
  assumes "dc_link s = service_link" "dc_socket s" "dc_world s = (d, None)" "pi_kind pinfo \<in> {KSub, KClt, KReq, KQry}"
    "registerEndpoint ((partName, partType), pinfo) s = (Inr res, t)"
  shows "\<exists>e socks. disco_turn d (Request (ServiceLookup (endpoint_path s pinfo) (endpoint_client s partName pinfo))) = Some (Inr (), e) \<and>
    last (ds_replies e) = RepServiceLookup socks \<and> res = map (\<lambda>(host, port). (partName, pi_name pinfo, host, port)) socks"
proof -
  let ?m = "ServiceLookup (endpoint_path s pinfo) (endpoint_client s partName pinfo)"
  have h: "handleLookupReq ((partName, partType), pinfo) s = (Inr res, t)"
    using assms(4,5) by (auto simp: registerEndpoint_def Let_def)
  obtain socks where rpc: "rpcDisco ?m True s = (Inr (Ok, RepServiceLookup socks), t)"
    and res: "res = map (\<lambda>(host, port). (partName, pi_name pinfo, host, port)) socks"
    using h assms(2) by (auto simp: handleLookupReq_def rd_def bnd_def raise_def ret_def
        split: prod.splits sum.splits status.splits disco_rep.splits)
  obtain e where "disco_turn d (Request ?m) = Some (Inr (), e)" "last (ds_replies e) = RepServiceLookup socks"
    using rpc_service [OF assms(1-3) rpc] by auto
  with res show ?thesis by blast
qed

text \<open>
  C1: an endpoint that one actor registers is what another actor's endpoint is told to connect
  to. Through both clients, the service and redis: when the two registrations succeed one after
  the other, the second one's result holds the address of the first, if message type and scope
  agree and the kinds are counterparts.
\<close>

theorem endpoints_meet:
  assumes "dc_link a = service_link" "dc_socket a" "dc_world a = (d, None)"
    and "dc_link b = service_link" "dc_socket b" "dc_world b = dc_world a'"
    and "ds_db d = RedisDbase" "redis_laws (rb_r (ds_dbase d))"
    and "registerEndpoint (part, pp) a = (Inr [], a')" "registerEndpoint ((partName, partType), pc) b = (Inr res, b')"
    and "pi_kind pp \<in> {KPub, KSrv, KRep, KAns}" "pi_kind pc \<in> {KSub, KClt, KReq, KQry}"
    and "kindMap (pi_kind pc) = Some (pi_kind pp)" "dc_appName b = dc_appName a"
    and "pi_msgType pc = pi_msgType pp" "pi_scope pc = pi_scope pp" "pi_scope pp = PInternal \<longrightarrow> dc_actorName b = dc_actorName a"
    and "CHR '':'' \<notin> set (provider_host a pp)"
    and "plain_key (fst (projr (buildInsertKeyValuePair d (endpoint_path a pp) (provider_host a pp) (pi_num pp))))"
  shows "(partName, pi_name pc, provider_host a pp, pi_num pp) \<in> set res"
proof -
  let ?p = "endpoint_path a pp" and ?q = "endpoint_path b pc" and ?c = "endpoint_client b partName pc"
  obtain e where e: "disco_turn d (Request (ServiceReg ?p (provider_host a pp) (pi_num pp))) = Some (Inr (), e)"
    "dc_world a' = (e, None)"
    using registerEndpoint_provider [OF assms(1-3,11,9)] by blast
  obtain f socks where f: "disco_turn e (Request (ServiceLookup ?q ?c)) = Some (Inr (), f)"
    "last (ds_replies f) = RepServiceLookup socks" "res = map (\<lambda>(host, port). (partName, pi_name pc, host, port)) socks"
    using registerEndpoint_client [OF assms(4,5) _ assms(12,10)] assms(6) e(2) by auto
  let ?d = "d\<lparr>ds_clientUpdates := []\<rparr>" and ?e = "e\<lparr>ds_clientUpdates := []\<rparr>"
  obtain u where u: "serve (ServiceReg ?p (provider_host a pp) (pi_num pp)) ?d = (Inr (), u)"
    "ds_db e = ds_db u" "ds_dbase e = ds_dbase u" "ds_macAddress e = ds_macAddress u" "ds_devices e = ds_devices u"
    using request_turn [OF e(1)] by blast
  obtain w where w: "serve (ServiceLookup ?q ?c) ?e = (Inr (), w)" "ds_replies f = ds_replies w"
    using request_turn [OF f(1)] by blast
  obtain k v where k: "buildInsertKeyValuePair ?d ?p (provider_host a pp) (pi_num pp) = Inr (k, v)"
    "ds_macAddress u = ds_macAddress ?d" "ds_devices u = ds_devices ?d"
    using service_reg_effect [OF u(1)] by blast
  have "isDeviceName ?d = isDeviceName d" by (simp add: fun_eq_iff isDeviceName_def)
  then have kd: "buildInsertKeyValuePair ?d ?p (provider_host a pp) (pi_num pp) =
      buildInsertKeyValuePair d ?p (provider_host a pp) (pi_num pp)"
    by (simp add: buildInsertKeyValuePair_def scope_key_def split: scope.split sum.split)
  have cl: "\<exists>cl. buildLookupKey ?e ?q ?c = Inr (k, cl)"
    by (rule counterpart_key [OF k(1)]) (use k(2,3) u assms(13-17) in \<open>auto simp: endpoint_path_def endpoint_client_def
      split: pscope.splits elim!: PortScope_scope.elims\<close>)
  have "\<exists>socks. ds_replies w = ds_replies ?e @ [RepServiceLookup socks] \<and> (provider_host a pp, pi_num pp) \<in> set socks"
    by (rule redis.service_found [OF _ _ u(1) w(1) k(1) _ cl assms(18)])
      (use assms(7,8,19) k(1) kd u in \<open>auto simp: redis_ok_def\<close>)
  then have "(provider_host a pp, pi_num pp) \<in> set socks" using f(2) w(2) by auto
  then show ?thesis using f(3) by force
qed

definition toy_client :: "bool \<Rightarrow> string \<Rightarrow> toy_redis rdb disco \<Rightarrow> toy_redis rdb service_world dclient" where
  "toy_client dev actor d = \<lparr> dc_link = service_link, dc_world = (d, None), dc_socket = True, dc_pendingRpc = False,
     dc_appName = ''app'', dc_actorName = actor, dc_isDevice = dev, dc_globalHost = ''10.0.0.1'', dc_localHost = ''127.0.0.1'',
     dc_globalIface = ''10.0.0.1'' \<rparr>"

definition toy_port :: "kind \<Rightarrow> portInfo" where
  "toy_port k = \<lparr> pi_kind = k, pi_scope = PLocal, pi_name = ''p'', pi_msgType = ''Temp'', pi_host = [], pi_num = 7 \<rparr>"

theorem endpoints_meet_witness:
  "\<exists>res b'. registerEndpoint ((''filter'', ''Filter''), toy_port KSub)
       (exec (registerEndpoint ((''sensor'', ''Sensor''), toy_port KPub)) (toy_client False ''src'' toy_running)) = (Inr res, b') \<and>
     (''filter'', ''p'', ''127.0.0.1'', 7) \<in> set res"
proof -
  let ?a = "toy_client False ''src'' toy_running"
  let ?b = "exec (registerEndpoint ((''sensor'', ''Sensor''), toy_port KPub)) ?a"
  have st: "int_str 7 = ''7''" by (simp add: int_str_def nat_str.simps char_of_eq_iff take_bit_eq_mod)
  have pi: "parse_int ''7'' = Inr 7" using parse_int_str [of 7] by (simp add: st)
  note e = disco_exec redis_exec exec_def toy_running_def toy_disco_def toy_client_def toy_port_def registerEndpoint_def
    handleRegReq_def handleLookupReq_def rpcDisco_def sendToDisco_def recvFromDisco_def on_socket_def link_op_def
    set_pending_def service_link_def service_send_def service_recv_def disco_turn_def notify_all_def forA.simps
    endpoint_path_def endpoint_client_def provider_host_def st
  have a: "registerEndpoint ((''sensor'', ''Sensor''), toy_port KPub) ?a = (Inr [], ?b)" by (simp add: e)
  obtain res b' where b: "registerEndpoint ((''filter'', ''Filter''), toy_port KSub) ?b = (Inr res, b')"
    by (simp add: e pi parse_socket_def parse_value_def)
  have d: "ds_db toy_running = RedisDbase" "redis_laws (rb_r (ds_dbase toy_running))"
    using toy_laws by (simp_all add: e)
  have l: "dc_link ?a = service_link" "dc_socket ?a" "dc_world ?a = (toy_running, None)"
    by (simp_all add: toy_client_def)
  have lb: "dc_link ?b = service_link" "dc_socket ?b" "dc_appName ?b = dc_appName ?a" "provider_host ?a (toy_port KPub) = ''127.0.0.1''"
    by (simp_all add: e)
  have k: "plain_key (fst (projr (buildInsertKeyValuePair toy_running (endpoint_path ?a (toy_port KPub))
      (provider_host ?a (toy_port KPub)) (pi_num (toy_port KPub)))))"
    by (simp add: e plain_key_iff_rev)
  from endpoints_meet [OF l lb(1,2) refl d a b _ _ _ lb(3) _ _ _ _ k] lb(4) b show ?thesis
    by (simp add: toy_port_def)
qed

end
