(* ===== verification/ActorParams.thy ===== *)
theory ActorParams
  imports DiscoText Depm "HOL-Library.Sublist"
begin

text \<open>
  The parameters of an actor (\<open>riaps/run/actor.py\<close>, \<open>run/device.py\<close>): the command line is parsed against
  the formal parameters of the model, and the arguments of each component instance are built from them.

  \<^item> A value of the model is a \<open>pyval\<close>, \<open>None\<close> is Python's \<open>None\<close>; lists and objects are \<open>VOther\<close>.
  \<^item> \<open>float(text)\<close> is a parameter, as reals have no infinities and no \<open>nan\<close>; it is \<open>None\<close> where Python
    raises. \<open>str\<close> of a float and of a list is a parameter too.
  \<^item> \<open>getopt.getopt(argv, '', longopts)\<close> of the standard library is modelled with its abbreviations; it
    is \<open>None\<close> where Python raises. The names are without the leading dashes, which \<open>parseParams\<close> drops. That \<open>run/main.py\<close> first takes its own option \<open>--trace\<close>
    out of the command line is not modelled.
\<close>

section \<open>Values\<close>

datatype pyval = VStr string | VInt int | VFloat pyfloat | VBool bool | VOther

datatype pytype = TStr | TInt | TFloat | TBool | TOther

fun type_of :: "pyval \<Rightarrow> pytype" where
  "type_of (VStr _) = TStr"
| "type_of (VInt _) = TInt"
| "type_of (VFloat _) = TFloat"
| "type_of (VBool _) = TBool"
| "type_of VOther = TOther"

type_synonym params = "(string, pyval option) dict"

record formal =
  fo_name :: string
  fo_default :: "pyval option"

record actual =
  aa_name :: string
  aa_param :: "string option"
  aa_value :: "pyval option option"

section \<open>The command line\<close>

text \<open>\<open>long_has_args\<close>: an option may be abbreviated when the abbreviation is unique.\<close>

definition long_has_args :: "string list \<Rightarrow> string \<Rightarrow> (bool \<times> string) option" where
  "long_has_args longs opt = (let possibilities = filter (prefix opt) longs in
     if possibilities = [] then None
     else if opt \<in> set possibilities then Some (False, opt)
     else if opt @ ''='' \<in> set possibilities then Some (True, opt)
     else if length possibilities > 1 then None
     else (let u = hd possibilities in if u \<noteq> [] \<and> last u = CHR ''='' then Some (True, butlast u) else Some (False, u)))"

definition cut_value :: "string \<Rightarrow> string \<times> string option" where
  "cut_value a = (if CHR ''='' \<in> set a then (takeWhile (\<lambda>c. c \<noteq> CHR ''='') a, Some (tl (dropWhile (\<lambda>c. c \<noteq> CHR ''='') a)))
     else (a, None))"

text \<open>There are no short options, so an argument with one dash raises.\<close>

fun getopt :: "string list \<Rightarrow> string list \<Rightarrow> (string \<times> string) list option" where
  "getopt longs [] = Some []"
| "getopt longs (a # args) =
    (if \<not> prefix ''-'' a \<or> a = ''-'' \<or> a = ''--'' then Some []
     else if \<not> prefix ''--'' a then None
     else (case cut_value (drop 2 a) of (opt, optarg) \<Rightarrow> (case long_has_args longs opt of None \<Rightarrow> None
       | Some (False, opt) \<Rightarrow> (case optarg of None \<Rightarrow> map_option ((#) (opt, [])) (getopt longs args) | Some _ \<Rightarrow> None)
       | Some (True, opt) \<Rightarrow> (case optarg of Some v \<Rightarrow> map_option ((#) (opt, v)) (getopt longs args)
         | None \<Rightarrow> (case args of [] \<Rightarrow> None | v # args \<Rightarrow> map_option ((#) (opt, v)) (getopt longs args))))))"

text \<open>The pattern of integers, \<open>^[-]?\d+$\<close>; the dollar sign also matches before a newline at the end.\<close>

definition int_re :: "string \<Rightarrow> bool" where
  "int_re s = (let t = (if prefix ''-'' s then tl s else s);
     u = (if t \<noteq> [] \<and> last t = CHR 0x0A then butlast t else t) in u \<noteq> [] \<and> list_all is_digit u)"

definition float_or :: "(string \<Rightarrow> pyfloat option) \<Rightarrow> string \<Rightarrow> pyexc + pyfloat" where
  "float_or fl p = (case fl p of Some x \<Rightarrow> Inr x | None \<Rightarrow> Inl ValueError)"

text \<open>The second component is the type that \<open>parseParams\<close> compares, not always the type of the first.\<close>

definition getParameterValueType :: "(string \<Rightarrow> pyfloat option) \<Rightarrow> string \<Rightarrow> pytype option \<Rightarrow> pyexc + pyval option \<times> pytype option" where
  "getParameterValueType fl p d = (case d of
     Some TStr \<Rightarrow> Inr (Some (VStr p), Some TStr)
   | Some TInt \<Rightarrow> (case parse_int p of Inl e \<Rightarrow> Inl e | Inr n \<Rightarrow> Inr (Some (VInt n), Some TInt))
   | Some TFloat \<Rightarrow> (case float_or fl p of Inl e \<Rightarrow> Inl e | Inr x \<Rightarrow> Inr (Some (VFloat x), Some TFloat))
   | Some TBool \<Rightarrow> Inr (Some (VBool (p \<noteq> [])), Some TFloat)
   | Some TOther \<Rightarrow> Inr (None, None)
   | None \<Rightarrow> (if p = ''True'' then Inr (Some (VBool True), Some TBool)
       else if p = ''False'' then Inr (Some (VBool True), Some TBool)
       else if int_re p then (case parse_int p of Inl e \<Rightarrow> Inl e | Inr n \<Rightarrow> Inr (Some (VInt n), Some TInt))
       else (case float_or fl p of Inr x \<Rightarrow> Inr (Some (VFloat x), Some TFloat) | Inl _ \<Rightarrow> Inr (Some (VStr p), Some TStr))))"

definition set_param :: "(string \<Rightarrow> pyfloat option) \<Rightarrow> params \<Rightarrow> string \<times> string \<Rightarrow> pyexc + params" where
  "set_param fl ps = (\<lambda>(name, text). case map_of ps name of None \<Rightarrow> Inr ps
   | Some old \<Rightarrow> (case getParameterValueType fl text (map_option type_of old) of Inl e \<Rightarrow> Inl e
     | Inr (v, t) \<Rightarrow> (if old \<noteq> None \<and> t \<noteq> map_option type_of old
         then Inl (BuildError (''Type of default value does not match type of argument '' @ name))
         else Inr (AList.update name v ps))))"

fun set_params :: "(string \<Rightarrow> pyfloat option) \<Rightarrow> params \<Rightarrow> (string \<times> string) list \<Rightarrow> pyexc + params" where
  "set_params fl ps [] = Inr ps"
| "set_params fl ps (opt # opts) = (case set_param fl ps opt of Inl e \<Rightarrow> Inl e | Inr ps \<Rightarrow> set_params fl ps opts)"

definition defaults :: "formal list \<Rightarrow> params" where
  "defaults formals = foldl (\<lambda>ps f. AList.update (fo_name f) (fo_default f) ps) [] formals"

definition parseParams :: "(string \<Rightarrow> pyfloat option) \<Rightarrow> formal list \<Rightarrow> string list \<Rightarrow> pyexc + params" where
  "parseParams fl formals argv = (case getopt (map (\<lambda>f. fo_name f @ ''='') formals) argv of None \<Rightarrow> Inr (defaults formals)
   | Some opts \<Rightarrow> (case set_params fl (defaults formals) opts of Inl e \<Rightarrow> Inl e
     | Inr ps \<Rightarrow> (case filter (\<lambda>p. snd p = None) ps of [] \<Rightarrow> Inr ps
       | (name, _) # _ \<Rightarrow> Inl (BuildError (''Required parameter '' @ name @ '' missing'')))))"

section \<open>The arguments of an instance\<close>

definition arg_value :: "params \<Rightarrow> string \<Rightarrow> formal \<Rightarrow> actual list \<Rightarrow> pyexc + pyval option" where
  "arg_value ps inst f actuals = (case find (\<lambda>a. aa_name a = fo_name f) actuals of
     Some a \<Rightarrow> (case aa_param a of
       Some p \<Rightarrow> (case map_of ps p of Some v \<Rightarrow> Inr v
         | None \<Rightarrow> Inl (BuildError (''Unspecified parameter '' @ p @ '' referenced in '' @ inst)))
     | None \<Rightarrow> (case aa_value a of Some v \<Rightarrow> Inr v
         | None \<Rightarrow> Inl (BuildError (''Actual parameter '' @ fo_name f @ '' has no value''))))
   | None \<Rightarrow> (case fo_default f of Some v \<Rightarrow> Inr (Some v)
     | None \<Rightarrow> Inl (BuildError (''Argument '' @ fo_name f @ '' in '' @ inst @ '' has no defined value''))))"

fun build_args :: "params \<Rightarrow> string \<Rightarrow> formal list \<Rightarrow> actual list \<Rightarrow> params \<Rightarrow> pyexc + params" where
  "build_args ps inst [] actuals args = Inr args"
| "build_args ps inst (f # fs) actuals args = (case arg_value ps inst f actuals of Inl e \<Rightarrow> Inl e
     | Inr v \<Rightarrow> build_args ps inst fs actuals (AList.update (fo_name f) v args))"

definition buildInstArgs :: "params \<Rightarrow> string \<Rightarrow> formal list \<Rightarrow> actual list \<Rightarrow> pyexc + params" where
  "buildInstArgs ps inst formals actuals = build_args ps inst formals actuals []"

text \<open>A device actor has one instance, whose arguments are the parameters of the actor.\<close>

definition device_actuals :: "formal list \<Rightarrow> actual list" where
  "device_actuals formals = map (\<lambda>f. \<lparr> aa_name = fo_name f, aa_param = Some (fo_name f), aa_value = None \<rparr>) formals"

text \<open>The arguments of a device as they are sent to the deployment manager, \<open>str(argValue)\<close>.\<close>

definition py_str :: "(pyval \<Rightarrow> string) \<Rightarrow> pyval option \<Rightarrow> string" where
  "py_str sv v = (case v of None \<Rightarrow> ''None'' | Some (VStr s) \<Rightarrow> s | Some (VInt n) \<Rightarrow> int_str n
   | Some (VBool b) \<Rightarrow> (if b then ''True'' else ''False'') | Some x \<Rightarrow> sv x)"

definition wire_args :: "(pyval \<Rightarrow> string) \<Rightarrow> params \<Rightarrow> (string \<times> string) list" where
  "wire_args sv args = map (\<lambda>(name, v). (name, py_str sv v)) args"

section \<open>What arrives at a device\<close>

text \<open>When the value of an argument, sent as text, is parsed back to itself.\<close>

definition arrives :: "(string \<Rightarrow> pyfloat option) \<Rightarrow> (pyval \<Rightarrow> string) \<Rightarrow> pyval option \<Rightarrow> pyval option \<Rightarrow> bool" where
  "arrives fl sv d v = (case v of None \<Rightarrow> False | Some x \<Rightarrow> (case map_option type_of d of
     None \<Rightarrow> (case x of VInt n \<Rightarrow> True | VBool b \<Rightarrow> b | VOther \<Rightarrow> False
       | VStr s \<Rightarrow> s \<noteq> ''True'' \<and> s \<noteq> ''False'' \<and> \<not> int_re s \<and> fl s = None
       | VFloat r \<Rightarrow> sv x \<noteq> ''True'' \<and> sv x \<noteq> ''False'' \<and> \<not> int_re (sv x) \<and> fl (sv x) = Some r)
   | Some TStr \<Rightarrow> type_of x = TStr
   | Some TInt \<Rightarrow> type_of x = TInt
   | Some TFloat \<Rightarrow> (case x of VFloat r \<Rightarrow> fl (sv x) = Some r | _ \<Rightarrow> False)
   | Some _ \<Rightarrow> False))"

lemma prefix_opt [simp]: "prefix ''-'' (''--'' @ n)" "prefix ''--'' (''--'' @ n)" "drop 2 (''--'' @ n) = n"
  by simp_all

lemma long_has_args_exact: "n \<in> set names \<Longrightarrow> CHR ''='' \<notin> set n \<Longrightarrow> long_has_args (map (\<lambda>n. n @ ''='') names) n = Some (True, n)"
  by (auto simp: long_has_args_def Let_def filter_empty_conv image_iff)

lemma getopt_pair:
  "n \<in> set names \<Longrightarrow> CHR ''='' \<notin> set n \<Longrightarrow> n \<noteq> [] \<Longrightarrow>
    getopt (map (\<lambda>n. n @ ''='') names) ((''--'' @ n) # v # args) = map_option ((#) (n, v)) (getopt (map (\<lambda>n. n @ ''='') names) args)"
  by (simp add: cut_value_def long_has_args_exact)

definition option_names :: "string list \<Rightarrow> bool" where
  "option_names names \<longleftrightarrow> distinct names \<and> (\<forall>n \<in> set names. n \<noteq> [] \<and> CHR ''='' \<notin> set n)"

lemma getopt_pairs:
  "option_names names \<Longrightarrow> set (dkeys opts) \<subseteq> set names \<Longrightarrow>
    getopt (map (\<lambda>n. n @ ''='') names) (device_args opts @ args) = map_option ((@) opts) (getopt (map (\<lambda>n. n @ ''='') names) args)"
proof (induction opts)
  case (Cons o1 opts)
  obtain n v where o1: "o1 = (n, v)" by fastforce
  have n: "n \<in> set names" "CHR ''='' \<notin> set n" "n \<noteq> []" using Cons.prems o1 by (auto simp: option_names_def)
  have "device_args (o1 # opts) @ args = (''--'' @ n) # v # (device_args opts @ args)" by (simp add: device_args_def o1)
  with Cons show ?case by (simp only: getopt_pair [OF n]) (simp add: o1 option.map_comp comp_def)
next
  case Nil
  have "(@) [] = (\<lambda>x :: (string \<times> string) list. x)" by auto
  then show ?case by (simp add: device_args_def option.map_ident)
qed

lemma set_param_pos:
  assumes "n \<notin> set (dkeys before)"
  shows "set_param fl (before @ (n, d) # after) (n, text) = (case getParameterValueType fl text (map_option type_of d) of Inl e \<Rightarrow> Inl e
     | Inr (v, t) \<Rightarrow> (if d \<noteq> None \<and> t \<noteq> map_option type_of d
         then Inl (BuildError (''Type of default value does not match type of argument '' @ n)) else Inr (before @ (n, v) # after)))"
proof -
  have "map_of before n = None" using assms by (simp add: map_of_eq_None_iff)
  moreover have "AList.update n v (before @ (n, d) # after) = before @ (n, v) # after" for v
    using assms by (induction before) auto
  ultimately show ?thesis by (auto simp: set_param_def map_add_def split: sum.split prod.split)
qed

lemma set_params_keep: "set_params fl ps opts = Inr qs \<Longrightarrow> n \<notin> set (dkeys opts) \<Longrightarrow> map_of qs n = map_of ps n"
proof (induction opts arbitrary: ps)
  case (Cons o1 opts)
  obtain k tx where o1: "o1 = (k, tx)" by fastforce
  from Cons.prems obtain ps1 where p: "set_param fl ps o1 = Inr ps1" "set_params fl ps1 opts = Inr qs" by (auto split: sum.splits)
  from p(1) Cons.prems(2) have "map_of ps1 n = map_of ps n"
    by (auto simp: set_param_def o1 split: option.splits sum.splits prod.splits if_splits)
  with Cons.IH [OF p(2)] Cons.prems(2) show ?case by simp
qed simp

lemma digits_not: "list_all is_digit s \<Longrightarrow> s \<noteq> [] \<Longrightarrow> last s \<noteq> CHR 0x0A \<and> s \<noteq> ''True'' \<and> s \<noteq> ''False'' \<and> \<not> prefix ''-'' s"
proof -
  assume s: "list_all is_digit s" "s \<noteq> []"
  then have "is_digit (last s)" "is_digit (hd s)" by (simp_all add: list_all_iff)
  moreover have "\<not> is_digit CHR 0x0A" "\<not> is_digit CHR ''T''" "\<not> is_digit CHR ''F''" "\<not> is_digit CHR ''-''" by (simp_all add: is_digit_def)
  ultimately show ?thesis using s(2) by (cases s) auto
qed

lemma int_str_re: "int_re (int_str n)" "int_str n \<noteq> ''True''" "int_str n \<noteq> ''False''"
proof -
  have d: "list_all is_digit (nat_str k)" "nat_str k \<noteq> []" for k by (simp_all add: nat_str_digits)
  from digits_not [OF d] d show "int_re (int_str n)" "int_str n \<noteq> ''True''" "int_str n \<noteq> ''False''"
    by (auto simp: int_re_def int_str_def Let_def)
qed

lemma arrives_iff:
  "(case getParameterValueType fl (py_str sv v) (map_option type_of d) of Inl e \<Rightarrow> False
     | Inr (w, t) \<Rightarrow> (d = None \<or> t = map_option type_of d) \<and> w = v \<and> v \<noteq> None) \<longleftrightarrow> arrives fl sv d v"
proof (cases v)
  case None
  then show ?thesis by (simp add: arrives_def split: sum.split prod.split)
next
  case v: (Some x)
  show ?thesis
  proof (cases d)
    case None
    with v show ?thesis
      by (cases x) (simp_all add: arrives_def getParameterValueType_def py_str_def float_or_def int_str_re split: option.split sum.split)
  next
    case (Some y)
    with v show ?thesis
      by (cases y; cases x) (simp_all add: arrives_def getParameterValueType_def py_str_def float_or_def split: option.split sum.split)
  qed
qed

lemma set_params_arrive:
  assumes "distinct (dkeys before @ names)" "map fst fs = names" "dkeys args = names"
  shows "(set_params fl (before @ fs) (wire_args sv args) = Inr (before @ args) \<and> (\<forall>v \<in> snd ` set args. v \<noteq> None)) \<longleftrightarrow>
    list_all2 (\<lambda>f a. arrives fl sv (snd f) (snd a)) fs args"
  using assms
proof (induction fs arbitrary: before args names)
  case (Cons f fs)
  obtain n d where f: "f = (n, d)" by fastforce
  obtain v as where args: "args = (n, v) # as" using Cons.prems f by (cases args) auto
  let ?r = "getParameterValueType fl (py_str sv v) (map_option type_of d)"
  have "distinct (dkeys before @ n # dkeys as)" using Cons.prems args by simp
  then have n: "n \<notin> set (dkeys before)" "n \<notin> set (dkeys as)" by simp_all
  have ih: "(set_params fl ((before @ [(n, v)]) @ fs) (wire_args sv as) = Inr ((before @ [(n, v)]) @ as) \<and> (\<forall>v \<in> snd ` set as. v \<noteq> None)) \<longleftrightarrow>
    list_all2 (\<lambda>f a. arrives fl sv (snd f) (snd a)) fs as"
  proof (rule Cons.IH)
    show "distinct (dkeys (before @ [(n, v)]) @ dkeys as)" using Cons.prems args by auto
    show "dkeys fs = dkeys as" using Cons.prems args by auto
  qed simp
  show ?case
  proof (cases ?r)
    case (Inl e)
    then show ?thesis using arrives_iff [where fl = fl and sv = sv and v = v and d = d] n by (simp add: f args wire_args_def set_param_pos)
  next
    case (Inr wt)
    obtain w t where wt: "wt = (w, t)" by fastforce
    show ?thesis
    proof (cases "(d = None \<or> t = map_option type_of d) \<and> w = v")
      case True
      then show ?thesis using arrives_iff [where fl = fl and sv = sv and v = v and d = d] n ih Inr wt
        by (auto simp: f args wire_args_def set_param_pos)
    next
      case False
      have "w = v" if "set_params fl (before @ (n, w) # fs) (wire_args sv as) = Inr (before @ args)"
      proof -
        have "map_of (before @ args) n = map_of (before @ (n, w) # fs) n"
          by (rule set_params_keep [OF that]) (use n in \<open>force simp: wire_args_def\<close>)
        moreover have "map_of before n = None" using n by (simp add: map_of_eq_None_iff)
        ultimately show ?thesis by (simp add: args map_add_def)
      qed
      then show ?thesis using arrives_iff [where fl = fl and sv = sv and v = v and d = d] n Inr wt False
        by (auto simp: f args wire_args_def set_param_pos)
    qed
  qed
qed (auto simp: wire_args_def)

lemma update_new: "n \<notin> set (dkeys d) \<Longrightarrow> AList.update n v d = d @ [(n, v)]"
  by (induction d) auto

lemma defaults_map:
  assumes "distinct (map fo_name formals)"
  shows "defaults formals = map (\<lambda>f. (fo_name f, fo_default f)) formals"
proof -
  have "foldl (\<lambda>ps f. AList.update (fo_name f) (fo_default f) ps) ps fs = ps @ map (\<lambda>f. (fo_name f, fo_default f)) fs"
    if "distinct (dkeys ps @ map fo_name fs)" for ps fs
    using that by (induction fs arbitrary: ps) (auto simp: update_new)
  from this [of "[]" formals] assms show ?thesis by (simp add: defaults_def)
qed

lemma build_args_direct:
  assumes "distinct (dkeys args)" "map fo_name formals = dkeys args"
  shows "buildInstArgs args inst formals (device_actuals formals) = Inr args"
proof -
  have v: "arg_value args inst f (device_actuals formals) = Inr v" if "f \<in> set formals" "(fo_name f, v) \<in> set args" for f v
  proof -
    have "find (\<lambda>a. aa_name a = fo_name f) (device_actuals formals) = Some \<lparr> aa_name = fo_name f, aa_param = Some (fo_name f), aa_value = None \<rparr>"
      using that(1) by (induction formals) (auto simp: device_actuals_def)
    then show ?thesis using that(2) assms(1) by (simp add: arg_value_def)
  qed
  have "build_args args inst fs (device_actuals formals) ps = Inr (ps @ as)"
    if "set fs \<subseteq> set formals" "set as \<subseteq> set args" "map fo_name fs = dkeys as" "distinct (dkeys (ps @ as))" for fs as ps
    using that
  proof (induction fs arbitrary: as ps)
    case (Cons f fs)
    then obtain x bs where as: "as = (fo_name f, x) # bs" by (cases as) auto
    have "build_args args inst fs (device_actuals formals) (ps @ [(fo_name f, x)]) = Inr ((ps @ [(fo_name f, x)]) @ bs)"
      by (rule Cons.IH) (use Cons.prems as in auto)
    with v [of f x] Cons.prems as show ?case by (simp add: update_new)
  qed simp
  from this [of formals args "[]"] assms show ?thesis by (simp add: buildInstArgs_def)
qed

lemma parse_device_args:
  assumes "option_names (map fo_name formals)" "dkeys args = map fo_name formals"
  shows "parseParams fl formals (device_args (wire_args sv args)) = Inr args \<longleftrightarrow>
    list_all2 (\<lambda>f a. arrives fl sv (fo_default f) (snd a)) formals args"
proof -
  let ?fs = "map (\<lambda>f. (fo_name f, fo_default f)) formals"
  have d: "defaults formals = ?fs" using assms(1) by (simp add: defaults_map option_names_def)
  have "getopt (map (\<lambda>n. n @ ''='') (map fo_name formals)) (device_args (wire_args sv args) @ []) = Some (wire_args sv args)"
    by (subst getopt_pairs [OF assms(1)]) (use assms(2) in \<open>auto simp: wire_args_def comp_def split_def\<close>)
  then have g: "getopt (map (\<lambda>f. fo_name f @ ''='') formals) (device_args (wire_args sv args)) = Some (wire_args sv args)"
    by (simp add: comp_def)
  have "(set_params fl ([] @ ?fs) (wire_args sv args) = Inr ([] @ args) \<and> (\<forall>v \<in> snd ` set args. v \<noteq> None)) \<longleftrightarrow>
    list_all2 (\<lambda>f a. arrives fl sv (snd f) (snd a)) ?fs args"
    by (rule set_params_arrive) (use assms in \<open>auto simp: option_names_def comp_def\<close>)
  then have a: "(set_params fl ?fs (wire_args sv args) = Inr args \<and> (\<forall>v \<in> snd ` set args. v \<noteq> None)) \<longleftrightarrow>
    list_all2 (\<lambda>f a. arrives fl sv (fo_default f) (snd a)) formals args"
    by (simp add: list_all2_map1)
  have "parseParams fl formals (device_args (wire_args sv args)) = Inr args \<longleftrightarrow>
    set_params fl ?fs (wire_args sv args) = Inr args \<and> filter (\<lambda>p. snd p = None) args = []"
    by (auto simp: parseParams_def g d split: sum.split list.split)
  also have "filter (\<lambda>p. snd p = None) args = [] \<longleftrightarrow> (\<forall>v \<in> snd ` set args. v \<noteq> None)" by (auto simp: filter_empty_conv)
  finally show ?thesis using a by simp
qed

lemma set_params_keys: "set_params fl ps opts = Inr qs \<Longrightarrow> dkeys qs = dkeys ps"
proof (induction opts arbitrary: ps)
  case (Cons x opts)
  then obtain ps1 where p: "set_param fl ps x = Inr ps1" "set_params fl ps1 opts = Inr qs" by (auto split: sum.splits)
  obtain n tx where x: "x = (n, tx)" by fastforce
  have "dkeys ps1 = dkeys ps"
  proof (cases "map_of ps n")
    case None
    then show ?thesis using p(1) by (simp add: set_param_def x)
  next
    case (Some old)
    then have "n \<in> set (dkeys ps)" using has_key_iff [of ps n] by simp
    then have "dkeys (AList.update n v ps) = dkeys ps" for v by (simp add: AList.update_keys)
    with p(1) Some show ?thesis by (auto simp: set_param_def x split: sum.splits prod.splits if_splits)
  qed
  with Cons.IH [OF p(2)] show ?case by simp
qed simp

lemma parse_keys:
  assumes "distinct (map fo_name formals)" "parseParams fl formals argv = Inr ps"
  shows "dkeys ps = map fo_name formals"
proof -
  have d: "dkeys (defaults formals) = map fo_name formals" using assms(1) by (simp add: defaults_map comp_def)
  with assms(2) show ?thesis
    by (auto simp: parseParams_def split: option.splits sum.splits list.splits dest!: set_params_keys)
qed

text \<open>
  C36: the way of the arguments of a device, from the actor that asks for it over the deployment
  manager and the command line to the process of the device: the instance there is built with the
  arguments that were sent if and only if each of them is parsed back to itself. So integers and
  texts that are not like a number arrive, and a parameter that is \<open>False\<close>, or has a Boolean default,
  never does.
\<close>

theorem device_args_arrive:
  assumes "option_names (map fo_name formals)" "dkeys args = map fo_name formals"
  shows "(\<exists>ps. parseParams fl formals (device_args (wire_args sv args)) = Inr ps \<and>
      buildInstArgs ps inst formals (device_actuals formals) = Inr args) \<longleftrightarrow>
    list_all2 (\<lambda>f a. arrives fl sv (fo_default f) (snd a)) formals args"
proof -
  have dist: "distinct (map fo_name formals)" using assms(1) by (simp add: option_names_def)
  have "ps = args" if "parseParams fl formals (device_args (wire_args sv args)) = Inr ps" "buildInstArgs ps inst formals (device_actuals formals) = Inr args" for ps
  proof -
    have "dkeys ps = map fo_name formals" by (rule parse_keys [OF dist that(1)])
    then have "buildInstArgs ps inst formals (device_actuals formals) = Inr ps"
      by (intro build_args_direct) (simp_all add: dist)
    with that(2) show ?thesis by simp
  qed
  moreover have "buildInstArgs args inst formals (device_actuals formals) = Inr args"
    by (rule build_args_direct) (use dist assms(2) in simp_all)
  ultimately show ?thesis using parse_device_args [OF assms, of fl sv] by auto
qed

text \<open>An integer and a text arrive, \<open>False\<close> does not.\<close>

definition toy_formals :: "formal list" where
  "toy_formals = [\<lparr> fo_name = ''rate'', fo_default = Some (VInt 5) \<rparr>, \<lparr> fo_name = ''bus'', fo_default = None \<rparr>]"

theorem device_args_arrive_witness:
  "(\<exists>ps. parseParams (\<lambda>_. None) toy_formals (device_args (wire_args (\<lambda>_. []) [(''rate'', Some (VInt (- 7))), (''bus'', Some (VStr ''i2c''))])) = Inr ps \<and>
     buildInstArgs ps ''dev'' toy_formals (device_actuals toy_formals) = Inr [(''rate'', Some (VInt (- 7))), (''bus'', Some (VStr ''i2c''))]) \<and>
   \<not> (\<exists>ps. parseParams (\<lambda>_. None) toy_formals (device_args (wire_args (\<lambda>_. []) [(''rate'', Some (VInt 1)), (''bus'', Some (VBool False))])) = Inr ps \<and>
     buildInstArgs ps ''dev'' toy_formals (device_actuals toy_formals) = Inr [(''rate'', Some (VInt 1)), (''bus'', Some (VBool False))])"
proof -
  have n: "option_names (map fo_name toy_formals)" by (simp add: option_names_def toy_formals_def)
  have a: "list_all2 (\<lambda>f a. arrives (\<lambda>_. None) (\<lambda>_. []) (fo_default f) (snd a)) toy_formals [(''rate'', Some (VInt (- 7))), (''bus'', Some (VStr ''i2c''))]"
    "\<not> list_all2 (\<lambda>f a. arrives (\<lambda>_. None) (\<lambda>_. []) (fo_default f) (snd a)) toy_formals [(''rate'', Some (VInt 1)), (''bus'', Some (VBool False))]"
    by (simp_all add: toy_formals_def arrives_def int_re_def is_digit_def)
  have k: "dkeys [(''rate'', Some (VInt (- 7))), (''bus'', Some (VStr ''i2c''))] = map fo_name toy_formals"
    "dkeys [(''rate'', Some (VInt 1)), (''bus'', Some (VBool False))] = map fo_name toy_formals" by (simp_all add: toy_formals_def)
  show ?thesis
    unfolding device_args_arrive [OF n k(1)] device_args_arrive [OF n k(2)] using a by simp
qed

section \<open>A command line that is refused\<close>



end
