(* ===== verification/DeplClient.thy ===== *)
theory DeplClient
  imports DepmProps ActorParams
begin

text \<open>
  The actor's side of deployment (\<open>riaps/run/deplc.py\<close>, class \<open>DeplClient\<close>): requests over a REQ socket to
  the manager of the node. The socket and the private channel are a parameter, the record \<open>dlink\<close>; a
  link to the model of the manager is at the end.

  \<^item> Nothing sets \<open>self.socket\<close> to \<open>None\<close> once \<open>start\<close> has made it, so the tests for it are left out.
  \<^item> An answer comes with the text of its field \<open>uuid\<close>.
\<close>

section \<open>The object\<close>

record 'x dlink =
  dl_send :: "drequest \<Rightarrow> ('x, unit) act"
  dl_recv :: "('x, danswer \<times> string) act"
  dl_open :: "('x, unit) act"
  dl_connect :: "nat \<Rightarrow> ('x, unit) act"

text \<open>\<open>dp_uuid\<close> is the actor's, set by \<open>setUUID\<close>.\<close>

record 'x dpclient =
  dp_link :: "'x dlink"
  dp_world :: 'x
  dp_app :: string
  dp_actor :: string
  dp_isDevice :: bool
  dp_uuid :: "string option"

type_synonym ('x, 'a) dpact = "('x dpclient, 'a) act"

section \<open>Requests\<close>

definition dl_op :: "('x dlink \<Rightarrow> ('x, 'a) act) \<Rightarrow> ('x, 'a) dpact" where
  "dl_op f = (\<lambda>s. case f (dp_link s) (dp_world s) of (r, w) \<Rightarrow> (r, s\<lparr>dp_world := w\<rparr>))"

text \<open>
  Two of the requests show \<open>e.errno\<close> and \<open>e.strerror\<close> of the exception, which only the errors of zmq
  have; the others show \<open>e.args\<close>.
\<close>

fun is_zmq :: "pyexc \<Rightarrow> bool" where
  "is_zmq (ZMQError _) = True"
| "is_zmq _ = False"

definition dp_rpc :: "bool \<Rightarrow> drequest \<Rightarrow> ('x, (danswer \<times> string) option) dpact" where
  "dp_rpc errno m = tryA (bnd (dl_op (\<lambda>L. dl_send L m)) (\<lambda>_. bnd (dl_op dl_recv) (\<lambda>r. ret (Some r))))
     (\<lambda>e. if errno \<and> \<not> is_zmq e then raise AttributeError else ret None)"

definition dp_start :: "('x, unit) dpact" where
  "dp_start = dl_op dl_open"

definition dp_registerActor :: "('x, bool) dpact" where
  "dp_registerActor = rd (\<lambda>s. s) (\<lambda>s.
     bnd (dp_rpc True (drequest.ActorReg (dp_app s) (dp_actor s) (dp_isDevice s))) (\<lambda>r. case r of
       Some (RegOk port, uuid) \<Rightarrow> bnd (dl_op (\<lambda>L. dl_connect L port)) (\<lambda>_.
         bnd (upd (\<lambda>s. s\<lparr>dp_uuid := Some uuid\<rparr>)) (\<lambda>_. ret True))
     | _ \<Rightarrow> ret False))"

definition dp_requestDevice :: "string \<Rightarrow> string \<Rightarrow> string \<Rightarrow> string \<Rightarrow> (string \<times> string) list \<Rightarrow> ('x, bool) dpact" where
  "dp_requestDevice app model type inst args = bnd (dp_rpc False (DeviceGet app model type inst args)) (\<lambda>r. case r of
     Some (DevGetA ok, _) \<Rightarrow> ret ok
   | _ \<Rightarrow> ret False)"

definition dp_releaseDevice :: "string \<Rightarrow> string \<Rightarrow> string \<Rightarrow> string \<Rightarrow> ('x, bool) dpact" where
  "dp_releaseDevice app model type inst = bnd (dp_rpc False (DeviceRel app model type inst)) (\<lambda>r. case r of
     Some (DevRelA ok, _) \<Rightarrow> ret ok
   | _ \<Rightarrow> ret False)"

definition dp_reportEvent :: "string \<Rightarrow> ('x, bool) dpact" where
  "dp_reportEvent msg = rd (\<lambda>s. s) (\<lambda>s. bnd (dp_rpc True (ReportEvent (dp_app s) (dp_actor s) msg)) (\<lambda>r. case r of
     Some (ReportA ok, _) \<Rightarrow> ret ok
   | _ \<Rightarrow> ret False))"

section \<open>The manager at the other end\<close>

text \<open>
  A request is one turn of the manager's loop; when it has not answered, the receive times out
  (\<open>EAGAIN\<close>). A REQ socket that waits for an answer cannot send (\<open>EFSM\<close>), also after a timeout. The
  flag says that it waits.
\<close>

type_synonym ('w, 'r, 'l) managed = "('w, 'r, 'l) depm \<times> bool"

definition mgr_send :: "drequest \<Rightarrow> (('w, 'r, 'l) managed, unit) act" where
  "mgr_send r = (\<lambda>(d, waits). if waits then (Inl (ZMQError EFSM), (d, waits))
     else (Inr (), (exec (depm_turn (EvClient r)) d, True)))"

definition mgr_recv :: "string \<Rightarrow> (('w, 'r, 'l) managed, danswer \<times> string) act" where
  "mgr_recv uuid = (\<lambda>(d, waits). if \<not> waits then (Inl (ZMQError EFSM), (d, waits))
     else if dm_pending d then (Inl (ZMQError EAGAIN), (d, waits))
     else (Inr (last (dm_answers d), uuid), (d, False)))"

definition manager_link :: "string \<Rightarrow> ('w, 'r, 'l) managed dlink" where
  "manager_link uuid = \<lparr> dl_send = mgr_send, dl_recv = mgr_recv uuid, dl_open = ret (), dl_connect = (\<lambda>_. ret ()) \<rparr>"

section \<open>An answer that is missing\<close>

text \<open>Any request of the client, whose answer is a Boolean.\<close>

datatype dp_call = DpRegister | DpRequest string string string string "(string \<times> string) list"
  | DpRelease string string string string | DpReport string

fun dp_do :: "dp_call \<Rightarrow> ('x, bool) dpact" where
  "dp_do DpRegister = dp_registerActor"
| "dp_do (DpRequest app model type inst args) = dp_requestDevice app model type inst args"
| "dp_do (DpRelease app model type inst) = dp_releaseDevice app model type inst"
| "dp_do (DpReport msg) = dp_reportEvent msg"

lemma rpc_waiting:
  assumes "dp_link c = manager_link uuid" "dp_world c = (d, True)"
  shows "dp_rpc errno m c = (Inr None, c)"
  using assms by (cases c) (simp add: dp_rpc_def tryA_def bnd_def dl_op_def manager_link_def mgr_send_def ret_def)

lemma call_waiting:
  assumes "dp_link c = manager_link uuid" "dp_world c = (d, True)"
  shows "dp_do call c = (Inr False, c)"
  by (cases call) (simp_all add: dp_registerActor_def dp_requestDevice_def dp_releaseDevice_def dp_reportEvent_def
      rd_def bnd_def ret_def rpc_waiting [OF assms])

text \<open>
  C38: one answer that does not come cuts the actor off. When the manager leaves the request for a
  device unanswered, \<open>requestDevice\<close> returns \<open>False\<close> after its timeout; from then on every request of
  the actor returns \<open>False\<close> at once and reaches no manager, not even one that has been started again.
\<close>

theorem unanswered_request_cuts_off:
  fixes d :: "('w, 'r, 'l) depm"
  assumes "dp_link c = manager_link uuid" "dp_world c = (d, False)" "\<not> dm_pending d"
    "startDevice app model type inst (device_args args) (d\<lparr>dm_pending := True\<rparr>) = (Inl e, u)" "\<And>m. e \<noteq> BuildError m"
  shows "\<exists>c'. dp_requestDevice app model type inst args c = (Inr False, c') \<and> dp_world c' = (u, True) \<and>
    (\<forall>call v. dp_do call (c'\<lparr>dp_world := (v, True)\<rparr>) = (Inr False, c'\<lparr>dp_world := (v, True)\<rparr>))"
proof -
  have u: "dm_answers u = dm_answers d \<and> dm_pending u = True"
    by (rule preservesD [OF answers.start_ok(2) _ assms(4)]) simp
  have "handleDeviceReq app model type inst args (d\<lparr>dm_pending := True\<rparr>) = (Inl e, u)"
    using assms(4,5) by (auto simp: handleDeviceReq_def bnd_def tryA_def raise_def split: pyexc.split)
  then have t: "exec (depm_turn (EvClient (DeviceGet app model type inst args))) d = u"
    using assms(3) by (simp add: exec_def rd_def whenA_def seqA.simps bnd_def upd_def handleClient_def tryA_def ret_def)
  have "dp_requestDevice app model type inst args c = (Inr False, c\<lparr>dp_world := (u, True)\<rparr>)"
    using assms(1,2) u t
    by (simp add: dp_requestDevice_def dp_rpc_def tryA_def bnd_def dl_op_def manager_link_def mgr_send_def mgr_recv_def ret_def del: depm_turn.simps)
  moreover have "dp_do call (c\<lparr>dp_world := (v, True)\<rparr>) = (Inr False, c\<lparr>dp_world := (v, True)\<rparr>)" for call and v :: "('w, 'r, 'l) depm"
    by (rule call_waiting) (simp_all add: assms(1))
  ultimately show ?thesis by simp
qed

text \<open>A device whose program is not there, on the node of \<open>toy_broken\<close>.\<close>

definition toy_dpclient :: "('w, 'r, 'l) depm \<Rightarrow> ('w, 'r, 'l) managed dpclient" where
  "toy_dpclient d = \<lparr> dp_link = manager_link ''n1'', dp_world = (d, False), dp_app = ''App'', dp_actor = ''a'', dp_isDevice = False, dp_uuid = None \<rparr>"

theorem unanswered_request_cuts_off_witness:
  "\<exists>c' u. dp_requestDevice ''App'' ''App.json'' ''a'' ''d'' [] (toy_dpclient toy_broken) = (Inr False, c') \<and> dp_world c' = (u, True) \<and>
    dp_do (DpReport ''m'') (c'\<lparr>dp_world := (toy_ready, True)\<rparr>) = (Inr False, c'\<lparr>dp_world := (toy_ready, True)\<rparr>)"
proof -
  have "preserves (\<lambda>s. dm_answers s = [] \<and> dm_pending s = False) (setupApp ''App'' ''App.json'')" by (rule answers.apps_ok(1))
  from preservesD [OF this _ toy_setup] have p: "\<not> dm_pending toy_broken" by (simp add: toy_depm_def toy_broken_def)
  have "fst (startDevice ''App'' ''App.json'' ''a'' ''d'' (device_args []) (toy_broken\<lparr>dm_pending := True\<rparr>)) = Inl TypeError" by code_simp
  then obtain u where u: "startDevice ''App'' ''App.json'' ''a'' ''d'' (device_args []) (toy_broken\<lparr>dm_pending := True\<rparr>) = (Inl TypeError, u)"
    by (metis prod.collapse)
  have c: "dp_link (toy_dpclient toy_broken) = manager_link ''n1''" "dp_world (toy_dpclient toy_broken) = (toy_broken, False)"
    by (simp_all add: toy_dpclient_def)
  from unanswered_request_cuts_off [OF c p u] show ?thesis by blast
qed

end
