(* ===== verification/Actor.thy ===== *)
theory Actor
  imports DiscoClient CompThread DeplClient
begin

text \<open>
  The process of an actor (\<open>riaps/run/actor.py\<close>, \<open>part.py\<close>, \<open>peripheral.py\<close>, \<open>device.py\<close>): it builds its
  components, registers itself and their ports, and relays between the services of the node and the
  threads of the components.

  \<^item> A part keeps what it sends to its thread over the control socket in \<open>pt_sent\<close>; what the thread sends
    is an input. The thread itself is \<open>CompThread\<close>. The sockets of ports are the thread's; here a port
    is what it tells about itself, \<open>None\<close> until the thread has set it up.
  \<^item> The two clients are the models of the other theories, run where they stand.
  \<^item> Components in C++ are left out, and so are security, scheduling and capabilities of the process.
\<close>

section \<open>Objects\<close>

datatype pstate = Starting | Initial | Ready | Active | Checkpointing | Inactive | Passive | Destroyed

text \<open>Ports inside the component tell a kind that no service knows, \<open>tim\<close> or \<open>ins\<close>.\<close>

datatype pinfo = Inner | Info portInfo

datatype ctl = Build | Cmd command

record part =
  pt_state :: pstate
  pt_type :: string
  pt_ports :: "(string, pinfo option) dict"
  pt_control :: bool
  pt_thread :: bool
  pt_sent :: "ctl list"

record periph =
  ph_state :: pstate
  ph_type :: string
  ph_args :: params

datatype cinst = Part part | Periph periph

record ('x, 'y) actor =
  at_app :: string
  at_model :: string
  at_name :: string
  at_isDevice :: bool
  at_globalHost :: string
  at_localHost :: string
  at_str :: "pyval \<Rightarrow> string"
  at_locals :: "string list"
  at_internals :: "string list"
  at_params :: params
  at_comps :: "(string, cinst) dict"
  at_disco :: "'x dclient option"
  at_deplc :: "'y dpclient option"
  at_exited :: bool

type_synonym ('x, 'y, 'a) aact = "(('x, 'y) actor, 'a) act"

text \<open>An operation of a client, which is \<open>None\<close> until the actor is set up.\<close>

definition on_disco :: "('x dclient, 'a) act \<Rightarrow> ('x, 'y, 'a) aact" where
  "on_disco m = (\<lambda>s. case at_disco s of None \<Rightarrow> (Inl AttributeError, s)
     | Some d \<Rightarrow> (case m d of (r, d) \<Rightarrow> (r, s\<lparr>at_disco := Some d\<rparr>)))"

definition on_deplc :: "('y dpclient, 'a) act \<Rightarrow> ('x, 'y, 'a) aact" where
  "on_deplc m = (\<lambda>s. case at_deplc s of None \<Rightarrow> (Inl AttributeError, s)
     | Some d \<Rightarrow> (case m d of (r, d) \<Rightarrow> (r, s\<lparr>at_deplc := Some d\<rparr>)))"

text \<open>An operation of the component with a name, which is a part or a peripheral.\<close>

definition on_comp :: "string \<Rightarrow> (part, 'a) act \<Rightarrow> (periph, 'a) act \<Rightarrow> ('x, 'y, 'a) aact" where
  "on_comp i m n = (\<lambda>s. case map_of (at_comps s) i of None \<Rightarrow> (Inl KeyError, s)
     | Some (Part p) \<Rightarrow> (case m p of (r, p) \<Rightarrow> (r, s\<lparr>at_comps := AList.update i (Part p) (at_comps s)\<rparr>))
     | Some (Periph p) \<Rightarrow> (case n p of (r, p) \<Rightarrow> (r, s\<lparr>at_comps := AList.update i (Periph p) (at_comps s)\<rparr>)))"

definition each_comp :: "(part, unit) act \<Rightarrow> (periph, unit) act \<Rightarrow> ('x, 'y, unit) aact" where
  "each_comp m n = rd at_comps (\<lambda>cs. forA (dkeys cs) (\<lambda>i. on_comp i m n))"

section \<open>A part\<close>

definition sendControl :: "ctl \<Rightarrow> (part, unit) act" where
  "sendControl c = upd (\<lambda>p. if pt_control p then p\<lparr>pt_sent := pt_sent p @ [c]\<rparr> else p)"

text \<open>Operations are refused unless the state is one of the allowed ones.\<close>

definition part_in :: "pstate list \<Rightarrow> (part, unit) act" where
  "part_in sts = rd pt_state (\<lambda>st. whenA (st \<notin> set sts) (raise StateError))"

definition part_goto :: "pstate \<Rightarrow> (part, unit) act" where
  "part_goto st = upd (\<lambda>p. p\<lparr>pt_state := st\<rparr>)"

definition part_activate :: "(part, unit) act" where
  "part_activate = seqA [part_in [Ready, Passive, Inactive], sendControl (Cmd ActivateAll), part_goto Active]"

definition part_deactivate :: "(part, unit) act" where
  "part_deactivate = seqA [part_in [Active], sendControl (Cmd DeactivateAll), part_goto Inactive]"

definition part_passivate :: "(part, unit) act" where
  "part_passivate = seqA [part_in [Active], sendControl (Cmd Passivate), part_goto Passive]"

definition part_reactivate :: "(part, unit) act" where
  "part_reactivate = seqA [part_in [Ready], part_goto Active]"

definition part_checkpoint :: "(part, unit) act" where
  "part_checkpoint = part_in [Active]"

definition part_destroy :: "(part, unit) act" where
  "part_destroy = rd pt_state (\<lambda>st. whenA (st = Destroyed) (raise StateError))"

text \<open>\<open>handlePortUpdate\<close> uses the socket without asking whether there is one.\<close>

definition part_portUpdate :: "string \<Rightarrow> string \<Rightarrow> int \<Rightarrow> (part, unit) act" where
  "part_portUpdate n h k = bnd (rd pt_control (\<lambda>b. whenA (\<not> b) (raise AttributeError)))
     (\<lambda>_. sendControl (Cmd (PortUpdate n h k)))"

definition part_relay :: "command \<Rightarrow> (part, unit) act" where
  "part_relay c = sendControl (Cmd c)"

text \<open>\<open>terminate\<close> then waits for the thread and terminates the ports.\<close>

definition part_terminate :: "(part, unit) act" where
  "part_terminate = sendControl (Cmd Kill)"

section \<open>A peripheral\<close>

definition periph_in :: "pstate list \<Rightarrow> (periph, unit) act" where
  "periph_in sts = rd ph_state (\<lambda>st. whenA (st \<notin> set sts) (raise StateError))"

definition periph_goto :: "pstate \<Rightarrow> (periph, unit) act" where
  "periph_goto st = upd (\<lambda>p. p\<lparr>ph_state := st\<rparr>)"

definition periph_activate :: "(periph, unit) act" where
  "periph_activate = seqA [periph_in [Ready, Passive, Inactive], periph_goto Active]"

definition periph_deactivate :: "(periph, unit) act" where
  "periph_deactivate = seqA [periph_in [Active], periph_goto Inactive]"

definition periph_passivate :: "(periph, unit) act" where
  "periph_passivate = seqA [periph_in [Active], periph_goto Passive]"

definition periph_reactivate :: "(periph, unit) act" where
  "periph_reactivate = seqA [periph_in [Ready], periph_goto Active]"

definition periph_checkpoint :: "(periph, unit) act" where
  "periph_checkpoint = periph_in [Active]"

definition periph_destroy :: "(periph, unit) act" where
  "periph_destroy = rd ph_state (\<lambda>st. whenA (st = Destroyed) (raise StateError))"

definition periph_portUpdate :: "(periph, unit) act" where
  "periph_portUpdate = raise StateError"

section \<open>Relaying to parts\<close>

definition updatePart :: "string \<Rightarrow> string \<Rightarrow> string \<Rightarrow> int \<Rightarrow> ('x, 'y, unit) aact" where
  "updatePart i n h k = on_comp i (part_portUpdate n h k) periph_portUpdate"

definition update_parts :: "(string \<times> string \<times> string \<times> int) list \<Rightarrow> ('x, 'y, unit) aact" where
  "update_parts res = forA res (\<lambda>(i, n, h, k). updatePart i n h k)"

definition actor_registerEndpoint :: "endpoint \<Rightarrow> ('x, 'y, unit) aact" where
  "actor_registerEndpoint bundle = bnd (on_disco (registerEndpoint bundle)) update_parts"

definition requestDevice :: "string \<Rightarrow> string \<Rightarrow> params \<Rightarrow> ('x, 'y, bool) aact" where
  "requestDevice type inst args = rd (\<lambda>s. s) (\<lambda>s.
     on_deplc (dp_requestDevice (at_app s) (at_model s) type (fullName (at_name s) inst) (wire_args (at_str s) args)))"

definition releaseDevice :: "string \<Rightarrow> string \<Rightarrow> ('x, 'y, bool) aact" where
  "releaseDevice type inst = rd (\<lambda>s. s) (\<lambda>s.
     on_deplc (dp_releaseDevice (at_app s) (at_model s) type (fullName (at_name s) inst)))"

section \<open>Setting up\<close>

text \<open>What a thread sends while it builds itself; \<open>recv_ports\<close> is \<open>None\<close> when the part waits for ever.\<close>

datatype thread_msg = TPort portInfo | TDone | TOther string

definition service_kinds :: "kind list" where
  "service_kinds = [KPub, KSub, KClt, KSrv, KReq, KRep, KQry, KAns]"

fun recv_ports :: "thread_msg list \<Rightarrow> (pyexc + portInfo list) option" where
  "recv_ports [] = None"
| "recv_ports (TDone # ms) = Some (Inr [])"
| "recv_ports (TPort pinfo # ms) = (if pi_kind pinfo \<notin> set service_kinds then Some (Inl (BuildError ''invalid response from ComponentThread''))
     else (case recv_ports ms of Some (Inr infos) \<Rightarrow> Some (Inr (pinfo # infos)) | r \<Rightarrow> r))"
| "recv_ports (TOther m # ms) = Some (Inl (BuildError (''invalid response from ComponentThread '' @ m)))"

definition part_build :: "(part, unit) act" where
  "part_build = seqA [part_in [Initial], upd (\<lambda>p. p\<lparr>pt_control := True, pt_thread := True\<rparr>), sendControl Build]"

definition part_type :: "string \<Rightarrow> ('x, 'y) actor \<Rightarrow> string" where
  "part_type i s = (case map_of (at_comps s) i of Some (Part p) \<Rightarrow> pt_type p | Some (Periph p) \<Rightarrow> ph_type p | None \<Rightarrow> [])"

text \<open>The second half of \<open>Part.setup\<close>: the answer has been received, the thread has set up the ports.\<close>

definition part_register :: "string \<Rightarrow> (string, pinfo option) dict \<Rightarrow> pyexc + portInfo list \<Rightarrow> ('x, 'y, unit) aact" where
  "part_register i ports ans = seqA [
     on_comp i (upd (\<lambda>p. p\<lparr>pt_ports := ports\<rparr>)) (ret ()),
     bnd (lift ans) (\<lambda>infos. rd (part_type i) (\<lambda>type. forA infos (\<lambda>pinfo. actor_registerEndpoint ((i, type), pinfo)))),
     on_comp i (part_goto Ready) (ret ())]"

definition periph_setup :: "string \<Rightarrow> periph \<Rightarrow> ('x, 'y, unit) aact" where
  "periph_setup i p = seqA [
     on_comp i (ret ()) (periph_in [Initial]),
     bnd (requestDevice (ph_type p) i (ph_args p)) (\<lambda>_. ret ()),
     on_comp i (ret ()) (periph_goto Ready)]"

definition setup_comp :: "(string, pinfo option) dict \<times> thread_msg list \<Rightarrow> string \<Rightarrow> ('x, 'y) actor \<Rightarrow> ((pyexc + unit) \<times> ('x, 'y) actor) option" where
  "setup_comp th i s = (case map_of (at_comps s) i of None \<Rightarrow> Some (Inl KeyError, s)
     | Some (Periph p) \<Rightarrow> Some (periph_setup i p s)
     | Some (Part _) \<Rightarrow> (case on_comp i part_build (ret ()) s of (Inl e, s) \<Rightarrow> Some (Inl e, s)
       | (Inr _, s) \<Rightarrow> map_option (\<lambda>ans. part_register i (fst th) ans s) (recv_ports (snd th))))"

fun setup_comps :: "(string \<Rightarrow> (string, pinfo option) dict \<times> thread_msg list) \<Rightarrow> string list \<Rightarrow> ('x, 'y) actor \<Rightarrow> ((pyexc + unit) \<times> ('x, 'y) actor) option" where
  "setup_comps th [] s = Some (Inr (), s)"
| "setup_comps th (i # is) s = (case setup_comp (th i) i s of None \<Rightarrow> None
     | Some (Inl e, s) \<Rightarrow> Some (Inl e, s)
     | Some (Inr _, s) \<Rightarrow> setup_comps th is s)"

definition new_dclient :: "'x link \<Rightarrow> 'x \<Rightarrow> ('x, 'y) actor \<Rightarrow> 'x dclient" where
  "new_dclient L w s = \<lparr> dc_link = L, dc_world = w, dc_socket = False, dc_pendingRpc = False, dc_appName = at_app s,
     dc_actorName = at_name s, dc_isDevice = at_isDevice s, dc_globalHost = at_globalHost s, dc_localHost = at_localHost s,
     dc_globalIface = at_globalHost s \<rparr>"

definition new_dpclient :: "'y dlink \<Rightarrow> 'y \<Rightarrow> ('x, 'y) actor \<Rightarrow> 'y dpclient" where
  "new_dpclient L w s = \<lparr> dp_link = L, dp_world = w, dp_app = at_app s, dp_actor = at_name s, dp_isDevice = at_isDevice s, dp_uuid = None \<rparr>"

text \<open>An actor that the deployment manager does not know is set up all the same.\<close>

definition actor_connect :: "'x link \<Rightarrow> 'x \<Rightarrow> 'y dlink \<Rightarrow> 'y \<Rightarrow> ('x, 'y, unit) aact" where
  "actor_connect DL dw PL pw = seqA [
     upd (\<lambda>s. s\<lparr>at_disco := Some (new_dclient DL dw s)\<rparr>),
     on_disco dclient_start,
     on_disco registerActor,
     upd (\<lambda>s. s\<lparr>at_deplc := Some (new_dpclient PL pw s)\<rparr>),
     on_deplc dp_start,
     bnd (on_deplc dp_registerActor) (\<lambda>_. ret ())]"

definition actor_setup :: "'x link \<Rightarrow> 'x \<Rightarrow> 'y dlink \<Rightarrow> 'y \<Rightarrow> (string \<Rightarrow> (string, pinfo option) dict \<times> thread_msg list) \<Rightarrow>
    ('x, 'y) actor \<Rightarrow> ((pyexc + unit) \<times> ('x, 'y) actor) option" where
  "actor_setup DL dw PL pw th s = (case actor_connect DL dw PL pw s of
     (Inl e, s) \<Rightarrow> Some (Inl e, s)
   | (Inr _, s) \<Rightarrow> setup_comps th (dkeys (at_comps s)) s)"

definition actor_activate :: "('x, 'y, unit) aact" where
  "actor_activate = each_comp part_activate periph_activate"

definition actor_deactivate :: "('x, 'y, unit) aact" where
  "actor_deactivate = each_comp part_deactivate periph_deactivate"

section \<open>Messages\<close>

text \<open>From the discovery service; an update of a group, \<open>None\<close>, is only logged.\<close>

definition handleServiceUpdate :: "disco_upd option \<Rightarrow> ('x, 'y, unit) aact" where
  "handleServiceUpdate m = (case m of None \<Rightarrow> ret () | Some u \<Rightarrow> rd (\<lambda>s. s) (\<lambda>s. let c = u_client u in
     if c_actorHost c \<noteq> at_globalHost s \<or> c_actorName c \<noteq> at_name s \<or> \<not> has_key (at_comps s) (c_instanceName c) then ret ()
     else seqA [
       whenA (u_scope u \<noteq> SGlobal) (assertA (u_host u = at_localHost s)),
       updatePart (c_instanceName c) (c_portName c) (u_host u) (u_port u)]))"

text \<open>Providers are registered again, ports that have not been set up have no information to tell.\<close>

definition part_reinstate :: "string \<Rightarrow> part \<Rightarrow> ('x, 'y, unit) aact" where
  "part_reinstate i p = forA (pt_ports p) (\<lambda>(_, info). case info of None \<Rightarrow> raise AttributeError
     | Some Inner \<Rightarrow> ret ()
     | Some (Info pinfo) \<Rightarrow> whenA (pi_kind pinfo \<in> {KPub, KSrv, KRep, KAns}) (actor_registerEndpoint ((i, pt_type p), pinfo)))"

definition comp_reinstate :: "string \<Rightarrow> ('x, 'y, unit) aact" where
  "comp_reinstate i = rd (\<lambda>s. map_of (at_comps s) i) (\<lambda>x. case x of Some (Part p) \<Rightarrow> part_reinstate i p
     | Some (Periph _) \<Rightarrow> ret () | None \<Rightarrow> raise KeyError)"

definition handleReinstate :: "('x, 'y, unit) aact" where
  "handleReinstate = bnd (on_disco reconnect) (\<lambda>_. rd at_comps (\<lambda>cs. forA (dkeys cs) comp_reinstate))"

datatype resource = ResCPU | ResMem | ResSpc | ResNet

datatype depl_msg = MResource resource | MReinstate | MNic string | MPeer string string | MOther

fun limit_cmd :: "resource \<Rightarrow> command" where
  "limit_cmd ResCPU = LimitCPU"
| "limit_cmd ResMem = LimitMem"
| "limit_cmd ResSpc = LimitSpc"
| "limit_cmd ResNet = LimitNet"

text \<open>Peripherals ignore what is relayed.\<close>

definition relay_all :: "command \<Rightarrow> ('x, 'y, unit) aact" where
  "relay_all c = each_comp (part_relay c) (ret ())"

fun handleDeplMessage :: "depl_msg \<Rightarrow> ('x, 'y, unit) aact" where
  "handleDeplMessage (MResource r) = relay_all (limit_cmd r)"
| "handleDeplMessage MReinstate = handleReinstate"
| "handleDeplMessage (MNic state) = relay_all (command.NicState state)"
| "handleDeplMessage (MPeer state uuid) = relay_all (PeerState state uuid)"
| "handleDeplMessage MOther = ret ()"

text \<open>Reports of a component: it has joined or left a group, or an event for the deployment manager.\<close>

datatype report = RGroup group_bundle | RUngroup group_bundle | REvent string

fun handleReport :: "report \<Rightarrow> ('x, 'y, unit) aact" where
  "handleReport (RGroup b) = bnd (on_disco (registerGroup b)) update_parts"
| "handleReport (RUngroup b) = bnd (on_disco (unregisterGroup b)) (\<lambda>_. ret ())"
| "handleReport (REvent bundle) = bnd (on_deplc (dp_reportEvent bundle)) (\<lambda>_. ret ())"

text \<open>
  One iteration of the main loop: the messages of the discovery service go before those of the
  deployment manager, and these before the reports of the components.
\<close>

record ready =
  rd_disco :: "disco_upd option list option"
  rd_depl :: "depl_msg list option"
  rd_reports :: "report list"

definition actor_round :: "ready \<Rightarrow> ('x, 'y, unit) aact" where
  "actor_round r = (case rd_disco r of Some ms \<Rightarrow> forA ms handleServiceUpdate
   | None \<Rightarrow> (case rd_depl r of Some ms \<Rightarrow> forA ms handleDeplMessage
     | None \<Rightarrow> forA (rd_reports r) handleReport))"

section \<open>Termination\<close>

definition comp_terminate :: "string \<Rightarrow> ('x, 'y, unit) aact" where
  "comp_terminate i = rd (\<lambda>s. map_of (at_comps s) i) (\<lambda>x. case x of None \<Rightarrow> raise KeyError
     | Some (Part _) \<Rightarrow> on_comp i part_terminate (ret ())
     | Some (Periph p) \<Rightarrow> bnd (releaseDevice (ph_type p) i) (\<lambda>_. ret ()))"

definition terminate_comps :: "('x, 'y, unit) aact" where
  "terminate_comps = rd at_comps (\<lambda>cs. forA (dkeys cs) comp_terminate)"

definition actor_terminate :: "('x, 'y, unit) aact" where
  "actor_terminate = seqA [
     actor_deactivate,
     terminate_comps,
     rd at_disco (\<lambda>d. whenA (d \<noteq> None) (on_disco dclient_terminate)),
     upd (\<lambda>s. s\<lparr>at_exited := True\<rparr>)]"

text \<open>A device actor does not deactivate its component, and needs its discovery client.\<close>

definition device_terminate :: "('x, 'y, unit) aact" where
  "device_terminate = seqA [
     terminate_comps,
     on_disco dclient_terminate,
     upd (\<lambda>s. s\<lparr>at_exited := True\<rparr>)]"

section \<open>Construction\<close>

record type_spec =
  ts_formals :: "formal list"
  ts_ports :: "string list"

record actor_model =
  md_formals :: "formal list"
  md_instances :: "(string, string \<times> actual list) dict"
  md_locals :: "string list"
  md_internals :: "string list"

record app_model =
  gm_name :: string
  gm_components :: "(string, type_spec) dict"
  gm_devices :: "(string, type_spec) dict"
  gm_actors :: "(string, actor_model) dict"

definition messageScope :: "string \<Rightarrow> ('x, 'y) actor \<Rightarrow> pscope" where
  "messageScope m s = (if m \<in> set (at_locals s) then PLocal else if m \<in> set (at_internals s) then PInternal else PGlobal)"

text \<open>The code of a component runs in its constructor: \<open>user\<close> gives the exception it raises, if any.\<close>

type_synonym user_code = "string \<Rightarrow> string \<Rightarrow> params \<Rightarrow> pyexc option"

definition new_part :: "user_code \<Rightarrow> type_spec \<Rightarrow> string \<Rightarrow> string \<Rightarrow> params \<Rightarrow> pyexc + cinst" where
  "new_part user spec inst type args = (case user type inst args of Some e \<Rightarrow> Inl e
   | None \<Rightarrow> Inr (Part \<lparr> pt_state = Initial, pt_type = type, pt_ports = map (\<lambda>n. (n, None)) (ts_ports spec),
       pt_control = False, pt_thread = False, pt_sent = [] \<rparr>))"

definition new_periph :: "string \<Rightarrow> params \<Rightarrow> pyexc + cinst" where
  "new_periph type args = Inr (Periph \<lparr> ph_state = Initial, ph_type = type, ph_args = args \<rparr>)"

text \<open>An instance whose constructor raises is logged and left out.\<close>

definition keep_built :: "string \<Rightarrow> (string, cinst) dict \<Rightarrow> pyexc + cinst \<Rightarrow> (string, cinst) dict" where
  "keep_built inst cs r = (case r of Inl _ \<Rightarrow> cs | Inr c \<Rightarrow> AList.update inst c cs)"

fun build_comps :: "user_code \<Rightarrow> app_model \<Rightarrow> params \<Rightarrow> (string, string \<times> actual list) dict \<Rightarrow> (string, cinst) dict \<Rightarrow> pyexc + (string, cinst) dict" where
  "build_comps user gm ps [] cs = Inr cs"
| "build_comps user gm ps ((inst, type, actuals) # insts) cs = (case map_of (gm_components gm) type of
     Some spec \<Rightarrow> (case buildInstArgs ps inst (ts_formals spec) actuals of Inl e \<Rightarrow> Inl e
       | Inr args \<Rightarrow> build_comps user gm ps insts (keep_built inst cs (new_part user spec inst type args)))
   | None \<Rightarrow> (case map_of (gm_devices gm) type of
       Some spec \<Rightarrow> (case buildInstArgs ps inst (ts_formals spec) actuals of Inl e \<Rightarrow> Inl e
         | Inr args \<Rightarrow> build_comps user gm ps insts (keep_built inst cs (new_periph type args)))
     | None \<Rightarrow> Inl (BuildError (''Component type '' @ type @ '' for instance '' @ inst @ '' is undefined''))))"

definition actor_new :: "(string \<Rightarrow> pyfloat option) \<Rightarrow> (pyval \<Rightarrow> string) \<Rightarrow> user_code \<Rightarrow> string \<times> string \<Rightarrow> app_model \<Rightarrow> string \<Rightarrow>
    string \<Rightarrow> string list \<Rightarrow> pyexc + ('x, 'y) actor" where
  "actor_new fl sv user = (\<lambda>(globalHost, localHost) gm model name argv. case map_of (gm_actors gm) name of
     None \<Rightarrow> Inl (BuildError (''Actor '' @ name @ '' unknown''))
   | Some md \<Rightarrow> (case parseParams fl (md_formals md) argv of Inl e \<Rightarrow> Inl e
     | Inr ps \<Rightarrow> (case build_comps user gm ps (md_instances md) [] of Inl e \<Rightarrow> Inl e
       | Inr cs \<Rightarrow> Inr \<lparr> at_app = gm_name gm, at_model = model, at_name = name, at_isDevice = False,
           at_globalHost = globalHost, at_localHost = localHost, at_str = sv, at_locals = md_locals md,
           at_internals = md_internals md, at_params = ps, at_comps = cs, at_disco = None, at_deplc = None, at_exited = False \<rparr>)))"

text \<open>
  The actor of a device: its name is qualified with the actor it belongs to, whose local and internal
  messages it has; its one instance is a part with the parameters of the process.
\<close>

definition device_new :: "(string \<Rightarrow> pyfloat option) \<Rightarrow> (pyval \<Rightarrow> string) \<Rightarrow> user_code \<Rightarrow> string \<times> string \<Rightarrow> app_model \<Rightarrow> string \<Rightarrow>
    string \<Rightarrow> string \<Rightarrow> string list \<Rightarrow> pyexc + ('x, 'y) actor" where
  "device_new fl sv user = (\<lambda>(globalHost, localHost) gm model dname qname argv. case split_on CHR ''.'' qname of
     [aname, iname] \<Rightarrow> (case map_of (gm_devices gm) dname of
       None \<Rightarrow> Inl (BuildError (''Device '' @ dname @ '' unknown''))
     | Some spec \<Rightarrow> (case map_of (gm_actors gm) aname of None \<Rightarrow> Inl KeyError
       | Some md \<Rightarrow> (case parseParams fl (ts_formals spec) argv of Inl e \<Rightarrow> Inl e
         | Inr ps \<Rightarrow> (case buildInstArgs ps iname (ts_formals spec) (device_actuals (ts_formals spec)) of Inl e \<Rightarrow> Inl e
           | Inr args \<Rightarrow> Inr \<lparr> at_app = gm_name gm, at_model = model, at_name = qname, at_isDevice = True,
               at_globalHost = globalHost, at_localHost = localHost, at_str = sv, at_locals = md_locals md,
               at_internals = md_internals md, at_params = ps, at_comps = keep_built iname [] (new_part user spec iname dname args),
               at_disco = None, at_deplc = None, at_exited = False \<rparr>))))
   | _ \<Rightarrow> Inl ValueError)"

end
