(* ===== verification/ActorProps.thy ===== *)
theory ActorProps
  imports DepmTables Actor
begin

text \<open>
  What the process of an actor does to its components: the commands to the threads follow the life of
  the parts in every run, and a termination that comes too early.
\<close>

section \<open>What operations do to the parts\<close>

definition parts_ok :: "(string \<Rightarrow> part \<Rightarrow> bool) \<Rightarrow> ('x, 'y) actor \<Rightarrow> bool" where
  "parts_ok ok s \<longleftrightarrow> (\<forall>i p. map_of (at_comps s) i = Some (Part p) \<longrightarrow> ok i p)"

lemma parts_okD: "parts_ok ok s \<Longrightarrow> map_of (at_comps s) i = Some (Part p) \<Longrightarrow> ok i p"
  by (simp add: parts_ok_def)

lemma keeps_on_comp: "preserves (ok i) m \<Longrightarrow> preserves (parts_ok ok) (on_comp i m n)"
  by (rule preservesI)
    (auto simp: on_comp_def parts_ok_def split: option.split cinst.split prod.split if_splits dest: preservesD)

lemma keeps_on_client: "preserves (parts_ok ok) (on_disco m)" "preserves (parts_ok ok) (on_deplc n)"
  by (rule preservesI, simp add: on_disco_def on_deplc_def parts_ok_def split: option.split prod.split)+

lemma keeps_each_comp: "(\<And>i. preserves (ok i) m) \<Longrightarrow> preserves (parts_ok ok) (each_comp m n)"
  unfolding each_comp_def by (intro preserve keeps_on_comp)

text \<open>
  A property of parts that port updates keep is kept by everything that has to do with discovery; one
  that all relayed commands keep, by the messages of both services and the reports of the threads.
\<close>

locale updates_keep =
  fixes ok :: "string \<Rightarrow> part \<Rightarrow> bool"
  assumes port_keeps: "preserves (ok i) (part_portUpdate n h k)"
begin

lemma update_parts_keeps: "preserves (parts_ok ok) (update_parts res)"
  unfolding update_parts_def updatePart_def by (intro preserve keeps_on_comp port_keeps)

lemma register_keeps: "preserves (parts_ok ok) (actor_registerEndpoint e)"
  unfolding actor_registerEndpoint_def by (intro preserve keeps_on_client update_parts_keeps)

lemma service_update_keeps: "preserves (parts_ok ok) (handleServiceUpdate u)"
  unfolding handleServiceUpdate_def updatePart_def Let_def by (intro preserve keeps_on_comp port_keeps)

lemma reinstate_keeps: "preserves (parts_ok ok) handleReinstate"
  unfolding handleReinstate_def comp_reinstate_def part_reinstate_def
  by (intro preserve keeps_on_client register_keeps) (simp split: cinst.split pinfo.split add: preserve register_keeps)

lemma report_keeps: "preserves (parts_ok ok) (handleReport r)"
  by (cases r) (auto intro!: preserve keeps_on_client update_parts_keeps)

lemma device_keeps: "preserves (parts_ok ok) (requestDevice type i args)" "preserves (parts_ok ok) (releaseDevice type i)"
  unfolding requestDevice_def releaseDevice_def by (intro preserve keeps_on_client)+

end

locale relays_keep = updates_keep +
  assumes relay_keeps: "c \<notin> {ActivateAll, DeactivateAll, Passivate} \<Longrightarrow> preserves (ok i) (part_relay c)"
begin

lemma message_keeps: "preserves (parts_ok ok) (handleDeplMessage m)"
proof -
  have relay: "preserves (parts_ok ok) (relay_all c)" if "c \<notin> {ActivateAll, DeactivateAll, Passivate}" for c
    unfolding relay_all_def by (rule keeps_each_comp) (rule relay_keeps [OF that])
  have "limit_cmd r \<notin> {ActivateAll, DeactivateAll, Passivate}" for r by (cases r) simp_all
  then show ?thesis by (cases m) (simp_all add: relay reinstate_keeps preserves_ret)
qed

lemma round_keeps: "preserves (parts_ok ok) (actor_round r)"
  unfolding actor_round_def by (intro preserve service_update_keeps message_keeps report_keeps)

lemma terminate_comps_keeps: "preserves (parts_ok ok) terminate_comps"
proof -
  have k: "preserves (ok i) part_terminate" for i using relay_keeps [of Kill i] by (simp add: part_relay_def part_terminate_def)
  show ?thesis unfolding terminate_comps_def comp_terminate_def
    by (intro preserve keeps_on_comp) (simp add: k preserve keeps_on_comp device_keeps split: cinst.split)
qed

end

section \<open>The life of a part\<close>

text \<open>
  How the state of a part follows from what its thread has been told: the thread is built first, then
  activated, and from then on deactivated or passivated and activated in turn; nothing else is sent
  before it has been built.
\<close>

fun life :: "pstate \<Rightarrow> ctl \<Rightarrow> pstate option" where
  "life st Build = (if st = Initial then Some Ready else None)"
| "life st (Cmd c) = (if st = Initial then None
     else if c = ActivateAll then (if st \<in> {Ready, Passive, Inactive} then Some Active else None)
     else if c = DeactivateAll then (if st = Active then Some Inactive else None)
     else if c = Passivate then (if st = Active then Some Passive else None)
     else Some st)"

definition lives :: "ctl list \<Rightarrow> pstate option" where
  "lives cs = foldl (\<lambda>st c. Option.bind st (\<lambda>st. life st c)) (Some Initial) cs"

lemma lives_simps [simp]: "lives [] = Some Initial" "lives (cs @ [c]) = Option.bind (lives cs) (\<lambda>st. life st c)"
  by (simp_all add: lives_def)

definition in_order :: "part \<Rightarrow> bool" where
  "in_order p \<longleftrightarrow> lives (pt_sent p) = Some (pt_state p) \<and> (pt_control p \<longleftrightarrow> pt_state p \<noteq> Initial)"

definition building :: "part \<Rightarrow> bool" where
  "building p \<longleftrightarrow> lives (pt_sent p) = Some Ready \<and> pt_state p = Initial \<and> pt_control p"

text \<open>The parts in \<open>X\<close> are being set up.\<close>

definition life_ok :: "string set \<Rightarrow> string \<Rightarrow> part \<Rightarrow> bool" where
  "life_ok X i p = (if i \<in> X then building p else in_order p)"

lemma relay_in_life:
  assumes "c \<notin> {ActivateAll, DeactivateAll, Passivate}"
  shows "preserves (life_ok X i) (part_relay c)"
  unfolding part_relay_def sendControl_def
  by (rule preserves_upd) (use assms in \<open>auto simp: life_ok_def building_def in_order_def\<close>)

interpretation protocol: relays_keep "life_ok X" for X
proof
  show "preserves (life_ok X i) (part_portUpdate n h k)" for i n h k
    using relay_in_life [of "PortUpdate n h k" X i] unfolding part_portUpdate_def part_relay_def by (intro preserve) simp
qed (rule relay_in_life)

lemma part_life:
  "preserves (life_ok {} i) part_activate" "preserves (life_ok {} i) part_deactivate" "preserves (life_ok {} i) part_passivate"
  "preserves (life_ok {} i) part_checkpoint" "preserves (life_ok {} i) part_destroy"
  by (auto simp: preserves_def life_ok_def in_order_def part_activate_def part_deactivate_def part_passivate_def part_checkpoint_def
      part_destroy_def part_in_def part_goto_def sendControl_def seqA.simps bnd_def rd_def whenA_def raise_def ret_def upd_def)

lemma on_comp_part:
  assumes "on_comp i m n s = (r, t)" "map_of (at_comps t) j = Some (Part p)"
  shows "j \<noteq> i \<and> map_of (at_comps s) j = Some (Part p) \<or> j = i \<and> (\<exists>q. map_of (at_comps s) i = Some (Part q) \<and> m q = (r, p))"
  using assms by (auto simp: on_comp_def split: option.splits cinst.splits prod.splits if_splits)

lemma build_life:
  assumes "parts_ok (life_ok {}) s" "on_comp i part_build n s = (Inr (), t)"
  shows "parts_ok (life_ok {i}) t"
  unfolding parts_ok_def
proof (intro allI impI)
  fix j p assume "map_of (at_comps t) j = Some (Part p)"
  from on_comp_part [OF assms(2) this] parts_okD [OF assms(1)]
  show "life_ok {i} j p"
    by (fastforce simp: life_ok_def in_order_def building_def part_build_def part_in_def sendControl_def seqA.simps bnd_def
      rd_def whenA_def raise_def ret_def upd_def split: if_splits)
qed

lemma ready_life:
  assumes "parts_ok (life_ok {i}) s" "on_comp i (part_goto Ready) n s = (Inr (), t)"
  shows "parts_ok (life_ok {}) t"
  unfolding parts_ok_def
proof (intro allI impI)
  fix j p assume "map_of (at_comps t) j = Some (Part p)"
  from on_comp_part [OF assms(2) this] parts_okD [OF assms(1)]
  show "life_ok {} j p"
    by (fastforce simp: life_ok_def in_order_def building_def part_goto_def upd_def split: if_splits)
qed

lemma register_life:
  assumes "parts_ok (life_ok {i}) s" "part_register i ports ans s = (Inr (), t)"
  shows "parts_ok (life_ok {}) t"
proof -
  let ?m = "\<lambda>infos. rd (part_type i) (\<lambda>type. forA infos (\<lambda>pinfo. actor_registerEndpoint ((i, type), pinfo)))"
  have "preserves (life_ok {i} i) (upd (\<lambda>p. p\<lparr>pt_ports := ports\<rparr>))"
    by (rule preserves_upd) (simp add: life_ok_def building_def)
  then have k: "preserves (parts_ok (life_ok {i})) (on_comp i (upd (\<lambda>p. p\<lparr>pt_ports := ports\<rparr>)) (ret ()))" by (rule keeps_on_comp)
  have m: "preserves (parts_ok (life_ok {i})) (bnd (lift ans) ?m)" by (intro preserve protocol.register_keeps)
  from assms(2) obtain u v where u: "on_comp i (upd (\<lambda>p. p\<lparr>pt_ports := ports\<rparr>)) (ret ()) s = (Inr (), u)"
    "bnd (lift ans) ?m u = (Inr (), v)" "on_comp i (part_goto Ready) (ret ()) v = (Inr (), t)"
    unfolding part_register_def seqA.simps bnd_def ret_def by (auto split: prod.splits sum.splits)
  from preservesD [OF m preservesD [OF k assms(1) u(1)] u(2)] u(3) show ?thesis by (rule ready_life)
qed

lemma setup_life:
  assumes "parts_ok (life_ok {}) s" "setup_comp th i s = Some (Inr (), t)"
  shows "parts_ok (life_ok {}) t"
proof (cases "map_of (at_comps s) i")
  case (Some c)
  show ?thesis
  proof (cases c)
    case (Part p)
    obtain r u where b: "on_comp i part_build (ret ()) s = (r, u)" by fastforce
    with assms(2) Some Part obtain ans where "r = Inr ()" "part_register i (fst th) ans u = (Inr (), t)"
      by (cases r) (auto simp: setup_comp_def)
    with build_life [OF assms(1)] b register_life show ?thesis by blast
  next
    case (Periph p)
    have "preserves (parts_ok (life_ok {})) (periph_setup i p)"
      unfolding periph_setup_def by (intro preserve keeps_on_comp protocol.device_keeps)
    moreover from assms(2) Some Periph have "periph_setup i p s = (Inr (), t)" by (simp add: setup_comp_def)
    ultimately show ?thesis using assms(1) by (metis preservesD)
  qed
qed (use assms(2) in \<open>simp add: setup_comp_def\<close>)

lemma setups_life: "parts_ok (life_ok {}) s \<Longrightarrow> setup_comps th is s = Some (Inr (), t) \<Longrightarrow> parts_ok (life_ok {}) t"
  by (induction th "is" s rule: setup_comps.induct) (auto split: option.splits prod.splits sum.splits dest: setup_life)

text \<open>The runs of an actor: it is set up and activated, its loop handles what comes, a signal terminates it.\<close>

inductive actor_step :: "('x, 'y) actor \<Rightarrow> ('x, 'y) actor \<Rightarrow> bool" where
  step_setup: "\<not> at_exited s \<Longrightarrow> actor_setup DL dw PL pw th s = Some (Inr (), t) \<Longrightarrow> actor_step s t"
| step_activate: "\<not> at_exited s \<Longrightarrow> actor_activate s = (Inr (), t) \<Longrightarrow> actor_step s t"
| step_round: "\<not> at_exited s \<Longrightarrow> actor_round r s = (Inr (), t) \<Longrightarrow> actor_step s t"
| step_terminate: "\<not> at_exited s \<Longrightarrow> actor_terminate s = (Inr (), t) \<Longrightarrow> actor_step s t"
| step_device_terminate: "\<not> at_exited s \<Longrightarrow> device_terminate s = (Inr (), t) \<Longrightarrow> actor_step s t"

lemma connect_life: "preserves (parts_ok ok) (actor_connect DL dw PL pw)"
  unfolding actor_connect_def by (intro preserve keeps_on_client preserves_upd) (simp_all add: parts_ok_def)

lemma terminate_life: "preserves (parts_ok (life_ok {})) actor_terminate" "preserves (parts_ok (life_ok {})) device_terminate"
  unfolding actor_terminate_def actor_deactivate_def device_terminate_def
  by (intro preserve keeps_each_comp part_life protocol.terminate_comps_keeps keeps_on_client preserves_upd, simp add: parts_ok_def)+

lemma step_life: "actor_step s t \<Longrightarrow> parts_ok (life_ok {}) s \<Longrightarrow> parts_ok (life_ok {}) t"
proof (induction rule: actor_step.induct)
  case (step_setup s DL dw PL pw th t)
  then obtain u where "actor_connect DL dw PL pw s = (Inr (), u)" "setup_comps th (dkeys (at_comps u)) u = Some (Inr (), t)"
    by (auto simp: actor_setup_def split: prod.splits sum.splits)
  with preservesD [OF connect_life step_setup.prems] setups_life show ?case by blast
next
  case (step_activate s t)
  from preservesD [OF keeps_each_comp [OF part_life(1)] step_activate.prems] step_activate.hyps show ?case
    unfolding actor_activate_def by blast
qed (use preservesD [OF protocol.round_keeps] preservesD [OF terminate_life(1)] preservesD [OF terminate_life(2)] in blast)+

lemma lives_None: "foldl (\<lambda>st c. Option.bind st (\<lambda>st. life st c)) None cs = None"
  by (induction cs) simp_all

lemma lives_append: "lives (xs @ ys) = foldl (\<lambda>st c. Option.bind st (\<lambda>st. life st c)) (lives xs) ys"
  by (simp add: lives_def)

lemma active_stays:
  "Cmd DeactivateAll \<notin> set ys \<Longrightarrow> Cmd Passivate \<notin> set ys \<Longrightarrow>
    foldl (\<lambda>st c. Option.bind st (\<lambda>st. life st c)) (Some Active) ys \<in> {Some Active, None}"
proof (induction ys)
  case (Cons c ys)
  then show ?case by (cases c) (auto simp: lives_None split: if_splits)
qed simp

lemma activations_separate:
  assumes "lives (xs @ Cmd ActivateAll # ys @ Cmd ActivateAll # zs) = Some st"
  shows "Cmd DeactivateAll \<in> set ys \<or> Cmd Passivate \<in> set ys"
proof (rule ccontr)
  assume a: "\<not> ?thesis"
  let ?f = "\<lambda>st c. Option.bind st (\<lambda>st. life st c)"
  from a active_stays [of ys] have f: "foldl ?f (Some Active) ys = Some Active \<or> foldl ?f (Some Active) ys = None" by auto
  have "lives (xs @ [Cmd ActivateAll]) = Some Active \<or> lives (xs @ [Cmd ActivateAll]) = None"
    by (cases "lives xs") (auto split: if_splits)
  with f have "lives ((xs @ [Cmd ActivateAll]) @ ys) = Some Active \<or> lives ((xs @ [Cmd ActivateAll]) @ ys) = None"
    unfolding lives_append [of _ ys] by (elim disjE) (simp_all add: lives_None)
  then have "lives (((xs @ [Cmd ActivateAll]) @ ys) @ [Cmd ActivateAll]) = None" by (auto simp del: append_assoc)
  then have "lives ((((xs @ [Cmd ActivateAll]) @ ys) @ [Cmd ActivateAll]) @ zs) = None"
    by (simp only: lives_append [of _ zs] lives_None)
  with assms show False by simp
qed

lemma build_first: "lives cs = Some st \<Longrightarrow> cs \<noteq> [] \<Longrightarrow> hd cs = Build \<and> Build \<notin> set (tl cs) \<and> st \<noteq> Initial"
proof (induction cs arbitrary: st rule: rev_induct)
  case (snoc c cs)
  then obtain st' where st: "lives cs = Some st'" "life st' c = Some st" by (cases "lives cs") auto
  show ?case
  proof (cases "cs = []")
    case True
    with st show ?thesis by (cases c) (auto split: if_splits)
  next
    case False
    from snoc.IH [OF st(1) False] False st(2) show ?thesis by (cases c) (auto split: if_splits)
  qed
qed simp

lemma kept_life:
  assumes "\<forall>i p. map_of cs i = Some (Part p) \<longrightarrow> life_ok {} i p"
  shows "\<forall>i p. map_of (keep_built inst cs (new_part user spec inst type args)) i = Some (Part p) \<longrightarrow> life_ok {} i p"
    "\<forall>i p. map_of (keep_built inst cs (new_periph type args)) i = Some (Part p) \<longrightarrow> life_ok {} i p"
  using assms by (auto simp: keep_built_def new_part_def new_periph_def life_ok_def in_order_def split: option.split)

lemma built_life:
  "build_comps user gm ps insts cs = Inr cs' \<Longrightarrow> \<forall>i p. map_of cs i = Some (Part p) \<longrightarrow> life_ok {} i p \<Longrightarrow>
    \<forall>i p. map_of cs' i = Some (Part p) \<longrightarrow> life_ok {} i p"
proof (induction user gm ps insts cs rule: build_comps.induct)
  case (2 user gm ps inst type actuals insts cs)
  show ?case
  proof (cases "map_of (gm_components gm) type")
    case (Some spec)
    with "2.prems" obtain args where a: "buildInstArgs ps inst (ts_formals spec) actuals = Inr args" by (auto split: sum.splits)
    show ?thesis
      by (rule "2.IH"(2) [OF Some a _ kept_life(1) [OF "2.prems"(2)]]) (use "2.prems"(1) Some a in simp)
  next
    case None
    with "2.prems" obtain spec args where a: "map_of (gm_devices gm) type = Some spec"
      "buildInstArgs ps inst (ts_formals spec) actuals = Inr args" by (auto split: option.splits sum.splits)
    show ?thesis
      by (rule "2.IH"(1) [OF None a _ kept_life(2) [OF "2.prems"(2)]]) (use "2.prems"(1) None a in simp)
  qed
qed simp

text \<open>
  C10: the thread of a component is told what follows the life of its part. In every run of an actor
  or a device actor the thread is built first and once, it is activated only when it has been built
  and not twice without being deactivated in between, and the state of the part is the one that the
  commands sent so far lead to.
\<close>

theorem threads_follow_parts:
  assumes "actor_new fl sv user hosts gm model name argv = Inr s0 \<or> device_new fl sv user hosts gm model dname qname argv = Inr s0"
    "actor_step\<^sup>*\<^sup>* s0 s" "map_of (at_comps s) i = Some (Part p)"
  shows "lives (pt_sent p) = Some (pt_state p) \<and>
    (pt_sent p \<noteq> [] \<longrightarrow> hd (pt_sent p) = Build \<and> Build \<notin> set (tl (pt_sent p))) \<and>
    (\<forall>xs ys zs. pt_sent p = xs @ Cmd ActivateAll # ys @ Cmd ActivateAll # zs \<longrightarrow> Cmd DeactivateAll \<in> set ys \<or> Cmd Passivate \<in> set ys)"
proof -
  have "parts_ok (life_ok {}) s0"
    using assms(1)
  proof
    assume "actor_new fl sv user hosts gm model name argv = Inr s0"
    then obtain ps insts where "build_comps user gm ps insts [] = Inr (at_comps s0)"
      by (auto simp: actor_new_def split: prod.splits option.splits sum.splits)
    from built_life [OF this] show ?thesis by (simp add: parts_ok_def)
  next
    assume "device_new fl sv user hosts gm model dname qname argv = Inr s0"
    then obtain iname spec args where "at_comps s0 = keep_built iname [] (new_part user spec iname dname args)"
      by (auto simp: device_new_def split: prod.splits option.splits sum.splits list.splits)
    with kept_life(1) [of "[]" iname user spec dname args] show ?thesis by (auto simp: parts_ok_def)
  qed
  with assms(2) have "parts_ok (life_ok {}) s" by induction (auto dest: step_life)
  from parts_okD [OF this assms(3)] have l: "lives (pt_sent p) = Some (pt_state p)" by (simp add: life_ok_def in_order_def)
  with build_first activations_separate show ?thesis by metis
qed

text \<open>An actor with a component and a device, between services that answer every request.\<close>

definition toy_link :: "disco_req option link" where
  "toy_link = \<lparr> lk_send = (\<lambda>m. upd (\<lambda>_. Some m)),
     lk_recv = (\<lambda>w. (Inr (Ok, case w of Some (disco_req.ActorReg _ _ _ _) \<Rightarrow> RepActorReg 5
       | Some (ServiceLookup _ _) \<Rightarrow> RepServiceLookup [(''10.0.0.2'', 7)] | Some (ActorUnreg _ _ _) \<Rightarrow> RepActorUnreg 5 | _ \<Rightarrow> RepServiceReg), None)),
     lk_open = ret (), lk_reopen = ret (), lk_close = ret (), lk_connect = (\<lambda>_. ret ()), lk_disconnect = (\<lambda>_. ret ()) \<rparr>"

definition toy_dlink :: "drequest option dlink" where
  "toy_dlink = \<lparr> dl_send = (\<lambda>m. upd (\<lambda>_. Some m)),
     dl_recv = (\<lambda>w. (Inr (case w of Some (drequest.ActorReg _ _ _) \<Rightarrow> RegOk 1 | _ \<Rightarrow> DevGetA True, ''n1''), None)),
     dl_open = ret (), dl_connect = (\<lambda>_. ret ()) \<rparr>"

definition toy_pinfo :: "kind \<Rightarrow> string \<Rightarrow> portInfo" where
  "toy_pinfo k n = \<lparr> pi_kind = k, pi_scope = PGlobal, pi_name = n, pi_msgType = ''Temp'', pi_host = ''10.0.0.1'', pi_num = 7 \<rparr>"

definition toy_gm :: app_model where
  "toy_gm = \<lparr> gm_name = ''App'', gm_components = [(''Sensor'', \<lparr> ts_formals = [], ts_ports = [''clock'', ''out'', ''in''] \<rparr>)],
     gm_devices = [(''Gps'', \<lparr> ts_formals = [\<lparr> fo_name = ''tty'', fo_default = None \<rparr>], ts_ports = [] \<rparr>)],
     gm_actors = [(''a'', \<lparr> md_formals = [], md_instances = [(''sensor'', ''Sensor'', []),
       (''gps'', ''Gps'', [\<lparr> aa_name = ''tty'', aa_param = None, aa_value = Some (Some (VStr ''ttyS0'')) \<rparr>])],
       md_locals = [], md_internals = [] \<rparr>)] \<rparr>"

definition toy_actor :: "(disco_req option, drequest option) actor" where
  "toy_actor = projr (actor_new (\<lambda>_. None) (\<lambda>_. []) (\<lambda>_ _ _. None) (''10.0.0.1'', ''127.0.0.1'') toy_gm ''App.json'' ''a'' [])"

definition toy_thread :: "string \<Rightarrow> (string, pinfo option) dict \<times> thread_msg list" where
  "toy_thread i = ([(''clock'', Some Inner), (''out'', Some (Info (toy_pinfo KPub ''out''))), (''in'', Some (Info (toy_pinfo KSub ''in'')))],
     [TPort (toy_pinfo KPub ''out''), TPort (toy_pinfo KSub ''in''), TDone])"

definition toy_setup_actor :: "(disco_req option, drequest option) actor" where
  "toy_setup_actor = snd (the (actor_setup toy_link None toy_dlink None toy_thread toy_actor))"

lemma toy_actor_new:
  "actor_new (\<lambda>_. None) (\<lambda>_. []) (\<lambda>_ _ _. None) (''10.0.0.1'', ''127.0.0.1'') toy_gm ''App.json'' ''a'' [] = Inr toy_actor"
proof -
  have "isl (actor_new (\<lambda>_. None) (\<lambda>_. []) (\<lambda>_ _ _. None) (''10.0.0.1'', ''127.0.0.1'') toy_gm ''App.json'' ''a'' [] ::
    pyexc + (disco_req option, drequest option) actor) = False" by code_simp
  then show ?thesis unfolding toy_actor_def by (simp add: sum.collapse(2))
qed

lemma toy_actor_setup:
  "actor_setup toy_link None toy_dlink None toy_thread toy_actor = Some (Inr (), toy_setup_actor)"
proof -
  have "map_option fst (actor_setup toy_link None toy_dlink None toy_thread toy_actor) = Some (Inr ())" by code_simp
  then show ?thesis unfolding toy_setup_actor_def by (auto simp: map_option_eq_Some)
qed

lemma toy_setup_sensor:
  "map_option (\<lambda>c. case c of Part p \<Rightarrow> (pt_state p, pt_control p, pt_sent p) | Periph p \<Rightarrow> (ph_state p, False, []))
     (map_of (at_comps toy_setup_actor) ''sensor'') = Some (Ready, True, [Build, Cmd (PortUpdate ''in'' ''10.0.0.2'' 7)])"
  by code_simp

lemma toy_sensor:
  "\<exists>p. map_of (at_comps toy_setup_actor) ''sensor'' = Some (Part p) \<and> pt_state p = Ready \<and> pt_control p \<and>
    pt_sent p = [Build, Cmd (PortUpdate ''in'' ''10.0.0.2'' 7)]"
proof -
  obtain c where "map_of (at_comps toy_setup_actor) ''sensor'' = Some c" using toy_setup_sensor by auto
  with toy_setup_sensor show ?thesis by (cases c) simp_all
qed

theorem threads_follow_parts_witness:
  "\<exists>p. actor_step\<^sup>*\<^sup>* toy_actor toy_setup_actor \<and> map_of (at_comps toy_setup_actor) ''sensor'' = Some (Part p) \<and>
    pt_sent p = [Build, Cmd (PortUpdate ''in'' ''10.0.0.2'' 7)] \<and> lives (pt_sent p) = Some Ready"
proof -
  have "at_exited toy_actor = False" by code_simp
  then have run: "actor_step\<^sup>*\<^sup>* toy_actor toy_setup_actor" using step_setup [OF _ toy_actor_setup] by blast
  obtain p where p: "map_of (at_comps toy_setup_actor) ''sensor'' = Some (Part p)" "pt_state p = Ready" "pt_control p"
    "pt_sent p = [Build, Cmd (PortUpdate ''in'' ''10.0.0.2'' 7)]"
    using toy_sensor by blast
  from threads_follow_parts [OF disjI1 [OF toy_actor_new] run p(1)] p run show ?thesis by metis
qed

section \<open>A termination that comes too early\<close>

definition comp_state :: "cinst \<Rightarrow> pstate" where
  "comp_state c = (case c of Part p \<Rightarrow> pt_state p | Periph p \<Rightarrow> ph_state p)"

lemma on_comp_other: "j \<noteq> i \<Longrightarrow> map_of (at_comps (snd (on_comp j m n s))) i = map_of (at_comps s) i"
  by (simp add: on_comp_def split: option.split cinst.split prod.split)

lemma on_comp_keys: "dkeys (at_comps (snd (on_comp i m n s))) = dkeys (at_comps s)"
proof (cases "map_of (at_comps s) i")
  case (Some c)
  then have "i \<in> set (dkeys (at_comps s))" using has_key_iff [of "at_comps s" i] by simp
  then have "dkeys (AList.update i x (at_comps s)) = dkeys (at_comps s)" for x by (simp add: AList.update_keys)
  with Some show ?thesis by (cases c) (simp_all add: on_comp_def split: prod.split)
qed (simp add: on_comp_def)

lemma deactivate_refused:
  assumes "map_of (at_comps s) i = Some c" "comp_state c \<noteq> Active"
  shows "\<exists>t. on_comp i part_deactivate periph_deactivate s = (Inl StateError, t)"
  using assms by (cases c) (simp_all add: on_comp_def comp_state_def part_deactivate_def part_in_def periph_deactivate_def periph_in_def
      seqA.simps bnd_def rd_def whenA_def raise_def)

lemma deactivate_result:
  "has_key (at_comps s) i \<Longrightarrow> fst (on_comp i part_deactivate periph_deactivate s) \<in> {Inr (), Inl StateError}"
  by (auto simp: on_comp_def part_deactivate_def part_in_def periph_deactivate_def periph_in_def sendControl_def part_goto_def periph_goto_def
      seqA.simps bnd_def rd_def whenA_def raise_def ret_def upd_def split: cinst.split)

lemma deactivates_refused:
  "i \<in> set ks \<Longrightarrow> map_of (at_comps s) i = Some c \<Longrightarrow> comp_state c \<noteq> Active \<Longrightarrow> set ks \<subseteq> set (dkeys (at_comps s)) \<Longrightarrow>
    \<exists>t. forA ks (\<lambda>i. on_comp i part_deactivate periph_deactivate) s = (Inl StateError, t)"
proof (induction ks arbitrary: s)
  case (Cons k ks)
  obtain r u where r: "on_comp k part_deactivate periph_deactivate s = (r, u)" by fastforce
  show ?case
  proof (cases "k = i")
    case True
    with deactivate_refused [OF Cons.prems(2,3)] show ?thesis by (auto simp: forA.simps bnd_def)
  next
    case False
    have "has_key (at_comps s) k" using Cons.prems(4) has_key_iff [of "at_comps s" k] by simp
    from deactivate_result [OF this] r consider "r = Inl StateError" | "r = Inr ()" by auto
    then show ?thesis
    proof cases
      case 2
      have "dkeys (at_comps u) = dkeys (at_comps s)" using on_comp_keys [of k part_deactivate periph_deactivate s] r by simp
      then have "set ks \<subseteq> set (dkeys (at_comps u))" using Cons.prems(4) by simp
      moreover have "map_of (at_comps u) i = Some c" using on_comp_other [OF False, of part_deactivate periph_deactivate s] r Cons.prems(2) by simp
      ultimately show ?thesis using Cons.IH [of u] Cons.prems False r 2 by (simp add: forA.simps bnd_def)
    qed (simp add: forA.simps bnd_def r)
  qed
qed simp

text \<open>
  C39: a termination that comes before all components are active cleans up nothing. The signal handler
  is installed before the actor is set up; then \<open>terminate\<close> raises \<open>StateError\<close> and no thread is told
  to end, no device is released and neither service hears of it.
\<close>

theorem early_termination_cleans_nothing:
  assumes "map_of (at_comps s) i = Some c" "comp_state c \<noteq> Active"
  shows "\<exists>t. actor_terminate s = (Inl StateError, t) \<and> at_disco t = at_disco s \<and> at_deplc t = at_deplc s \<and> at_exited t = at_exited s \<and>
    (\<forall>j p. map_of (at_comps t) j = Some (Part p) \<longrightarrow> Cmd Kill \<in> set (pt_sent p) \<longrightarrow>
      (\<exists>q. map_of (at_comps s) j = Some (Part q) \<and> Cmd Kill \<in> set (pt_sent q)))"
proof -
  let ?killed = "\<lambda>j. \<exists>q. map_of (at_comps s) j = Some (Part q) \<and> Cmd Kill \<in> set (pt_sent q)"
  let ?f = "\<lambda>i. on_comp i part_deactivate periph_deactivate"
  have i: "i \<in> set (dkeys (at_comps s))" using assms(1) has_key_iff [of "at_comps s" i] by simp
  obtain t where t: "forA (dkeys (at_comps s)) ?f s = (Inl StateError, t)"
    using deactivates_refused [OF i assms subset_refl] by blast
  have "preserves (\<lambda>p. Cmd Kill \<in> set (pt_sent p) \<longrightarrow> ?killed j) part_deactivate" for j
    unfolding part_deactivate_def part_in_def part_goto_def sendControl_def by (intro preserve preserves_upd) simp_all
  then have "preserves (parts_ok (\<lambda>j p. Cmd Kill \<in> set (pt_sent p) \<longrightarrow> ?killed j)) (?f k)" for k by (rule keeps_on_comp)
  then have "preserves (parts_ok (\<lambda>j p. Cmd Kill \<in> set (pt_sent p) \<longrightarrow> ?killed j)) (forA (dkeys (at_comps s)) ?f)" by (intro preserve)
  from preservesD [OF this _ t] have k: "parts_ok (\<lambda>j p. Cmd Kill \<in> set (pt_sent p) \<longrightarrow> ?killed j) t" by (auto simp: parts_ok_def)
  let ?I = "\<lambda>u. at_disco u = at_disco s \<and> at_deplc u = at_deplc s \<and> at_exited u = at_exited s"
  have "preserves ?I (?f k)" for k by (rule preservesI) (simp add: on_comp_def split: option.split cinst.split prod.split)
  then have "preserves ?I (forA (dkeys (at_comps s)) ?f)" by (intro preserve)
  from preservesD [OF this _ t] have c: "?I t" by simp
  have "actor_terminate s = (Inl StateError, t)"
    using t by (simp add: actor_terminate_def actor_deactivate_def each_comp_def seqA.simps bnd_def rd_def)
  with c k show ?thesis by (auto simp: parts_ok_def)
qed

theorem early_termination_cleans_nothing_witness:
  "\<exists>t. actor_step\<^sup>*\<^sup>* toy_actor toy_setup_actor \<and> actor_terminate toy_setup_actor = (Inl StateError, t) \<and> at_deplc t = at_deplc toy_setup_actor"
proof -
  obtain p where p: "map_of (at_comps toy_setup_actor) ''sensor'' = Some (Part p)" "pt_state p = Ready" using toy_sensor by blast
  have "at_exited toy_actor = False" by code_simp
  then have run: "actor_step\<^sup>*\<^sup>* toy_actor toy_setup_actor" using step_setup [OF _ toy_actor_setup] by blast
  have "comp_state (Part p) \<noteq> Active" using p(2) by (simp add: comp_state_def)
  from early_termination_cleans_nothing [OF p(1) this] run show ?thesis by blast
qed

section \<open>From the fault monitor to the threads\<close>

text \<open>A command of the manager as the actor reads it, and the command to a thread that a message becomes.\<close>

fun depl_of :: "dcmd \<Rightarrow> depl_msg" where
  "depl_of (PeerInfo b uuid) = MPeer (if b then ''on'' else ''off'') uuid"
| "depl_of Reinstate = MReinstate"
| "depl_of (dcmd.NicState b) = MNic (if b then ''up'' else ''down'')"

definition on_channel :: "nat \<Rightarrow> (nat \<times> string \<times> dcmd) list \<Rightarrow> dcmd list" where
  "on_channel ch sent = map (\<lambda>(_, _, c). c) (filter (\<lambda>(ch', _, _). ch' = ch) sent)"

definition peer_ctl :: "tell \<Rightarrow> ctl" where
  "peer_ctl = (\<lambda>(cmd, app, actor, peer). Cmd (PeerState (if cmd = ''peer+'' then ''on'' else ''off'') peer))"

definition map_parts :: "(part \<Rightarrow> part) \<Rightarrow> (string, cinst) dict \<Rightarrow> (string, cinst) dict" where
  "map_parts f cs = map (\<lambda>(i, c). (i, case c of Part p \<Rightarrow> Part (f p) | Periph q \<Rightarrow> Periph q)) cs"

lemma map_parts_keys [simp]: "dkeys (map_parts f cs) = dkeys cs"
  by (simp add: map_parts_def comp_def split_def)

lemma map_parts_at: "map_of (map_parts f cs) i = Some (Part p) \<longleftrightarrow> (\<exists>q. map_of cs i = Some (Part q) \<and> p = f q)"
  by (induction cs) (auto simp: map_parts_def split: cinst.splits)

lemma each_comp_upd:
  assumes "distinct (dkeys (at_comps s))"
  shows "each_comp (upd f) (ret ()) s = (Inr (), s\<lparr>at_comps := map_parts f (at_comps s)\<rparr>)"
proof -
  have "forA (dkeys bs) (\<lambda>i. on_comp i (upd f) (ret ())) (s\<lparr>at_comps := as @ bs\<rparr>) = (Inr (), s\<lparr>at_comps := as @ map_parts f bs\<rparr>)"
    if "distinct (dkeys (as @ bs))" for as bs
    using that
  proof (induction bs arbitrary: as)
    case (Cons b bs)
    obtain i c where b: "b = (i, c)" by fastforce
    have i: "map_of as i = None" using Cons.prems b by (simp add: map_of_eq_None_iff)
    have u: "AList.update i x (as @ (i, y) # bs) = as @ (i, x) # bs" for x y
      using Cons.prems b by (induction as) auto
    have "on_comp i (upd f) (ret ()) (s\<lparr>at_comps := as @ b # bs\<rparr>) =
        (Inr (), s\<lparr>at_comps := (as @ [(i, case c of Part p \<Rightarrow> Part (f p) | Periph q \<Rightarrow> Periph q)]) @ bs\<rparr>)"
      by (cases c) (simp_all add: on_comp_def b i u map_add_def upd_def ret_def)
    with Cons.IH [of "as @ [(i, case c of Part p \<Rightarrow> Part (f p) | Periph q \<Rightarrow> Periph q)]"] Cons.prems b
    show ?case by (simp add: forA.simps bnd_def map_parts_def)
  qed (simp add: forA.simps ret_def map_parts_def)
  from this [of "[]" "at_comps s"] assms show ?thesis by (simp add: each_comp_def rd_def)
qed

definition told :: "ctl list \<Rightarrow> part \<Rightarrow> part" where
  "told cs p = (if pt_control p then p\<lparr>pt_sent := pt_sent p @ cs\<rparr> else p)"

lemma told_told: "told ds (told cs p) = told (cs @ ds) p" "told [] p = p"
  by (simp_all add: told_def)

lemma map_parts_told: "map_parts (told ds) (map_parts (told cs) xs) = map_parts (told (cs @ ds)) xs" "map_parts (told []) xs = xs"
  by (induction xs) (auto simp: map_parts_def told_told split: cinst.split)

lemma relay_run:
  assumes "distinct (dkeys (at_comps s))"
  shows "relay_all c s = (Inr (), s\<lparr>at_comps := map_parts (told [Cmd c]) (at_comps s)\<rparr>)"
  using each_comp_upd [OF assms, of "told [Cmd c]"]
  by (simp add: relay_all_def part_relay_def sendControl_def told_def [abs_def])

text \<open>Whatever is relayed, over any rounds, is what the threads are told, in order.\<close>

fun relayed :: "depl_msg \<Rightarrow> ctl list" where
  "relayed (MResource r) = [Cmd (limit_cmd r)]"
| "relayed (MNic st) = [Cmd (command.NicState st)]"
| "relayed (MPeer st uuid) = [Cmd (PeerState st uuid)]"
| "relayed _ = []"

lemma messages_run:
  assumes "distinct (dkeys (at_comps s))" "MReinstate \<notin> set ms"
  shows "forA ms handleDeplMessage s = (Inr (), s\<lparr>at_comps := map_parts (told (concat (map relayed ms))) (at_comps s)\<rparr>)"
  using assms
proof (induction ms arbitrary: s)
  case (Cons m ms)
  then have "handleDeplMessage m s = (Inr (), s\<lparr>at_comps := map_parts (told (relayed m)) (at_comps s)\<rparr>)"
    by (cases m) (simp_all add: relay_run map_parts_told ret_def)
  with Cons show ?case by (simp add: forA.simps bnd_def map_parts_told)
qed (simp add: forA.simps ret_def map_parts_told)

definition depl_round :: "depl_msg list \<Rightarrow> ready" where
  "depl_round ms = \<lparr> rd_disco = None, rd_depl = Some ms, rd_reports = [] \<rparr>"

lemma rounds_run:
  assumes "distinct (dkeys (at_comps s))" "MReinstate \<notin> set (concat mss)"
  shows "run_steps (\<lambda>s r. actor_round r s) s (map depl_round mss) = Some (s\<lparr>at_comps := map_parts (told (concat (map relayed (concat mss)))) (at_comps s)\<rparr>)"
  using assms
proof (induction mss arbitrary: s)
  case (Cons ms mss)
  then show ?case by (simp add: actor_round_def depl_round_def messages_run map_parts_told)
qed (simp add: map_parts_told)

text \<open>
  C8: the components of an actor hear of its peers in order. What the fault monitor tells the
  manager while the actor starts, and what it tells it later, is what the threads of all its
  components are told, each once and in this order, however the messages are spread over the rounds
  of the actor's loop.
\<close>

theorem peers_reach_components:
  assumes "waiting (fullName app actor) pid r msgs d" "al_chan r = None" "list_all (tell_for (fullName app actor)) (msgs @ ms @ ms')" "\<not> dm_pending d"
    "run_steps (\<lambda>s ev. depm_turn ev s) d (map EvFM ms @ EvClient (drequest.ActorReg app actor False) # map EvFM ms') = Some d'"
    "dm_answers d' = dm_answers d @ [RegOk ch]"
    "distinct (dkeys (at_comps s))" "concat mss = map depl_of (on_channel ch (drop (length (dm_sent d)) (dm_sent d')))"
  shows "\<exists>t. run_steps (\<lambda>s r. actor_round r s) s (map depl_round mss) = Some t \<and>
    (\<forall>i p. map_of (at_comps s) i = Some (Part p) \<longrightarrow> pt_control p \<longrightarrow>
      map_of (at_comps t) i = Some (Part (p\<lparr>pt_sent := pt_sent p @ map peer_ctl (msgs @ ms @ ms')\<rparr>)))"
proof -
  let ?ms = "msgs @ ms @ ms'"
  have sent: "dm_sent d' = dm_sent d @ map (to_actor ch (fullName app actor) pid) ?ms"
    by (rule peers_reach_actor_in_order [OF assms(1-6)])
  have "on_channel ch (map (to_actor ch q p) xs) = map peer_cmd xs" for q p xs
    by (induction xs) (simp_all add: on_channel_def to_actor_def)
  with sent assms(8) have c: "concat mss = map (depl_of \<circ> peer_cmd) ?ms" by (simp del: map_append)
  have r: "relayed (depl_of (peer_cmd m)) = [peer_ctl m]" "depl_of (peer_cmd m) \<noteq> MReinstate" for m :: tell
    by (cases m, simp add: peer_cmd_def peer_ctl_def)+
  then have "concat (map (relayed \<circ> (depl_of \<circ> peer_cmd)) xs) = map peer_ctl xs" for xs :: "tell list" by (induction xs) simp_all
  then have "concat (map relayed (concat mss)) = map peer_ctl ?ms" unfolding c by simp
  moreover have "MReinstate \<notin> set (concat mss)" unfolding c using r(2) [THEN not_sym] by auto
  ultimately have "run_steps (\<lambda>s r. actor_round r s) s (map depl_round mss) = Some (s\<lparr>at_comps := map_parts (told (map peer_ctl ?ms)) (at_comps s)\<rparr>)"
    using rounds_run [OF assms(7)] by metis
  moreover have "map_of (map_parts (told (map peer_ctl ?ms)) (at_comps s)) i = Some (Part (p\<lparr>pt_sent := pt_sent p @ map peer_ctl ?ms\<rparr>))"
    if "map_of (at_comps s) i = Some (Part p)" "pt_control p" for i p
    using that by (auto simp: map_parts_at told_def)
  ultimately show ?thesis by simp
qed

text \<open>The actor of above, on the node of \<open>toy_launched\<close>: a peer comes before the actor registers and goes after.\<close>

theorem peers_reach_components_witness:
  "\<exists>t p. run_steps (\<lambda>s r. actor_round r s) toy_setup_actor (map depl_round [[MPeer ''on'' ''n1''], [], [MPeer ''off'' ''n1'']]) = Some t \<and>
    map_of (at_comps t) ''sensor'' = Some (Part p) \<and>
    pt_sent p = [Build, Cmd (PortUpdate ''in'' ''10.0.0.2'' 7), Cmd (PeerState ''on'' ''n1''), Cmd (PeerState ''off'' ''n1'')]"
proof -
  let ?q = "fullName ''App'' ''a''" and ?ms = "[(''peer+'', ''App'', ''a'', ''n1'')]" and ?ms' = "[(''peer-'', ''App'', ''a'', ''n1'')]"
  let ?mss = "[[MPeer ''on'' ''n1''], [], [MPeer ''off'' ''n1'']]"
  obtain r d' where d: "waiting ?q 7 r [] toy_launched" "al_chan r = None" "\<not> dm_pending toy_launched"
    "run_steps (\<lambda>s ev. depm_turn ev s) toy_launched (map EvFM ?ms @ EvClient (drequest.ActorReg ''App'' ''a'' False) # map EvFM ?ms') = Some d'"
    "dm_answers d' = dm_answers toy_launched @ [RegOk 1]"
    using toy_peers by blast
  have tells: "list_all (tell_for ?q) ([] @ ?ms @ ?ms')" by (simp add: tell_for_def)
  from peers_reach_actor_in_order [OF d(1,2) tells d(3-5)]
  have sent: "concat ?mss = map depl_of (on_channel 1 (drop (length (dm_sent toy_launched)) (dm_sent d')))"
    by (simp add: to_actor_def on_channel_def peer_cmd_def)
  have k: "distinct (dkeys (at_comps toy_setup_actor))" by code_simp
  obtain p where p: "map_of (at_comps toy_setup_actor) ''sensor'' = Some (Part p)" "pt_control p"
    "pt_sent p = [Build, Cmd (PortUpdate ''in'' ''10.0.0.2'' 7)]"
    using toy_sensor by blast
  from peers_reach_components [OF d(1,2) tells d(3-5) k sent] p show ?thesis by (fastforce simp: peer_ctl_def)
qed

end
