(* ===== verification/ActorDisco.thy ===== *)
theory ActorDisco
  imports DiscoServiceProps CompProps ActorProps
begin

text \<open>
  A provider that appears, from the notification of the discovery service to the socket of the port:
  service, actor, part and component thread composed.
\<close>

section \<open>Updates in the actor\<close>

text \<open>What an update makes the actor tell the thread of the part \<open>i\<close>.\<close>

definition update_ctl :: "('x, 'y) actor \<Rightarrow> string \<Rightarrow> disco_upd \<Rightarrow> ctl list" where
  "update_ctl s i u = (if c_actorHost (u_client u) = at_globalHost s \<and> c_actorName (u_client u) = at_name s \<and> c_instanceName (u_client u) = i
     then [Cmd (PortUpdate (c_portName (u_client u)) (u_host u) (u_port u))] else [])"

text \<open>An update that the actor can handle: local ones come from the host, and it names no peripheral.\<close>

definition fits :: "('x, 'y) actor \<Rightarrow> disco_upd \<Rightarrow> bool" where
  "fits s u \<longleftrightarrow> (u_scope u = SGlobal \<or> u_host u = at_localHost s) \<and>
     (\<forall>c. map_of (at_comps s) (c_instanceName (u_client u)) = Some c \<longrightarrow> (\<exists>p. c = Part p \<and> pt_control p))"

definition hosts_of :: "('x, 'y) actor \<Rightarrow> string \<times> string \<times> string" where
  "hosts_of s = (at_globalHost s, at_localHost s, at_name s)"

lemma update_run:
  assumes "fits s u"
  shows "\<exists>t. handleServiceUpdate (Some u) s = (Inr (), t) \<and> hosts_of t = hosts_of s \<and>
    map_of (at_comps t) = (\<lambda>i. map_option (\<lambda>c. case c of Part p \<Rightarrow> Part (told (update_ctl s i u) p) | Periph q \<Rightarrow> Periph q) (map_of (at_comps s) i))"
proof -
  let ?c = "u_client u" and ?f = "\<lambda>i c. case c of Part p \<Rightarrow> Part (told (update_ctl s i u) p) | Periph q \<Rightarrow> Periph q"
  show ?thesis
  proof (cases "c_actorHost ?c = at_globalHost s \<and> c_actorName ?c = at_name s \<and> has_key (at_comps s) (c_instanceName ?c)")
    case True
    then obtain p where p: "map_of (at_comps s) (c_instanceName ?c) = Some (Part p)" "pt_control p"
      using assms by (auto simp: fits_def)
    let ?t = "s\<lparr>at_comps := AList.update (c_instanceName ?c) (Part (told [Cmd (PortUpdate (c_portName ?c) (u_host u) (u_port u))] p)) (at_comps s)\<rparr>"
    have "handleServiceUpdate (Some u) s = (Inr (), ?t)"
      using True p assms by (auto simp: handleServiceUpdate_def updatePart_def on_comp_def part_portUpdate_def sendControl_def told_def fits_def
          Let_def seqA.simps bnd_def rd_def whenA_def assertA_def ret_def upd_def)
    moreover have "map_of (at_comps ?t) = (\<lambda>i. map_option (?f i) (map_of (at_comps s) i))"
      using True p by (auto simp: fun_eq_iff update_ctl_def told_told option.map_ident split: cinst.split) (auto simp: option.map_ident_strong split: cinst.split)
    ultimately show ?thesis by (auto simp: hosts_of_def)
  next
    case False
    then have "handleServiceUpdate (Some u) s = (Inr (), s)" by (auto simp: handleServiceUpdate_def Let_def rd_def ret_def)
    moreover have "map_option (?f i) (map_of (at_comps s) i) = map_of (at_comps s) i" for i
      using False by (cases "map_of (at_comps s) i") (auto simp: update_ctl_def told_told split: cinst.split)
    ultimately show ?thesis by simp
  qed
qed

lemma updates_run:
  "\<forall>u \<in> set us. fits s u \<Longrightarrow> \<exists>t. forA (map Some us) handleServiceUpdate s = (Inr (), t) \<and>
    map_of (at_comps t) = (\<lambda>i. map_option (\<lambda>c. case c of Part p \<Rightarrow> Part (told (concat (map (update_ctl s i) us)) p) | Periph q \<Rightarrow> Periph q) (map_of (at_comps s) i))"
proof (induction us arbitrary: s)
  case Nil
  have "case_cinst Part Periph = (\<lambda>c. c)" by (rule ext) (simp split: cinst.split)
  then show ?case by (simp add: forA.simps ret_def told_told option.map_ident)
next
  case (Cons u us)
  then obtain v where v: "handleServiceUpdate (Some u) s = (Inr (), v)" "hosts_of v = hosts_of s"
    "map_of (at_comps v) = (\<lambda>i. map_option (\<lambda>c. case c of Part p \<Rightarrow> Part (told (update_ctl s i u) p) | Periph q \<Rightarrow> Periph q) (map_of (at_comps s) i))"
    using update_run [of s u] by auto
  have same: "update_ctl v = update_ctl s" using v(2) by (simp add: fun_eq_iff update_ctl_def hosts_of_def)
  have "fits v w" if "fits s w" for w
    unfolding fits_def
  proof (intro conjI allI impI)
    show "u_scope w = SGlobal \<or> u_host w = at_localHost v" using that v(2) by (simp add: fits_def hosts_of_def)
    fix c assume "map_of (at_comps v) (c_instanceName (u_client w)) = Some c"
    then obtain b where "map_of (at_comps s) (c_instanceName (u_client w)) = Some b"
      "c = (case b of Part p \<Rightarrow> Part (told (update_ctl s (c_instanceName (u_client w)) u) p) | Periph q \<Rightarrow> Periph q)"
      by (auto simp: v(3))
    with that show "\<exists>p. c = Part p \<and> pt_control p" by (auto simp: fits_def told_def)
  qed
  with Cons.IH [of v] Cons.prems obtain t where t: "forA (map Some us) handleServiceUpdate v = (Inr (), t)"
    "map_of (at_comps t) = (\<lambda>i. map_option (\<lambda>c. case c of Part p \<Rightarrow> Part (told (concat (map (update_ctl v i) us)) p) | Periph q \<Rightarrow> Periph q) (map_of (at_comps v) i))"
    by auto
  have "map_of (at_comps t) i = map_option (\<lambda>c. case c of Part p \<Rightarrow> Part (told (concat (map (update_ctl s i) (u # us))) p) | Periph q \<Rightarrow> Periph q) (map_of (at_comps s) i)" for i
    by (cases "map_of (at_comps s) i") (simp_all add: t(2) v(3) same told_told split: cinst.split)
  then have "map_of (at_comps t) = (\<lambda>i. map_option (\<lambda>c. case c of Part p \<Rightarrow> Part (told (concat (map (update_ctl s i) (u # us))) p) | Periph q \<Rightarrow> Periph q) (map_of (at_comps s) i))"
    by (rule ext)
  moreover have "forA (map Some (u # us)) handleServiceUpdate s = (Inr (), t)" using t(1) v(1) by (simp add: forA.simps bnd_def)
  ultimately show ?case by blast
qed

section \<open>From the service to the socket\<close>

text \<open>The notes of a service to one of its clients, and the entries of the notified key that name a part.\<close>

definition notes_to :: "nat \<Rightarrow> (nat \<times> disco_upd) list \<Rightarrow> disco_upd list" where
  "notes_to k notes = map snd (filter (\<lambda>(k', _). k' = k) notes)"

definition entry_ctl :: "'d disco \<Rightarrow> ('x, 'y) actor \<Rightarrow> nat \<Rightarrow> string \<Rightarrow> int \<Rightarrow> string \<Rightarrow> string \<times> scope \<times> client \<Rightarrow> ctl list" where
  "entry_ctl d s k host port i = (\<lambda>(app, sc, c).
     if map_of (ds_clients d) (clientKeyBase app (c_actorName c)) = Some (CSock k) \<and> c_actorHost c = ds_hostAddress d \<and>
        c_actorHost c = at_globalHost s \<and> c_actorName c = at_name s \<and> c_instanceName c = i
     then [Cmd (PortUpdate (c_portName c) host port)] else [])"

lemma entry_ctl_note: "concat (map (update_ctl s i) (notes_to k (entry_note d host port e))) = entry_ctl d s k host port i e"
  by (cases e) (auto simp: notes_to_def entry_note_def update_ctl_def entry_ctl_def split: option.split client_val.split)

lemma entries_ctl: "concat (map (update_ctl s i) (notes_to k (concat (map (entry_note d host port) es)))) = concat (map (entry_ctl d s k host port i) es)"
proof (induction es)
  case (Cons e es)
  have "notes_to k (xs @ ys) = notes_to k xs @ notes_to k ys" for xs ys by (simp add: notes_to_def)
  with Cons show ?case by (simp add: entry_ctl_note)
qed (simp add: notes_to_def)

definition disco_round :: "disco_upd list \<Rightarrow> ready" where
  "disco_round us = \<lparr> rd_disco = Some (map Some us), rd_depl = None, rd_reports = [] \<rparr>"

lemma connect_once:
  assumes "map_of (ct_ports ct) n = Some p" "connects (po_kind p)"
  shows "\<exists>ct' p'. runCommand usr (PortUpdate n host port) ct = (Inr False, ct') \<and> map_of (ct_ports ct') n = Some p' \<and>
    (host, port) \<in> set (po_servers p') \<and> runCommand usr (PortUpdate n host port) ct' = (Inr False, ct')"
proof (cases "(host, port) \<in> set (po_servers p)")
  case True
  with assms have "runCommand usr (PortUpdate n host port) ct = (Inr False, ct)"
    by (simp add: runCommand_def portUpdate_def port_update_def rd_def bnd_def ret_def)
  with True assms(1) show ?thesis by blast
next
  case False
  let ?p = "p\<lparr>po_servers := po_servers p @ [(host, port)]\<rparr>"
  let ?ct = "ct\<lparr>ct_ports := AList.update n ?p (ct_ports ct), ct_out := ct_out ct @ [Connect n host port]\<rparr>"
  have "runCommand usr (PortUpdate n host port) ct = (Inr False, ?ct)"
    using False assms by (simp add: runCommand_def portUpdate_def port_update_def log_def seqA.simps rd_def bnd_def ret_def upd_def)
  moreover have "runCommand usr (PortUpdate n host port) ?ct = (Inr False, ?ct)"
    using assms(2) by (simp add: runCommand_def portUpdate_def port_update_def rd_def bnd_def ret_def)
  ultimately show ?thesis by (intro exI [of _ ?ct] exI [of _ ?p]) simp
qed


text \<open>The component of \<open>ActorProps\<close> and an actor of another node look for the same provider.\<close>

definition toy_entries :: "(string \<times> scope \<times> client) list" where
  "toy_entries = [(''App'', SGlobal, \<lparr> c_actorHost = ''10.0.0.1'', c_actorName = ''a'', c_instanceName = ''sensor'', c_portName = ''in'' \<rparr>),
     (''App'', SGlobal, \<lparr> c_actorHost = ''10.0.0.9'', c_actorName = ''a'', c_instanceName = ''sensor'', c_portName = ''in'' \<rparr>)]"


end
