(* ===== verification/Spec2Isabelle.thy ===== *)
theory Spec2Isabelle
  imports Prelude DcWire DcPoll DcHandlers DcElection DcVotes DcNetwork DcGroup CompThread CompProps Fsm
    DiscoText Zyre TimerPort FaultMon FaultMonProps AppDb AppDbProps ProcMon ResMon ResMan ResProps Depm DepmProps DepmRuns DepmTables Install DiscoStore DiscoRedis DiscoDht DiscoDhtProps DiscoService DiscoServiceProps DiscoClient DiscoClientProps ActorParams DeplClient Actor ActorProps ActorDisco
begin

text \<open>
  RIAPS (\<open>src/src/riaps\<close>) runs distributed applications on embedded nodes. An application is a
  set of actors, processes whose components run in threads of their own and exchange messages
  through ports; a node runs a discovery service that tells ports where their counterparts are, and
  a deployment manager that starts the actors. This library models the parts of it that decide
  something: the coordination of groups, the component thread, state-machine components,
  discovery with both of its databases, and the services of a node that start, limit, watch and
  restart the processes of its actors.

  \<^bold>\<open>How code becomes HOL.\<close> \<open>Prelude\<close> has the conventions: an object is a record, a method an
  action \<open>('s, 'a) act\<close> from the state to a value or a Python exception and, in both cases, the
  state it leaves; \<open>wp\<close> is its weakest precondition and \<open>wp_rules\<close> the calculus that the invariant
  proofs use. Dictionaries are association lists in insertion order, floats are reals, Python's
  ints are \<open>int\<close>, fixed-width wire fields are ints with their range written out. What the code
  calls outside \<open>src/\<close> is a parameter: a record of operations (\<open>redis\<close>, \<open>ext\<close>, \<open>link\<close>), a function
  (\<open>capnp\<close>, pickle), or an input (times, random draws, what a socket delivers next); what is
  assumed of it is a named predicate (\<open>redis_laws\<close>, \<open>dht_laws\<close>) with an instance in a witness.

  \<^bold>\<open>Group coordination\<close> (\<open>run/dc.py\<close>, \<open>run/dcPorts.py\<close>).
  \<^item> \<open>DcWire\<close>: the command words and \<open>struct\<close> formats of the messages; the locale \<open>wire_format\<close>
    (round trip, length, range errors) with an interpretation for each format.
  \<^item> \<open>DcPoll\<close>: class \<open>Poll\<close>; a poll is decided exactly as its kind says.
  \<^item> \<open>DcThread\<close>, \<open>DcHandlers\<close>: the state of \<open>GroupThread\<close>, its ports, heartbeats, membership,
    elections, forwarding, polls, and \<open>run_round\<close>, one iteration of its main loop.
  \<^item> \<open>DcElection\<close>: the invariant \<open>gt_inv\<close> of role, leader, votes, membership and deadline, kept by
    every round. \<open>DcVotes\<close>: how votes are granted and counted, and how they go wrong. \<open>DcNetwork\<close>:
    all members of a group and the messages in transit; a dormant group stays dormant.
  \<^item> \<open>DcGroup\<close>: \<open>Group\<close> and \<open>Coordinator\<close>, what the component calls to send, vote, join and leave.

  \<^bold>\<open>Components\<close> (\<open>run/comp.py\<close>, \<open>run/port.py\<close>, \<open>run/fsm.py\<close>).
  \<^item> \<open>CompThread\<close>, \<open>CompProps\<close>: the maps from sockets to ports and groups with their invariant,
    the execution of handlers, and the default, priority and round-robin schedulers. The job
    queues are the locales \<open>job_store\<close> and \<open>urgent_store\<close>, interpreted on the heap and the deque.
  \<^item> \<open>Fsm\<close>: the decorators, the checks of the constructor, the processing of an event.

  \<^bold>\<open>Discovery\<close> (\<open>discd/*.py\<close>, \<open>run/disco.py\<close>, \<open>proto/disco.capnp\<close>).
  \<^item> \<open>DiscoText\<close>: splitting and parsing of the strings that keys and values are.
  \<^item> \<open>DiscoStore\<close>: the interface \<open>DiscoDbase\<close> as a record of operations, and what the service
    relies on as the locale \<open>disco_store\<close>: an abstract map from keys to values and clients that each
    operation refines. \<open>DiscoRedis\<close> models \<open>RedisDbase\<close> and interprets the locale on it.
  \<^item> \<open>DiscoDht\<close>, \<open>DiscoDhtProps\<close>: the hash-table database with its backup, republisher and peer
    monitor; it does not satisfy \<open>disco_store\<close>, and the properties say what holds instead.
  \<^item> \<open>DiscoService\<close>, \<open>DiscoServiceProps\<close>: clients, registrations, lookups, notifications and the main
    loop over any database. Facts that need the contract are proved in \<open>disco_store\<close> and used
    through its interpretation on redis.
  \<^item> \<open>DiscoClient\<close>, \<open>DiscoClientProps\<close>: the actor's side; client, service and redis composed.

  \<^bold>\<open>Node services\<close> (\<open>deplo/*.py\<close>, \<open>run/timPort.py\<close>).
  \<^item> \<open>TimerPort\<close>: the thread behind a timer port and its commands; when ticks come.
  \<^item> \<open>Zyre\<close>, \<open>FaultMon\<close>, \<open>FaultMonProps\<close>: the fault monitor, which learns from a Zyre node which peers
    run an application, and the manager that commands it; the two composed.
  \<^item> \<open>AppDb\<close>, \<open>AppDbProps\<close>: the database of applications over any lmdb store, refined to a table.
  \<^item> \<open>ProcMon\<close>: the threads that wait for processes, as the step relation \<open>pm_step\<close>.
  \<^item> \<open>ResMon\<close>, \<open>ResMan\<close>, \<open>ResProps\<close>: the monitors of processor time, memory, disk and network, and the
    manager that sets limits and quotas.
  \<^item> \<open>Depm\<close>, \<open>DepmProps\<close>: the deployment manager, a record whose parts are the models above, run where
    they stand; \<open>depm_turn\<close> is one message of its loop. The locales \<open>dep_core\<close>, \<open>dep_net\<close>, \<open>dep_side\<close>
    and \<open>dep_tables\<close> say which part of the state an operation can touch; each is interpreted on the
    views that the properties compare.
  \<^item> \<open>DepmRuns\<close>, \<open>DepmTables\<close>: runs of the manager: launch and halt, messages about peers, the agreement of
    the tables. \<open>Install\<close>: the installation of a package, the one command that may not end.
  \<^bold>\<open>The process of an actor\<close> (\<open>run/actor.py\<close>, \<open>part.py\<close>, \<open>peripheral.py\<close>, \<open>device.py\<close>, \<open>deplc.py\<close>).
  \<^item> \<open>ActorParams\<close>: the command line against the formal parameters, the arguments of the components,
    and which arguments of a device survive their way as text.
  \<^item> \<open>DeplClient\<close>: the requests to the deployment manager, over any link and over the model of the manager.
  \<^item> \<open>Actor\<close>: parts and peripherals with their states, setup, the main loop, termination; the two clients
    run where they stand.
  \<^item> \<open>ActorProps\<close>, \<open>ActorDisco\<close>: the commands to the threads follow the states of the parts (the locales
    \<open>updates_keep\<close> and \<open>relays_keep\<close>), and whole ways: from the fault monitor over manager and actor to
    the threads, and from the discovery service over the actor to the socket of a port.


  \<^bold>\<open>Invariants over runs.\<close> The locale \<open>stepped_object\<close> (\<open>Prelude\<close>) turns preservation by one step
  into preservation by any number of them; it is interpreted on the rounds of a group thread, the
  table operations of a component thread, the events of a state machine, the operations and
  republisher turns of the hash table, the events of the peer monitor, the steps of a timer, the
  commands and events of the fault monitor, and the operations of the application database and of the
  resource manager, and the turns of the deployment manager. The runs of the process monitor are an inductive relation, with rule induction.

  \<^bold>\<open>Loops.\<close> Loops over what has been received are recursions over that list. Four loops depend
  on the answers of a library and may not end: \<open>read_keys\<close> (redis notifications), \<open>clearDbase\<close> (hash
  table), \<open>open_db\<close> (application database) and \<open>extract_pkg\<close> (installation); they are \<open>partial_function (option)\<close>, and
  \<open>redis_updates_return\<close>, \<open>constructor_returns\<close> and \<open>install_returns\<close> prove that the first and the last two
  return.
  No definition uses fuel.

  \<^bold>\<open>Not modelled.\<close> The encoding of Cap'n Proto messages and pickles (libraries). The creation,
  binding and closing of sockets, except where a table of the program changes with it. Threads: the
  steps of one thread are atomic between the points where the code takes a lock or waits for a
  socket; the race of the hash table's republisher is modelled as explicit steps. Rounding of
  floats. Logging. The controller (\<open>ctrl/\<close>: user interface, file transfer and remote calls), what the
  operating system does with processes, files and limits (parameters), and the textX translators
  (\<open>lang/\<close>).

  \<^bold>\<open>Planned.\<close> The message ports beyond what the component thread does with them, and the controller's
  bookkeeping of applications and nodes (\<open>ctrl/ctrl.py\<close>).
\<close>

end
